(* ===== verification/Prelude.thy ===== *)
theory Prelude
  imports Main "HOL-Library.Word" "HOL-Library.Product_Lexorder"
begin

text \<open>
  The vocabulary that every component shares: the machine integers of the Rust sources, their
  checked and saturating arithmetic, fallible code as values of a sum type, byte strings with the
  little-endian and array encodings, and slices, chunks and windows of lists.

  \<^item> \<open>result_iff\<close> inverts a fallible computation: it turns ``the body returned \<open>Inr y\<close>'' into the
    conjunction of the guards that the body passed.
  \<^item> \<open>arith_iff\<close> turns checked arithmetic on words into arithmetic on \<^typ>\<open>nat\<close>.
\<close>

named_theorems result_iff
named_theorems arith_iff

section \<open>Machine integers\<close>

type_synonym u8 = "8 word"
type_synonym u16 = "16 word"
type_synonym u32 = "32 word"
type_synonym u64 = "64 word"

text \<open>
  A \<^verbatim>\<open>[u8; 32]\<close> is a 256-bit word whose most significant byte is element 0, so that the order of
  words is the lexicographic order of the arrays.
\<close>

type_synonym array32 = "256 word"

definition checked_add :: "'a::len word \<Rightarrow> 'a word \<Rightarrow> 'a word option" where
  "checked_add a b = (if unat a + unat b < 2 ^ LENGTH('a) then Some (a + b) else None)"

definition checked_sub :: "'a::len word \<Rightarrow> 'a word \<Rightarrow> 'a word option" where
  "checked_sub a b = (if b \<le> a then Some (a - b) else None)"

definition checked_mul :: "'a::len word \<Rightarrow> 'a word \<Rightarrow> 'a word option" where
  "checked_mul a b = (if unat a * unat b < 2 ^ LENGTH('a) then Some (a * b) else None)"

definition saturating_add :: "'a::len word \<Rightarrow> 'a word \<Rightarrow> 'a word" where
  "saturating_add a b = (if unat a + unat b < 2 ^ LENGTH('a) then a + b else - 1)"

definition saturating_sub :: "'a::len word \<Rightarrow> 'a word \<Rightarrow> 'a word" where
  "saturating_sub a b = (if b \<le> a then a - b else 0)"

definition saturating_mul :: "'a::len word \<Rightarrow> 'a word \<Rightarrow> 'a word" where
  "saturating_mul a b = (if unat a * unat b < 2 ^ LENGTH('a) then a * b else - 1)"

lemma unat_bound: "unat (a :: 'a::len word) < 2 ^ LENGTH('a)"
  by (fact unsigned_less)

lemma unat_neg_one: "unat (- 1 :: 'a::len word) = 2 ^ LENGTH('a) - 1"
  by (simp add: unsigned_minus_1_eq_mask mask_eq_exp_minus_1)

lemma checked_add_Some [arith_iff]:
  "checked_add a b = Some c \<longleftrightarrow> unat c = unat a + unat b"
proof
  assume "checked_add a b = Some c"
  then show "unat c = unat a + unat b"
    by (auto simp: checked_add_def unat_add_lem split: if_splits)
next
  assume eq: "unat c = unat a + unat b"
  have "unat a + unat b < 2 ^ LENGTH('a)"
    using unat_bound [of c] eq by simp
  moreover from this have "unat (a + b) = unat c"
    using eq by (simp add: unat_add_lem)
  ultimately show "checked_add a b = Some c"
    by (simp add: checked_add_def word_unat_eq_iff)
qed

lemma checked_add_None [arith_iff]:
  "checked_add (a :: 'a::len word) b = None \<longleftrightarrow> 2 ^ LENGTH('a) \<le> unat a + unat b"
  by (auto simp: checked_add_def not_less)

lemma checked_sub_Some [arith_iff]:
  "checked_sub a b = Some c \<longleftrightarrow> unat a = unat c + unat b"
proof
  assume "checked_sub a b = Some c"
  then have "b \<le> a" "c = a - b" by (auto simp: checked_sub_def split: if_splits)
  then show "unat a = unat c + unat b"
    by (simp add: unat_sub word_le_nat_alt)
next
  assume eq: "unat a = unat c + unat b"
  then have le: "b \<le> a" by (simp add: word_le_nat_alt)
  then have "unat (a - b) = unat c" using eq by (simp add: unat_sub)
  with le show "checked_sub a b = Some c"
    by (simp add: checked_sub_def word_unat_eq_iff)
qed

lemma checked_sub_None [arith_iff]: "checked_sub a b = None \<longleftrightarrow> unat a < unat b"
  by (auto simp: checked_sub_def word_le_nat_alt not_le)

lemma checked_add_value:
  "checked_add a b = Some c \<longleftrightarrow> unat (a + b) = unat a + unat b \<and> c = a + b"
  unfolding checked_add_def using unat_add_lem [of a b] by auto

lemma checked_sub_value:
  "checked_sub a b = Some c \<longleftrightarrow> unat a = unat (a - b) + unat b \<and> c = a - b"
  by (auto simp: checked_sub_def word_le_nat_alt unat_sub)

lemma checked_mul_Some [arith_iff]:
  "checked_mul a b = Some c \<longleftrightarrow> unat c = unat a * unat b"
proof
  assume "checked_mul a b = Some c"
  then show "unat c = unat a * unat b"
    by (auto simp: checked_mul_def unat_mult_lem split: if_splits)
next
  assume eq: "unat c = unat a * unat b"
  have "unat a * unat b < 2 ^ LENGTH('a)"
    using unat_bound [of c] eq by simp
  moreover from this have "unat (a * b) = unat c"
    using eq by (simp add: unat_mult_lem)
  ultimately show "checked_mul a b = Some c"
    by (simp add: checked_mul_def word_unat_eq_iff)
qed

lemma checked_mul_None [arith_iff]:
  "checked_mul (a :: 'a::len word) b = None \<longleftrightarrow> 2 ^ LENGTH('a) \<le> unat a * unat b"
  by (auto simp: checked_mul_def not_less)

lemma unat_saturating_add [arith_iff]:
  "unat (saturating_add (a :: 'a::len word) b) = min (unat a + unat b) (2 ^ LENGTH('a) - 1)"
proof (cases "unat a + unat b < 2 ^ LENGTH('a)")
  case True
  then have "unat (a + b) = unat a + unat b" by (rule unat_add_lem [THEN iffD1])
  with True show ?thesis by (simp add: saturating_add_def)
qed (simp add: saturating_add_def unat_neg_one)

lemma unat_saturating_sub [arith_iff]: "unat (saturating_sub a b) = unat a - unat b"
  by (auto simp: saturating_sub_def unat_sub word_le_nat_alt not_le)

lemma unat_saturating_mul [arith_iff]:
  "unat (saturating_mul (a :: 'a::len word) b) = min (unat a * unat b) (2 ^ LENGTH('a) - 1)"
proof (cases "unat a * unat b < 2 ^ LENGTH('a)")
  case True
  then have "unat (a * b) = unat a * unat b" by (rule unat_mult_lem [THEN iffD1])
  with True show ?thesis by (simp add: saturating_mul_def)
qed (simp add: saturating_mul_def unat_neg_one)

lemma unat_lt_64 [simp]: "unat (a :: u64) < 18446744073709551616"
  using unat_bound [of a] by simp

lemma unat_lt_32 [simp]: "unat (a :: u32) < 4294967296"
  using unat_bound [of a] by simp

text \<open>\<^verbatim>\<open>u64::from\<close> of a narrower integer, and \<^verbatim>\<open>u32::try_from\<close>, \<^verbatim>\<open>u8::try_from\<close> of a wider one.\<close>

definition try_from :: "'a::len word \<Rightarrow> 'b::len word option" where
  "try_from a = (if unat a < 2 ^ LENGTH('b) then Some (ucast a) else None)"

definition try_from_nat :: "nat \<Rightarrow> 'b::len word option" where
  "try_from_nat n = (if n < 2 ^ LENGTH('b) then Some (word_of_nat n) else None)"

lemma unat_ucast_mod: "unat (ucast (a :: 'a::len word) :: 'b::len word) = unat a mod 2 ^ LENGTH('b)"
  by (simp add: unsigned_ucast_eq take_bit_eq_mod)

lemma unat_ucast_fits: "unat a < 2 ^ LENGTH('b) \<Longrightarrow> unat (ucast (a :: 'a::len word) :: 'b::len word) = unat a"
  by (simp add: unat_ucast_mod)

lemma unat_widen [simp]:
  "unat (ucast (a8 :: u8) :: u64) = unat a8" "unat (ucast (a32 :: u32) :: u64) = unat a32"
  by (rule unat_ucast_fits, rule less_trans [OF unat_bound], simp)+

lemma try_from_Some [arith_iff]:
  "try_from (a :: 'a::len word) = Some (b :: 'b::len word) \<longleftrightarrow> unat b = unat a"
proof
  assume "try_from a = Some b"
  then show "unat b = unat a"
    by (auto simp: try_from_def unat_ucast_mod split: if_splits)
next
  assume eq: "unat b = unat a"
  then have "unat a < 2 ^ LENGTH('b)" using unat_bound [of b] by simp
  then show "try_from a = Some b"
    using eq by (simp add: try_from_def word_unat_eq_iff unat_ucast_mod)
qed

lemma try_from_nat_Some [arith_iff]:
  "try_from_nat n = Some (b :: 'b::len word) \<longleftrightarrow> unat b = n"
proof
  assume "try_from_nat n = Some b"
  then show "unat b = n"
    by (auto simp: try_from_nat_def unat_of_nat split: if_splits)
next
  assume eq: "unat b = n"
  then have "n < 2 ^ LENGTH('b)" using unat_bound [of b] by simp
  then show "try_from_nat n = Some b"
    using eq by (auto simp: try_from_nat_def)
qed

lemma word_eq_unat: "(a = b) \<longleftrightarrow> unat a = unat b"
  by (simp add: word_unat_eq_iff)

section \<open>Fallible code\<close>

text \<open>
  A \<^verbatim>\<open>Result<T, E>\<close> is a value of \<^typ>\<open>'e + 'a\<close>, with \<^term>\<open>Inl\<close> for the error. \<^verbatim>\<open>require!\<close>, the
  operator \<^verbatim>\<open>?\<close> on a result and \<^verbatim>\<open>ok_or\<close> on an option pass control to the rest of the body.
\<close>

definition require :: "bool \<Rightarrow> 'e \<Rightarrow> 'e + 'a \<Rightarrow> 'e + 'a" where
  "require c e k = (if c then k else Inl e)"

definition ok_or :: "'a option \<Rightarrow> 'e \<Rightarrow> ('a \<Rightarrow> 'e + 'b) \<Rightarrow> 'e + 'b" where
  "ok_or m e k = (case m of None \<Rightarrow> Inl e | Some x \<Rightarrow> k x)"

definition attempt :: "'e + 'a \<Rightarrow> ('a \<Rightarrow> 'e + 'b) \<Rightarrow> 'e + 'b" where
  "attempt m k = (case m of Inl e \<Rightarrow> Inl e | Inr x \<Rightarrow> k x)"

definition map_err :: "('e \<Rightarrow> 'f) \<Rightarrow> 'e + 'a \<Rightarrow> 'f + 'a" where
  "map_err f m = (case m of Inl e \<Rightarrow> Inl (f e) | Inr x \<Rightarrow> Inr x)"

lemma require_Inr [result_iff]: "require c e k = Inr y \<longleftrightarrow> c \<and> k = Inr y"
  by (simp add: require_def)

lemma require_Inl [result_iff]: "require c e k = Inl x \<longleftrightarrow> (\<not> c \<and> x = e) \<or> (c \<and> k = Inl x)"
  by (auto simp: require_def)

lemma ok_or_Inr [result_iff]: "ok_or m e k = Inr y \<longleftrightarrow> (\<exists>x. m = Some x \<and> k x = Inr y)"
  by (simp add: ok_or_def split: option.split)

lemma ok_or_Inl [result_iff]:
  "ok_or m e k = Inl x \<longleftrightarrow> (m = None \<and> x = e) \<or> (\<exists>z. m = Some z \<and> k z = Inl x)"
  by (auto simp: ok_or_def split: option.split)

lemma attempt_Inr [result_iff]: "attempt m k = Inr y \<longleftrightarrow> (\<exists>x. m = Inr x \<and> k x = Inr y)"
  by (simp add: attempt_def split: sum.split)

lemma attempt_Inl [result_iff]:
  "attempt m k = Inl x \<longleftrightarrow> m = Inl x \<or> (\<exists>z. m = Inr z \<and> k z = Inl x)"
  by (auto simp: attempt_def split: sum.split)

lemma map_err_Inr [result_iff]: "map_err f m = Inr y \<longleftrightarrow> m = Inr y"
  by (simp add: map_err_def split: sum.split)

lemma require_simps [simp]: "require True e k = k" "require False e k = Inl e"
  by (simp_all add: require_def)

lemma ok_or_simps [simp]: "ok_or (Some x) e k = k x" "ok_or None e k = Inl e"
  by (simp_all add: ok_or_def)

lemma attempt_simps [simp]: "attempt (Inr x) k = k x" "attempt (Inl e) k = Inl e"
  by (simp_all add: attempt_def)

lemma map_err_simps [simp]: "map_err f (Inr x) = Inr x" "map_err f (Inl e) = Inl (f e)"
  by (simp_all add: map_err_def)

lemma attempt_cong [fundef_cong]:
  "m = m' \<Longrightarrow> (\<And>x. m' = Inr x \<Longrightarrow> k x = k' x) \<Longrightarrow> attempt m k = attempt m' k'"
  by (cases m') simp_all

lemma ok_or_cong [fundef_cong]:
  "m = m' \<Longrightarrow> e = e' \<Longrightarrow> (\<And>x. m' = Some x \<Longrightarrow> k x = k' x) \<Longrightarrow> ok_or m e k = ok_or m' e' k'"
  by (cases m') simp_all

lemma require_cong [fundef_cong]:
  "c = c' \<Longrightarrow> e = e' \<Longrightarrow> (c' \<Longrightarrow> k = k') \<Longrightarrow> require c e k = require c' e' k'"
  by (cases c') simp_all

lemma if_Inr [result_iff]: "(if c then a else b) = Inr y \<longleftrightarrow> (c \<and> a = Inr y) \<or> (\<not> c \<and> b = Inr y)"
  by simp

text \<open>\<^verbatim>\<open>collect\<close> of an iterator of results: the values in order, or the first error.\<close>

fun collect :: "('a \<Rightarrow> 'e + 'b) \<Rightarrow> 'a list \<Rightarrow> 'e + 'b list" where
  "collect f [] = Inr []"
| "collect f (x # xs) = attempt (f x) (\<lambda>y. attempt (collect f xs) (\<lambda>ys. Inr (y # ys)))"

lemma collect_map: "(\<And>x. x \<in> set xs \<Longrightarrow> f (g x) = Inr (h x)) \<Longrightarrow> collect f (map g xs) = Inr (map h xs)"
  by (induction xs) simp_all

lemma collect_Inr_length: "collect f xs = Inr ys \<Longrightarrow> length ys = length xs"
  by (induction xs arbitrary: ys) (auto simp: result_iff)

lemma collect_append:
  "collect f (xs @ ys) = attempt (collect f xs) (\<lambda>us. attempt (collect f ys) (\<lambda>vs. Inr (us @ vs)))"
proof (induction xs)
  case Nil
  then show ?case by (cases "collect f ys") simp_all
next
  case (Cons x xs)
  then show ?case by (cases "f x"; cases "collect f xs"; cases "collect f ys") simp_all
qed

text \<open>\<^verbatim>\<open>str::contains\<close>.\<close>

fun contains :: "'a list \<Rightarrow> 'a list \<Rightarrow> bool" where
  "contains mark [] \<longleftrightarrow> mark = []"
| "contains mark (c # cs) \<longleftrightarrow> take (length mark) (c # cs) = mark \<or> contains mark cs"

lemma contains_iff: "contains mark s \<longleftrightarrow> (\<exists>pre suf. s = pre @ mark @ suf)"
proof (induction s)
  case (Cons c cs)
  note IH = Cons.IH
  show ?case
  proof
    assume "contains mark (c # cs)"
    then consider "take (length mark) (c # cs) = mark" | "contains mark cs" by auto
    then show "\<exists>pre suf. c # cs = pre @ mark @ suf"
    proof cases
      case 1
      then have "c # cs = [] @ mark @ drop (length mark) (c # cs)"
        using append_take_drop_id [of "length mark" "c # cs"] by simp
      then show ?thesis by blast
    next
      case 2
      then obtain pre suf where "cs = pre @ mark @ suf" using Cons by blast
      then have "c # cs = (c # pre) @ mark @ suf" by simp
      then show ?thesis by blast
    qed
  next
    assume "\<exists>pre suf. c # cs = pre @ mark @ suf"
    then obtain pre suf where *: "c # cs = pre @ mark @ suf" by blast
    show "contains mark (c # cs)"
    proof (cases pre)
      case Nil
      then have "take (length mark) (c # cs) = mark" using * by simp
      then show ?thesis by simp
    next
      case (Cons p ps)
      then have "cs = ps @ mark @ suf" using * by simp
      then show ?thesis using IH by auto
    qed
  qed
qed simp

section \<open>Transition systems\<close>

text \<open>
  A state machine that takes inputs one after the other: an input that fails leaves the state as it
  is. \<open>run\<close> gives the last state and \<open>run_log\<close> what the inputs that succeed write to a log.
\<close>

fun run :: "('i \<Rightarrow> 's \<Rightarrow> 'e + 's) \<Rightarrow> 'i list \<Rightarrow> 's \<Rightarrow> 's" where
  "run step [] s = s"
| "run step (i # is) s = (case step i s of Inl e \<Rightarrow> run step is s | Inr s' \<Rightarrow> run step is s')"

fun run_log :: "('i \<Rightarrow> 's \<Rightarrow> 'e + 's) \<Rightarrow> ('i \<Rightarrow> 's \<Rightarrow> 'x list) \<Rightarrow> 'i list \<Rightarrow> 's \<Rightarrow> 'x list" where
  "run_log step log [] s = []"
| "run_log step log (i # is) s =
     (case step i s of
        Inl e \<Rightarrow> run_log step log is s
      | Inr s' \<Rightarrow> log i s @ run_log step log is s')"

text \<open>What the users of a state machine rely on: every step that succeeds keeps the invariant.\<close>

locale transition_system =
  fixes step :: "'i \<Rightarrow> 's \<Rightarrow> 'e + 's"
    and inv :: "'s \<Rightarrow> bool"
  assumes step_inv: "step i s = Inr s' \<Longrightarrow> inv s \<Longrightarrow> inv s'"
begin

lemma run_inv: "inv s \<Longrightarrow> inv (run step is s)"
  by (induction "is" arbitrary: s) (auto split: sum.split intro: step_inv)

end

text \<open>A quantity that no step changes, and a counter that no step lowers.\<close>

locale conserving_system = transition_system step inv
  for step :: "'i \<Rightarrow> 's \<Rightarrow> 'e + 's" and inv :: "'s \<Rightarrow> bool" +
  fixes quantity :: "'s \<Rightarrow> 'q"
  assumes step_same: "step i s = Inr s' \<Longrightarrow> inv s \<Longrightarrow> quantity s' = quantity s"
begin

lemma run_same: "inv s \<Longrightarrow> quantity (run step is s) = quantity s"
proof (induction "is" arbitrary: s)
  case (Cons i "is")
  then show ?case by (cases "step i s") (simp_all add: step_inv [of i s] step_same [of i s])
qed simp

end

locale counting_system = transition_system step inv
  for step :: "'i \<Rightarrow> 's \<Rightarrow> 'e + 's" and inv :: "'s \<Rightarrow> bool" +
  fixes counter :: "'s \<Rightarrow> nat"
  assumes step_mono: "step i s = Inr s' \<Longrightarrow> inv s \<Longrightarrow> counter s \<le> counter s'"
begin

lemma run_mono: "inv s \<Longrightarrow> counter s \<le> counter (run step is s)"
proof (induction "is" arbitrary: s)
  case (Cons i "is")
  then show ?case
    by (cases "step i s") (auto dest: step_inv step_mono intro: order_trans)
qed simp

end

text \<open>
  A counter that consumes: each step takes numbers in order from the counter of its state up to,
  and without, the counter of the next one. Over a run no number is taken twice.
\<close>

locale consuming_system = counting_system step inv counter
  for step :: "'i \<Rightarrow> 's \<Rightarrow> 'e + 's" and inv :: "'s \<Rightarrow> bool" and counter :: "'s \<Rightarrow> nat" +
  fixes taken :: "'i \<Rightarrow> 's \<Rightarrow> nat list"
  assumes step_taken: "step i s = Inr s' \<Longrightarrow> inv s \<Longrightarrow>
    sorted_wrt (<) (taken i s) \<and> (\<forall>x \<in> set (taken i s). counter s \<le> x \<and> x < counter s')"
begin

lemma run_log_bounds:
  "inv s \<Longrightarrow> x \<in> set (run_log step taken is s) \<Longrightarrow> counter s \<le> x \<and> x < counter (run step is s)"
proof (induction "is" arbitrary: s)
  case (Cons i "is")
  show ?case
  proof (cases "step i s")
    case (Inr s')
    have "inv s'" "counter s \<le> counter s'" "counter s' \<le> counter (run step is s')"
      using Inr Cons.prems(1) by (auto dest: step_inv step_mono intro: run_mono)
    then show ?thesis
      using Inr Cons.IH [of s'] Cons.prems step_taken [OF Inr Cons.prems(1)] by fastforce
  qed (use Cons in simp)
qed simp

lemma run_log_sorted: "inv s \<Longrightarrow> sorted_wrt (<) (run_log step taken is s)"
proof (induction "is" arbitrary: s)
  case (Cons i "is")
  show ?case
  proof (cases "step i s")
    case (Inr s')
    then have "inv s'" using Cons.prems by (blast intro: step_inv)
    then show ?thesis
      using Inr Cons.IH step_taken [OF Inr Cons.prems] run_log_bounds [of s']
      by (fastforce simp: sorted_wrt_append)
  qed (use Cons in simp)
qed simp

lemma run_log_distinct: "inv s \<Longrightarrow> distinct (run_log step taken is s)"
  using run_log_sorted strict_sorted_iff by blast

end

text \<open>A counter whose steps take every number on the way, so that the log of a run has no gap.\<close>

locale gapless_system = counting_system step inv counter
  for step :: "'i \<Rightarrow> 's \<Rightarrow> 'e + 's" and inv :: "'s \<Rightarrow> bool" and counter :: "'s \<Rightarrow> nat" +
  fixes taken :: "'i \<Rightarrow> 's \<Rightarrow> nat list"
  assumes step_exact: "step i s = Inr s' \<Longrightarrow> inv s \<Longrightarrow> taken i s = [counter s ..< counter s']"
begin

lemma run_log_exact: "inv s \<Longrightarrow> run_log step taken is s = [counter s ..< counter (run step is s)]"
proof (induction "is" arbitrary: s)
  case (Cons i "is")
  show ?case
  proof (cases "step i s")
    case (Inr s')
    then have inv: "inv s'" and le: "counter s \<le> counter s'"
      using Cons.prems by (blast intro: step_inv step_mono)+
    have "counter s' \<le> counter (run step is s')" by (rule run_mono [OF inv])
    then have "[counter s ..< counter (run step is s')] =
        [counter s ..< counter s'] @ [counter s' ..< counter (run step is s')]"
      using le upt_add_eq_append [of "counter s" "counter s'" "counter (run step is s') - counter s'"] by simp
    then show ?thesis
      using Inr Cons.IH [OF inv] step_exact [OF Inr Cons.prems] by simp
  qed (use Cons in simp)
qed simp

end

sublocale gapless_system \<subseteq> consuming_system
  by unfold_locales (simp add: step_exact)

end
