(* ===== verification/Bytes.thy ===== *)
theory Bytes
  imports Prelude
begin

text \<open>
  Byte strings: the little-endian form of an integer (\<^verbatim>\<open>to_le_bytes\<close>, \<^verbatim>\<open>from_le_bytes\<close>), the bytes
  of a \<^verbatim>\<open>[u8; 32]\<close>, slices, exact chunks and windows. The locale \<open>codec\<close> is the interface of every
  fixed layout of the program: what its writer and its reader promise to each other.
\<close>

type_synonym byte = u8
type_synonym bytes = "u8 list"

section \<open>Little-endian integers\<close>

fun le_of_nat :: "nat \<Rightarrow> nat \<Rightarrow> bytes" where
  "le_of_nat 0 x = []"
| "le_of_nat (Suc n) x = word_of_nat (x mod 256) # le_of_nat n (x div 256)"

fun nat_of_le :: "bytes \<Rightarrow> nat" where
  "nat_of_le [] = 0"
| "nat_of_le (b # bs) = unat b + 256 * nat_of_le bs"

lemma length_le_of_nat [simp]: "length (le_of_nat n x) = n"
  by (induction n arbitrary: x) auto

lemma le_of_nat_numeral:
  "le_of_nat (numeral k) x = word_of_nat (x mod 256) # le_of_nat (pred_numeral k) (x div 256)"
  by (subst numeral_eq_Suc [of k]) (rule le_of_nat.simps)

lemma unat_byte_mod: "unat (word_of_nat (x mod 256) :: u8) = x mod 256"
  by (simp add: unat_of_nat)

lemma nat_of_le_of_nat: "nat_of_le (le_of_nat n x) = x mod 256 ^ n"
  by (induction n arbitrary: x) (simp_all add: unat_byte_mod mod_mult2_eq)

lemma nat_of_le_bound: "nat_of_le bs < 256 ^ length bs"
proof (induction bs)
  case (Cons b bs)
  have "unat b < 256" using unat_bound [of b] by simp
  with Cons show ?case by simp
qed simp

lemma le_of_nat_of_le: "le_of_nat (length bs) (nat_of_le bs) = bs"
proof (induction bs)
  case (Cons b bs)
  have "unat b < 256" using unat_bound [of b] by simp
  with Cons show ?case by (simp add: mod_mult_self2)
qed simp

definition to_le_bytes :: "'a::len word \<Rightarrow> bytes" where
  "to_le_bytes w = le_of_nat (LENGTH('a) div 8) (unat w)"

definition from_le_bytes :: "bytes \<Rightarrow> 'a::len word" where
  "from_le_bytes bs = word_of_nat (nat_of_le bs)"

definition to_be_bytes :: "'a::len word \<Rightarrow> bytes" where
  "to_be_bytes w = rev (to_le_bytes w)"

definition from_be_bytes :: "bytes \<Rightarrow> 'a::len word" where
  "from_be_bytes bs = from_le_bytes (rev bs)"

lemma length_to_le_bytes [simp]: "length (to_le_bytes (w :: 'a::len word)) = LENGTH('a) div 8"
  by (simp add: to_le_bytes_def)

lemma length_to_be_bytes [simp]: "length (to_be_bytes (w :: 'a::len word)) = LENGTH('a) div 8"
  by (simp add: to_be_bytes_def)

lemma pow_256: "(256::nat) ^ n = 2 ^ (8 * n)"
  by (simp add: power_mult)

lemma from_to_le:
  assumes "8 dvd LENGTH('a)"
  shows "from_le_bytes (to_le_bytes (w :: 'a::len word)) = w"
proof -
  have "(256::nat) ^ (LENGTH('a) div 8) = 2 ^ LENGTH('a)"
    using assms by (simp add: pow_256)
  then show ?thesis
    using unat_bound [of w] by (simp add: from_le_bytes_def to_le_bytes_def nat_of_le_of_nat)
qed

lemma to_from_le:
  assumes "length bs * 8 = LENGTH('a)"
  shows "to_le_bytes (from_le_bytes bs :: 'a::len word) = bs"
proof -
  have "(2::nat) ^ LENGTH('a) = 256 ^ length bs"
    using assms by (simp add: pow_256 mult.commute)
  then have "unat (word_of_nat (nat_of_le bs) :: 'a word) = nat_of_le bs"
    using nat_of_le_bound [of bs] by (simp add: unat_of_nat)
  moreover have "LENGTH('a) div 8 = length bs" using assms by simp
  ultimately show ?thesis
    by (simp add: to_le_bytes_def from_le_bytes_def le_of_nat_of_le)
qed

lemma from_to_le_bytes [simp]:
  "from_le_bytes (to_le_bytes (w8 :: u8)) = w8"
  "from_le_bytes (to_le_bytes (w16 :: u16)) = w16"
  "from_le_bytes (to_le_bytes (w32 :: u32)) = w32"
  "from_le_bytes (to_le_bytes (w64 :: u64)) = w64"
  by (rule from_to_le; simp)+

lemma to_from_le_bytes [simp]:
  "length bs = 2 \<Longrightarrow> to_le_bytes (from_le_bytes bs :: u16) = bs"
  "length bs = 4 \<Longrightarrow> to_le_bytes (from_le_bytes bs :: u32) = bs"
  "length bs = 8 \<Longrightarrow> to_le_bytes (from_le_bytes bs :: u64) = bs"
  by (rule to_from_le; simp)+

lemma nat_of_le_zeros [simp]: "nat_of_le (replicate n 0) = 0"
  by (induction n) simp_all

lemma from_le_zeros [simp]: "from_le_bytes (replicate n 0) = 0"
  by (simp add: from_le_bytes_def)

text \<open>The bytes of a \<^verbatim>\<open>[u8; 32]\<close>, element 0 first.\<close>

definition array_bytes :: "array32 \<Rightarrow> bytes" where
  "array_bytes a = to_be_bytes a"

definition array_of :: "bytes \<Rightarrow> array32" where
  "array_of bs = from_be_bytes bs"

lemma length_array_bytes [simp]: "length (array_bytes a) = 32"
  by (simp add: array_bytes_def)

lemma array_of_bytes [simp]: "array_of (array_bytes a) = a"
  by (simp add: array_of_def array_bytes_def from_be_bytes_def to_be_bytes_def from_to_le)

lemma array_bytes_of [simp]: "length bs = 32 \<Longrightarrow> array_bytes (array_of bs) = bs"
  by (simp add: array_of_def array_bytes_def from_be_bytes_def to_be_bytes_def to_from_le)

lemma array_of_zeros [simp]: "array_of (replicate n 0) = 0"
  by (simp add: array_of_def from_be_bytes_def)

section \<open>Slices, chunks and windows\<close>

text \<open>\<^verbatim>\<open>data[a..b]\<close> where the bounds hold, and \<^verbatim>\<open>data.get(a..b)\<close>.\<close>

definition subslice :: "nat \<Rightarrow> nat \<Rightarrow> 'a list \<Rightarrow> 'a list" where
  "subslice a b xs = take (b - a) (drop a xs)"

definition get_slice :: "nat \<Rightarrow> nat \<Rightarrow> 'a list \<Rightarrow> 'a list option" where
  "get_slice a b xs = (if a \<le> b \<and> b \<le> length xs then Some (subslice a b xs) else None)"

text \<open>\<^verbatim>\<open>data[a..b].copy_from_slice(src)\<close> where the bounds hold and \<^verbatim>\<open>src\<close> has \<^verbatim>\<open>b - a\<close> bytes.\<close>

definition copy_into :: "nat \<Rightarrow> 'a list \<Rightarrow> 'a list \<Rightarrow> 'a list" where
  "copy_into a src xs = take a xs @ src @ drop (a + length src) xs"

lemma length_subslice [simp]: "b \<le> length xs \<Longrightarrow> length (subslice a b xs) = b - a"
  by (simp add: subslice_def)

lemma get_slice_Some [arith_iff]:
  "get_slice a b xs = Some ys \<longleftrightarrow> a \<le> b \<and> b \<le> length xs \<and> ys = subslice a b xs"
  by (auto simp: get_slice_def)

lemma length_copy_into: "a + length src \<le> length xs \<Longrightarrow> length (copy_into a src xs) = length xs"
  by (simp add: copy_into_def)

lemma subslice_append1: "b \<le> length xs \<Longrightarrow> subslice a b (xs @ ys) = subslice a b xs"
  by (cases "a \<le> length xs") (simp_all add: subslice_def)

lemma subslice_append2: "length xs \<le> a \<Longrightarrow> subslice a b (xs @ ys) = subslice (a - length xs) (b - length xs) ys"
  by (simp add: subslice_def)

lemma subslice_Cons: "0 < a \<Longrightarrow> subslice a b (x # xs) = subslice (a - 1) (b - 1) xs"
  by (cases a; cases b) (simp_all add: subslice_def)

lemma subslice_replicate [simp]: "subslice a b (replicate n x) = replicate (min (b - a) (n - a)) x"
  by (simp add: subslice_def min.commute)

lemma subslice_all: "length xs = b \<Longrightarrow> subslice 0 b xs = xs"
  by (simp add: subslice_def)

lemma subslice_join:
  "a \<le> b \<Longrightarrow> b \<le> c \<Longrightarrow> subslice a b xs @ subslice b c xs = subslice a c xs"
proof -
  assume le: "a \<le> b" "b \<le> c"
  have "take (c - a) (drop a xs) = take (b - a) (drop a xs) @ take (c - b) (drop (b - a) (drop a xs))"
    using le take_add [of "b - a" "c - b" "drop a xs"] by simp
  then show ?thesis using le by (simp add: subslice_def)
qed

lemma subslice_copy_same:
  "c + length src \<le> length xs \<Longrightarrow> a = c \<Longrightarrow> b = c + length src \<Longrightarrow> subslice a b (copy_into c src xs) = src"
  by (simp add: subslice_def copy_into_def)

lemma subslice_copy_before:
  "b \<le> c \<Longrightarrow> c \<le> length xs \<Longrightarrow> subslice a b (copy_into c src xs) = subslice a b xs"
  by (cases "a \<le> b") (simp_all add: subslice_def copy_into_def drop_take flip: take_drop)

lemma subslice_copy_after:
  "c + length src \<le> a \<Longrightarrow> c + length src \<le> length xs \<Longrightarrow>
     subslice a b (copy_into c src xs) = subslice a b xs"
  by (simp add: subslice_def copy_into_def)

lemma nth_copy_other:
  "i < c \<or> c + length src \<le> i \<Longrightarrow> c + length src \<le> length xs \<Longrightarrow> i < length xs \<Longrightarrow>
     copy_into c src xs ! i = xs ! i"
  by (auto simp: copy_into_def nth_append)

lemma subslice_update_other:
  "i < a \<or> b \<le> i \<Longrightarrow> subslice a b (xs[i := v]) = subslice a b xs"
  by (cases "a \<le> b") (auto simp: subslice_def drop_update_swap drop_update_cancel take_update_cancel)

lemmas append_layout_simps = subslice_append1 subslice_append2 subslice_all subslice_Cons

lemmas layout_simps =
  subslice_copy_same subslice_copy_before subslice_copy_after nth_copy_other subslice_update_other
  length_copy_into

fun chunks_exact :: "nat \<Rightarrow> 'a list \<Rightarrow> 'a list list" where
  "chunks_exact 0 xs = []"
| "chunks_exact (Suc n) xs =
     (if length xs < Suc n then [] else take (Suc n) xs # chunks_exact (Suc n) (drop (Suc n) xs))"

declare chunks_exact.simps [simp del]

lemma chunks_exact_Nil [simp]: "chunks_exact n [] = []"
  by (cases n) (simp_all add: chunks_exact.simps)

lemma chunks_exact_append:
  assumes "length x = n" "0 < n"
  shows "chunks_exact n (x @ xs) = x # chunks_exact n xs"
proof -
  obtain m where "n = Suc m" using assms(2) by (cases n) auto
  then show ?thesis using assms(1) by (simp add: chunks_exact.simps(2) [of m "x @ xs"])
qed

lemma chunks_exact_concat:
  "0 < n \<Longrightarrow> \<forall>x \<in> set xss. length x = n \<Longrightarrow> chunks_exact n (concat xss) = xss"
  by (induction xss) (simp_all add: chunks_exact_append)

lemma concat_chunks_exact:
  assumes "0 < n" "length xs = n * k"
  shows "concat (chunks_exact n xs) = xs"
  using assms(2)
proof (induction k arbitrary: xs)
  case (Suc k)
  have tk: "length (take n xs) = n" using Suc.prems by simp
  have "chunks_exact n (take n xs @ drop n xs) = take n xs # chunks_exact n (drop n xs)"
    by (rule chunks_exact_append [OF tk assms(1)])
  moreover have "concat (chunks_exact n (drop n xs)) = drop n xs"
    using Suc.prems by (intro Suc.IH) simp
  ultimately show ?case by simp
qed simp

lemma chunks_exact_length: "x \<in> set (chunks_exact n xs) \<Longrightarrow> length x = n"
proof (induction n xs rule: chunks_exact.induct)
  case (2 n xs)
  show ?case
  proof (cases "length xs < Suc n")
    case False
    with "2.prems" have "x = take (Suc n) xs \<or> x \<in> set (chunks_exact (Suc n) (drop (Suc n) xs))"
      by (subst (asm) chunks_exact.simps(2)) simp
    with False "2.IH" show ?thesis by auto
  qed (use "2.prems" in \<open>simp add: chunks_exact.simps(2) [of n xs]\<close>)
qed (simp add: chunks_exact.simps)

fun windows2 :: "'a list \<Rightarrow> ('a \<times> 'a) list" where
  "windows2 (x # y # xs) = (x, y) # windows2 (y # xs)"
| "windows2 _ = []"

section \<open>Layouts\<close>

text \<open>
  A layout is a writer and a reader. The reader gives back what the writer wrote, and it takes no
  other bytes than those of the writer on a well-formed value.
\<close>

locale codec =
  fixes enc :: "'v \<Rightarrow> bytes"
    and dec :: "bytes \<Rightarrow> 'v option"
    and wf :: "'v \<Rightarrow> bool"
  assumes dec_enc: "wf v \<Longrightarrow> dec (enc v) = Some v"
    and enc_dec: "dec bs = Some v \<Longrightarrow> wf v \<and> enc v = bs"
begin

lemma enc_inj: "wf v \<Longrightarrow> wf w \<Longrightarrow> enc v = enc w \<Longrightarrow> v = w"
  by (metis dec_enc option.inject)

lemma dec_inj: "dec bs = Some v \<Longrightarrow> dec cs = Some v \<Longrightarrow> bs = cs"
  using enc_dec by blast

lemma dec_iff: "dec bs = Some v \<longleftrightarrow> wf v \<and> bs = enc v"
  using dec_enc enc_dec by blast

end

end
