(* ===== verification/Solana.thy ===== *)
theory Solana
  imports Bytes
begin

text \<open>
  What the bridge program uses of the Solana runtime and of Anchor. Keys, accounts and the ledger are
  data. The System Program transfer, the \<^verbatim>\<open>init\<close> and \<^verbatim>\<open>close\<close> constraints, the rent sysvar, SHA-256 and
  the program addresses are code outside the repository, so they are the fields of a \<^verbatim>\<open>runtime\<close>
  argument; \<open>runtime_ok\<close> collects their documented behaviour.
\<close>

section \<open>Keys and accounts\<close>

type_synonym pubkey = array32

record account =
  acc_lamports :: u64
  acc_owner :: pubkey
  acc_len :: nat
  acc_executable :: bool

type_synonym ledger = "pubkey \<Rightarrow> account"

text \<open>One account that a transaction names, with its flags (\<^verbatim>\<open>AccountMeta\<close>).\<close>

record meta =
  meta_key :: pubkey
  meta_signer :: bool
  meta_writable :: bool

text \<open>The base58 keys of the sources, decoded.\<close>

definition SYSTEM_PROGRAM_ID :: pubkey where
  "SYSTEM_PROGRAM_ID = 0"

definition ID :: pubkey where
  "ID = 0x2698acfbdc0729d0a1e6126482ca6c5b47f48ebd7742a9a43a7df8327b62ca6"

definition BMM_ANSWER_ID :: pubkey where
  "BMM_ANSWER_ID = 0x2c26b8caf9f4d963591de37fb49dcb439a3c5436e78d43eceb6480c00000000"

definition BMM_BLOCKS_ID :: pubkey where
  "BMM_BLOCKS_ID = 0x2c26b919850c3129928707e9f82403003b903bf6e201bb917254eb000000000"

definition BMM_PARAMS_ID :: pubkey where
  "BMM_PARAMS_ID = 0x2c26ca67b69817cd941df5efc51e22aa52c78bc0e1c19266840dfd800000000"

definition BMM_PAID_ID :: pubkey where
  "BMM_PAID_ID = 0x2c26ca66e10e0c9f94141d8c37f7e41cdd72fefb1918f6f92afde2000000000"

definition DEPOSIT_ANSWER_ID :: pubkey where
  "DEPOSIT_ANSWER_ID = 0x33dbcddacef8c7c1a33e37f78ae621aa06ecc5d0b0ea1c5fac517b4c0000000"

definition SYSVAR_OWNER :: pubkey where
  "SYSVAR_OWNER = 0x6a7d5171875f729c73d93408f216120067ed88c76e08c287fc1946000000000"

definition NATIVE_LOADER :: pubkey where
  "NATIVE_LOADER = 0x58784bf148ba4282fb012574888a9f153a07dadf765c0455c9a970380000000"

definition CHAIN_RESERVED_KEYS :: "pubkey list" where
  "CHAIN_RESERVED_KEYS =
     [BMM_ANSWER_ID, BMM_BLOCKS_ID, BMM_PAID_ID, BMM_PARAMS_ID, DEPOSIT_ANSWER_ID]"

definition RESERVED_KEYS :: "pubkey list" where
  "RESERVED_KEYS =
     [0x277a6af97339b7ac88d1892c90446f50002309266f62e53c118244982000000,
      0x2a8f6914e88a16e395ae128948ffa695693376818dd47435221f3c600000000,
      0x2a8f6914e88a16bbd2395855f6404d9b4f456b7821bb0145749428c00000000,
      0x2a8f6914e88a1b0e210153ef763ae2b00c2b93d16c124d2c0537a1004800000,
      0x306466fe5211732ffecadba72c39be7bc8ce5bbc5f7126b2c439b3a40000000,
      0x3064aa3002f74dcc86e43310f0c052af8c5da27f6104019a323efa000000000,
      0x37d46d67c93fbbe12f9428f838d40ff0570744927f48a64fcca704480000000,
      0x3c0a0cdcb06d2daefae82d16fee7acf61ec737b23481b21946a767000000000,
      0x512b4115151e37aad0a8bc5d3882e7b7fda4cf3d2c028c8cf83361800000000,
      0x4c6fc20f050ccf05584d7211c9f8cf59ec14785bb166a1e2830e81220000000,
      0x6920dec2fea71b5b723814d742da9031c83e75fdb795d568e75478020000000,
      0x6a1d817a502050b680791e6ce6db88e1e5b7150f61fc6790a4eb4d100000000,
      0x6a1d8179137542a983437bdfe2a7ab2557f535c8a78722b68a49dc000000000,
      0x0,
      0x761481d357474bb7c4d7624ebd3bdb3d8355e73d11043fc0da3538000000000,
      0x86375ace2aeea281a6b374d681ba76a53ccf638c07455936c05d06540000000,
      0x863ba8dd9c4c2fb174a05cba27e2a2cd623573d79e90b35b579fc0d00000000,
      0x6a7d51718c774c928566398691d5eb68b5eb8a39b4b6d5c73555b2100000000,
      0x6a7d51718dc3fee02a558bf83ce66e144422a1c34950b27c1869b5a9c000000,
      0x6a7d51718dc3fee02d3e47f0100f8b054f7942e60591e3f508719a805000000,
      0x6a7d51718e25a8d83503c251a7af07126fd7200df6fc4ed526a9c9000000000,
      0x6a7d517187bd16635dad40455fdc2c0c124c68f215675a5dbbacb5f08000000,
      0x6a7d5171906dde1cd3f947dcab4c8f4f4f51bad0f9813b800d289471fc00000,
      0x6a7d517192c568ee08a845f73d29788cf035c3145b21ab344d8062ea9400000,
      0x6a7d517192c5c51218cc94c3d4af17f58daee089ba1fd44e3dbd98a00000000,
      0x6a7d517192c6137cee092d9b6923ee1ccd61903fa82b8a16191578d80000000,
      0x6a7d517192f0aafc6f265e3fb77cc7ada82c529d0be3b136e2d005520000000,
      0x6a7d517192f0aafc875e2e184577c5069cfc84649e3eb92782f958d48000000,
      0x6a7d517193584d0feed9bb3431d13206be544281b57b8566cc5375ff4000000,
      NATIVE_LOADER, SYSVAR_OWNER, BMM_ANSWER_ID, BMM_BLOCKS_ID, BMM_PAID_ID, BMM_PARAMS_ID,
      DEPOSIT_ANSWER_ID]"

section \<open>The runtime\<close>

text \<open>
  \<^verbatim>\<open>rt_transfer from to n\<close> is the System Program transfer; \<^verbatim>\<open>rt_init_account payer key space\<close> and
  \<^verbatim>\<open>rt_close_account key dest\<close> are the Anchor constraints \<^verbatim>\<open>init\<close> and \<^verbatim>\<open>close\<close>; \<^term>\<open>None\<close> is a failed call.
  \<^verbatim>\<open>rt_has_key\<close> says that the key is a point of the curve, so that somebody can sign for it.
\<close>

record runtime =
  rt_transfer :: "pubkey \<Rightarrow> pubkey \<Rightarrow> u64 \<Rightarrow> ledger \<Rightarrow> ledger option"
  rt_init_account :: "pubkey \<Rightarrow> pubkey \<Rightarrow> nat \<Rightarrow> ledger \<Rightarrow> ledger option"
  rt_close_account :: "pubkey \<Rightarrow> pubkey \<Rightarrow> ledger \<Rightarrow> ledger option"
  rt_minimum_balance :: "nat \<Rightarrow> u64"
  rt_is_exempt :: "u64 \<Rightarrow> nat \<Rightarrow> bool"
  rt_hashv :: "bytes \<Rightarrow> array32"
  rt_create_program_address :: "bytes list \<Rightarrow> pubkey \<Rightarrow> pubkey option"
  rt_find_program_address :: "bytes list \<Rightarrow> pubkey \<Rightarrow> pubkey \<times> u8"
  rt_has_key :: "pubkey \<Rightarrow> bool"

definition balance :: "ledger \<Rightarrow> pubkey \<Rightarrow> nat" where
  "balance L k = unat (acc_lamports (L k))"

text \<open>The lamports of the whole chain. A key has 256 bits, so the sum is finite.\<close>

definition total_lamports :: "ledger \<Rightarrow> nat" where
  "total_lamports L = (\<Sum>k\<in>UNIV. balance L k)"

text \<open>\<open>L'\<close> is \<open>L\<close> after \<open>n\<close> lamports went from one account to another.\<close>

definition moved :: "pubkey \<Rightarrow> pubkey \<Rightarrow> u64 \<Rightarrow> ledger \<Rightarrow> ledger \<Rightarrow> bool" where
  "moved src dst n L L' \<longleftrightarrow>
     (if src = dst then L' = L
      else unat n \<le> balance L src \<and> balance L dst + unat n < 2 ^ 64 \<and>
        L' = L(src := (L src)\<lparr>acc_lamports := acc_lamports (L src) - n\<rparr>,
               dst := (L dst)\<lparr>acc_lamports := acc_lamports (L dst) + n\<rparr>))"

lemma balance_moved_src: "moved src dst n L L' \<Longrightarrow> src \<noteq> dst \<Longrightarrow> balance L' src = balance L src - unat n"
  by (auto simp: moved_def balance_def unat_sub word_le_nat_alt)

lemma balance_moved_dst: "moved src dst n L L' \<Longrightarrow> src \<noteq> dst \<Longrightarrow> balance L' dst = balance L dst + unat n"
  by (auto simp: moved_def balance_def unat_add_lem [THEN iffD1])

lemma balance_moved_other: "moved src dst n L L' \<Longrightarrow> k \<noteq> src \<Longrightarrow> k \<noteq> dst \<Longrightarrow> balance L' k = balance L k"
  by (auto simp: moved_def balance_def split: if_splits)

lemma moved_enough: "moved src dst n L L' \<Longrightarrow> src \<noteq> dst \<Longrightarrow> unat n \<le> balance L src"
  by (simp add: moved_def)

lemma moved_shape:
  assumes "moved src dst n L L'"
  shows "acc_owner (L' k) = acc_owner (L k)" "acc_len (L' k) = acc_len (L k)"
    "acc_executable (L' k) = acc_executable (L k)"
  using assms by (auto simp: moved_def split: if_splits)

lemma sum_two_points:
  fixes f g :: "'a::finite \<Rightarrow> nat"
  assumes "a \<noteq> b" "f a + f b = g a + g b" "\<And>k. k \<noteq> a \<Longrightarrow> k \<noteq> b \<Longrightarrow> f k = g k"
  shows "sum f UNIV = sum g UNIV"
proof -
  have split: "sum h UNIV = h a + h b + sum h (UNIV - {a, b})" for h :: "'a \<Rightarrow> nat"
  proof -
    have "sum h UNIV = sum h {a, b} + sum h (UNIV - {a, b})"
      using sum.subset_diff [of "{a, b}" UNIV h] by simp
    then show ?thesis using assms(1) by simp
  qed
  have "sum f (UNIV - {a, b}) = sum g (UNIV - {a, b})"
    by (rule sum.cong) (auto simp: assms(3))
  then show ?thesis using assms(2) by (simp add: split [of f] split [of g])
qed

lemma total_moved:
  assumes "moved src dst n L L'"
  shows "total_lamports L' = total_lamports L"
proof (cases "src = dst")
  case False
  show ?thesis unfolding total_lamports_def
  proof (rule sum_two_points [OF False])
    show "balance L' src + balance L' dst = balance L src + balance L dst"
      using assms False
      by (simp add: balance_moved_src balance_moved_dst moved_enough)
  qed (rule balance_moved_other [OF assms])
qed (use assms in \<open>simp add: moved_def\<close>)

end
