(* ===== verification/Answers.thy ===== *)
theory Answers
  imports Solana
begin

text \<open>
  The three answer accounts between the patched validator and the bridge program: how the program
  reads them (\<^verbatim>\<open>programs/bridge/src/lib.rs\<close>, \<^verbatim>\<open>decode\<close>) and how the validator writes them
  (\<^verbatim>\<open>sol-drivechain-bmm/src/lib.rs\<close> inside \<^verbatim>\<open>patches/agave-sol-drivechain.patch\<close>). The lemmas say that
  the program reads back exactly the answer that the validator gave.
\<close>

section \<open>The program side\<close>

record BmmAnswer =
  ans_height :: u64
  ans_block_hash :: array32
  ans_commitment :: "array32 option"
  ans_solana_block :: array32
  ans_recorded :: bool
  ans_credited_height :: u64
  ans_credits_active :: bool

record BmmPaid =
  bp_height :: u64
  bp_block_hash :: array32
  bp_m6id :: array32
  bp_paid :: bool
  bp_paid_height :: u64

record AnsweredDeposit =
  ad_sequence_number :: u64
  ad_value_sats :: u64
  ad_target :: "pubkey option"

record DepositAnswer =
  da_height :: u64
  da_block_hash :: array32
  da_prev_block_hash :: array32
  da_total :: u32
  da_first :: u32
  da_deposits :: "AnsweredDeposit list"

definition BMM_ANSWER_LEN :: nat where
  "BMM_ANSWER_LEN = 8 + 32 + 1 + 32 + 32 + 1 + 8 + 1"

definition BMM_PAID_LEN :: nat where
  "BMM_PAID_LEN = 8 + 32 + 32 + 1 + 8"

definition DEPOSIT_ANSWER_HEAD_LEN :: nat where
  "DEPOSIT_ANSWER_HEAD_LEN = 8 + 32 + 32 + 4 + 4 + 1"

definition DEPOSIT_ANSWER_ENTRY_LEN :: nat where
  "DEPOSIT_ANSWER_ENTRY_LEN = 8 + 8 + 1 + 32"

definition flag_of_byte :: "u8 \<Rightarrow> bool option" where
  "flag_of_byte b = (if b = 0 then Some False else if b = 1 then Some True else None)"

definition BmmAnswer_decode :: "bytes \<Rightarrow> BmmAnswer option" where
  "BmmAnswer_decode data =
     (if length data \<noteq> BMM_ANSWER_LEN then None
      else
        let commitment = array_of (subslice 41 73 data) in
        case (if data ! 40 = 0 then Some None
              else if data ! 40 = 1 then Some (Some commitment) else None) of
          None \<Rightarrow> None
        | Some commitment' \<Rightarrow>
            (case flag_of_byte (data ! 105) of
               None \<Rightarrow> None
             | Some recorded \<Rightarrow>
                 (case flag_of_byte (data ! 114) of
                    None \<Rightarrow> None
                  | Some credits_active \<Rightarrow>
                      Some \<lparr>ans_height = from_le_bytes (subslice 0 8 data),
                        ans_block_hash = array_of (subslice 8 40 data),
                        ans_commitment = commitment',
                        ans_solana_block = array_of (subslice 73 105 data),
                        ans_recorded = recorded,
                        ans_credited_height = from_le_bytes (subslice 106 114 data),
                        ans_credits_active = credits_active\<rparr>)))"

definition BmmPaid_decode :: "bytes \<Rightarrow> BmmPaid option" where
  "BmmPaid_decode data =
     (if length data \<noteq> BMM_PAID_LEN then None
      else
        case flag_of_byte (data ! 72) of
          None \<Rightarrow> None
        | Some paid \<Rightarrow>
            Some \<lparr>bp_height = from_le_bytes (subslice 0 8 data),
              bp_block_hash = array_of (subslice 8 40 data),
              bp_m6id = array_of (subslice 40 72 data),
              bp_paid = paid,
              bp_paid_height = from_le_bytes (subslice 73 81 data)\<rparr>)"

definition AnsweredDeposit_decode :: "bytes \<Rightarrow> AnsweredDeposit option" where
  "AnsweredDeposit_decode entry =
     (case (if entry ! 16 = 0 then Some None
            else if entry ! 16 = 1 then Some (Some (array_of (subslice 17 49 entry))) else None) of
        None \<Rightarrow> None
      | Some target \<Rightarrow>
          Some \<lparr>ad_sequence_number = from_le_bytes (subslice 0 8 entry),
            ad_value_sats = from_le_bytes (subslice 8 16 entry),
            ad_target = target\<rparr>)"

definition DepositAnswer_decode :: "bytes \<Rightarrow> DepositAnswer option" where
  "DepositAnswer_decode data =
     (case get_slice 0 DEPOSIT_ANSWER_HEAD_LEN data of
        None \<Rightarrow> None
      | Some head \<Rightarrow>
          let count = unat (head ! 80);
              entries = drop DEPOSIT_ANSWER_HEAD_LEN data in
          if length entries \<noteq> count * DEPOSIT_ANSWER_ENTRY_LEN then None
          else
            case those (map AnsweredDeposit_decode (chunks_exact DEPOSIT_ANSWER_ENTRY_LEN entries)) of
              None \<Rightarrow> None
            | Some deposits \<Rightarrow>
                Some \<lparr>da_height = from_le_bytes (subslice 0 8 head),
                  da_block_hash = array_of (subslice 8 40 head),
                  da_prev_block_hash = array_of (subslice 40 72 head),
                  da_total = from_le_bytes (subslice 72 76 head),
                  da_first = from_le_bytes (subslice 76 80 head),
                  da_deposits = deposits\<rparr>)"

section \<open>The validator side\<close>

record Question =
  q_height :: u64
  q_block_hash :: array32
  q_solana_block :: array32

record RecordAnswer =
  ra_credited_height :: u64
  ra_credits_active :: bool

record PaidQuestion =
  pq_height :: u64
  pq_block_hash :: array32
  pq_m6id :: array32

record CreditQuestion =
  cq_height :: u64
  cq_block_hash :: array32
  cq_first :: u32
  cq_count :: u8

record Deposit =
  dep_sequence_number :: u64
  dep_value_sats :: u64
  dep_address :: bytes

record Block =
  blk_hash :: array32
  blk_prev_hash :: array32
  blk_deposits :: "Deposit list"

definition answer_data :: "Question \<Rightarrow> array32 option \<Rightarrow> RecordAnswer option \<Rightarrow> bytes" where
  "answer_data question commitment rec =
     (let data = replicate BMM_ANSWER_LEN 0;
          data = copy_into 0 (to_le_bytes (q_height question)) data;
          data = copy_into 8 (array_bytes (q_block_hash question)) data;
          data = (case commitment of None \<Rightarrow> data
                  | Some c \<Rightarrow> copy_into 41 (array_bytes c) (data[40 := 1]));
          data = copy_into 73 (array_bytes (q_solana_block question)) data
      in case rec of None \<Rightarrow> data
         | Some r \<Rightarrow>
             (copy_into 106 (to_le_bytes (ra_credited_height r)) (data[105 := 1]))
               [114 := (if ra_credits_active r then 1 else 0)])"

definition paid_answer_data :: "PaidQuestion \<Rightarrow> bool \<Rightarrow> bytes" where
  "paid_answer_data question paid =
     (let data = replicate BMM_PAID_LEN 0;
          data = copy_into 0 (to_le_bytes (pq_height question)) data;
          data = copy_into 8 (array_bytes (pq_block_hash question)) data;
          data = copy_into 40 (array_bytes (pq_m6id question)) data
      in if paid then copy_into 73 (to_le_bytes (pq_height question)) (data[72 := 1]) else data)"

text \<open>\<open>target_of\<close> is \<^verbatim>\<open>Deposit::target\<close> at the slot of the chain (theory \<open>Deposit_Address\<close>).\<close>

definition deposit_entry :: "(bytes \<Rightarrow> pubkey option) \<Rightarrow> Deposit \<Rightarrow> bytes" where
  "deposit_entry target_of d =
     to_le_bytes (dep_sequence_number d) @ to_le_bytes (dep_value_sats d) @
     (case target_of (dep_address d) of
        Some target \<Rightarrow> 1 # array_bytes target
      | None \<Rightarrow> 0 # replicate 32 0)"

definition deposit_answer_data :: "(bytes \<Rightarrow> pubkey option) \<Rightarrow> CreditQuestion \<Rightarrow> Block \<Rightarrow> bytes" where
  "deposit_answer_data target_of question block =
     (let total = (case try_from_nat (length (blk_deposits block)) of
                     Some n \<Rightarrow> n | None \<Rightarrow> (- 1 :: u32));
          entries = take (unat (cq_count question))
                      (drop (unat (cq_first question)) (blk_deposits block))
      in to_le_bytes (cq_height question) @ array_bytes (blk_hash block) @
         array_bytes (blk_prev_hash block) @ to_le_bytes total @
         to_le_bytes (cq_first question) @ [word_of_nat (length entries)] @
         concat (map (deposit_entry target_of) entries))"

definition refused_deposit_answer_data :: "CreditQuestion \<Rightarrow> bytes" where
  "refused_deposit_answer_data question =
     to_le_bytes (cq_height question) @ replicate 64 0 @ to_le_bytes (0 :: u32) @
     to_le_bytes (cq_first question) @ [0]"

section \<open>The program reads back the answer of the validator\<close>

definition answer_of :: "Question \<Rightarrow> array32 option \<Rightarrow> RecordAnswer option \<Rightarrow> BmmAnswer" where
  "answer_of q c r =
     \<lparr>ans_height = q_height q, ans_block_hash = q_block_hash q, ans_commitment = c,
      ans_solana_block = q_solana_block q, ans_recorded = (r \<noteq> None),
      ans_credited_height = (case r of None \<Rightarrow> 0 | Some r \<Rightarrow> ra_credited_height r),
      ans_credits_active = (case r of None \<Rightarrow> False | Some r \<Rightarrow> ra_credits_active r)\<rparr>"

definition answered :: "(bytes \<Rightarrow> pubkey option) \<Rightarrow> Deposit \<Rightarrow> AnsweredDeposit" where
  "answered target_of d =
     \<lparr>ad_sequence_number = dep_sequence_number d, ad_value_sats = dep_value_sats d,
      ad_target = target_of (dep_address d)\<rparr>"

lemma decode_answer_data: "BmmAnswer_decode (answer_data q c r) = Some (answer_of q c r)"
  by (cases c; cases r)
    (simp_all add: BmmAnswer_decode_def answer_data_def answer_of_def BMM_ANSWER_LEN_def
      flag_of_byte_def layout_simps Let_def nth_list_update)

lemma decode_paid_answer_data:
  "BmmPaid_decode (paid_answer_data q p) =
     Some \<lparr>bp_height = pq_height q, bp_block_hash = pq_block_hash q, bp_m6id = pq_m6id q,
       bp_paid = p, bp_paid_height = (if p then pq_height q else 0)\<rparr>"
  by (cases p)
    (simp_all add: BmmPaid_decode_def paid_answer_data_def BMM_PAID_LEN_def
      flag_of_byte_def layout_simps Let_def nth_list_update)

lemma length_deposit_entry [simp]: "length (deposit_entry t d) = DEPOSIT_ANSWER_ENTRY_LEN"
  by (simp add: deposit_entry_def DEPOSIT_ANSWER_ENTRY_LEN_def split: option.split)

lemma decode_deposit_entry: "AnsweredDeposit_decode (deposit_entry t d) = Some (answered t d)"
  by (cases "t (dep_address d)")
    (simp_all add: AnsweredDeposit_decode_def deposit_entry_def answered_def append_layout_simps nth_append)

lemma those_map_Some: "those (map (\<lambda>x. Some (f x)) xs) = Some (map f xs)"
  by (induction xs) simp_all

lemma decode_deposit_answer_data:
  assumes "length (blk_deposits b) < 2 ^ 32"
  shows "DepositAnswer_decode (deposit_answer_data t q b) =
    Some \<lparr>da_height = cq_height q, da_block_hash = blk_hash b, da_prev_block_hash = blk_prev_hash b,
      da_total = word_of_nat (length (blk_deposits b)), da_first = cq_first q,
      da_deposits = map (answered t)
        (take (unat (cq_count q)) (drop (unat (cq_first q)) (blk_deposits b)))\<rparr>"
proof -
  let ?es = "take (unat (cq_count q)) (drop (unat (cq_first q)) (blk_deposits b))"
  let ?head = "to_le_bytes (cq_height q) @ array_bytes (blk_hash b) @ array_bytes (blk_prev_hash b) @
     to_le_bytes (word_of_nat (length (blk_deposits b)) :: u32) @ to_le_bytes (cq_first q) @
     [word_of_nat (length ?es) :: u8]"
  have total: "try_from_nat (length (blk_deposits b)) = Some (word_of_nat (length (blk_deposits b)) :: u32)"
    using assms by (simp add: try_from_nat_def)
  have data: "deposit_answer_data t q b = ?head @ concat (map (deposit_entry t) ?es)"
    by (simp add: deposit_answer_data_def total Let_def)
  have hl: "length ?head = 81" by simp
  have count: "unat (?head ! 80) = length ?es"
  proof -
    have "length ?es < 256" using unat_bound [of "cq_count q"] by simp
    moreover have "?head ! 80 = word_of_nat (length ?es)" by (simp add: nth_append)
    ultimately show ?thesis by (simp add: unat_of_nat)
  qed
  have entries: "length (concat (map (deposit_entry t) ?es)) = length ?es * DEPOSIT_ANSWER_ENTRY_LEN"
    by (simp add: length_concat comp_def sum_list_triv)
  have chunks: "chunks_exact DEPOSIT_ANSWER_ENTRY_LEN (concat (map (deposit_entry t) ?es)) =
      map (deposit_entry t) ?es"
    by (rule chunks_exact_concat) (auto simp: DEPOSIT_ANSWER_ENTRY_LEN_def [symmetric], simp add: DEPOSIT_ANSWER_ENTRY_LEN_def)
  have gs: "get_slice 0 DEPOSIT_ANSWER_HEAD_LEN (deposit_answer_data t q b) = Some ?head"
    by (simp add: get_slice_def data DEPOSIT_ANSWER_HEAD_LEN_def subslice_def)
  have dr: "drop DEPOSIT_ANSWER_HEAD_LEN (deposit_answer_data t q b) = concat (map (deposit_entry t) ?es)"
    by (simp add: data DEPOSIT_ANSWER_HEAD_LEN_def)
  show ?thesis
    unfolding DepositAnswer_decode_def gs dr option.case Let_def count
    by (simp add: entries chunks comp_def decode_deposit_entry those_map_Some append_layout_simps)
qed

lemma decode_refused:
  "DepositAnswer_decode (refused_deposit_answer_data q) =
    Some \<lparr>da_height = cq_height q, da_block_hash = 0, da_prev_block_hash = 0, da_total = 0,
      da_first = cq_first q, da_deposits = []\<rparr>"
  by (simp add: DepositAnswer_decode_def refused_deposit_answer_data_def get_slice_def
      DEPOSIT_ANSWER_HEAD_LEN_def subslice_def nth_append)
end
