(* ===== verification/Bridge_State.thy ===== *)
theory Bridge_State
  imports Answers
begin

text \<open>
  The data of the bridge program (\<^verbatim>\<open>programs/bridge/src/lib.rs\<close>): its constants, the config and the
  withdrawal records, the errors, the script templates, the state that its instructions run on, and
  the documented behaviour of the runtime for the addresses of the program.
\<close>

section \<open>Constants\<close>

definition LAMPORTS_PER_SAT :: u64 where "LAMPORTS_PER_SAT = 10"
definition MAX_SCRIPT_PUBKEY_LEN :: nat where "MAX_SCRIPT_PUBKEY_LEN = 34"
definition MIN_PAYOUT_SATS :: u64 where "MIN_PAYOUT_SATS = 546"
definition MIN_FEE_SATS :: u64 where "MIN_FEE_SATS = 1000"
definition MAX_BUNDLE_RECORDS :: u64 where "MAX_BUNDLE_RECORDS = 1500"
definition SKIP_GRACE_SLOTS :: u64 where "SKIP_GRACE_SLOTS = 300"

definition CONFIG_SEED :: bytes where "CONFIG_SEED = [0x63, 0x6f, 0x6e, 0x66, 0x69, 0x67]"
definition VAULT_SEED :: bytes where "VAULT_SEED = [0x76, 0x61, 0x75, 0x6c, 0x74]"
definition WITHDRAWAL_SEED :: bytes where
  "WITHDRAWAL_SEED = [0x77, 0x69, 0x74, 0x68, 0x64, 0x72, 0x61, 0x77, 0x61, 0x6c]"
definition TREASURY_SEED :: bytes where
  "TREASURY_SEED = [0x74, 0x72, 0x65, 0x61, 0x73, 0x75, 0x72, 0x79]"

section \<open>Accounts of the program\<close>

record Config =
  oracle_key :: pubkey
  deposit_high_water :: u64
  pegged_lamports :: u64
  withdrawal_count :: u64
  bmm_next_height :: u64
  bmm_paid_total :: u64
  deposit_confirmations :: u64
  deposit_lag :: u64
  credited_height :: u64
  credited_block :: array32
  credit_index :: u64
  credit_part_block :: array32
  stranded_lamports :: u64
  bump :: u8
  vault_bump :: u8
  treasury_bump :: u8
  vault_supply :: u64
  float_lamports :: u64
  paid_through :: u64
  bundled_through :: u64
  bundle_sealed_height :: u64
  bmm_skip_blocks :: u64
  bmm_next_since_slot :: u64
  bundle_m6id :: array32

record WithdrawalRecord =
  wr_index :: u64
  wr_owner :: pubkey
  wr_burned_lamports :: u64
  wr_payout_sats :: u64
  wr_fee_sats :: u64
  wr_script_pubkey :: bytes
  wr_bump :: u8

text \<open>\<^verbatim>\<open>8 + WithdrawalRecord::INIT_SPACE\<close>, with the four length bytes of the script vector.\<close>

definition WITHDRAWAL_RECORD_SPACE :: nat where
  "WITHDRAWAL_RECORD_SPACE = 8 + (8 + 32 + 8 + 8 + 8 + (4 + MAX_SCRIPT_PUBKEY_LEN) + 1)"

datatype BridgeError =
    SequenceNumberAlreadyApplied | AmountNotAWholeSat | FeeAboveAmount | PayoutIsDust
  | ScriptPubkeyNotStandard | AmountAbovePeggedTotal | AmountOverflow | HeightAlreadyPassed
  | HeightNotNext | NoAnswer | AnswerForAnotherQuestion | NoCommitment | PairDoesNotMatch
  | BlockNotRecorded | CreditOutOfOrder | PartOutOfOrder | NotOnCreditedChain | EmptyPart
  | MissingTarget | WrongTarget | TargetNotWritable | PartOfAnotherBlock | TooFewCredits
  | CreditsDropped | PayeeNotWritable | FeeTooLow | FloatNotBacked | BundleLive | NothingToSeal
  | NoLiveBundle | NotTheLiveBundle | RecordNotPaid | BadBump | BadBundleEnd
  | PaidAnswerForAnotherQuestion | NotTheSealedM6id | BundleNotPaid

text \<open>The account constraints of the \<^verbatim>\<open>#[derive(Accounts)]\<close> structs that a transaction can break.\<close>

datatype ConstraintError =
    ConstraintSeeds | ConstraintHasOne | ConstraintSigner | ConstraintMut
  | AccountNotSystemOwned | AccountNotInitialized | InitFailed | CloseFailed

datatype tx_error = Bridge BridgeError | Constraint ConstraintError | TransferFailed | BadSignature

text \<open>
  The state: the config, the withdrawal records by the index of their address, and the ledger with
  the lamports of every account, those of the program included.
\<close>

record bank =
  config :: Config
  records :: "u64 \<rightharpoonup> WithdrawalRecord"
  ledger :: ledger

section \<open>Scripts and commitments\<close>

text \<open>
  A slice pattern \<^verbatim>\<open>[p.., mid @ .., s..]\<close> with \<^verbatim>\<open>mid.len() == n\<close>: the prefix, \<open>n\<close> bytes, the suffix.
\<close>

definition matches_template :: "bytes \<Rightarrow> nat \<Rightarrow> bytes \<Rightarrow> bytes \<Rightarrow> bool" where
  "matches_template pre n suf script \<longleftrightarrow>
     length script = length pre + n + length suf \<and>
     take (length pre) script = pre \<and> drop (length pre + n) script = suf"

definition is_standard_script :: "bytes \<Rightarrow> bool" where
  "is_standard_script script \<longleftrightarrow>
     matches_template [0x76, 0xa9, 0x14] 20 [0x88, 0xac] script \<or>
     matches_template [0xa9, 0x14] 20 [0x87] script \<or>
     matches_template [0x00, 0x14] 20 [] script \<or>
     matches_template [0x00, 0x20] 32 [] script \<or> matches_template [0x51, 0x20] 32 [] script"

definition commitment_of :: "runtime \<Rightarrow> array32 \<Rightarrow> pubkey \<Rightarrow> array32" where
  "commitment_of rt solana_block payee = rt_hashv rt (array_bytes solana_block @ array_bytes payee)"

section \<open>Addresses\<close>

definition config_key :: "runtime \<Rightarrow> Config \<Rightarrow> pubkey option" where
  "config_key rt c = rt_create_program_address rt [CONFIG_SEED, [bump c]] ID"

definition vault_key :: "runtime \<Rightarrow> Config \<Rightarrow> pubkey option" where
  "vault_key rt c = rt_create_program_address rt [VAULT_SEED, [vault_bump c]] ID"

definition treasury_key :: "runtime \<Rightarrow> Config \<Rightarrow> pubkey option" where
  "treasury_key rt c = rt_create_program_address rt [TREASURY_SEED, [treasury_bump c]] ID"

definition record_key :: "runtime \<Rightarrow> u64 \<Rightarrow> pubkey \<times> u8" where
  "record_key rt index = rt_find_program_address rt [WITHDRAWAL_SEED, to_le_bytes index] ID"

section \<open>Documented behaviour of the runtime\<close>

text \<open>The seeds, joined, of the addresses that the program uses.\<close>

definition bridge_seeds :: "bytes list set" where
  "bridge_seeds =
     {[CONFIG_SEED, [b]] | b. True} \<union> {[VAULT_SEED, [b]] | b. True} \<union> {[TREASURY_SEED, [b]] | b. True} \<union>
     {[WITHDRAWAL_SEED, to_le_bytes (i :: u64), [b]] | i b. True}"

text \<open>
  \<^item> A transfer, when it succeeds, moves the lamports and nothing else; it succeeds from a system
    account without data that holds enough, to another account that they do not overflow.
  \<^item> \<^verbatim>\<open>init\<close> takes a free system account, pays its rent from the payer and gives it to the program.
  \<^item> \<^verbatim>\<open>close\<close> moves every lamport of the account to another one and gives it back to the system.
  \<^item> A program address has no private key, and two lists of seeds with different bytes give
    different addresses (SHA-256 has no collision among them).
  \<^item> \<^verbatim>\<open>is_exempt\<close> compares the balance with the minimum balance.
\<close>

definition transfer_ok :: "runtime \<Rightarrow> bool" where
  "transfer_ok rt \<longleftrightarrow>
     (\<forall>src dst n L L'. rt_transfer rt src dst n L = Some L' \<longrightarrow> moved src dst n L L') \<and>
     (\<forall>src dst n L. src \<noteq> dst \<longrightarrow> acc_owner (L src) = SYSTEM_PROGRAM_ID \<longrightarrow> acc_len (L src) = 0 \<longrightarrow>
        unat n \<le> balance L src \<longrightarrow> balance L dst + unat n < 2 ^ 64 \<longrightarrow>
        rt_transfer rt src dst n L \<noteq> None)"

definition init_ok :: "runtime \<Rightarrow> bool" where
  "init_ok rt \<longleftrightarrow>
     (\<forall>payer k space L L'. rt_init_account rt payer k space L = Some L' \<longrightarrow>
        payer \<noteq> k \<and> acc_owner (L k) = SYSTEM_PROGRAM_ID \<and> acc_len (L k) = 0 \<and>
        (\<exists>n L1. moved payer k n L L1 \<and>
           L' = L1(k := (L1 k)\<lparr>acc_owner := ID, acc_len := space\<rparr>)))"

definition close_ok :: "runtime \<Rightarrow> bool" where
  "close_ok rt \<longleftrightarrow>
     (\<forall>k dst L L'. rt_close_account rt k dst L = Some L' \<longrightarrow>
        k \<noteq> dst \<and>
        (\<exists>L1. moved k dst (acc_lamports (L k)) L L1 \<and>
           L' = L1(k := (L1 k)\<lparr>acc_owner := SYSTEM_PROGRAM_ID, acc_len := 0\<rparr>)))"

definition addresses_ok :: "runtime \<Rightarrow> bool" where
  "addresses_ok rt \<longleftrightarrow>
     (\<forall>s \<in> bridge_seeds. \<forall>k. rt_create_program_address rt s ID = Some k \<longrightarrow> \<not> rt_has_key rt k) \<and>
     (\<forall>s \<in> bridge_seeds. \<forall>s' \<in> bridge_seeds. \<forall>k.
        rt_create_program_address rt s ID = Some k \<longrightarrow>
        rt_create_program_address rt s' ID = Some k \<longrightarrow> concat s = concat s') \<and>
     (\<forall>i k b. record_key rt i = (k, b) \<longrightarrow>
        rt_create_program_address rt [WITHDRAWAL_SEED, to_le_bytes i, [b]] ID = Some k)"

definition rent_ok :: "runtime \<Rightarrow> bool" where
  "rent_ok rt \<longleftrightarrow> (\<forall>n len. rt_is_exempt rt n len \<longleftrightarrow> rt_minimum_balance rt len \<le> n)"

definition runtime_ok :: "runtime \<Rightarrow> bool" where
  "runtime_ok rt \<longleftrightarrow> transfer_ok rt \<and> init_ok rt \<and> close_ok rt \<and> addresses_ok rt \<and> rent_ok rt"

end
