(* ===== verification/Bridge_Program.thy ===== *)
theory Bridge_Program
  imports Bridge_State
begin

text \<open>
  The six instructions of the bridge program (\<^verbatim>\<open>programs/bridge/src/lib.rs\<close>). Each one is a function of
  the runtime, of what the transaction brings (the accounts with their flags, the arguments, the
  answer account that the validator builds, the slot of the clock) and of the state; it gives an
  error, and then the runtime drops the transaction, or the new state. An account whose key a
  constraint fixes (the config, the vault, the treasury, the record, the answer) is no argument.
\<close>

section \<open>settle_bmm\<close>

definition can_hold ::
  "runtime \<Rightarrow> ledger \<Rightarrow> meta \<Rightarrow> pubkey list \<Rightarrow> u64 \<Rightarrow> tx_error + bool" where
  "can_hold rt L payee excluded payout =
     (let a = L (meta_key payee) in
      if meta_key payee \<in> set excluded \<or> acc_executable a \<or> acc_owner a = ID
        \<or> acc_owner a = SYSVAR_OWNER \<or> acc_owner a = NATIVE_LOADER
        \<or> meta_key payee \<in> set RESERVED_KEYS
      then Inr False
      else require (meta_writable payee) (Bridge PayeeNotWritable)
        (case checked_add (acc_lamports a) payout of
           None \<Rightarrow> Inr False
         | Some after \<Rightarrow> Inr (rt_is_exempt rt after (acc_len a))))"

definition pay_treasury :: "runtime \<Rightarrow> pubkey \<Rightarrow> pubkey \<Rightarrow> meta \<Rightarrow> bank \<Rightarrow> tx_error + bank" where
  "pay_treasury rt treasury config_k payee b =
     (let payout = saturating_sub (acc_lamports (ledger b treasury)) (rt_minimum_balance rt 0) in
      ok_or (vault_key rt (config b)) (Bridge BadBump) (\<lambda>vault.
      attempt (if 0 < payout then can_hold rt (ledger b) payee [treasury, config_k, vault] payout
               else Inr False) (\<lambda>holds.
      if holds then
        ok_or (rt_transfer rt treasury (meta_key payee) payout (ledger b)) TransferFailed (\<lambda>L.
        ok_or (checked_add (bmm_paid_total (config b)) payout) (Bridge AmountOverflow) (\<lambda>paid_total.
        Inr (b\<lparr>ledger := L, config := (config b)\<lparr>bmm_paid_total := paid_total\<rparr>\<rparr>)))
      else Inr b)))"

text \<open>The \<^verbatim>\<open>match answer.commitment\<close> of \<^verbatim>\<open>settle_bmm\<close>: whether the height pays.\<close>

definition settle_pays ::
  "runtime \<Rightarrow> Config \<Rightarrow> u64 \<Rightarrow> u64 \<Rightarrow> array32 \<Rightarrow> pubkey \<Rightarrow> BmmAnswer \<Rightarrow> tx_error + bool" where
  "settle_pays rt cfg slot height solana_block payee answer =
     (case ans_commitment answer of
        None \<Rightarrow> Inr False
      | Some commitment \<Rightarrow>
          if commitment_of rt solana_block payee = commitment
          then Inr (ans_recorded answer
                 \<and> height \<le> saturating_add (ans_credited_height answer) (deposit_lag cfg)
                 \<and> ans_credits_active answer)
          else
            require (saturating_add height (bmm_skip_blocks cfg) \<le> credited_height cfg)
              (Bridge PairDoesNotMatch)
            (require (saturating_add (bmm_next_since_slot cfg) SKIP_GRACE_SLOTS \<le> slot)
              (Bridge PairDoesNotMatch)
            (Inr False)))"

definition settle_bmm ::
  "runtime \<Rightarrow> u64 \<Rightarrow> bytes \<Rightarrow> meta \<Rightarrow> u64 \<Rightarrow> array32 \<Rightarrow> array32 \<Rightarrow> bank \<Rightarrow> tx_error + bank" where
  "settle_bmm rt slot bmm_answer payee height block_hash solana_block b =
     (let cfg = config b in
      ok_or (config_key rt cfg) (Constraint ConstraintSeeds) (\<lambda>config_k.
      ok_or (treasury_key rt cfg) (Constraint ConstraintSeeds) (\<lambda>treasury.
      require (acc_owner (ledger b treasury) = SYSTEM_PROGRAM_ID) (Constraint AccountNotSystemOwned) (
      require (bmm_next_height cfg \<le> height) (Bridge HeightAlreadyPassed) (
      require (height = bmm_next_height cfg) (Bridge HeightNotNext) (
      ok_or (BmmAnswer_decode bmm_answer) (Bridge NoAnswer) (\<lambda>answer.
      require (ans_height answer = height \<and> ans_block_hash answer = block_hash
               \<and> ans_solana_block answer = solana_block) (Bridge AnswerForAnotherQuestion) (
      attempt (settle_pays rt cfg slot height solana_block (meta_key payee) answer) (\<lambda>pays.
      attempt (if pays then pay_treasury rt treasury config_k payee b else Inr b) (\<lambda>b1.
      ok_or (checked_add height 1) (Bridge AmountOverflow) (\<lambda>next.
      Inr (b1\<lparr>config := (config b1)\<lparr>bmm_next_height := next, bmm_next_since_slot := slot\<rparr>\<rparr>))))))))))))"

section \<open>credit_deposits\<close>

definition can_take :: "runtime \<Rightarrow> ledger \<Rightarrow> meta \<Rightarrow> pubkey \<Rightarrow> u64 \<Rightarrow> tx_error + bool" where
  "can_take rt L target vault lamports =
     (let a = L (meta_key target) in
      if meta_key target = vault \<or> acc_executable a \<or> acc_owner a = SYSVAR_OWNER
        \<or> acc_owner a = NATIVE_LOADER \<or> meta_key target \<in> set RESERVED_KEYS
      then Inr False
      else require (meta_writable target) (Bridge TargetNotWritable)
        (case checked_add (acc_lamports a) lamports of
           None \<Rightarrow> Inr False
         | Some after \<Rightarrow> Inr (rt_is_exempt rt after (acc_len a))))"

text \<open>The variables of the loop over the deposits of the answer.\<close>

record credit_loop_state =
  cl_ledger :: ledger
  cl_targets :: "meta list"
  cl_high_water :: u64
  cl_credited :: u64
  cl_stranded :: u64

text \<open>The target account of a deposit, and the accounts left for the later ones.\<close>

definition next_target ::
  "pubkey option \<Rightarrow> meta list \<Rightarrow> tx_error + (meta option \<times> meta list)" where
  "next_target target targets =
     (case target of
        None \<Rightarrow> Inr (None, targets)
      | Some key \<Rightarrow>
          (case targets of
             [] \<Rightarrow> Inl (Bridge MissingTarget)
           | t # ts \<Rightarrow> require (meta_key t = key) (Bridge WrongTarget) (Inr (Some t, ts))))"

definition credit_one ::
  "runtime \<Rightarrow> pubkey \<Rightarrow> AnsweredDeposit \<Rightarrow> credit_loop_state \<Rightarrow> tx_error + credit_loop_state" where
  "credit_one rt vault deposit s =
     require (cl_high_water s \<le> ad_sequence_number deposit) (Bridge SequenceNumberAlreadyApplied) (
     ok_or (checked_add (ad_sequence_number deposit) 1) (Bridge AmountOverflow) (\<lambda>high_water.
     ok_or (checked_mul (ad_value_sats deposit) LAMPORTS_PER_SAT) (Bridge AmountOverflow) (\<lambda>lamports.
     attempt (next_target (ad_target deposit) (cl_targets s)) (\<lambda>(target, targets).
     attempt (case target of
                Some t \<Rightarrow> can_take rt (cl_ledger s) t vault lamports
              | None \<Rightarrow> Inr False) (\<lambda>takes.
     case target of
       Some t \<Rightarrow>
         if takes then
           attempt (if 0 < lamports
                    then ok_or (rt_transfer rt vault (meta_key t) lamports (cl_ledger s))
                           TransferFailed Inr
                    else Inr (cl_ledger s)) (\<lambda>L.
           ok_or (checked_add (cl_credited s) lamports) (Bridge AmountOverflow) (\<lambda>credited.
           Inr (s\<lparr>cl_ledger := L, cl_targets := targets, cl_high_water := high_water,
                 cl_credited := credited\<rparr>)))
         else
           ok_or (checked_add (cl_stranded s) lamports) (Bridge AmountOverflow) (\<lambda>stranded.
           Inr (s\<lparr>cl_targets := targets, cl_high_water := high_water, cl_stranded := stranded\<rparr>))
     | None \<Rightarrow>
         ok_or (checked_add (cl_stranded s) lamports) (Bridge AmountOverflow) (\<lambda>stranded.
         Inr (s\<lparr>cl_targets := targets, cl_high_water := high_water, cl_stranded := stranded\<rparr>)))))))"

fun credit_loop ::
  "runtime \<Rightarrow> pubkey \<Rightarrow> AnsweredDeposit list \<Rightarrow> credit_loop_state \<Rightarrow> tx_error + credit_loop_state" where
  "credit_loop rt vault [] s = Inr s"
| "credit_loop rt vault (d # ds) s = attempt (credit_one rt vault d s) (credit_loop rt vault ds)"

text \<open>The guards of \<^verbatim>\<open>credit_deposits\<close> up to the loop, and its writes to the config after it.\<close>

definition credit_guards ::
  "Config \<Rightarrow> bytes \<Rightarrow> u64 \<Rightarrow> array32 \<Rightarrow> u32 \<Rightarrow> u8 \<Rightarrow> tx_error + (DepositAnswer \<times> u64)" where
  "credit_guards cfg deposit_answer height block_hash first count =
     ok_or (checked_add (credited_height cfg) 1) (Bridge AmountOverflow) (\<lambda>next.
     require (height = next) (Bridge CreditOutOfOrder) (
     require (ucast first = credit_index cfg) (Bridge PartOutOfOrder) (
     ok_or (DepositAnswer_decode deposit_answer) (Bridge NoAnswer) (\<lambda>answer.
     require (da_height answer = height \<and> da_block_hash answer = block_hash
              \<and> da_first answer = first \<and> length (da_deposits answer) = unat count)
       (Bridge AnswerForAnotherQuestion) (
     require (credited_block cfg = 0 \<or> da_prev_block_hash answer = credited_block cfg)
       (Bridge NotOnCreditedChain) (
     require (credit_index cfg = 0 \<or> block_hash = credit_part_block cfg)
       (Bridge PartOfAnotherBlock) (
     ok_or (checked_add (ucast first :: u64) (ucast count)) (Bridge AmountOverflow) (\<lambda>end.
     require (0 < count \<or> da_total answer = 0) (Bridge EmptyPart) (
     Inr (answer, end))))))))))"

definition credit_commit ::
  "Config \<Rightarrow> u64 \<Rightarrow> array32 \<Rightarrow> u32 \<Rightarrow> u64 \<Rightarrow> credit_loop_state \<Rightarrow> tx_error + Config" where
  "credit_commit cfg height block_hash deposit_count end s =
     ok_or (checked_add (pegged_lamports cfg) (cl_credited s)) (Bridge AmountOverflow) (\<lambda>pegged.
     ok_or (checked_add (stranded_lamports cfg) (cl_stranded s)) (Bridge AmountOverflow) (\<lambda>stranded.
     let cfg1 = cfg\<lparr>deposit_high_water := cl_high_water s, pegged_lamports := pegged,
                    stranded_lamports := stranded\<rparr> in
     Inr (if ucast deposit_count \<le> end
          then cfg1\<lparr>credited_height := height, credited_block := block_hash,
                     credit_index := 0, credit_part_block := 0\<rparr>
          else cfg1\<lparr>credit_index := end, credit_part_block := block_hash\<rparr>)))"

definition credit_deposits ::
  "runtime \<Rightarrow> bytes \<Rightarrow> meta list \<Rightarrow> u64 \<Rightarrow> array32 \<Rightarrow> u32 \<Rightarrow> u8 \<Rightarrow> bank \<Rightarrow> tx_error + bank" where
  "credit_deposits rt deposit_answer remaining height block_hash first count b =
     (let cfg = config b in
      require (config_key rt cfg \<noteq> None) (Constraint ConstraintSeeds) (
      ok_or (vault_key rt cfg) (Constraint ConstraintSeeds) (\<lambda>vault.
      require (acc_owner (ledger b vault) = SYSTEM_PROGRAM_ID) (Constraint AccountNotSystemOwned) (
      attempt (credit_guards cfg deposit_answer height block_hash first count) (\<lambda>(answer, end).
      attempt (credit_loop rt vault (da_deposits answer)
                 \<lparr>cl_ledger = ledger b, cl_targets = remaining,
                  cl_high_water = deposit_high_water cfg, cl_credited = 0, cl_stranded = 0\<rparr>) (\<lambda>s.
      attempt (credit_commit cfg height block_hash (da_total answer) end s) (\<lambda>cfg'.
      Inr (b\<lparr>config := cfg', ledger := cl_ledger s\<rparr>))))))))"

section \<open>withdraw\<close>

definition withdraw ::
  "runtime \<Rightarrow> meta \<Rightarrow> u64 \<Rightarrow> u64 \<Rightarrow> bytes \<Rightarrow> bank \<Rightarrow> tx_error + bank" where
  "withdraw rt user lamports fee_sats script_pubkey b =
     (let cfg = config b; index = withdrawal_count cfg; (record_k, record_bump) = record_key rt index in
      require (config_key rt cfg \<noteq> None) (Constraint ConstraintSeeds) (
      ok_or (vault_key rt cfg) (Constraint ConstraintSeeds) (\<lambda>vault.
      require (acc_owner (ledger b vault) = SYSTEM_PROGRAM_ID) (Constraint AccountNotSystemOwned) (
      require (meta_signer user) (Constraint ConstraintSigner) (
      require (meta_writable user) (Constraint ConstraintMut) (
      ok_or (rt_init_account rt (meta_key user) record_k WITHDRAWAL_RECORD_SPACE (ledger b))
        (Constraint InitFailed) (\<lambda>L.
      require (lamports mod LAMPORTS_PER_SAT = 0) (Bridge AmountNotAWholeSat) (
      require (is_standard_script script_pubkey) (Bridge ScriptPubkeyNotStandard) (
      ok_or (checked_sub (lamports div LAMPORTS_PER_SAT) fee_sats) (Bridge FeeAboveAmount) (\<lambda>payout_sats.
      require (MIN_PAYOUT_SATS \<le> payout_sats) (Bridge PayoutIsDust) (
      require (MIN_FEE_SATS \<le> fee_sats) (Bridge FeeTooLow) (
      ok_or (checked_add (acc_lamports (L vault)) (pegged_lamports cfg)) (Bridge AmountOverflow) (\<lambda>backed.
      ok_or (checked_add (vault_supply cfg) (float_lamports cfg)) (Bridge AmountOverflow) (\<lambda>needed.
      require (needed \<le> backed) (Bridge FloatNotBacked) (
      ok_or (checked_sub (pegged_lamports cfg) lamports) (Bridge AmountAbovePeggedTotal) (\<lambda>pegged.
      ok_or (checked_add index 1) (Bridge AmountOverflow) (\<lambda>count.
      ok_or (rt_transfer rt (meta_key user) vault lamports L) TransferFailed (\<lambda>L'.
      Inr (b\<lparr>config := cfg\<lparr>pegged_lamports := pegged, withdrawal_count := count\<rparr>,
             records := (records b)(index \<mapsto>
               \<lparr>wr_index = index, wr_owner = meta_key user, wr_burned_lamports = lamports,
                wr_payout_sats = payout_sats, wr_fee_sats = fee_sats,
                wr_script_pubkey = script_pubkey, wr_bump = record_bump\<rparr>),
             ledger := L'\<rparr>)))))))))))))))))))"

section \<open>seal_bundle, bundle_paid and close_record\<close>

definition seal_bundle :: "runtime \<Rightarrow> meta \<Rightarrow> u64 \<Rightarrow> array32 \<Rightarrow> bank \<Rightarrow> tx_error + bank" where
  "seal_bundle rt orc through m6id b =
     (let cfg = config b in
      require (config_key rt cfg \<noteq> None) (Constraint ConstraintSeeds) (
      require (meta_signer orc) (Constraint ConstraintSigner) (
      require (meta_key orc = oracle_key cfg) (Constraint ConstraintHasOne) (
      require (bundled_through cfg = paid_through cfg) (Bridge BundleLive) (
      require (bundled_through cfg < withdrawal_count cfg) (Bridge NothingToSeal) (
      ok_or (checked_add (paid_through cfg) MAX_BUNDLE_RECORDS) (Bridge AmountOverflow) (\<lambda>cap.
      let most = min cap (withdrawal_count cfg) in
      require (paid_through cfg < through \<and> through \<le> most) (Bridge BadBundleEnd) (
      Inr (b\<lparr>config := cfg\<lparr>bundled_through := through, bundle_m6id := m6id,
                             bundle_sealed_height := credited_height cfg\<rparr>\<rparr>)))))))))"

definition bundle_paid ::
  "runtime \<Rightarrow> meta \<Rightarrow> bytes \<Rightarrow> u64 \<Rightarrow> u64 \<Rightarrow> array32 \<Rightarrow> array32 \<Rightarrow> bank \<Rightarrow> tx_error + bank" where
  "bundle_paid rt orc bmm_paid through height block_hash m6id b =
     (let cfg = config b in
      require (config_key rt cfg \<noteq> None) (Constraint ConstraintSeeds) (
      require (meta_signer orc) (Constraint ConstraintSigner) (
      require (meta_key orc = oracle_key cfg) (Constraint ConstraintHasOne) (
      require (paid_through cfg < bundled_through cfg) (Bridge NoLiveBundle) (
      require (through = bundled_through cfg) (Bridge NotTheLiveBundle) (
      ok_or (BmmPaid_decode bmm_paid) (Bridge NoAnswer) (\<lambda>paid.
      require (bp_height paid = height \<and> bp_block_hash paid = block_hash \<and> bp_m6id paid = m6id)
        (Bridge PaidAnswerForAnotherQuestion) (
      require (m6id = bundle_m6id cfg) (Bridge NotTheSealedM6id) (
      require (bp_paid paid) (Bridge BundleNotPaid) (
      Inr (b\<lparr>config := cfg\<lparr>paid_through := through\<rparr>\<rparr>)))))))))))"

definition close_record :: "runtime \<Rightarrow> meta \<Rightarrow> u64 \<Rightarrow> bank \<Rightarrow> tx_error + bank" where
  "close_record rt owner index b =
     (let record_k = fst (record_key rt index) in
      require (config_key rt (config b) \<noteq> None) (Constraint ConstraintSeeds) (
      ok_or (records b index) (Constraint AccountNotInitialized) (\<lambda>r.
      require (rt_create_program_address rt [WITHDRAWAL_SEED, to_le_bytes index, [wr_bump r]] ID
               = Some record_k) (Constraint ConstraintSeeds) (
      require (meta_key owner = wr_owner r) (Constraint ConstraintHasOne) (
      require (meta_writable owner) (Constraint ConstraintMut) (
      require (index < paid_through (config b)) (Bridge RecordNotPaid) (
      ok_or (rt_close_account rt record_k (meta_key owner) (ledger b)) (Constraint CloseFailed) (\<lambda>L.
      Inr (b\<lparr>records := (records b)(index := None), ledger := L\<rparr>)))))))))"

section \<open>Dispatch\<close>

text \<open>
  A bridge instruction with everything that the transaction and the bank bring. The runtime checks
  the signatures first: only a key on the curve can sign.
\<close>

datatype instruction =
    SettleBmm u64 bytes meta u64 array32 array32
  | CreditDeposits bytes "meta list" u64 array32 u32 u8
  | Withdraw meta u64 u64 bytes
  | SealBundle meta u64 array32
  | BundlePaid meta bytes u64 u64 array32 array32
  | CloseRecord meta u64

fun instruction_metas :: "instruction \<Rightarrow> meta list" where
  "instruction_metas (SettleBmm slot answer payee height block_hash solana_block) = [payee]"
| "instruction_metas (CreditDeposits answer remaining height block_hash first count) = remaining"
| "instruction_metas (Withdraw user lamports fee script) = [user]"
| "instruction_metas (SealBundle orc through m6id) = [orc]"
| "instruction_metas (BundlePaid orc answer through height block_hash m6id) = [orc]"
| "instruction_metas (CloseRecord owner index) = [owner]"

fun dispatch :: "runtime \<Rightarrow> instruction \<Rightarrow> bank \<Rightarrow> tx_error + bank" where
  "dispatch rt (SettleBmm slot answer payee height block_hash solana_block) b =
     settle_bmm rt slot answer payee height block_hash solana_block b"
| "dispatch rt (CreditDeposits answer remaining height block_hash first count) b =
     credit_deposits rt answer remaining height block_hash first count b"
| "dispatch rt (Withdraw user lamports fee script) b = withdraw rt user lamports fee script b"
| "dispatch rt (SealBundle orc through m6id) b = seal_bundle rt orc through m6id b"
| "dispatch rt (BundlePaid orc answer through height block_hash m6id) b =
     bundle_paid rt orc answer through height block_hash m6id b"
| "dispatch rt (CloseRecord owner index) b = close_record rt owner index b"

definition signatures_ok :: "runtime \<Rightarrow> instruction \<Rightarrow> bool" where
  "signatures_ok rt i \<longleftrightarrow> (\<forall>m \<in> set (instruction_metas i). meta_signer m \<longrightarrow> rt_has_key rt (meta_key m))"

definition exec :: "runtime \<Rightarrow> instruction \<Rightarrow> bank \<Rightarrow> tx_error + bank" where
  "exec rt i b = require (signatures_ok rt i) BadSignature (dispatch rt i b)"

end
