(* ===== verification/Bridge_Facts.thy ===== *)
theory Bridge_Facts
  imports Bridge_Program
begin

text \<open>
  What each instruction of the bridge does when it succeeds: the effect on the vault, on the total
  of the ledger and on the config. Each lemma inverts one instruction with \<open>result_iff\<close> and reads
  its checked arithmetic as arithmetic on natural numbers with \<open>arith_iff\<close>.
\<close>

section \<open>Addresses\<close>

lemma seeds_in [simp, intro]:
  "[CONFIG_SEED, [b]] \<in> bridge_seeds" "[VAULT_SEED, [b]] \<in> bridge_seeds"
  "[TREASURY_SEED, [b]] \<in> bridge_seeds" "[WITHDRAWAL_SEED, to_le_bytes (i :: u64), [b]] \<in> bridge_seeds"
  by (auto simp: bridge_seeds_def)

lemma address_no_key:
  "addresses_ok rt \<Longrightarrow> s \<in> bridge_seeds \<Longrightarrow> rt_create_program_address rt s ID = Some k \<Longrightarrow>
     \<not> rt_has_key rt k"
  by (simp add: addresses_ok_def)

lemma address_inj:
  "addresses_ok rt \<Longrightarrow> s \<in> bridge_seeds \<Longrightarrow> s' \<in> bridge_seeds \<Longrightarrow>
     rt_create_program_address rt s ID = Some k \<Longrightarrow> rt_create_program_address rt s' ID = Some k \<Longrightarrow>
     concat s = concat s'"
  unfolding addresses_ok_def by blast

lemma record_address:
  "addresses_ok rt \<Longrightarrow>
     rt_create_program_address rt [WITHDRAWAL_SEED, to_le_bytes i, [snd (record_key rt i)]] ID
     = Some (fst (record_key rt i))"
  by (cases "record_key rt i") (simp add: addresses_ok_def)

lemma vault_no_key: "addresses_ok rt \<Longrightarrow> vault_key rt c = Some v \<Longrightarrow> \<not> rt_has_key rt v"
  unfolding vault_key_def by (rule address_no_key) auto

lemma record_no_key: "addresses_ok rt \<Longrightarrow> \<not> rt_has_key rt (fst (record_key rt i))"
  by (rule address_no_key [OF _ _ record_address]) auto

lemma vault_ne_treasury:
  assumes "addresses_ok rt" "vault_key rt c = Some v" "treasury_key rt c' = Some t"
  shows "v \<noteq> t"
proof
  assume "v = t"
  then have "concat [VAULT_SEED, [vault_bump c]] = concat [TREASURY_SEED, [treasury_bump c']]"
    using assms by (intro address_inj [OF assms(1)]) (auto simp: vault_key_def treasury_key_def)
  then show False by (simp add: VAULT_SEED_def TREASURY_SEED_def)
qed

lemma vault_ne_record:
  assumes "addresses_ok rt" "vault_key rt c = Some v"
  shows "fst (record_key rt i) \<noteq> v"
proof
  assume eq: "fst (record_key rt i) = v"
  have "concat [VAULT_SEED, [vault_bump c]] =
      concat [WITHDRAWAL_SEED, to_le_bytes i, [snd (record_key rt i)]]"
    using assms eq record_address [OF assms(1), of i]
    by (intro address_inj [OF assms(1)]) (auto simp: vault_key_def)
  then have "length (concat [VAULT_SEED, [vault_bump c]]) =
      length (concat [WITHDRAWAL_SEED, to_le_bytes i, [snd (record_key rt i)]])" by (rule arg_cong)
  then show False by (simp add: VAULT_SEED_def WITHDRAWAL_SEED_def)
qed

lemma treasury_ne_record:
  assumes "addresses_ok rt" "treasury_key rt c = Some v"
  shows "fst (record_key rt i) \<noteq> v"
proof
  assume eq: "fst (record_key rt i) = v"
  have "concat [TREASURY_SEED, [treasury_bump c]] =
      concat [WITHDRAWAL_SEED, to_le_bytes i, [snd (record_key rt i)]]"
    using assms eq record_address [OF assms(1), of i]
    by (intro address_inj [OF assms(1)]) (auto simp: treasury_key_def)
  then have "length (concat [TREASURY_SEED, [treasury_bump c]]) =
      length (concat [WITHDRAWAL_SEED, to_le_bytes i, [snd (record_key rt i)]])" by (rule arg_cong)
  then show False by (simp add: TREASURY_SEED_def WITHDRAWAL_SEED_def)
qed

section \<open>Ledger calls\<close>

lemma transfer_moved: "transfer_ok rt \<Longrightarrow> rt_transfer rt a c n L = Some L' \<Longrightarrow> moved a c n L L'"
  by (simp add: transfer_ok_def)

lemma transfer_total:
  "transfer_ok rt \<Longrightarrow> rt_transfer rt a c n L = Some L' \<Longrightarrow> total_lamports L' = total_lamports L"
  by (blast intro: total_moved transfer_moved)

lemma total_shape:
  "(\<And>k. acc_lamports (L' k) = acc_lamports (L k)) \<Longrightarrow> total_lamports L' = total_lamports L"
  by (simp add: total_lamports_def balance_def)

lemma balance_shape: "acc_lamports (L' k) = acc_lamports (L k) \<Longrightarrow> balance L' k = balance L k"
  by (simp add: balance_def)

lemma init_effect:
  assumes "init_ok rt" "rt_init_account rt payer k space L = Some L'"
  shows "total_lamports L' = total_lamports L"
    and "a \<noteq> payer \<Longrightarrow> balance L a \<le> balance L' a"
    and "a \<noteq> payer \<Longrightarrow> a \<noteq> k \<Longrightarrow> L' a = L a"
    and "payer \<noteq> k"
    and "a \<noteq> k \<Longrightarrow> acc_owner (L' a) = acc_owner (L a)"
    and "a \<noteq> k \<Longrightarrow> acc_len (L' a) = acc_len (L a)"
proof -
  obtain n L1 where ne: "payer \<noteq> k" and m: "moved payer k n L L1"
    and L': "L' = L1(k := (L1 k)\<lparr>acc_owner := ID, acc_len := space\<rparr>)"
    using assms unfolding init_ok_def by blast
  have lam: "acc_lamports (L' x) = acc_lamports (L1 x)" for x by (simp add: L')
  show "total_lamports L' = total_lamports L"
    using total_shape [OF lam] total_moved [OF m] by simp
  show "balance L a \<le> balance L' a" if "a \<noteq> payer"
    using that ne m balance_shape [of L' a L1, OF lam]
    by (cases "a = k") (simp_all add: balance_moved_dst balance_moved_other)
  show "L' a = L a" if "a \<noteq> payer" "a \<noteq> k"
    using that ne m by (simp add: L' moved_def)
  show "payer \<noteq> k" by (rule ne)
  show "acc_owner (L' a) = acc_owner (L a)" if "a \<noteq> k"
    using that moved_shape [OF m] by (simp add: L')
  show "acc_len (L' a) = acc_len (L a)" if "a \<noteq> k"
    using that moved_shape [OF m] by (simp add: L')
qed

lemma close_effect:
  assumes "close_ok rt" "rt_close_account rt k dst L = Some L'"
  shows "total_lamports L' = total_lamports L"
    and "a \<noteq> k \<Longrightarrow> balance L a \<le> balance L' a"
    and "a \<noteq> k \<Longrightarrow> a \<noteq> dst \<Longrightarrow> L' a = L a"
    and "balance L' k = 0"
    and "a \<noteq> k \<Longrightarrow> acc_owner (L' a) = acc_owner (L a)"
proof -
  obtain L1 where ne: "k \<noteq> dst" and m: "moved k dst (acc_lamports (L k)) L L1"
    and L': "L' = L1(k := (L1 k)\<lparr>acc_owner := SYSTEM_PROGRAM_ID, acc_len := 0\<rparr>)"
    using assms unfolding close_ok_def by blast
  have lam: "acc_lamports (L' x) = acc_lamports (L1 x)" for x by (simp add: L')
  show "total_lamports L' = total_lamports L"
    using total_shape [OF lam] total_moved [OF m] by simp
  show "balance L a \<le> balance L' a" if "a \<noteq> k"
    using that ne m balance_shape [of L' a L1, OF lam]
    by (cases "a = dst") (simp_all add: balance_moved_dst balance_moved_other)
  show "L' a = L a" if "a \<noteq> k" "a \<noteq> dst"
    using that ne m by (simp add: L' moved_def)
  show "balance L' k = 0"
    using balance_shape [of L' k L1, OF lam] balance_moved_src [OF m ne] by (simp add: balance_def)
  show "acc_owner (L' a) = acc_owner (L a)" if "a \<noteq> k"
    using that moved_shape [OF m] by (simp add: L')
qed

section \<open>credit_deposits\<close>

lemma can_take_not_vault: "can_take rt L t vault n = Inr True \<Longrightarrow> meta_key t \<noteq> vault"
  by (auto simp: can_take_def Let_def split: if_splits)

lemma credit_one_effect:
  assumes "transfer_ok rt" "credit_one rt vault d s = Inr s'"
  shows "cl_high_water s \<le> ad_sequence_number d"
    and "unat (cl_high_water s') = unat (ad_sequence_number d) + 1"
    and "unat (cl_credited s') + unat (cl_stranded s') =
       unat (cl_credited s) + unat (cl_stranded s) + 10 * unat (ad_value_sats d)"
    and "balance (cl_ledger s') vault + unat (cl_credited s') =
       balance (cl_ledger s) vault + unat (cl_credited s)"
    and "total_lamports (cl_ledger s') = total_lamports (cl_ledger s)"
    and "k \<noteq> vault \<Longrightarrow> balance (cl_ledger s) k \<le> balance (cl_ledger s') k"
    and "acc_owner (cl_ledger s' k) = acc_owner (cl_ledger s k)"
proof -
  obtain hw lam tgt targets takes where
    seq: "cl_high_water s \<le> ad_sequence_number d" and
    hw: "unat hw = unat (ad_sequence_number d) + 1" and
    lam: "unat lam = unat (ad_value_sats d) * 10" and
    takes: "(case tgt of Some t \<Rightarrow> can_take rt (cl_ledger s) t vault lam | None \<Rightarrow> Inr False) = Inr takes" and
    rest: "(case tgt of Some t \<Rightarrow>
         if takes then
           attempt (if 0 < lam then ok_or (rt_transfer rt vault (meta_key t) lam (cl_ledger s)) TransferFailed Inr
                    else Inr (cl_ledger s)) (\<lambda>L.
           ok_or (checked_add (cl_credited s) lam) (Bridge AmountOverflow) (\<lambda>credited.
           Inr (s\<lparr>cl_ledger := L, cl_targets := targets, cl_high_water := hw, cl_credited := credited\<rparr>)))
         else
           ok_or (checked_add (cl_stranded s) lam) (Bridge AmountOverflow) (\<lambda>stranded.
           Inr (s\<lparr>cl_targets := targets, cl_high_water := hw, cl_stranded := stranded\<rparr>))
     | None \<Rightarrow>
         ok_or (checked_add (cl_stranded s) lam) (Bridge AmountOverflow) (\<lambda>stranded.
         Inr (s\<lparr>cl_targets := targets, cl_high_water := hw, cl_stranded := stranded\<rparr>))) = Inr s'"
    using assms(2) unfolding credit_one_def LAMPORTS_PER_SAT_def
    by (auto simp: result_iff arith_iff split: prod.splits)
  show "cl_high_water s \<le> ad_sequence_number d" by (rule seq)
  have cases: "(\<exists>(t :: meta) L. meta_key t \<noteq> vault \<and>
        (moved vault (meta_key t) lam (cl_ledger s) L \<or> (lam = 0 \<and> L = cl_ledger s)) \<and>
        cl_ledger s' = L \<and> cl_high_water s' = hw \<and> cl_stranded s' = cl_stranded s \<and>
        unat (cl_credited s') = unat (cl_credited s) + unat lam) \<or>
      (cl_ledger s' = cl_ledger s \<and> cl_high_water s' = hw \<and> cl_credited s' = cl_credited s \<and>
        unat (cl_stranded s') = unat (cl_stranded s) + unat lam)"
  proof (cases "takes \<and> tgt \<noteq> None")
    case True
    then obtain t where t: "tgt = Some t" "takes" by auto
    then have "meta_key t \<noteq> vault" using takes by (auto dest: can_take_not_vault)
    moreover have "(lam = 0 \<and> cl_ledger s' = cl_ledger s
         \<or> rt_transfer rt vault (meta_key t) lam (cl_ledger s) = Some (cl_ledger s'))
       \<and> cl_high_water s' = hw \<and> cl_stranded s' = cl_stranded s
       \<and> unat (cl_credited s') = unat (cl_credited s) + unat lam"
      using rest t by (auto simp: result_iff arith_iff word_neq_0_conv [symmetric] split: if_splits)
    ultimately have "meta_key t \<noteq> vault \<and>
        (moved vault (meta_key t) lam (cl_ledger s) (cl_ledger s') \<or> (lam = 0 \<and> cl_ledger s' = cl_ledger s)) \<and>
        cl_high_water s' = hw \<and> cl_stranded s' = cl_stranded s \<and>
        unat (cl_credited s') = unat (cl_credited s) + unat lam"
      by (auto dest: transfer_moved [OF assms(1)])
    then show ?thesis by blast
  next
    case False
    then show ?thesis using rest by (auto simp: result_iff arith_iff split: option.splits if_splits)
  qed
  show "unat (cl_high_water s') = unat (ad_sequence_number d) + 1"
    using cases hw by auto
  show "unat (cl_credited s') + unat (cl_stranded s') =
       unat (cl_credited s) + unat (cl_stranded s) + 10 * unat (ad_value_sats d)"
    using cases lam by auto
  show "balance (cl_ledger s') vault + unat (cl_credited s') =
       balance (cl_ledger s) vault + unat (cl_credited s)"
    using cases
  proof (elim disjE exE conjE)
    fix t :: meta and L
    assume "moved vault (meta_key t) lam (cl_ledger s) L" "meta_key t \<noteq> vault" "cl_ledger s' = L"
      "unat (cl_credited s') = unat (cl_credited s) + unat lam"
    then show ?thesis
      using balance_moved_src [of vault "meta_key t" lam "cl_ledger s" L]
        moved_enough [of vault "meta_key t" lam "cl_ledger s" L] by simp
  qed simp_all
  show "total_lamports (cl_ledger s') = total_lamports (cl_ledger s)"
    using cases by (auto simp: total_moved)
  show "balance (cl_ledger s) k \<le> balance (cl_ledger s') k" if "k \<noteq> vault"
    using cases
  proof (elim disjE exE conjE)
    fix t :: meta and L
    assume "moved vault (meta_key t) lam (cl_ledger s) L" "meta_key t \<noteq> vault" "cl_ledger s' = L"
    then show ?thesis using that
      by (cases "k = meta_key t") (simp_all add: balance_moved_dst balance_moved_other)
  qed simp_all
  show "acc_owner (cl_ledger s' k) = acc_owner (cl_ledger s k)"
    using cases by (auto simp: moved_shape)
qed

lemma credit_loop_effect:
  assumes "transfer_ok rt" "credit_loop rt vault ds s = Inr s'"
  shows "sorted_wrt (<) (map (unat \<circ> ad_sequence_number) ds) \<and>
      (\<forall>d \<in> set ds. unat (cl_high_water s) \<le> unat (ad_sequence_number d) \<and>
         unat (ad_sequence_number d) < unat (cl_high_water s')) \<and>
      cl_high_water s \<le> cl_high_water s' \<and>
      unat (cl_credited s') + unat (cl_stranded s') =
        unat (cl_credited s) + unat (cl_stranded s) + 10 * (\<Sum>d\<leftarrow>ds. unat (ad_value_sats d)) \<and>
      balance (cl_ledger s') vault + unat (cl_credited s') =
        balance (cl_ledger s) vault + unat (cl_credited s) \<and>
      total_lamports (cl_ledger s') = total_lamports (cl_ledger s) \<and>
      (k \<noteq> vault \<longrightarrow> balance (cl_ledger s) k \<le> balance (cl_ledger s') k) \<and>
      acc_owner (cl_ledger s' k) = acc_owner (cl_ledger s k)"
  using assms(2)
proof (induction ds arbitrary: s)
  case (Cons d ds)
  then obtain s1 where one: "credit_one rt vault d s = Inr s1"
    and rest: "credit_loop rt vault ds s1 = Inr s'" by (auto simp: result_iff)
  note eff = credit_one_effect [OF assms(1) one]
  note IH = Cons.IH [OF rest]
  have hw: "unat (cl_high_water s) \<le> unat (ad_sequence_number d)"
      "unat (ad_sequence_number d) < unat (cl_high_water s1)"
      "unat (cl_high_water s1) \<le> unat (cl_high_water s')"
    using eff(1,2) IH by (simp_all add: word_le_nat_alt)
  show ?case
    using IH eff(2-) hw by (auto simp: word_le_nat_alt algebra_simps intro: order_trans)
qed simp

text \<open>The fields that no instruction writes: the oracle, the bumps and the settings of the genesis.\<close>

definition settings :: "Config \<Rightarrow> Config" where
  "settings c = c\<lparr>deposit_high_water := 0, pegged_lamports := 0, withdrawal_count := 0,
     bmm_next_height := 0, bmm_paid_total := 0, credited_height := 0, credited_block := 0,
     credit_index := 0, credit_part_block := 0, stranded_lamports := 0, paid_through := 0,
     bundled_through := 0, bundle_sealed_height := 0, bmm_next_since_slot := 0, bundle_m6id := 0\<rparr>"

lemma settings_keys:
  assumes "settings c = settings c'"
  shows "vault_key rt c = vault_key rt c'" "treasury_key rt c = treasury_key rt c'"
    "config_key rt c = config_key rt c'" "oracle_key c = oracle_key c'"
    "vault_supply c = vault_supply c'" "float_lamports c = float_lamports c'"
proof -
  have "vault_bump (settings c) = vault_bump (settings c')" "bump (settings c) = bump (settings c')"
    "treasury_bump (settings c) = treasury_bump (settings c')"
    "oracle_key (settings c) = oracle_key (settings c')"
    "vault_supply (settings c) = vault_supply (settings c')"
    "float_lamports (settings c) = float_lamports (settings c')"
    using assms by simp_all
  then show "vault_key rt c = vault_key rt c'" "treasury_key rt c = treasury_key rt c'"
    "config_key rt c = config_key rt c'" "oracle_key c = oracle_key c'"
    "vault_supply c = vault_supply c'" "float_lamports c = float_lamports c'"
    by (simp_all add: settings_def vault_key_def treasury_key_def config_key_def)
qed

lemma credit_guards_effect:
  assumes "credit_guards cfg data height block_hash first count = Inr (answer, end)"
  shows "unat height = unat (credited_height cfg) + 1"
    and "DepositAnswer_decode data = Some answer"
    and "da_height answer = height" "da_block_hash answer = block_hash" "da_first answer = first"
    and "length (da_deposits answer) = unat count"
    and "unat first = unat (credit_index cfg)"
    and "credited_block cfg = 0 \<or> da_prev_block_hash answer = credited_block cfg"
    and "credit_index cfg = 0 \<or> block_hash = credit_part_block cfg"
    and "unat end = unat first + unat count"
    and "0 < count \<or> da_total answer = 0"
proof -
  note inv = assms [unfolded credit_guards_def]
  show "unat height = unat (credited_height cfg) + 1"
    using inv by (auto simp: result_iff arith_iff)
  show "DepositAnswer_decode data = Some answer" "da_height answer = height"
      "da_block_hash answer = block_hash" "da_first answer = first"
      "length (da_deposits answer) = unat count"
      "credited_block cfg = 0 \<or> da_prev_block_hash answer = credited_block cfg"
      "credit_index cfg = 0 \<or> block_hash = credit_part_block cfg"
      "0 < count \<or> da_total answer = 0"
    using inv by (auto simp: result_iff)
  show "unat first = unat (credit_index cfg)" using inv by (auto simp: result_iff simp flip: unat_widen)
  show "unat end = unat first + unat count"
    using inv by (auto simp: result_iff arith_iff)
qed

lemma credit_commit_effect:
  assumes "credit_commit cfg height block_hash all end s = Inr cfg'"
  shows "settings cfg' = settings cfg"
    and "unat (pegged_lamports cfg') = unat (pegged_lamports cfg) + unat (cl_credited s)"
    and "unat (stranded_lamports cfg') = unat (stranded_lamports cfg) + unat (cl_stranded s)"
    and "deposit_high_water cfg' = cl_high_water s"
    and "withdrawal_count cfg' = withdrawal_count cfg" "paid_through cfg' = paid_through cfg"
    and "bundled_through cfg' = bundled_through cfg" "bmm_next_height cfg' = bmm_next_height cfg"
    and "bmm_paid_total cfg' = bmm_paid_total cfg" "bundle_m6id cfg' = bundle_m6id cfg"
      "bundle_sealed_height cfg' = bundle_sealed_height cfg"
    and "ucast all \<le> end \<Longrightarrow> credited_height cfg' = height \<and> credited_block cfg' = block_hash \<and>
           credit_index cfg' = 0 \<and> credit_part_block cfg' = 0"
    and "\<not> ucast all \<le> end \<Longrightarrow> credited_height cfg' = credited_height cfg \<and>
           credited_block cfg' = credited_block cfg \<and> credit_index cfg' = end \<and>
           credit_part_block cfg' = block_hash"
  using assms
  by (auto simp: credit_commit_def result_iff arith_iff Let_def settings_def)

lemma credit_deposits_inv:
  assumes "credit_deposits rt data remaining height block_hash first count b = Inr b'"
  obtains vault answer "end" s cfg' where
    "vault_key rt (config b) = Some vault" "acc_owner (ledger b vault) = SYSTEM_PROGRAM_ID"
    "credit_guards (config b) data height block_hash first count = Inr (answer, end)"
    "credit_loop rt vault (da_deposits answer)
       \<lparr>cl_ledger = ledger b, cl_targets = remaining,
        cl_high_water = deposit_high_water (config b), cl_credited = 0, cl_stranded = 0\<rparr> = Inr s"
    "credit_commit (config b) height block_hash (da_total answer) end s = Inr cfg'"
    "b' = b\<lparr>config := cfg', ledger := cl_ledger s\<rparr>"
  using assms unfolding credit_deposits_def Let_def
  by (auto simp: result_iff split: prod.splits)

section \<open>settle_bmm\<close>

text \<open>A payment: the whole treasury above the reserve goes to the payee.\<close>

definition paid_out :: "runtime \<Rightarrow> pubkey \<Rightarrow> pubkey \<Rightarrow> pubkey \<Rightarrow> meta \<Rightarrow> u64 \<Rightarrow> bank \<Rightarrow> bank \<Rightarrow> bool" where
  "paid_out rt config_k vault treasury payee payout b b' \<longleftrightarrow>
     payout = saturating_sub (acc_lamports (ledger b treasury)) (rt_minimum_balance rt 0) \<and> 0 < payout \<and>
     meta_key payee \<notin> {treasury, config_k, vault} \<and> meta_key payee \<notin> set RESERVED_KEYS \<and>
     moved treasury (meta_key payee) payout (ledger b) (ledger b') \<and> records b' = records b \<and>
     (\<exists>tot. unat tot = unat (bmm_paid_total (config b)) + unat payout \<and>
        config b' = (config b)\<lparr>bmm_paid_total := tot\<rparr>)"

lemma can_hold_True:
  "can_hold rt L payee excluded n = Inr True \<Longrightarrow>
     meta_key payee \<notin> set excluded \<and> meta_key payee \<notin> set RESERVED_KEYS"
  by (auto simp: can_hold_def Let_def split: if_splits)

lemma pay_treasury_effect:
  assumes "transfer_ok rt" "pay_treasury rt treasury config_k payee b = Inr b'"
  obtains "b' = b"
  | vault payout where "vault_key rt (config b) = Some vault"
      "paid_out rt config_k vault treasury payee payout b b'"
proof -
  let ?n = "saturating_sub (acc_lamports (ledger b treasury)) (rt_minimum_balance rt 0)"
  obtain vault holds where v: "vault_key rt (config b) = Some vault"
    and h: "(if 0 < ?n then can_hold rt (ledger b) payee [treasury, config_k, vault] ?n else Inr False)
        = Inr holds"
    and r: "(if holds then
        ok_or (rt_transfer rt treasury (meta_key payee) ?n (ledger b)) TransferFailed (\<lambda>L.
        ok_or (checked_add (bmm_paid_total (config b)) ?n) (Bridge AmountOverflow) (\<lambda>paid_total.
        Inr (b\<lparr>ledger := L, config := (config b)\<lparr>bmm_paid_total := paid_total\<rparr>\<rparr>)))
      else Inr b) = Inr b'"
    using assms(2) unfolding pay_treasury_def Let_def by (auto simp: result_iff)
  show thesis
  proof (cases holds)
    case True
    then have pos: "0 < ?n" and
      ch: "can_hold rt (ledger b) payee [treasury, config_k, vault] ?n = Inr True"
      using h by (auto split: if_splits)
    have "paid_out rt config_k vault treasury payee ?n b b'"
      using r True pos can_hold_True [OF ch]
      by (auto simp: paid_out_def result_iff arith_iff dest: transfer_moved [OF assms(1)])
    then show thesis using that(2) v by blast
  qed (use r that(1) in simp)
qed

lemma settle_bmm_inv:
  assumes "settle_bmm rt slot data payee height block_hash solana_block b = Inr b'"
  obtains config_k treasury answer pays b1 where
    "config_key rt (config b) = Some config_k" "treasury_key rt (config b) = Some treasury"
    "height = bmm_next_height (config b)"
    "BmmAnswer_decode data = Some answer"
    "ans_height answer = height" "ans_block_hash answer = block_hash" "ans_solana_block answer = solana_block"
    "settle_pays rt (config b) slot height solana_block (meta_key payee) answer = Inr pays"
    "(if pays then pay_treasury rt treasury config_k payee b else Inr b) = Inr b1"
    "unat height + 1 < 2 ^ 64"
    "b' = b1\<lparr>config := (config b1)\<lparr>bmm_next_height := height + 1, bmm_next_since_slot := slot\<rparr>\<rparr>"
proof -
  have c: "checked_add height 1 = Some n \<longleftrightarrow> unat height + 1 < 2 ^ 64 \<and> n = height + 1" for n
    by (auto simp: checked_add_def)
  show thesis
    using assms that unfolding settle_bmm_def Let_def by (auto simp: result_iff c)
qed

lemma settle_bmm_effect:
  assumes "transfer_ok rt" "settle_bmm rt slot data payee height block_hash solana_block b = Inr b'"
  obtains tot where
    "height = bmm_next_height (config b)" "unat (height + 1) = unat height + 1"
    "records b' = records b"
    "config b' = (config b)\<lparr>bmm_paid_total := tot, bmm_next_height := height + 1, bmm_next_since_slot := slot\<rparr>"
    "tot = bmm_paid_total (config b)" "ledger b' = ledger b"
  | tot config_k vault treasury payout where
    "height = bmm_next_height (config b)" "unat (height + 1) = unat height + 1"
    "records b' = records b"
    "config b' = (config b)\<lparr>bmm_paid_total := tot, bmm_next_height := height + 1, bmm_next_since_slot := slot\<rparr>"
    "config_key rt (config b) = Some config_k" "vault_key rt (config b) = Some vault"
    "treasury_key rt (config b) = Some treasury"
    "unat tot = unat (bmm_paid_total (config b)) + unat payout"
    "payout = saturating_sub (acc_lamports (ledger b treasury)) (rt_minimum_balance rt 0)" "0 < payout"
    "meta_key payee \<notin> {treasury, config_k, vault}"
    "moved treasury (meta_key payee) payout (ledger b) (ledger b')"
  using assms(2)
proof (rule settle_bmm_inv)
  note outcomes = that
  fix config_k treasury answer pays b1
  assume a: "config_key rt (config b) = Some config_k" "treasury_key rt (config b) = Some treasury"
    "height = bmm_next_height (config b)"
    "(if pays then pay_treasury rt treasury config_k payee b else Inr b) = Inr b1"
    "unat height + 1 < 2 ^ 64"
    "b' = b1\<lparr>config := (config b1)\<lparr>bmm_next_height := height + 1, bmm_next_since_slot := slot\<rparr>\<rparr>"
  have suc: "unat (height + 1) = unat height + 1"
    using a(5) by (simp add: unat_add_lem [THEN iffD1])
  have same: thesis if "b1 = b"
    by (rule outcomes(1) [of "bmm_paid_total (config b)"]) (use a suc that in simp_all)
  show thesis
  proof (cases pays)
    case True
    then have "pay_treasury rt treasury config_k payee b = Inr b1" using a(4) by simp
    then show thesis
    proof (rule pay_treasury_effect [OF assms(1)])
      fix vault payout
      assume v: "vault_key rt (config b) = Some vault"
        and p: "paid_out rt config_k vault treasury payee payout b b1"
      then obtain tot where "unat tot = unat (bmm_paid_total (config b)) + unat payout"
        "config b1 = (config b)\<lparr>bmm_paid_total := tot\<rparr>" by (auto simp: paid_out_def)
      then show thesis
        using p v a suc by (intro outcomes(2) [of tot config_k vault treasury payout]) (auto simp: paid_out_def)
    qed (rule same)
  qed (use a(4) same in simp)
qed

section \<open>withdraw, seal_bundle, bundle_paid and close_record\<close>

lemma withdraw_inv:
  assumes "withdraw rt user lamports fee_sats script b = Inr b'"
  obtains vault L payout L' where
    "vault_key rt (config b) = Some vault" "meta_signer user" "meta_writable user"
    "rt_init_account rt (meta_key user) (fst (record_key rt (withdrawal_count (config b))))
       WITHDRAWAL_RECORD_SPACE (ledger b) = Some L"
    "rt_transfer rt (meta_key user) vault lamports L = Some L'"
    "lamports mod LAMPORTS_PER_SAT = 0" "is_standard_script script"
    "unat (lamports div LAMPORTS_PER_SAT) = unat payout + unat fee_sats"
    "MIN_PAYOUT_SATS \<le> payout" "MIN_FEE_SATS \<le> fee_sats"
    "unat (vault_supply (config b)) + unat (float_lamports (config b)) \<le>
       balance L vault + unat (pegged_lamports (config b))"
    "unat (pegged_lamports (config b)) = unat (pegged_lamports (config b) - lamports) + unat lamports"
    "unat (withdrawal_count (config b) + 1) = unat (withdrawal_count (config b)) + 1"
    "b' = b\<lparr>config := (config b)\<lparr>pegged_lamports := pegged_lamports (config b) - lamports,
                               withdrawal_count := withdrawal_count (config b) + 1\<rparr>,
            records := (records b)(withdrawal_count (config b) \<mapsto>
               \<lparr>wr_index = withdrawal_count (config b), wr_owner = meta_key user,
                wr_burned_lamports = lamports, wr_payout_sats = payout, wr_fee_sats = fee_sats,
                wr_script_pubkey = script,
                wr_bump = snd (record_key rt (withdrawal_count (config b)))\<rparr>),
            ledger := L'\<rparr>"
proof -
  let ?c = "config b"
  obtain record_k record_bump where rk: "record_key rt (withdrawal_count ?c) = (record_k, record_bump)"
    by (cases "record_key rt (withdrawal_count ?c)")
  obtain vault L payout backed needed L' where w:
    "vault_key rt ?c = Some vault" "meta_signer user" "meta_writable user"
    "rt_init_account rt (meta_key user) record_k WITHDRAWAL_RECORD_SPACE (ledger b) = Some L"
    "lamports mod LAMPORTS_PER_SAT = 0" "is_standard_script script"
    "checked_sub (lamports div LAMPORTS_PER_SAT) fee_sats = Some payout"
    "MIN_PAYOUT_SATS \<le> payout" "MIN_FEE_SATS \<le> fee_sats"
    "checked_add (acc_lamports (L vault)) (pegged_lamports ?c) = Some backed"
    "checked_add (vault_supply ?c) (float_lamports ?c) = Some needed" "needed \<le> backed"
    "unat (pegged_lamports ?c) = unat (pegged_lamports ?c - lamports) + unat lamports"
    "unat (withdrawal_count ?c + 1) = unat (withdrawal_count ?c) + 1"
    "rt_transfer rt (meta_key user) vault lamports L = Some L'"
    "b' = b\<lparr>config := ?c\<lparr>pegged_lamports := pegged_lamports ?c - lamports,
                               withdrawal_count := withdrawal_count ?c + 1\<rparr>,
            records := (records b)(withdrawal_count ?c \<mapsto>
               \<lparr>wr_index = withdrawal_count ?c, wr_owner = meta_key user,
                wr_burned_lamports = lamports, wr_payout_sats = payout, wr_fee_sats = fee_sats,
                wr_script_pubkey = script, wr_bump = record_bump\<rparr>),
            ledger := L'\<rparr>"
    using assms unfolding withdraw_def Let_def rk prod.case
    by (simp only: result_iff checked_sub_value [of "pegged_lamports ?c" lamports]
        checked_add_value [of "withdrawal_count ?c" 1] unsigned_1 sum.inject)
      (elim exE conjE, rule that, (assumption | simp only:)+)
  have backing: "unat (vault_supply ?c) + unat (float_lamports ?c) \<le>
      balance L vault + unat (pegged_lamports ?c)"
    using w(10-12) by (simp add: arith_iff balance_def word_le_nat_alt)
  show thesis
    by (rule that [of vault L L' payout]) (use w backing rk in \<open>simp_all add: arith_iff\<close>)
qed

lemma seal_bundle_inv:
  assumes "seal_bundle rt orc through m6id b = Inr b'"
  shows "meta_signer orc" "meta_key orc = oracle_key (config b)"
    "bundled_through (config b) = paid_through (config b)"
    "unat (paid_through (config b)) < unat through"
    "unat through \<le> unat (paid_through (config b)) + 1500"
    "unat through \<le> unat (withdrawal_count (config b))"
    "b' = b\<lparr>config := (config b)\<lparr>bundled_through := through, bundle_m6id := m6id,
                             bundle_sealed_height := credited_height (config b)\<rparr>\<rparr>"
  using assms unfolding seal_bundle_def Let_def MAX_BUNDLE_RECORDS_def
  by (auto simp: result_iff arith_iff word_less_nat_alt word_le_nat_alt min_def split: if_splits)

lemma bundle_paid_inv:
  assumes "bundle_paid rt orc data through height block_hash m6id b = Inr b'"
  obtains paid where
    "meta_signer orc" "meta_key orc = oracle_key (config b)"
    "paid_through (config b) < bundled_through (config b)" "through = bundled_through (config b)"
    "BmmPaid_decode data = Some paid" "bp_height paid = height" "bp_block_hash paid = block_hash"
    "bp_m6id paid = m6id" "m6id = bundle_m6id (config b)" "bp_paid paid"
    "b' = b\<lparr>config := (config b)\<lparr>paid_through := through\<rparr>\<rparr>"
  using assms that unfolding bundle_paid_def Let_def by (auto simp: result_iff)

lemma close_record_inv:
  assumes "close_record rt owner index b = Inr b'"
  obtains r L where
    "records b index = Some r" "meta_key owner = wr_owner r" "index < paid_through (config b)"
    "rt_close_account rt (fst (record_key rt index)) (meta_key owner) (ledger b) = Some L"
    "b' = b\<lparr>records := (records b)(index := None), ledger := L\<rparr>"
  using assms that unfolding close_record_def Let_def by (auto simp: result_iff)

end
