(* ===== verification/Bridge_Invariants.thy ===== *)
theory Bridge_Invariants
  imports Bridge_Facts
begin

text \<open>
  What every instruction of the bridge keeps and what it never lowers. The events of a chain are the
  transactions of the bridge and the rest of the chain, which can give lamports to an account of the
  program and never takes any. The locales of state machines are interpreted on these events.
\<close>

section \<open>The invariant\<close>

definition record_ok :: "runtime \<Rightarrow> u64 \<Rightarrow> WithdrawalRecord \<Rightarrow> bool" where
  "record_ok rt i r \<longleftrightarrow>
     wr_index r = i \<and> wr_bump r = snd (record_key rt i) \<and> rt_has_key rt (wr_owner r) \<and>
     unat (wr_burned_lamports r) = 10 * (unat (wr_payout_sats r) + unat (wr_fee_sats r)) \<and>
     MIN_PAYOUT_SATS \<le> wr_payout_sats r \<and> MIN_FEE_SATS \<le> wr_fee_sats r \<and>
     is_standard_script (wr_script_pubkey r)"

definition cursors_ok :: "Config \<Rightarrow> bool" where
  "cursors_ok c \<longleftrightarrow>
     paid_through c \<le> bundled_through c \<and> bundled_through c \<le> withdrawal_count c \<and>
     unat (bundled_through c) \<le> unat (paid_through c) + unat MAX_BUNDLE_RECORDS"

definition bank_inv :: "runtime \<Rightarrow> bank \<Rightarrow> bool" where
  "bank_inv rt b \<longleftrightarrow>
     cursors_ok (config b) \<and>
     (\<forall>i. paid_through (config b) \<le> i \<longrightarrow> i < withdrawal_count (config b) \<longrightarrow> records b i \<noteq> None) \<and>
     (\<forall>i r. records b i = Some r \<longrightarrow> i < withdrawal_count (config b) \<and> record_ok rt i r) \<and>
     (credit_index (config b) = 0 \<longrightarrow> credit_part_block (config b) = 0)"

text \<open>What backs the lamports outside the vault: the vault itself and the deposits that left it.\<close>

definition vault_backing :: "runtime \<Rightarrow> bank \<Rightarrow> nat" where
  "vault_backing rt b =
     (case vault_key rt (config b) of None \<Rightarrow> 0 | Some v \<Rightarrow> balance (ledger b) v)
     + unat (pegged_lamports (config b))"

section \<open>Events\<close>

definition program_address :: "runtime \<Rightarrow> Config \<Rightarrow> pubkey \<Rightarrow> bool" where
  "program_address rt c k \<longleftrightarrow>
     config_key rt c = Some k \<or> vault_key rt c = Some k \<or> treasury_key rt c = Some k
     \<or> (\<exists>i. k = fst (record_key rt i))"

definition outside_ok :: "runtime \<Rightarrow> bank \<Rightarrow> ledger \<Rightarrow> bool" where
  "outside_ok rt b L \<longleftrightarrow>
     (\<forall>k. program_address rt (config b) k \<longrightarrow>
        balance (ledger b) k \<le> balance L k \<and> acc_owner (L k) = acc_owner (ledger b k))"

datatype event = Tx instruction | Outside ledger

fun apply_event :: "runtime \<Rightarrow> event \<Rightarrow> bank \<Rightarrow> tx_error + bank" where
  "apply_event rt (Tx i) b = exec rt i b"
| "apply_event rt (Outside L) b =
     (if outside_ok rt b L then Inr (b\<lparr>ledger := L\<rparr>) else Inl TransferFailed)"

inductive chain_step :: "runtime \<Rightarrow> bank \<Rightarrow> bank \<Rightarrow> bool" for rt where
  transaction: "exec rt i b = Inr b' \<Longrightarrow> chain_step rt b b'"
| outside: "outside_ok rt b L \<Longrightarrow> chain_step rt b (b\<lparr>ledger := L\<rparr>)"

inductive_cases chain_stepE: "chain_step rt b b'"

definition reachable :: "runtime \<Rightarrow> bank \<Rightarrow> bank \<Rightarrow> bool" where
  "reachable rt = (chain_step rt)\<^sup>*\<^sup>*"

lemma apply_event_step: "apply_event rt e b = Inr b' \<Longrightarrow> chain_step rt b b'"
  by (cases e) (auto split: if_splits intro: chain_step.intros)

lemma chain_step_event: "chain_step rt b b' \<Longrightarrow> \<exists>e. apply_event rt e b = Inr b'"
proof (erule chain_stepE)
  fix i assume "exec rt i b = Inr b'"
  then have "apply_event rt (Tx i) b = Inr b'" by simp
  then show ?thesis by blast
next
  fix L assume "b' = b\<lparr>ledger := L\<rparr>" "outside_ok rt b L"
  then have "apply_event rt (Outside L) b = Inr b'" by simp
  then show ?thesis by blast
qed

lemma reachable_run: "reachable rt b (run (apply_event rt) es b)"
proof (induction es arbitrary: b)
  case (Cons e es)
  then show ?case
    by (cases "apply_event rt e b")
      (auto simp: reachable_def dest: apply_event_step intro: converse_rtranclp_into_rtranclp)
qed (simp add: reachable_def)

lemma run_reachable: "reachable rt b b' \<Longrightarrow> \<exists>es. b' = run (apply_event rt) es b"
  unfolding reachable_def
proof (induction rule: converse_rtranclp_induct)
  case base
  have "b' = run (apply_event rt) [] b'" by simp
  then show ?case by blast
next
  case (step b b1)
  then obtain e es where "apply_event rt e b = Inr b1" "b' = run (apply_event rt) es b1"
    by (blast dest: chain_step_event)
  then have "b' = run (apply_event rt) (e # es) b" by simp
  then show ?case by blast
qed

section \<open>Effects of an instruction\<close>

lemma exec_dispatch: "exec rt i b = Inr b' \<longleftrightarrow> signatures_ok rt i \<and> dispatch rt i b = Inr b'"
  by (simp add: exec_def result_iff)

lemma runtime_okD:
  assumes "runtime_ok rt"
  shows "transfer_ok rt" "init_ok rt" "close_ok rt" "addresses_ok rt" "rent_ok rt"
  using assms by (simp_all add: runtime_ok_def)

lemma dispatch_settings:
  assumes "runtime_ok rt" "dispatch rt i b = Inr b'"
  shows "settings (config b') = settings (config b)"
proof (cases i)
  case SettleBmm
  with assms show ?thesis
    by (auto elim!: settle_bmm_effect [OF runtime_okD(1) [OF assms(1)]] simp: settings_def)
next
  case CreditDeposits
  with assms show ?thesis
    by (auto elim!: credit_deposits_inv simp: credit_commit_effect(1))
next
  case Withdraw
  with assms show ?thesis by (auto elim!: withdraw_inv simp: settings_def)
next
  case SealBundle
  with assms show ?thesis by (auto dest!: seal_bundle_inv(7) simp: settings_def)
next
  case BundlePaid
  with assms show ?thesis by (auto elim!: bundle_paid_inv simp: settings_def)
next
  case CloseRecord
  with assms show ?thesis by (auto elim!: close_record_inv)
qed

text \<open>The cursors of the config after each instruction.\<close>

lemma dispatch_cursors:
  assumes "runtime_ok rt" "dispatch rt i b = Inr b'"
  shows "unat (deposit_high_water (config b)) \<le> unat (deposit_high_water (config b'))"
    and "unat (bmm_next_height (config b)) \<le> unat (bmm_next_height (config b'))"
    and "unat (withdrawal_count (config b)) \<le> unat (withdrawal_count (config b'))"
    and "unat (paid_through (config b)) \<le> unat (paid_through (config b'))"
    and "cursors_ok (config b) \<Longrightarrow> cursors_ok (config b')"
    and "cursors_ok (config b) \<Longrightarrow> unat (bundled_through (config b)) \<le> unat (bundled_through (config b'))"
    and "unat (credited_height (config b)) \<le> unat (credited_height (config b'))"
    and "unat (bmm_paid_total (config b)) \<le> unat (bmm_paid_total (config b'))"
proof -
  let ?c = "config b" and ?c' = "config b'"
  have "unat (deposit_high_water ?c) \<le> unat (deposit_high_water ?c') \<and>
    unat (bmm_next_height ?c) \<le> unat (bmm_next_height ?c') \<and>
    unat (withdrawal_count ?c) \<le> unat (withdrawal_count ?c') \<and>
    unat (paid_through ?c) \<le> unat (paid_through ?c') \<and>
    (cursors_ok ?c \<longrightarrow> cursors_ok ?c' \<and> unat (bundled_through ?c) \<le> unat (bundled_through ?c')) \<and>
    unat (credited_height ?c) \<le> unat (credited_height ?c') \<and>
    unat (bmm_paid_total ?c) \<le> unat (bmm_paid_total ?c')" (is ?all)
  proof (cases i)
    case SettleBmm
    with assms show ?thesis
      by (auto elim!: settle_bmm_effect [OF runtime_okD(1) [OF assms(1)]] simp: cursors_ok_def)
  next
    case (CreditDeposits data remaining height block_hash first count)
    with assms(2) have "credit_deposits rt data remaining height block_hash first count b = Inr b'"
      by simp
    then show ?thesis
    proof (rule credit_deposits_inv)
      fix vault answer "end" s cfg'
      assume g: "credit_guards ?c data height block_hash first count = Inr (answer, end)"
        and l: "credit_loop rt vault (da_deposits answer)
          \<lparr>cl_ledger = ledger b, cl_targets = remaining,
           cl_high_water = deposit_high_water ?c, cl_credited = 0, cl_stranded = 0\<rparr> = Inr s"
        and c: "credit_commit ?c height block_hash (da_total answer) end s = Inr cfg'"
        and b': "b' = b\<lparr>config := cfg', ledger := cl_ledger s\<rparr>"
      have hw: "unat (deposit_high_water ?c) \<le> unat (cl_high_water s)"
        using credit_loop_effect [OF runtime_okD(1) [OF assms(1)] l] by (simp add: word_le_nat_alt)
      have "unat (credited_height ?c) \<le> unat (credited_height cfg')"
        using credit_commit_effect(12,13) [OF c] credit_guards_effect(1) [OF g]
        by (cases "ucast (da_total answer) \<le> end") simp_all
      then show ?all
        using hw credit_commit_effect(1-10) [OF c] by (simp add: b' cursors_ok_def)
    qed
  next
    case Withdraw
    with assms show ?thesis by (auto elim!: withdraw_inv simp: cursors_ok_def word_le_nat_alt)
  next
    case (SealBundle orc through m6id)
    with assms have "seal_bundle rt orc through m6id b = Inr b'" by simp
    note s = seal_bundle_inv [OF this]
    show ?thesis using s(3-6) unfolding s(7)
      by (simp add: cursors_ok_def word_le_nat_alt MAX_BUNDLE_RECORDS_def)
  next
    case BundlePaid
    with assms show ?thesis
      by (auto elim!: bundle_paid_inv simp: cursors_ok_def word_le_nat_alt word_less_nat_alt)
  next
    case CloseRecord
    with assms show ?thesis by (auto elim!: close_record_inv)
  qed
  then show "unat (deposit_high_water ?c) \<le> unat (deposit_high_water ?c')"
    "unat (bmm_next_height ?c) \<le> unat (bmm_next_height ?c')"
    "unat (withdrawal_count ?c) \<le> unat (withdrawal_count ?c')"
    "unat (paid_through ?c) \<le> unat (paid_through ?c')"
    "cursors_ok ?c \<Longrightarrow> cursors_ok ?c'"
    "cursors_ok ?c \<Longrightarrow> unat (bundled_through ?c) \<le> unat (bundled_through ?c')"
    "unat (credited_height ?c) \<le> unat (credited_height ?c')"
    "unat (bmm_paid_total ?c) \<le> unat (bmm_paid_total ?c')"
    by blast+
qed

text \<open>The cursors that only one kind of instruction moves.\<close>

lemma dispatch_frame:
  assumes "runtime_ok rt" "dispatch rt i b = Inr b'"
  shows "case i of SettleBmm _ _ _ _ _ _ \<Rightarrow> True
      | _ \<Rightarrow> bmm_next_height (config b') = bmm_next_height (config b) \<and>
            bmm_paid_total (config b') = bmm_paid_total (config b)"
    and "case i of SealBundle _ _ _ \<Rightarrow> True
      | _ \<Rightarrow> bundled_through (config b') = bundled_through (config b) \<and>
            bundle_m6id (config b') = bundle_m6id (config b) \<and>
            bundle_sealed_height (config b') = bundle_sealed_height (config b)"
    and "case i of BundlePaid _ _ _ _ _ _ \<Rightarrow> True
      | _ \<Rightarrow> paid_through (config b') = paid_through (config b)"
  using assms(2)
  by (cases i; auto elim!: settle_bmm_effect [OF runtime_okD(1) [OF assms(1)]] credit_deposits_inv
        withdraw_inv bundle_paid_inv close_record_inv dest!: seal_bundle_inv(7)
      simp: credit_commit_effect(5-11))+

section \<open>Records\<close>

lemma signed_has_key:
  "signatures_ok rt (Withdraw user lamports fee_sats script) \<Longrightarrow> meta_signer user \<Longrightarrow>
     rt_has_key rt (meta_key user)"
  by (simp add: signatures_ok_def)

lemma withdraw_record_ok:
  assumes "withdraw rt user lamports fee_sats script b = Inr b'" "rt_has_key rt (meta_key user)"
  shows "\<exists>r. records b' = (records b)(withdrawal_count (config b) \<mapsto> r) \<and>
     record_ok rt (withdrawal_count (config b)) r"
  using assms(1)
proof (rule withdraw_inv)
  fix payout L'
  assume w: "lamports mod LAMPORTS_PER_SAT = 0" "is_standard_script script"
    "unat (lamports div LAMPORTS_PER_SAT) = unat payout + unat fee_sats"
    "MIN_PAYOUT_SATS \<le> payout" "MIN_FEE_SATS \<le> fee_sats"
    and b': "b' = b\<lparr>config := (config b)\<lparr>pegged_lamports := pegged_lamports (config b) - lamports,
                               withdrawal_count := withdrawal_count (config b) + 1\<rparr>,
            records := (records b)(withdrawal_count (config b) \<mapsto>
               \<lparr>wr_index = withdrawal_count (config b), wr_owner = meta_key user,
                wr_burned_lamports = lamports, wr_payout_sats = payout, wr_fee_sats = fee_sats,
                wr_script_pubkey = script,
                wr_bump = snd (record_key rt (withdrawal_count (config b)))\<rparr>),
            ledger := L'\<rparr>"
  have "unat lamports mod 10 = 0"
    using arg_cong [OF w(1), of unat] by (simp add: LAMPORTS_PER_SAT_def unat_mod)
  moreover have "unat lamports div 10 = unat payout + unat fee_sats"
    using w(3) by (simp add: LAMPORTS_PER_SAT_def unat_div)
  ultimately have "unat lamports = 10 * (unat payout + unat fee_sats)" by presburger
  then show ?thesis using w assms(2)
    by (intro exI [of _ "the (records b' (withdrawal_count (config b)))"]) (simp add: b' record_ok_def)
qed

text \<open>
  An instruction adds the record of the next index, closes a record that is paid, or leaves the
  records alone.
\<close>

lemma exec_records:
  assumes "runtime_ok rt" "exec rt i b = Inr b'"
  obtains "records b' = records b" "withdrawal_count (config b') = withdrawal_count (config b)"
  | r where "records b' = (records b)(withdrawal_count (config b) \<mapsto> r)"
      "record_ok rt (withdrawal_count (config b)) r"
      "unat (withdrawal_count (config b')) = unat (withdrawal_count (config b)) + 1"
      "paid_through (config b') = paid_through (config b)"
  | j where "records b' = (records b)(j := None)" "j < paid_through (config b)"
      "config b' = config b"
proof (cases i)
  case SettleBmm
  with assms show thesis
    by (auto simp: exec_dispatch elim!: settle_bmm_effect [OF runtime_okD(1) [OF assms(1)]] intro!: that(1))
next
  case CreditDeposits
  with assms show thesis
    by (auto simp: exec_dispatch credit_commit_effect(5) elim!: credit_deposits_inv intro!: that(1))
next
  case (Withdraw user lamports fee_sats script)
  with assms(2) have w: "withdraw rt user lamports fee_sats script b = Inr b'"
    and sg: "signatures_ok rt (Withdraw user lamports fee_sats script)" by (simp_all add: exec_dispatch)
  have "meta_signer user" by (rule withdraw_inv [OF w])
  then obtain r where "records b' = (records b)(withdrawal_count (config b) \<mapsto> r)"
      "record_ok rt (withdrawal_count (config b)) r"
    using withdraw_record_ok [OF w signed_has_key [OF sg]] by blast
  moreover have "unat (withdrawal_count (config b')) = unat (withdrawal_count (config b)) + 1"
    and "paid_through (config b') = paid_through (config b)"
    using w by (auto elim!: withdraw_inv)
  ultimately show thesis by (rule that(2))
next
  case SealBundle
  with assms show thesis by (auto simp: exec_dispatch dest!: seal_bundle_inv(7) intro!: that(1))
next
  case BundlePaid
  with assms show thesis by (auto simp: exec_dispatch elim!: bundle_paid_inv intro!: that(1))
next
  case CloseRecord
  with assms show thesis by (auto simp: exec_dispatch elim!: close_record_inv intro!: that(3))
qed

lemma exec_part_block:
  assumes "runtime_ok rt" "exec rt i b = Inr b'"
    "credit_index (config b) = 0 \<longrightarrow> credit_part_block (config b) = 0"
  shows "credit_index (config b') = 0 \<longrightarrow> credit_part_block (config b') = 0"
proof (cases i)
  case SettleBmm
  with assms show ?thesis
    by (auto simp: exec_dispatch elim!: settle_bmm_effect [OF runtime_okD(1) [OF assms(1)]])
next
  case (CreditDeposits data remaining height block_hash first count)
  with assms(2) have "credit_deposits rt data remaining height block_hash first count b = Inr b'"
    by (simp add: exec_dispatch)
  then show ?thesis
  proof (rule credit_deposits_inv)
    fix vault answer "end" s cfg'
    assume g: "credit_guards (config b) data height block_hash first count = Inr (answer, end)"
      and c: "credit_commit (config b) height block_hash (da_total answer) end s = Inr cfg'"
      and b': "b' = b\<lparr>config := cfg', ledger := cl_ledger s\<rparr>"
    show ?thesis
    proof (cases "ucast (da_total answer) \<le> end")
      case True
      then show ?thesis using credit_commit_effect(12)  [OF c] by (simp add: b')
    next
      case False
      then have "count \<noteq> 0" using credit_guards_effect(11) [OF g] by auto
      then have "unat end \<noteq> 0" using credit_guards_effect(10) [OF g] by (simp add: unat_eq_zero)
      then show ?thesis using credit_commit_effect(13) [OF c False] by (auto simp: b' unat_eq_zero)
    qed
  qed
next
  case Withdraw
  with assms show ?thesis by (auto simp: exec_dispatch elim!: withdraw_inv)
next
  case SealBundle
  with assms show ?thesis by (auto simp: exec_dispatch dest!: seal_bundle_inv(7))
next
  case BundlePaid
  with assms show ?thesis by (auto simp: exec_dispatch elim!: bundle_paid_inv)
next
  case CloseRecord
  with assms show ?thesis by (auto simp: exec_dispatch elim!: close_record_inv)
qed

lemma exec_bank_inv:
  assumes "runtime_ok rt" "exec rt i b = Inr b'" "bank_inv rt b"
  shows "bank_inv rt b'"
proof -
  have d: "dispatch rt i b = Inr b'" using assms(2) by (simp add: exec_dispatch)
  note mono = dispatch_cursors [OF assms(1) d]
  have cur: "cursors_ok (config b')" using mono(5) assms(3) by (simp add: bank_inv_def)
  have part: "credit_index (config b') = 0 \<longrightarrow> credit_part_block (config b') = 0"
    using exec_part_block [OF assms(1,2)] assms(3) by (simp add: bank_inv_def)
  have paid: "paid_through (config b) \<le> paid_through (config b')"
    using mono(4) by (simp add: word_le_nat_alt)
  have open_recs: "\<forall>j. paid_through (config b) \<le> j \<longrightarrow> j < withdrawal_count (config b) \<longrightarrow> records b j \<noteq> None"
    and recs: "\<forall>j r. records b j = Some r \<longrightarrow> j < withdrawal_count (config b) \<and> record_ok rt j r"
    using assms(3) by (simp_all add: bank_inv_def)
  from assms(1,2) show ?thesis
  proof (rule exec_records)
    assume "records b' = records b" "withdrawal_count (config b') = withdrawal_count (config b)"
    then show ?thesis using cur part paid open_recs recs by (auto simp: bank_inv_def intro: order_trans)
  next
    fix r assume r: "records b' = (records b)(withdrawal_count (config b) \<mapsto> r)"
      "record_ok rt (withdrawal_count (config b)) r"
      "unat (withdrawal_count (config b')) = unat (withdrawal_count (config b)) + 1"
      "paid_through (config b') = paid_through (config b)"
    have below: "j < withdrawal_count (config b') \<longleftrightarrow> j \<le> withdrawal_count (config b)" for j
      using r(3) by (auto simp: word_less_nat_alt word_le_nat_alt)
    show ?thesis
      using cur part open_recs recs r(1,2,4) by (auto simp: bank_inv_def below order_le_less)
  next
    fix j assume "records b' = (records b)(j := None)" "j < paid_through (config b)" "config b' = config b"
    then show ?thesis using cur part open_recs recs by (auto simp: bank_inv_def)
  qed
qed

section \<open>Lamports\<close>

lemma exec_total:
  assumes "runtime_ok rt" "exec rt i b = Inr b'"
  shows "total_lamports (ledger b') = total_lamports (ledger b)"
proof (cases i)
  case SettleBmm
  with assms show ?thesis
    by (auto simp: exec_dispatch total_moved elim!: settle_bmm_effect [OF runtime_okD(1) [OF assms(1)]])
next
  case CreditDeposits
  with assms show ?thesis
    by (auto simp: exec_dispatch elim!: credit_deposits_inv
        dest: credit_loop_effect [OF runtime_okD(1) [OF assms(1)]])
next
  case Withdraw
  with assms show ?thesis
    by (auto simp: exec_dispatch elim!: withdraw_inv
        dest!: transfer_total [OF runtime_okD(1) [OF assms(1)]] init_effect(1) [OF runtime_okD(2) [OF assms(1)]])
next
  case SealBundle
  with assms show ?thesis by (auto simp: exec_dispatch dest!: seal_bundle_inv(7))
next
  case BundlePaid
  with assms show ?thesis by (auto simp: exec_dispatch elim!: bundle_paid_inv)
next
  case CloseRecord
  with assms show ?thesis
    by (auto simp: exec_dispatch elim!: close_record_inv
        dest!: close_effect(1) [OF runtime_okD(3) [OF assms(1)]])
qed

text \<open>What a withdrawal and a close do to an account of the program that has no private key.\<close>

lemma withdraw_balance:
  assumes "runtime_ok rt" "withdraw rt user lamports fee_sats script b = Inr b'"
    and "rt_has_key rt (meta_key user)" "\<not> rt_has_key rt k"
    and "k \<noteq> fst (record_key rt (withdrawal_count (config b)))"
  shows "balance (ledger b') k =
     balance (ledger b) k + (if vault_key rt (config b) = Some k then unat lamports else 0)"
  using assms(2)
proof (rule withdraw_inv)
  fix vault L payout L'
  assume v: "vault_key rt (config b) = Some vault"
    and init: "rt_init_account rt (meta_key user) (fst (record_key rt (withdrawal_count (config b))))
       WITHDRAWAL_RECORD_SPACE (ledger b) = Some L"
    and tr: "rt_transfer rt (meta_key user) vault lamports L = Some L'"
    and b': "b' = b\<lparr>config := (config b)\<lparr>pegged_lamports := pegged_lamports (config b) - lamports,
                               withdrawal_count := withdrawal_count (config b) + 1\<rparr>,
            records := (records b)(withdrawal_count (config b) \<mapsto>
               \<lparr>wr_index = withdrawal_count (config b), wr_owner = meta_key user,
                wr_burned_lamports = lamports, wr_payout_sats = payout, wr_fee_sats = fee_sats,
                wr_script_pubkey = script,
                wr_bump = snd (record_key rt (withdrawal_count (config b)))\<rparr>),
            ledger := L'\<rparr>"
  have nu: "k \<noteq> meta_key user" using assms(3,4) by blast
  have "L k = ledger b k" by (rule init_effect(3) [OF runtime_okD(2) [OF assms(1)] init nu assms(5)])
  moreover have m: "moved (meta_key user) vault lamports L L'"
    by (rule transfer_moved [OF runtime_okD(1) [OF assms(1)] tr])
  ultimately show ?thesis
    using v nu balance_moved_dst [OF m] balance_moved_other [OF m nu]
    by (cases "k = vault") (simp_all add: b' balance_def)
qed

lemma close_balance:
  assumes "runtime_ok rt" "close_record rt owner index b = Inr b'" "bank_inv rt b"
    and "\<not> rt_has_key rt k" "k \<noteq> fst (record_key rt index)"
  shows "balance (ledger b') k = balance (ledger b) k"
  using assms(2)
proof (rule close_record_inv)
  fix r L
  assume r: "records b index = Some r" "meta_key owner = wr_owner r"
    and cl: "rt_close_account rt (fst (record_key rt index)) (meta_key owner) (ledger b) = Some L"
    and b': "b' = b\<lparr>records := (records b)(index := None), ledger := L\<rparr>"
  have "rt_has_key rt (meta_key owner)" using r assms(3) by (auto simp: bank_inv_def record_ok_def)
  then have "k \<noteq> meta_key owner" using assms(4) by blast
  then have "L k = ledger b k"
    by (rule close_effect(3) [OF runtime_okD(3) [OF assms(1)] cl assms(5)])
  then show ?thesis by (simp add: b' balance_def)
qed

text \<open>No instruction changes what the vault and the pegged lamports add up to.\<close>

lemma exec_vault:
  assumes ok: "runtime_ok rt" and ex: "exec rt i b = Inr b'" and inv: "bank_inv rt b"
    and v: "vault_key rt (config b) = Some v"
  shows "balance (ledger b') v + unat (pegged_lamports (config b')) =
     balance (ledger b) v + unat (pegged_lamports (config b))"
proof -
  note tr = runtime_okD(1) [OF ok] and ad = runtime_okD(4) [OF ok]
  have nk: "\<not> rt_has_key rt v" by (rule vault_no_key [OF ad v])
  have nr: "v \<noteq> fst (record_key rt j)" for j using vault_ne_record [OF ad v] by metis
  show ?thesis
  proof (cases i)
    case (SettleBmm slot data payee height block_hash solana_block)
    with ex have "settle_bmm rt slot data payee height block_hash solana_block b = Inr b'"
      by (simp add: exec_dispatch)
    then show ?thesis
    proof (rule settle_bmm_effect [OF tr])
      fix tot config_k vault treasury payout
      assume p: "config b' = (config b)\<lparr>bmm_paid_total := tot, bmm_next_height := height + 1, bmm_next_since_slot := slot\<rparr>"
        "vault_key rt (config b) = Some vault" "treasury_key rt (config b) = Some treasury"
        "meta_key payee \<notin> {treasury, config_k, vault}"
        "moved treasury (meta_key payee) payout (ledger b) (ledger b')"
      then have "v \<noteq> treasury" "v \<noteq> meta_key payee" using v vault_ne_treasury [OF ad v] by auto
      then show ?thesis using balance_moved_other [OF p(5)] p(1) by simp
    qed simp
  next
    case (CreditDeposits data remaining height block_hash first count)
    with ex have "credit_deposits rt data remaining height block_hash first count b = Inr b'"
      by (simp add: exec_dispatch)
    then show ?thesis
    proof (rule credit_deposits_inv)
      fix vault answer "end" s cfg'
      assume v': "vault_key rt (config b) = Some vault"
        and l: "credit_loop rt vault (da_deposits answer)
          \<lparr>cl_ledger = ledger b, cl_targets = remaining,
           cl_high_water = deposit_high_water (config b), cl_credited = 0, cl_stranded = 0\<rparr> = Inr s"
        and c: "credit_commit (config b) height block_hash (da_total answer) end s = Inr cfg'"
        and b': "b' = b\<lparr>config := cfg', ledger := cl_ledger s\<rparr>"
      have "vault = v" using v v' by simp
      then show ?thesis
        using credit_loop_effect [OF tr l] credit_commit_effect(2) [OF c] by (simp add: b')
    qed
  next
    case (Withdraw user lamports fee_sats script)
    with ex have w: "withdraw rt user lamports fee_sats script b = Inr b'"
      and sg: "signatures_ok rt (Withdraw user lamports fee_sats script)" by (simp_all add: exec_dispatch)
    have "meta_signer user" by (rule withdraw_inv [OF w])
    then have "balance (ledger b') v = balance (ledger b) v + unat lamports"
      using withdraw_balance [OF ok w signed_has_key [OF sg] nk nr] v by simp
    moreover have "unat (pegged_lamports (config b)) = unat (pegged_lamports (config b')) + unat lamports"
      by (rule withdraw_inv [OF w]) simp
    ultimately show ?thesis by simp
  next
    case SealBundle
    with ex show ?thesis by (auto simp: exec_dispatch dest!: seal_bundle_inv(7))
  next
    case BundlePaid
    with ex show ?thesis by (auto simp: exec_dispatch elim!: bundle_paid_inv)
  next
    case (CloseRecord owner index)
    with ex have c: "close_record rt owner index b = Inr b'" by (simp add: exec_dispatch)
    have "config b' = config b" by (rule close_record_inv [OF c]) simp
    then show ?thesis using close_balance [OF ok c inv nk nr] by simp
  qed
qed

section \<open>What the events take\<close>

text \<open>
  The numbers that a transaction uses up: the sequence numbers of the deposits that it credits, the
  eCash height that it settles, the index of the record that it makes, the indices that it seals
  into a bundle, and the indices that it marks paid.
\<close>

fun credited_numbers :: "event \<Rightarrow> bank \<Rightarrow> nat list" where
  "credited_numbers (Tx (CreditDeposits data remaining height block_hash first count)) b =
     (case DepositAnswer_decode data of
        None \<Rightarrow> []
      | Some answer \<Rightarrow> map (unat \<circ> ad_sequence_number) (da_deposits answer))"
| "credited_numbers _ b = []"

fun settled_heights :: "event \<Rightarrow> bank \<Rightarrow> nat list" where
  "settled_heights (Tx (SettleBmm slot data payee height block_hash solana_block)) b = [unat height]"
| "settled_heights _ b = []"

fun sealed_indices :: "event \<Rightarrow> bank \<Rightarrow> nat list" where
  "sealed_indices (Tx (SealBundle orc through m6id)) b =
     [unat (bundled_through (config b)) ..< unat through]"
| "sealed_indices _ b = []"

fun paid_indices :: "event \<Rightarrow> bank \<Rightarrow> nat list" where
  "paid_indices (Tx (BundlePaid orc data through height block_hash m6id)) b =
     [unat (paid_through (config b)) ..< unat through]"
| "paid_indices _ b = []"

definition good_state :: "runtime \<Rightarrow> bank \<Rightarrow> bool" where
  "good_state rt b \<longleftrightarrow> runtime_ok rt \<and> bank_inv rt b"

lemma outside_bank_inv: "bank_inv rt b \<Longrightarrow> bank_inv rt (b\<lparr>ledger := L\<rparr>)"
  by (simp add: bank_inv_def)

lemma event_good: "apply_event rt e b = Inr b' \<Longrightarrow> good_state rt b \<Longrightarrow> good_state rt b'"
  by (cases e) (auto simp: good_state_def outside_bank_inv split: if_splits dest: exec_bank_inv)

lemma event_cases:
  assumes "apply_event rt e b = Inr b'" "good_state rt b"
  obtains i where "e = Tx i" "runtime_ok rt" "bank_inv rt b" "cursors_ok (config b)"
      "exec rt i b = Inr b'" "dispatch rt i b = Inr b'"
  | L where "e = Outside L" "outside_ok rt b L" "b' = b\<lparr>ledger := L\<rparr>"
  using assms
  by (cases e) (auto simp: good_state_def bank_inv_def exec_dispatch split: if_splits)

interpretation events: transition_system "apply_event rt" "good_state rt" for rt
  by unfold_locales (rule event_good)

interpretation deposits: consuming_system "apply_event rt" "good_state rt"
    "\<lambda>b. unat (deposit_high_water (config b))" credited_numbers for rt
proof unfold_locales
  fix e b b' assume e: "apply_event rt e b = Inr b'" "good_state rt b"
  show "unat (deposit_high_water (config b)) \<le> unat (deposit_high_water (config b'))"
    by (rule event_cases [OF e]) (simp_all add: dispatch_cursors(1))
  show "sorted_wrt (<) (credited_numbers e b) \<and>
      (\<forall>x\<in>set (credited_numbers e b). unat (deposit_high_water (config b)) \<le> x \<and>
         x < unat (deposit_high_water (config b')))"
  proof (rule event_cases [OF e])
    fix i assume i: "e = Tx i" "runtime_ok rt" "dispatch rt i b = Inr b'"
    show ?thesis
    proof (cases i)
      case (CreditDeposits data remaining height block_hash first count)
      with i(3) have "credit_deposits rt data remaining height block_hash first count b = Inr b'" by simp
      then show ?thesis
      proof (rule credit_deposits_inv)
        fix vault answer "end" s cfg'
        assume g: "credit_guards (config b) data height block_hash first count = Inr (answer, end)"
          and l: "credit_loop rt vault (da_deposits answer)
            \<lparr>cl_ledger = ledger b, cl_targets = remaining,
             cl_high_water = deposit_high_water (config b), cl_credited = 0, cl_stranded = 0\<rparr> = Inr s"
          and c: "credit_commit (config b) height block_hash (da_total answer) end s = Inr cfg'"
          and b': "b' = b\<lparr>config := cfg', ledger := cl_ledger s\<rparr>"
        show ?thesis
          using credit_loop_effect [OF runtime_okD(1) [OF i(2)] l] credit_guards_effect(2) [OF g]
            credit_commit_effect(4) [OF c]
          by (simp add: i(1) CreditDeposits b')
      qed
    qed (simp_all add: i(1))
  qed simp
qed

interpretation settles: gapless_system "apply_event rt" "good_state rt"
    "\<lambda>b. unat (bmm_next_height (config b))" settled_heights for rt
proof unfold_locales
  fix e b b' assume e: "apply_event rt e b = Inr b'" "good_state rt b"
  show "unat (bmm_next_height (config b)) \<le> unat (bmm_next_height (config b'))"
    by (rule event_cases [OF e]) (simp_all add: dispatch_cursors(2))
  show "settled_heights e b = [unat (bmm_next_height (config b)) ..< unat (bmm_next_height (config b'))]"
  proof (rule event_cases [OF e])
    fix i assume i: "e = Tx i" "runtime_ok rt" "dispatch rt i b = Inr b'"
    show ?thesis
    proof (cases i)
      case (SettleBmm slot data payee height block_hash solana_block)
      with i(3) have "settle_bmm rt slot data payee height block_hash solana_block b = Inr b'" by simp
      then show ?thesis
        by (rule settle_bmm_effect [OF runtime_okD(1) [OF i(2)]]) (simp_all add: i(1) SettleBmm)
    qed (use dispatch_frame(1) [OF i(2,3)] in \<open>simp_all add: i(1)\<close>)
  qed simp
qed

interpretation seals: gapless_system "apply_event rt" "good_state rt"
    "\<lambda>b. unat (bundled_through (config b))" sealed_indices for rt
proof unfold_locales
  fix e b b' assume e: "apply_event rt e b = Inr b'" "good_state rt b"
  show "unat (bundled_through (config b)) \<le> unat (bundled_through (config b'))"
    by (rule event_cases [OF e]) (simp_all add: dispatch_cursors(6))
  show "sealed_indices e b = [unat (bundled_through (config b)) ..< unat (bundled_through (config b'))]"
  proof (rule event_cases [OF e])
    fix i assume i: "e = Tx i" "runtime_ok rt" "dispatch rt i b = Inr b'"
    then show ?thesis
      using dispatch_frame(2) [OF i(2,3)] by (cases i) (auto dest!: seal_bundle_inv(7))
  qed simp
qed

interpretation payments: gapless_system "apply_event rt" "good_state rt"
    "\<lambda>b. unat (paid_through (config b))" paid_indices for rt
proof unfold_locales
  fix e b b' assume e: "apply_event rt e b = Inr b'" "good_state rt b"
  show "unat (paid_through (config b)) \<le> unat (paid_through (config b'))"
    by (rule event_cases [OF e]) (simp_all add: dispatch_cursors(4))
  show "paid_indices e b = [unat (paid_through (config b)) ..< unat (paid_through (config b'))]"
  proof (rule event_cases [OF e])
    fix i assume i: "e = Tx i" "runtime_ok rt" "dispatch rt i b = Inr b'"
    then show ?thesis
      using dispatch_frame(3) [OF i(2,3)] by (cases i) (auto elim!: bundle_paid_inv)
  qed simp
qed

text \<open>The backing of the vault: transactions keep it, and the rest of the chain can only add to it.\<close>

lemma exec_vault_backing:
  assumes "exec rt i b = Inr b'" "good_state rt b"
  shows "vault_backing rt b' = vault_backing rt b"
proof -
  have ok: "runtime_ok rt" "bank_inv rt b" using assms(2) by (simp_all add: good_state_def)
  have d: "dispatch rt i b = Inr b'" using assms(1) by (simp add: exec_dispatch)
  have s: "vault_key rt (config b') = vault_key rt (config b)"
    by (rule settings_keys(1) [OF dispatch_settings [OF ok(1) d]])
  show ?thesis
  proof (cases "vault_key rt (config b)")
    case None
    then have "\<exists>e. dispatch rt i b = Inl e \<or> pegged_lamports (config b') = pegged_lamports (config b)"
    proof (cases i)
      case SettleBmm
      with d show ?thesis by (auto elim!: settle_bmm_effect [OF runtime_okD(1) [OF ok(1)]])
    next
      case SealBundle
      with d show ?thesis by (auto dest!: seal_bundle_inv(7))
    qed (use d None in \<open>auto elim!: credit_deposits_inv withdraw_inv bundle_paid_inv close_record_inv\<close>)
    then show ?thesis using None s d by (simp add: vault_backing_def)
  next
    case (Some v)
    then show ?thesis using exec_vault [OF ok(1) assms(1) ok(2) Some] s by (simp add: vault_backing_def)
  qed
qed

interpretation vault: conserving_system "exec rt" "good_state rt" "vault_backing rt" for rt
proof unfold_locales
  fix i b b' assume e: "exec rt i b = Inr b'" "good_state rt b"
  then have "apply_event rt (Tx i) b = Inr b'" by simp
  then show "good_state rt b'" by (rule event_good [OF _ e(2)])
  show "vault_backing rt b' = vault_backing rt b" by (rule exec_vault_backing [OF e])
qed

interpretation backing: counting_system "apply_event rt" "good_state rt" "vault_backing rt" for rt
proof unfold_locales
  fix e b b' assume e: "apply_event rt e b = Inr b'" "good_state rt b"
  show "vault_backing rt b \<le> vault_backing rt b'"
  proof (rule event_cases [OF e])
    fix i assume "exec rt i b = Inr b'"
    then show ?thesis using exec_vault_backing [OF _ e(2)] by simp
  next
    fix L assume "outside_ok rt b L" "b' = b\<lparr>ledger := L\<rparr>"
    then show ?thesis
      by (auto simp: vault_backing_def outside_ok_def program_address_def split: option.split)
  qed
qed

end
