(* ===== verification/Bridge_Sample.thy ===== *)
theory Bridge_Sample
  imports Bridge_Invariants
begin

text \<open>
  A concrete runtime that behaves as documented, and a small chain on it: a deposit is credited, a
  withdrawal is sealed and paid, and a winner takes the treasury. The witnesses of the properties of
  the bridge are evaluated on this chain.
\<close>

section \<open>A runtime\<close>

definition move_lamports :: "pubkey \<Rightarrow> pubkey \<Rightarrow> u64 \<Rightarrow> ledger \<Rightarrow> ledger option" where
  "move_lamports src dst n L =
     (if src \<noteq> dst \<and> n \<le> acc_lamports (L src) \<and>
         unat (acc_lamports (L dst)) + unat n < 2 ^ 64
      then Some (L(src := (L src)\<lparr>acc_lamports := acc_lamports (L src) - n\<rparr>,
                   dst := (L dst)\<lparr>acc_lamports := acc_lamports (L dst) + n\<rparr>))
      else None)"

definition plain_account :: "account \<Rightarrow> bool" where
  "plain_account a \<longleftrightarrow> acc_owner a = SYSTEM_PROGRAM_ID \<and> acc_len a = 0"

definition sample_rent :: "nat \<Rightarrow> u64" where
  "sample_rent len = word_of_nat ((128 + len) * 6960)"

definition sample_address :: "bytes list \<Rightarrow> pubkey" where
  "sample_address seeds = from_le_bytes (concat seeds @ [1])"

definition sample_runtime :: runtime where
  "sample_runtime =
     \<lparr>rt_transfer = (\<lambda>src dst n L. if plain_account (L src) then move_lamports src dst n L else None),
      rt_init_account = (\<lambda>payer k space L.
        if plain_account (L k) then
          (case move_lamports payer k (saturating_sub (sample_rent space) (acc_lamports (L k))) L of
             None \<Rightarrow> None
           | Some L1 \<Rightarrow> Some (L1(k := (L1 k)\<lparr>acc_owner := ID, acc_len := space\<rparr>)))
        else None),
      rt_close_account = (\<lambda>k dst L.
        (case move_lamports k dst (acc_lamports (L k)) L of
           None \<Rightarrow> None
         | Some L1 \<Rightarrow> Some (L1(k := (L1 k)\<lparr>acc_owner := SYSTEM_PROGRAM_ID, acc_len := 0\<rparr>)))),
      rt_minimum_balance = sample_rent,
      rt_is_exempt = (\<lambda>n len. sample_rent len \<le> n),
      rt_hashv = (\<lambda>bs. from_le_bytes bs),
      rt_create_program_address = (\<lambda>seeds p.
        if length (concat seeds) \<le> 30 then Some (sample_address seeds) else None),
      rt_find_program_address = (\<lambda>seeds p. (sample_address (seeds @ [[255]]), 255)),
      rt_has_key = (\<lambda>k. 2 ^ 248 \<le> k)\<rparr>"

lemma move_lamports_moved: "move_lamports src dst n L = Some L' \<Longrightarrow> moved src dst n L L' \<and> src \<noteq> dst"
  by (auto simp: move_lamports_def moved_def balance_def word_le_nat_alt split: if_splits)

lemma nat_of_le_append: "nat_of_le (xs @ ys) = nat_of_le xs + 256 ^ length xs * nat_of_le ys"
  by (induction xs) simp_all

lemma sample_number:
  assumes "length xs \<le> 30"
  shows "unat (from_le_bytes (xs @ [1]) :: pubkey) = nat_of_le xs + 256 ^ length xs"
    and "nat_of_le xs + 256 ^ length xs < 2 ^ 248"
proof -
  have "nat_of_le xs < 256 ^ length xs" by (rule nat_of_le_bound)
  moreover have "(256::nat) ^ length xs \<le> 256 ^ 30" using assms by (intro power_increasing) simp_all
  ultimately show lt: "nat_of_le xs + 256 ^ length xs < 2 ^ 248" by simp
  then have "(nat_of_le xs + 256 ^ length xs) mod 2 ^ LENGTH(256) = nat_of_le xs + 256 ^ length xs"
    by (intro mod_less) simp
  moreover have "nat_of_le (xs @ [1]) = nat_of_le xs + 256 ^ length xs" by (simp add: nat_of_le_append)
  ultimately show "unat (from_le_bytes (xs @ [1]) :: pubkey) = nat_of_le xs + 256 ^ length xs"
    unfolding from_le_bytes_def unat_of_nat by simp
qed

lemma length_from_number:
  assumes "nat_of_le xs + 256 ^ length xs = nat_of_le ys + 256 ^ length ys"
  shows "length xs \<le> length ys"
proof (rule ccontr)
  assume "\<not> length xs \<le> length ys"
  then have "(256::nat) ^ Suc (length ys) \<le> 256 ^ length xs" by (intro power_increasing) simp_all
  moreover have "nat_of_le ys < 256 ^ length ys" by (rule nat_of_le_bound)
  ultimately show False using assms by simp
qed

lemma sample_address_inj:
  assumes "length xs \<le> 30" "length ys \<le> 30"
    "(from_le_bytes (xs @ [1]) :: pubkey) = from_le_bytes (ys @ [1])"
  shows "xs = ys"
proof -
  have eq: "nat_of_le xs + 256 ^ length xs = nat_of_le ys + 256 ^ length ys"
    using sample_number(1) [OF assms(1)] sample_number(1) [OF assms(2)] assms(3) by simp
  then have "length xs = length ys" using length_from_number [OF eq] length_from_number [OF eq [symmetric]] by simp
  with eq show ?thesis by (metis add_right_cancel le_of_nat_of_le)
qed

lemma bridge_seeds_length: "s \<in> bridge_seeds \<Longrightarrow> length (concat s) \<le> 30"
  by (auto simp: bridge_seeds_def CONFIG_SEED_def VAULT_SEED_def TREASURY_SEED_def WITHDRAWAL_SEED_def)

lemma sample_runtime_ok: "runtime_ok sample_runtime"
  unfolding runtime_ok_def
proof (intro conjI)
  show "transfer_ok sample_runtime"
    by (auto simp: transfer_ok_def sample_runtime_def plain_account_def split: if_splits dest: move_lamports_moved)
      (auto simp: move_lamports_def balance_def word_le_nat_alt split: if_splits)
  show "init_ok sample_runtime"
    by (auto simp: init_ok_def sample_runtime_def plain_account_def split: if_splits option.splits
        dest!: move_lamports_moved)
  show "close_ok sample_runtime"
    by (auto simp: close_ok_def sample_runtime_def split: option.splits dest!: move_lamports_moved)
  show "rent_ok sample_runtime" by (simp add: rent_ok_def sample_runtime_def)
  show "addresses_ok sample_runtime"
    unfolding addresses_ok_def
  proof (intro conjI ballI allI impI)
    fix s k assume "s \<in> bridge_seeds" "rt_create_program_address sample_runtime s ID = Some k"
    then have "unat k < 2 ^ 248"
      using sample_number [of "concat s"] bridge_seeds_length [of s]
      by (simp add: sample_runtime_def sample_address_def)
    moreover have "unat (2 ^ 248 :: pubkey) = 2 ^ 248" by simp
    ultimately show "\<not> rt_has_key sample_runtime k"
      by (simp add: sample_runtime_def word_le_nat_alt)
  next
    fix s s' k assume "s \<in> bridge_seeds" "s' \<in> bridge_seeds"
      "rt_create_program_address sample_runtime s ID = Some k"
      "rt_create_program_address sample_runtime s' ID = Some k"
    then show "concat s = concat s'"
      using sample_address_inj [of "concat s" "concat s'"] bridge_seeds_length [of s] bridge_seeds_length [of s']
      by (simp add: sample_runtime_def sample_address_def)
  next
    fix i k and b :: u8 assume "record_key sample_runtime i = (k, b)"
    then show "rt_create_program_address sample_runtime [WITHDRAWAL_SEED, to_le_bytes i, [b]] ID = Some k"
      by (auto simp: record_key_def sample_runtime_def sample_address_def WITHDRAWAL_SEED_def)
  qed
qed

section \<open>A chain\<close>

definition ALICE :: pubkey where "ALICE = 2 ^ 248 + 1"
definition ORACLE :: pubkey where "ORACLE = 2 ^ 248 + 2"

definition sample_config :: Config where
  "sample_config =
     \<lparr>oracle_key = ORACLE, deposit_high_water = 0, pegged_lamports = 0, withdrawal_count = 0,
      bmm_next_height = 105, bmm_paid_total = 0, deposit_confirmations = 6, deposit_lag = 10,
      credited_height = 100, credited_block = 0, credit_index = 0, credit_part_block = 0,
      stranded_lamports = 0, bump = 255, vault_bump = 254, treasury_bump = 253,
      vault_supply = 1000000000, float_lamports = 5000000, paid_through = 0, bundled_through = 0,
      bundle_sealed_height = 0, bmm_skip_blocks = 20, bmm_next_since_slot = 0, bundle_m6id = 0\<rparr>"

definition system_account :: "u64 \<Rightarrow> account" where
  "system_account n =
     \<lparr>acc_lamports = n, acc_owner = SYSTEM_PROGRAM_ID, acc_len = 0, acc_executable = False\<rparr>"

definition sample_ledger :: ledger where
  "sample_ledger = (\<lambda>k.
     if k = sample_address [VAULT_SEED, [254]] then system_account 1005000000
     else if k = sample_address [TREASURY_SEED, [253]] then system_account 2000000
     else if k = ALICE then system_account 50000000
     else system_account 0)"

definition sample_bank :: bank where
  "sample_bank = \<lparr>config = sample_config, records = Map.empty, ledger = sample_ledger\<rparr>"

definition sample_block :: Block where
  "sample_block =
     \<lparr>blk_hash = 7, blk_prev_hash = 6,
      blk_deposits = [\<lparr>dep_sequence_number = 3, dep_value_sats = 100000, dep_address = []\<rparr>,
                      \<lparr>dep_sequence_number = 4, dep_value_sats = 20000, dep_address = [1]\<rparr>]\<rparr>"

definition sample_target :: "bytes \<Rightarrow> pubkey option" where
  "sample_target a = (if a = [] then Some ALICE else None)"

definition sample_meta :: "pubkey \<Rightarrow> meta" where
  "sample_meta k = \<lparr>meta_key = k, meta_signer = True, meta_writable = True\<rparr>"

definition sample_credit :: instruction where
  "sample_credit =
     CreditDeposits
       (deposit_answer_data sample_target
         \<lparr>cq_height = 101, cq_block_hash = 7, cq_first = 0, cq_count = 2\<rparr> sample_block)
       [sample_meta ALICE] 101 7 0 2"

definition sample_withdraw :: instruction where
  "sample_withdraw = Withdraw (sample_meta ALICE) 500000 1000 ([0x00, 0x14] @ replicate 20 0)"

definition sample_seal :: instruction where
  "sample_seal = SealBundle (sample_meta ORACLE) 1 9"

definition sample_paid :: instruction where
  "sample_paid =
     BundlePaid (sample_meta ORACLE)
       (paid_answer_data \<lparr>pq_height = 130, pq_block_hash = 30, pq_m6id = 9\<rparr> True) 1 130 30 9"

definition sample_close :: instruction where
  "sample_close = CloseRecord (sample_meta ALICE) 0"

definition sample_settle :: instruction where
  "sample_settle =
     SettleBmm 400
       (answer_data \<lparr>q_height = 105, q_block_hash = 11, q_solana_block = 12\<rparr>
         (Some (commitment_of sample_runtime 12 ALICE))
         (Some \<lparr>ra_credited_height = 100, ra_credits_active = True\<rparr>))
       (sample_meta ALICE) 105 11 12"

definition sample_events :: "event list" where
  "sample_events =
     [Tx sample_credit, Tx sample_withdraw, Tx sample_seal, Tx sample_paid, Tx sample_close,
      Tx sample_settle]"

lemma sample_good: "good_state sample_runtime sample_bank"
  by (simp add: good_state_def sample_runtime_ok bank_inv_def cursors_ok_def sample_bank_def sample_config_def)

section \<open>The chain, step by step\<close>

lemma sample_addresses:
  "sample_address [VAULT_SEED, [254]] = 0x1fe746c756176"
  "sample_address [TREASURY_SEED, [253]] = 0x1fd7972757361657274"
  "sample_address [CONFIG_SEED, [255]] = 0x1ff6769666e6f63"
  "sample_address [WITHDRAWAL_SEED, to_le_bytes (0 :: u64), [255]] = 0x1ff00000000000000006c617761726468746977"
  by (simp_all add: sample_address_def VAULT_SEED_def TREASURY_SEED_def CONFIG_SEED_def
      WITHDRAWAL_SEED_def from_le_bytes_def to_le_bytes_def le_of_nat_numeral)

definition sample_bank1 :: bank where
  "sample_bank1 = \<lparr>config = sample_config\<lparr>deposit_high_water := 5, pegged_lamports := 1000000,
   stranded_lamports := 200000, credited_height := 101, credited_block := 7\<rparr>, records = Map.empty,
   ledger = sample_ledger(0x1fe746c756176 := system_account 1004000000, ALICE := system_account 51000000)\<rparr>"

lemma sample_rt_simps:
  "rt_transfer sample_runtime src dst n L = (if plain_account (L src) then move_lamports src dst n L else None)"
  "rt_init_account sample_runtime payer k space L =
     (if plain_account (L k) then
          (case move_lamports payer k (saturating_sub (sample_rent space) (acc_lamports (L k))) L of
             None \<Rightarrow> None
           | Some L1 \<Rightarrow> Some (L1(k := (L1 k)\<lparr>acc_owner := ID, acc_len := space\<rparr>)))
        else None)"
  "rt_close_account sample_runtime k dst L =
        (case move_lamports k dst (acc_lamports (L k)) L of
           None \<Rightarrow> None
         | Some L1 \<Rightarrow> Some (L1(k := (L1 k)\<lparr>acc_owner := SYSTEM_PROGRAM_ID, acc_len := 0\<rparr>)))"
  "rt_minimum_balance sample_runtime = sample_rent"
  "rt_is_exempt sample_runtime n len \<longleftrightarrow> sample_rent len \<le> n"
  "rt_hashv sample_runtime bs = from_le_bytes bs"
  "rt_has_key sample_runtime k \<longleftrightarrow> 2 ^ 248 \<le> k"
  "rt_create_program_address sample_runtime seeds p =
     (if length (concat seeds) \<le> 30 then Some (sample_address seeds) else None)"
  "rt_find_program_address sample_runtime seeds p = (sample_address (seeds @ [[255]]), 255)"
  by (simp_all add: sample_runtime_def)

lemma seed_lengths: "length CONFIG_SEED = 6" "length VAULT_SEED = 5" "length TREASURY_SEED = 8" "length WITHDRAWAL_SEED = 10"
  by (simp_all add: VAULT_SEED_def TREASURY_SEED_def CONFIG_SEED_def WITHDRAWAL_SEED_def)

lemma sample_keys:
  "bump c = 255 \<Longrightarrow> config_key sample_runtime c = Some 0x1ff6769666e6f63"
  "vault_bump c = 254 \<Longrightarrow> vault_key sample_runtime c = Some 0x1fe746c756176"
  "treasury_bump c = 253 \<Longrightarrow> treasury_key sample_runtime c = Some 0x1fd7972757361657274"
  "record_key sample_runtime 0 = (0x1ff00000000000000006c617761726468746977, 255)"
  by (simp_all add: config_key_def vault_key_def treasury_key_def record_key_def sample_rt_simps
      sample_addresses seed_lengths)

lemmas sample_numbers = ALICE_def ORACLE_def ID_def SYSTEM_PROGRAM_ID_def SYSVAR_OWNER_def NATIVE_LOADER_def
   RESERVED_KEYS_def BMM_ANSWER_ID_def BMM_BLOCKS_ID_def BMM_PAID_ID_def BMM_PARAMS_ID_def DEPOSIT_ANSWER_ID_def
   sample_addresses

lemmas sample_eval = sample_meta_def checked_add_def checked_mul_def checked_sub_def LAMPORTS_PER_SAT_def sample_rt_simps
    sample_rent_def move_lamports_def plain_account_def sample_ledger_def system_account_def sample_numbers

lemma sample_credit_ok: "exec sample_runtime sample_credit sample_bank = Inr sample_bank1"
proof -
  let ?data = "deposit_answer_data sample_target
         \<lparr>cq_height = 101, cq_block_hash = 7, cq_first = 0, cq_count = 2\<rparr> sample_block"
  let ?answer = "\<lparr>da_height = 101, da_block_hash = 7, da_prev_block_hash = 6, da_total = 2, da_first = 0,
      da_deposits = [\<lparr>ad_sequence_number = 3, ad_value_sats = 100000, ad_target = Some ALICE\<rparr>,
        \<lparr>ad_sequence_number = 4, ad_value_sats = 20000, ad_target = None\<rparr>]\<rparr>"
  have dec: "DepositAnswer_decode ?data = Some ?answer"
    by (subst decode_deposit_answer_data) (simp_all add: sample_block_def sample_target_def answered_def)
  have g: "credit_guards sample_config ?data 101 7 0 2 = Inr (?answer, 2)"
    by (simp add: credit_guards_def dec sample_config_def checked_add_def)
  have c: "config sample_bank = sample_config" "vault_bump sample_config = 254" "bump sample_config = 255"
     "ledger sample_bank = sample_ledger" "records sample_bank = Map.empty" "deposit_high_water sample_config = 0"
     by (simp_all add: sample_bank_def sample_config_def)
  have "credit_one sample_runtime 0x1fe746c756176 \<lparr>ad_sequence_number = 3, ad_value_sats = 100000, ad_target = Some ALICE\<rparr>
      \<lparr>cl_ledger = sample_ledger, cl_targets = [sample_meta ALICE], cl_high_water = 0, cl_credited = 0, cl_stranded = 0\<rparr> =
      Inr \<lparr>cl_ledger = ledger sample_bank1, cl_targets = [], cl_high_water = 4, cl_credited = 1000000, cl_stranded = 0\<rparr>"
    by (simp add: credit_one_def next_target_def can_take_def sample_eval sample_bank1_def)
  moreover have "credit_one sample_runtime 0x1fe746c756176 \<lparr>ad_sequence_number = 4, ad_value_sats = 20000, ad_target = None\<rparr>
      \<lparr>cl_ledger = ledger sample_bank1, cl_targets = [], cl_high_water = 4, cl_credited = 1000000, cl_stranded = 0\<rparr> =
      Inr \<lparr>cl_ledger = ledger sample_bank1, cl_targets = [], cl_high_water = 5, cl_credited = 1000000, cl_stranded = 200000\<rparr>"
    by (simp add: credit_one_def next_target_def sample_eval)
  moreover have "acc_owner (sample_ledger 0x1fe746c756176) = SYSTEM_PROGRAM_ID" by (simp add: sample_eval)
  moreover have "signatures_ok sample_runtime sample_credit"
    by (simp add: signatures_ok_def sample_credit_def sample_eval)
  ultimately show ?thesis
   by (simp add: exec_def sample_credit_def credit_deposits_def c sample_keys g Let_def)
     (simp add: credit_commit_def checked_add_def sample_config_def sample_bank1_def sample_bank_def)
qed


lemma system_account_simps [simp]:
  "acc_lamports (system_account n) = n" "acc_owner (system_account n) = SYSTEM_PROGRAM_ID"
  "acc_len (system_account n) = 0" "acc_executable (system_account n) = False"
  by (simp_all add: system_account_def)

definition sample_record :: WithdrawalRecord where
  "sample_record =
     \<lparr>wr_index = 0, wr_owner = ALICE, wr_burned_lamports = 500000, wr_payout_sats = 49000,
      wr_fee_sats = 1000, wr_script_pubkey = [0x00, 0x14] @ replicate 20 0, wr_bump = 255\<rparr>"

definition sample_bank2 :: bank where
  "sample_bank2 = sample_bank1
     \<lparr>config := (config sample_bank1)\<lparr>pegged_lamports := 500000, withdrawal_count := 1\<rparr>,
      records := [0 \<mapsto> sample_record],
      ledger := (ledger sample_bank1)
        (0x1ff00000000000000006c617761726468746977 :=
           \<lparr>acc_lamports = 1663440, acc_owner = ID, acc_len = 111, acc_executable = False\<rparr>,
         ALICE := system_account 48836560, 0x1fe746c756176 := system_account 1004500000)\<rparr>"

lemma sample_withdraw_ok: "exec sample_runtime sample_withdraw sample_bank1 = Inr sample_bank2"
proof -
  have c: "config sample_bank1 = sample_config\<lparr>deposit_high_water := 5, pegged_lamports := 1000000,
        stranded_lamports := 200000, credited_height := 101, credited_block := 7\<rparr>"
     "vault_bump sample_config = 254" "bump sample_config = 255"
     "withdrawal_count sample_config = 0" "vault_supply sample_config = 1000000000"
     "float_lamports sample_config = 5000000" "records sample_bank1 = Map.empty"
     by (simp_all add: sample_bank1_def sample_config_def)
  have av: "ALICE \<noteq> 0x1fe746c756176" by (simp add: ALICE_def)
  have std: "is_standard_script (0 # 0x14 # replicate 20 0)"
    by (simp add: is_standard_script_def matches_template_def)
  have init: "rt_init_account sample_runtime ALICE 0x1ff00000000000000006c617761726468746977 WITHDRAWAL_RECORD_SPACE (ledger sample_bank1)
     = Some ((ledger sample_bank1)
        (ALICE := system_account 49336560, 0x1ff00000000000000006c617761726468746977 :=
           \<lparr>acc_lamports = 1663440, acc_owner = ID, acc_len = 111, acc_executable = False\<rparr>))"
    by (simp add: sample_eval sample_bank1_def WITHDRAWAL_RECORD_SPACE_def MAX_SCRIPT_PUBKEY_LEN_def saturating_sub_def)
  have v: "ledger sample_bank1 0x1fe746c756176 = system_account 1004000000" 
     by (simp add: sample_bank1_def sample_numbers)
  have tr: "rt_transfer sample_runtime ALICE 0x1fe746c756176 500000 ((ledger sample_bank1)
        (ALICE := system_account 49336560, 0x1ff00000000000000006c617761726468746977 :=
           \<lparr>acc_lamports = 1663440, acc_owner = ID, acc_len = 111, acc_executable = False\<rparr>))
      = Some (ledger sample_bank2)"
    by (simp add: sample_eval v sample_bank2_def fun_eq_iff)
  have "signatures_ok sample_runtime sample_withdraw"
    by (simp add: signatures_ok_def sample_withdraw_def sample_eval)
  then show ?thesis
    apply (simp add: exec_def sample_withdraw_def withdraw_def c sample_keys Let_def)
    apply (simp add: sample_meta_def init v std checked_sub_def checked_add_def LAMPORTS_PER_SAT_def MIN_PAYOUT_SATS_def MIN_FEE_SATS_def tr av)
    apply (simp add: sample_bank2_def c sample_record_def)
    done
qed

definition sample_bank3 :: bank where
  "sample_bank3 = sample_bank2\<lparr>config := (config sample_bank2)
     \<lparr>bundled_through := 1, bundle_m6id := 9, bundle_sealed_height := 101\<rparr>\<rparr>"

lemma sample_seal_ok: "exec sample_runtime sample_seal sample_bank2 = Inr sample_bank3"
  by (simp add: exec_def sample_seal_def signatures_ok_def seal_bundle_def sample_keys sample_meta_def sample_bank3_def sample_bank2_def
    sample_bank1_def sample_config_def MAX_BUNDLE_RECORDS_def checked_add_def sample_rt_simps ORACLE_def)

definition sample_bank4 :: bank where
  "sample_bank4 = sample_bank3\<lparr>config := (config sample_bank3)\<lparr>paid_through := 1\<rparr>\<rparr>"

lemma sample_paid_ok: "exec sample_runtime sample_paid sample_bank3 = Inr sample_bank4"
  by (simp add: exec_def sample_paid_def signatures_ok_def bundle_paid_def sample_keys sample_meta_def sample_bank4_def sample_bank3_def sample_bank2_def
    sample_bank1_def sample_config_def decode_paid_answer_data sample_rt_simps ORACLE_def)

definition sample_bank5 :: bank where
  "sample_bank5 = sample_bank4\<lparr>records := Map.empty,
      ledger := (ledger sample_bank4)
        (0x1ff00000000000000006c617761726468746977 := system_account 0, ALICE := system_account 50500000)\<rparr>"

lemma sample_close_ok: "exec sample_runtime sample_close sample_bank4 = Inr sample_bank5"
proof -
  have b: "records sample_bank4 = [0 \<mapsto> sample_record]" "ledger sample_bank4 = ledger sample_bank2"
     "paid_through (config sample_bank4) = 1" "bump (config sample_bank4) = 255"
    by (simp_all add: sample_bank4_def sample_bank3_def sample_bank2_def sample_bank1_def sample_config_def)
  have cl: "rt_close_account sample_runtime 0x1ff00000000000000006c617761726468746977 ALICE (ledger sample_bank2)
    = Some ((ledger sample_bank2)
        (0x1ff00000000000000006c617761726468746977 := system_account 0, ALICE := system_account 50500000))"
    by (simp add: sample_eval sample_bank2_def fun_eq_iff)
  show ?thesis
    by (simp add: exec_def sample_close_def signatures_ok_def close_record_def sample_keys sample_meta_def b cl
       sample_record_def sample_rt_simps(7,8) seed_lengths sample_addresses sample_bank5_def)
      (simp add: ALICE_def)
qed

definition sample_bank6 :: bank where
  "sample_bank6 = sample_bank5\<lparr>config := (config sample_bank5)
       \<lparr>bmm_paid_total := 1109120, bmm_next_height := 106, bmm_next_since_slot := 400\<rparr>,
      ledger := (ledger sample_bank5)
        (0x1fd7972757361657274 := system_account 890880, ALICE := system_account 51609120)\<rparr>"

lemma sample_settle_ok: "exec sample_runtime sample_settle sample_bank5 = Inr sample_bank6"
proof -
  have b: "config sample_bank5 = config sample_bank4" "bmm_next_height (config sample_bank4) = 105" "bump (config sample_bank4) = 255"
    "treasury_bump (config sample_bank4) = 253" "vault_bump (config sample_bank4) = 254" "deposit_lag (config sample_bank4) = 10"
    "bmm_paid_total (config sample_bank4) = 0"
    by (simp_all add: sample_bank5_def sample_bank4_def sample_bank3_def sample_bank2_def sample_bank1_def sample_config_def)
  have L: "ledger sample_bank5 0x1fd7972757361657274 = system_account 2000000"
    "ledger sample_bank5 ALICE = system_account 50500000"
    by (simp_all add: sample_bank5_def sample_bank4_def sample_bank3_def sample_bank2_def sample_bank1_def sample_config_def
       sample_ledger_def sample_numbers)
  have ch: "can_hold sample_runtime (ledger sample_bank5) (sample_meta ALICE) [0x1fd7972757361657274, 0x1ff6769666e6f63, 0x1fe746c756176] 1109120
    = Inr True"
    by (simp add: can_hold_def Let_def L sample_meta_def checked_add_def sample_rt_simps sample_rent_def)
      (simp add: sample_numbers)
  have tr: "rt_transfer sample_runtime 0x1fd7972757361657274 ALICE 1109120 (ledger sample_bank5) = Some (ledger sample_bank6)"
    by (simp add: sample_rt_simps move_lamports_def plain_account_def L system_account_def sample_bank6_def)
       (simp add: ALICE_def)
  have pay: "pay_treasury sample_runtime 0x1fd7972757361657274 0x1ff6769666e6f63 (sample_meta ALICE) sample_bank5
     = Inr (sample_bank5\<lparr>ledger := ledger sample_bank6, config := (config sample_bank5)\<lparr>bmm_paid_total := 1109120\<rparr>\<rparr>)"
    by (simp add: pay_treasury_def Let_def b sample_keys L system_account_def saturating_sub_def sample_rt_simps(4) sample_rent_def
       ch)
     (simp add: sample_meta_def tr b checked_add_def)
  have k: "rt_has_key sample_runtime ALICE" by (simp add: sample_rt_simps ALICE_def)
  show ?thesis
    by (simp add: exec_def sample_settle_def signatures_ok_def settle_bmm_def b sample_keys L system_account_def
       decode_answer_data answer_of_def settle_pays_def saturating_add_def  Let_def)
      (simp add: pay [unfolded sample_meta_def] sample_meta_def k checked_add_def sample_bank6_def)
qed

lemmas sample_steps = sample_credit_ok sample_withdraw_ok sample_seal_ok sample_paid_ok
  sample_close_ok sample_settle_ok

lemma sample_run: "run (apply_event sample_runtime) sample_events sample_bank = sample_bank6"
  by (simp add: sample_events_def sample_steps)

lemma sample_good1: "good_state sample_runtime sample_bank1"
  by (rule event_good [of _ "Tx sample_credit" sample_bank]) (simp_all add: sample_steps sample_good)

lemma sample_good2: "good_state sample_runtime sample_bank2"
  by (rule event_good [of _ "Tx sample_withdraw" sample_bank1]) (simp_all add: sample_steps sample_good1)

lemma sample_good3: "good_state sample_runtime sample_bank3"
  by (rule event_good [of _ "Tx sample_seal" sample_bank2]) (simp_all add: sample_steps sample_good2)

lemma sample_good4: "good_state sample_runtime sample_bank4"
  by (rule event_good [of _ "Tx sample_paid" sample_bank3]) (simp_all add: sample_steps sample_good3)

lemma sample_good5: "good_state sample_runtime sample_bank5"
  by (rule event_good [of _ "Tx sample_close" sample_bank4]) (simp_all add: sample_steps sample_good4)

end
