(* ===== verification/Bridge_Properties.thy ===== *)
theory Bridge_Properties
  imports Bridge_Sample
begin

text \<open>
  The properties of the bridge program over whole histories, from the interpretations of the state
  machines on its events, and over one instruction.
\<close>

section \<open>Lemmas of the histories\<close>

lemma reachable_good: "good_state rt b \<Longrightarrow> reachable rt b b' \<Longrightarrow> good_state rt b'"
  using run_reachable [of rt b b'] events.run_inv [of rt b] by auto

lemma withdraw_vault_free:
  assumes "good_state rt b" "exec rt (Withdraw user lamports fee_sats script) b = Inr b'"
    "vault_key rt (config b) = Some v"
  shows "unat (vault_supply (config b)) + unat (float_lamports (config b)) \<le> vault_backing rt b"
proof -
  have w: "withdraw rt user lamports fee_sats script b = Inr b'"
    and sg: "signatures_ok rt (Withdraw user lamports fee_sats script)"
    using assms(2) by (simp_all add: exec_dispatch)
  have ok: "runtime_ok rt" using assms(1) by (simp add: good_state_def)
  show ?thesis
  proof (rule withdraw_inv [OF w])
    fix vault L
    assume v: "vault_key rt (config b) = Some vault" and s: "meta_signer user"
      and init: "rt_init_account rt (meta_key user) (fst (record_key rt (withdrawal_count (config b))))
         WITHDRAWAL_RECORD_SPACE (ledger b) = Some L"
      and f: "unat (vault_supply (config b)) + unat (float_lamports (config b)) \<le>
         balance L vault + unat (pegged_lamports (config b))"
    have "vault \<noteq> meta_key user"
      using signed_has_key [OF sg s] vault_no_key [OF runtime_okD(4) [OF ok] v] by metis
    moreover have "vault \<noteq> fst (record_key rt (withdrawal_count (config b)))"
      using vault_ne_record [OF runtime_okD(4) [OF ok] v] by metis
    ultimately have "L vault = ledger b vault" by (rule init_effect(3) [OF runtime_okD(2) [OF ok] init])
    then show ?thesis using f v by (simp add: vault_backing_def balance_def)
  qed
qed

text \<open>The bridge while the vault does not back the float: no withdrawal passes.\<close>

definition float_open :: "runtime \<Rightarrow> bank \<Rightarrow> bool" where
  "float_open rt b \<longleftrightarrow>
     good_state rt b \<and>
     vault_backing rt b < unat (vault_supply (config b)) + unat (float_lamports (config b))"

lemma float_open_step:
  assumes "exec rt i b = Inr b'" "float_open rt b"
  shows "float_open rt b'" "withdrawal_count (config b') = withdrawal_count (config b)"
proof -
  have g: "good_state rt b" and ok: "runtime_ok rt" using assms(2) by (simp_all add: float_open_def good_state_def)
  have d: "dispatch rt i b = Inr b'" using assms(1) by (simp add: exec_dispatch)
  have s: "settings (config b') = settings (config b)" by (rule dispatch_settings [OF ok d])
  have "apply_event rt (Tx i) b = Inr b'" using assms(1) by simp
  then have "good_state rt b'" by (rule event_good [OF _ g])
  then show "float_open rt b'"
    using assms(2) exec_vault_backing [OF assms(1) g] settings_keys(5,6) [OF s]
    by (simp add: float_open_def)
  show "withdrawal_count (config b') = withdrawal_count (config b)"
  proof (cases i)
    case (Withdraw user lamports fee_sats script)
    with d have w: "withdraw rt user lamports fee_sats script b = Inr b'" by simp
    obtain v where "vault_key rt (config b) = Some v" by (rule withdraw_inv [OF w])
    then show ?thesis using withdraw_vault_free [OF g assms(1) [unfolded Withdraw]] assms(2)
      by (simp add: float_open_def)
  qed (use d in \<open>auto elim!: settle_bmm_effect [OF runtime_okD(1) [OF ok]] credit_deposits_inv
        bundle_paid_inv close_record_inv dest!: seal_bundle_inv(7) simp: credit_commit_effect(5)\<close>)
qed

interpretation float_gate: conserving_system "exec rt" "float_open rt"
    "\<lambda>b. withdrawal_count (config b)" for rt
  by unfold_locales (fact float_open_step)+

text \<open>The treasury loses lamports to winners only.\<close>

definition treasury_total :: "runtime \<Rightarrow> bank \<Rightarrow> nat" where
  "treasury_total rt b =
     (case treasury_key rt (config b) of None \<Rightarrow> 0 | Some t \<Rightarrow> balance (ledger b) t)
     + unat (bmm_paid_total (config b))"

lemma treasury_no_key: "addresses_ok rt \<Longrightarrow> treasury_key rt c = Some t \<Longrightarrow> \<not> rt_has_key rt t"
  unfolding treasury_key_def by (rule address_no_key) auto

lemma exec_treasury:
  assumes ex: "exec rt i b = Inr b'" and g: "good_state rt b"
    and t: "treasury_key rt (config b) = Some t"
  shows "balance (ledger b) t + unat (bmm_paid_total (config b))
     \<le> balance (ledger b') t + unat (bmm_paid_total (config b'))"
proof -
  have ok: "runtime_ok rt" and inv: "bank_inv rt b" using g by (simp_all add: good_state_def)
  note tr = runtime_okD(1) [OF ok] and ad = runtime_okD(4) [OF ok]
  have nk: "\<not> rt_has_key rt t" by (rule treasury_no_key [OF ad t])
  have nr: "t \<noteq> fst (record_key rt j)" for j using treasury_ne_record [OF ad t] by metis
  have d: "dispatch rt i b = Inr b'" using ex by (simp add: exec_dispatch)
  note frame = dispatch_frame(1) [OF ok d]
  show ?thesis
  proof (cases i)
    case (SettleBmm slot data payee height block_hash solana_block)
    with d have "settle_bmm rt slot data payee height block_hash solana_block b = Inr b'" by simp
    then show ?thesis
    proof (rule settle_bmm_effect [OF tr])
      fix tot config_k vault treasury payout
      assume p: "config b' = (config b)\<lparr>bmm_paid_total := tot, bmm_next_height := height + 1, bmm_next_since_slot := slot\<rparr>"
        "treasury_key rt (config b) = Some treasury" "meta_key payee \<notin> {treasury, config_k, vault}"
        "moved treasury (meta_key payee) payout (ledger b) (ledger b')"
        "unat tot = unat (bmm_paid_total (config b)) + unat payout"
      then have "t = treasury" "t \<noteq> meta_key payee" using t by auto
      then show ?thesis using p balance_moved_src [of t "meta_key payee"] moved_enough [of t "meta_key payee"]
        by auto
    qed simp
  next
    case (CreditDeposits data remaining height block_hash first count)
    with d have "credit_deposits rt data remaining height block_hash first count b = Inr b'" by simp
    then show ?thesis
    proof (rule credit_deposits_inv)
      fix vault answer "end" s cfg'
      assume v: "vault_key rt (config b) = Some vault"
        and l: "credit_loop rt vault (da_deposits answer)
          \<lparr>cl_ledger = ledger b, cl_targets = remaining,
           cl_high_water = deposit_high_water (config b), cl_credited = 0, cl_stranded = 0\<rparr> = Inr s"
        and b': "b' = b\<lparr>config := cfg', ledger := cl_ledger s\<rparr>"
      have "t \<noteq> vault" using vault_ne_treasury [OF ad v t] by simp
      then show ?thesis
        using credit_loop_effect [OF tr l, of t] frame by (simp add: CreditDeposits b')
    qed
  next
    case (Withdraw user lamports fee_sats script)
    with d have w: "withdraw rt user lamports fee_sats script b = Inr b'" by simp
    have "meta_signer user" by (rule withdraw_inv [OF w])
    moreover have "signatures_ok rt (Withdraw user lamports fee_sats script)"
      using ex Withdraw by (simp add: exec_dispatch)
    ultimately have "rt_has_key rt (meta_key user)" by (simp add: signed_has_key)
    then show ?thesis using withdraw_balance [OF ok w _ nk nr] frame by (simp add: Withdraw)
  next
    case SealBundle
    with d show ?thesis by (auto dest!: seal_bundle_inv(7))
  next
    case BundlePaid
    with d show ?thesis by (auto elim!: bundle_paid_inv)
  next
    case (CloseRecord owner index)
    with d have c: "close_record rt owner index b = Inr b'" by simp
    show ?thesis using close_balance [OF ok c inv nk nr] frame by (simp add: CloseRecord)
  qed
qed

interpretation treasury: counting_system "apply_event rt" "good_state rt" "treasury_total rt" for rt
proof unfold_locales
  fix e b b' assume e: "apply_event rt e b = Inr b'" "good_state rt b"
  show "treasury_total rt b \<le> treasury_total rt b'"
  proof (rule event_cases [OF e])
    fix i assume i: "runtime_ok rt" "exec rt i b = Inr b'" "dispatch rt i b = Inr b'"
    have k: "treasury_key rt (config b') = treasury_key rt (config b)"
      by (rule settings_keys(2) [OF dispatch_settings [OF i(1,3)]])
    have "unat (bmm_paid_total (config b)) \<le> unat (bmm_paid_total (config b'))"
      by (rule dispatch_cursors(8) [OF i(1,3)])
    then show ?thesis
      using exec_treasury [OF i(2) e(2)] k by (simp add: treasury_total_def split: option.split)
  next
    fix L assume "outside_ok rt b L" "b' = b\<lparr>ledger := L\<rparr>"
    then show ?thesis
      by (auto simp: treasury_total_def outside_ok_def program_address_def split: option.split)
  qed
qed

section \<open>Histories\<close>

text \<open>
  C2: No transaction of the bridge changes what the vault and the pegged lamports add up to: a
  credit moves lamports from the vault to the pegged total, a withdrawal moves them back.
\<close>

theorem vault_backing_constant:
  "good_state rt b \<Longrightarrow> vault_backing rt (run (exec rt) is b) = vault_backing rt b"
  by (rule vault.run_same)

lemma vault_backing_constant_witness:
  "vault_backing sample_runtime
     (run (exec sample_runtime) [sample_credit, sample_withdraw, sample_seal] sample_bank) =
   vault_backing sample_runtime sample_bank \<and>
   run (exec sample_runtime) [sample_credit, sample_withdraw, sample_seal] sample_bank = sample_bank3"
  using vault_backing_constant [OF sample_good, of "[sample_credit, sample_withdraw, sample_seal]"]
  by (simp add: sample_steps)

text \<open>
  C3: While the vault and the pegged lamports do not cover the genesis supply and the float, no
  withdrawal passes, whatever transactions come: only gifts to the vault can open the gate.
\<close>

theorem float_gate_shut:
  "good_state rt b \<Longrightarrow>
   vault_backing rt b < unat (vault_supply (config b)) + unat (float_lamports (config b)) \<Longrightarrow>
   withdrawal_count (config (run (exec rt) is b)) = withdrawal_count (config b)"
  by (rule float_gate.run_same) (simp add: float_open_def)

lemma float_gate_shut_witness:
  "withdrawal_count (config (run (exec sample_runtime) [sample_credit, sample_withdraw]
     (sample_bank\<lparr>config := sample_config\<lparr>float_lamports := 5000001\<rparr>\<rparr>))) = 0"
proof -
  let ?b = "sample_bank\<lparr>config := sample_config\<lparr>float_lamports := 5000001\<rparr>\<rparr>"
  have g: "good_state sample_runtime ?b"
    by (simp add: good_state_def sample_runtime_ok bank_inv_def cursors_ok_def sample_bank_def sample_config_def)
  have lt: "vault_backing sample_runtime ?b <
      unat (vault_supply (config ?b)) + unat (float_lamports (config ?b))"
    by (simp add: vault_backing_def vault_key_def sample_rt_simps sample_addresses seed_lengths
        sample_config_def sample_bank_def balance_def sample_ledger_def)
  have "withdrawal_count (config ?b) = 0" by (simp add: sample_config_def)
  then show ?thesis
    using float_gate_shut [OF g lt, of "[sample_credit, sample_withdraw]"] by (simp only:)
qed

text \<open>
  C4: Over any history, the sequence numbers of the credited deposits strictly increase, so no
  deposit is credited twice, and none is below the high water mark at the start.
\<close>

theorem deposits_credited_once:
  "good_state rt b \<Longrightarrow>
   sorted_wrt (<) (run_log (apply_event rt) credited_numbers es b) \<and>
   (\<forall>n \<in> set (run_log (apply_event rt) credited_numbers es b). unat (deposit_high_water (config b)) \<le> n)"
  using deposits.run_log_sorted deposits.run_log_bounds by blast

lemma deposits_credited_once_witness:
  "sorted_wrt (<) (run_log (apply_event sample_runtime) credited_numbers sample_events sample_bank)"
  using deposits_credited_once [OF sample_good] by blast

text \<open>
  C5: The bundles take the records in the order of their indices: over any history the sealed indices
  are exactly those from the old end of the bundle to the new one, each once and with no gap.
\<close>

theorem records_sealed_in_order:
  "good_state rt b \<Longrightarrow>
   run_log (apply_event rt) sealed_indices es b =
   [unat (bundled_through (config b)) ..< unat (bundled_through (config (run (apply_event rt) es b)))]"
  by (rule seals.run_log_exact)

lemma records_sealed_in_order_witness:
  "run_log (apply_event sample_runtime) sealed_indices sample_events sample_bank = [0]"
  using records_sealed_in_order [OF sample_good, of sample_events]
  by (simp add: sample_run, simp add: sample_bank_def sample_config_def sample_bank6_def sample_bank5_def
      sample_bank4_def sample_bank3_def upt_conv_Cons)

text \<open>
  C6: Each record is marked paid at most once, in the order of the indices and with no gap.
\<close>

theorem records_paid_in_order:
  "good_state rt b \<Longrightarrow>
   run_log (apply_event rt) paid_indices es b =
   [unat (paid_through (config b)) ..< unat (paid_through (config (run (apply_event rt) es b)))]"
  by (rule payments.run_log_exact)

lemma records_paid_in_order_witness:
  "run_log (apply_event sample_runtime) paid_indices sample_events sample_bank = [0]"
  using records_paid_in_order [OF sample_good, of sample_events]
  by (simp add: sample_run, simp add: sample_bank_def sample_config_def sample_bank6_def sample_bank5_def
      sample_bank4_def upt_conv_Cons)

text \<open>
  C7: The eCash heights settle one by one, in order, each exactly once.
\<close>

theorem heights_settled_in_order:
  "good_state rt b \<Longrightarrow>
   run_log (apply_event rt) settled_heights es b =
   [unat (bmm_next_height (config b)) ..< unat (bmm_next_height (config (run (apply_event rt) es b)))]"
  by (rule settles.run_log_exact)

lemma heights_settled_in_order_witness:
  "run_log (apply_event sample_runtime) settled_heights sample_events sample_bank = [105]"
  using heights_settled_in_order [OF sample_good, of sample_events]
  by (simp add: sample_run, simp add: sample_bank_def sample_config_def sample_bank6_def upt_conv_Cons)

text \<open>
  C1: In every reachable state the cursors are in order, the live bundle has at most
  \<^verbatim>\<open>MAX_BUNDLE_RECORDS\<close> records, every record from \<^verbatim>\<open>paid_through\<close> up to the count is there, and each
  record is for its own index, burned a tenfold of its payout and fee, and pays a standard script.
\<close>

theorem reachable_invariant:
  "good_state rt b \<Longrightarrow> reachable rt b b' \<Longrightarrow> bank_inv rt b'"
  using reachable_good by (simp add: good_state_def)

lemma reachable_invariant_witness: "bank_inv sample_runtime sample_bank6"
  using reachable_invariant [OF sample_good] reachable_run [of sample_runtime sample_bank sample_events]
  by (simp add: sample_run)

text \<open>
  The genesis supply stays covered in every reachable state: what the vault holds and what the
  deposits took out of it never add up to less than before.
\<close>

theorem vault_stays_backed:
  "good_state rt b \<Longrightarrow> reachable rt b b' \<Longrightarrow> vault_backing rt b \<le> vault_backing rt b'"
  using run_reachable [of rt b b'] backing.run_mono [of rt b] by auto

lemma vault_stays_backed_witness:
  "vault_backing sample_runtime sample_bank \<le> vault_backing sample_runtime sample_bank6"
  using vault_stays_backed [OF sample_good] reachable_run [of sample_runtime sample_bank sample_events]
  by (simp add: sample_run)

text \<open>
  The treasury loses lamports only to winners, and \<^verbatim>\<open>bmm_paid_total\<close> counts every one of them.
\<close>

theorem treasury_accounted:
  "good_state rt b \<Longrightarrow> treasury_total rt b \<le> treasury_total rt (run (apply_event rt) es b)"
  by (rule treasury.run_mono)

lemma treasury_accounted_witness:
  "treasury_total sample_runtime sample_bank \<le> treasury_total sample_runtime sample_bank6"
  using treasury_accounted [OF sample_good, of sample_events] by (simp add: sample_run)

text \<open>
  An instruction of the bridge neither makes nor burns lamports.
\<close>

theorem lamports_conserved:
  "runtime_ok rt \<Longrightarrow> exec rt i b = Inr b' \<Longrightarrow> total_lamports (ledger b') = total_lamports (ledger b)"
  by (rule exec_total)

lemma lamports_conserved_witness:
  "total_lamports (ledger sample_bank6) = total_lamports (ledger sample_bank5)"
  by (rule lamports_conserved [OF sample_runtime_ok sample_settle_ok])

section \<open>One instruction\<close>

lemma event_keeps_record:
  assumes "apply_event rt e b = Inr b'" "good_state rt b" "records b i = Some r"
    "paid_through (config b') \<le> i"
  shows "records b' i = Some r"
  using assms(1,2)
proof (rule event_cases)
  fix j assume ok: "runtime_ok rt" and ex: "exec rt j b = Inr b'"
  have lt: "i < withdrawal_count (config b)" using assms(2,3) by (auto simp: good_state_def bank_inv_def)
  from ok ex show ?thesis
    by (rule exec_records) (use assms(3,4) lt in auto)
qed (use assms(3) in simp)

text \<open>
  C9: An open record is never lost or changed: in every later state, the record of a withdrawal that
  is not paid yet is still the one that the withdrawal wrote.
\<close>

theorem open_record_kept:
  "good_state rt b \<Longrightarrow> records b i = Some r \<Longrightarrow>
   paid_through (config (run (apply_event rt) es b)) \<le> i \<Longrightarrow>
   records (run (apply_event rt) es b) i = Some r"
proof (induction es arbitrary: b)
  case (Cons e es)
  show ?case
  proof (cases "apply_event rt e b")
    case (Inr b1)
    then have g: "good_state rt b1" by (rule event_good) (rule Cons.prems(1))
    have run: "run (apply_event rt) (e # es) b = run (apply_event rt) es b1" using Inr by simp
    have "unat (paid_through (config b1)) \<le> unat (paid_through (config (run (apply_event rt) es b1)))"
      by (rule payments.run_mono [OF g])
    then have "paid_through (config b1) \<le> i"
      using Cons.prems(3) run by (simp add: word_le_nat_alt)
    then have "records b1 i = Some r"
      by (rule event_keeps_record [OF Inr Cons.prems(1,2)])
    then show ?thesis using Cons.IH [OF g] Cons.prems(3) run by simp
  qed (use Cons in simp)
qed simp

lemma open_record_kept_witness:
  "records (run (apply_event sample_runtime) [Tx sample_seal] sample_bank2) 0 = Some sample_record"
proof (rule open_record_kept [OF sample_good2])
  show "records sample_bank2 0 = Some sample_record" by (simp add: sample_bank2_def)
  show "paid_through (config (run (apply_event sample_runtime) [Tx sample_seal] sample_bank2)) \<le> 0"
    by (simp add: sample_steps) (simp add: sample_bank3_def sample_bank2_def sample_bank1_def sample_config_def)
qed

lemma bundle_frozen:
  assumes "apply_event rt e b = Inr b'" "good_state rt b"
    and "paid_through (config b) < bundled_through (config b)"
  shows "bundled_through (config b') = bundled_through (config b) \<and>
     bundle_m6id (config b') = bundle_m6id (config b) \<and>
     (paid_through (config b') = paid_through (config b) \<or>
      paid_through (config b') = bundled_through (config b) \<and>
      (\<exists>orc data height block_hash paid.
         e = Tx (BundlePaid orc data (bundled_through (config b)) height block_hash (bundle_m6id (config b))) \<and>
         meta_key orc = oracle_key (config b) \<and> BmmPaid_decode data = Some paid \<and> bp_paid paid \<and>
         bp_m6id paid = bundle_m6id (config b)))"
  using assms(1,2)
proof (rule event_cases)
  fix i assume i: "e = Tx i" "runtime_ok rt" "dispatch rt i b = Inr b'"
  note frame = dispatch_frame(2,3) [OF i(2,3)]
  show ?thesis
  proof (cases i)
    case (SealBundle orc through m6id)
    with i(3) have "seal_bundle rt orc through m6id b = Inr b'" by simp
    then show ?thesis using seal_bundle_inv(3) assms(3) by auto
  next
    case BundlePaid
    with i show ?thesis by (auto elim!: bundle_paid_inv)
  qed (use frame in auto)
qed simp

lemma live_until_paid:
  assumes "good_state rt b" "reachable rt b b'"
    and "paid_through (config b) < bundled_through (config b)"
    and "paid_through (config b') < bundled_through (config b)"
  shows "paid_through (config b') = paid_through (config b) \<and>
    bundled_through (config b') = bundled_through (config b) \<and>
    bundle_m6id (config b') = bundle_m6id (config b)"
proof -
  obtain es where b': "b' = run (apply_event rt) es b" using run_reachable [OF assms(2)] by blast
  show ?thesis using assms(1,3,4) unfolding b'
  proof (induction es arbitrary: b)
    case (Cons e es)
    show ?case
    proof (cases "apply_event rt e b")
      case (Inr b1)
      have g: "good_state rt b1" by (rule event_good [OF Inr Cons.prems(1)])
      have run: "run (apply_event rt) (e # es) b = run (apply_event rt) es b1" using Inr by simp
      have "unat (paid_through (config b1)) \<le> unat (paid_through (config (run (apply_event rt) es b1)))"
        by (rule payments.run_mono [OF g])
      then have "paid_through (config b1) < bundled_through (config b)"
        using Cons.prems(3) run by (simp add: word_less_nat_alt)
      then have same: "paid_through (config b1) = paid_through (config b)"
        "bundled_through (config b1) = bundled_through (config b)"
        "bundle_m6id (config b1) = bundle_m6id (config b)"
        using bundle_frozen [OF Inr Cons.prems(1,2)] by auto
      then show ?thesis using Cons.IH [OF g] Cons.prems(2,3) run by simp
    qed (use Cons in simp)
  qed simp
qed

text \<open>
  A live bundle is frozen: no event changes its end, its M6ID or its start, but the instruction
  that marks exactly this bundle paid, on an answer that its own M6ID succeeded.
\<close>

theorem live_bundle_frozen:
  assumes "apply_event rt e b = Inr b'" "good_state rt b"
    and "paid_through (config b) < bundled_through (config b)"
  shows "bundled_through (config b') = bundled_through (config b) \<and>
     bundle_m6id (config b') = bundle_m6id (config b) \<and>
     (paid_through (config b') = paid_through (config b) \<or>
      paid_through (config b') = bundled_through (config b) \<and>
      (\<exists>orc data height block_hash paid.
         e = Tx (BundlePaid orc data (bundled_through (config b)) height block_hash (bundle_m6id (config b))) \<and>
         meta_key orc = oracle_key (config b) \<and> BmmPaid_decode data = Some paid \<and> bp_paid paid \<and>
         bp_m6id paid = bundle_m6id (config b)))"
  using assms by (rule bundle_frozen)

lemma live_bundle_frozen_witness:
  "bundled_through (config sample_bank4) = 1 \<and> bundle_m6id (config sample_bank4) = 9"
proof -
  have "paid_through (config sample_bank3) < bundled_through (config sample_bank3)"
    by (simp add: sample_bank3_def sample_bank2_def sample_bank1_def sample_config_def)
  then show ?thesis
    using live_bundle_frozen [of sample_runtime "Tx sample_paid" sample_bank3 sample_bank4] sample_good3
    by (simp add: sample_steps, simp add: sample_bank3_def)
qed

lemma reachable_settings:
  "good_state rt b \<Longrightarrow> reachable rt b b' \<Longrightarrow> settings (config b') = settings (config b)"
proof -
  assume g: "good_state rt b" and "reachable rt b b'"
  then obtain es where b': "b' = run (apply_event rt) es b" using run_reachable by blast
  have "settings (config (run (apply_event rt) es b)) = settings (config b)" using g
  proof (induction es arbitrary: b)
    case (Cons e es)
    show ?case
    proof (cases "apply_event rt e b")
      case (Inr b1)
      then have "settings (config b1) = settings (config b)"
        by (rule event_cases [OF _ Cons.prems]) (auto dest: dispatch_settings)
      moreover have "good_state rt b1" by (rule event_good [OF Inr Cons.prems])
      ultimately show ?thesis using Inr Cons.IH by simp
    qed (use Cons in simp)
  qed simp
  then show ?thesis by (simp add: b')
qed

text \<open>
  No history changes a setting of the genesis: the oracle, the bumps, the confirmations and lags,
  the supply of the vault and the float.
\<close>

theorem settings_fixed:
  "good_state rt b \<Longrightarrow> reachable rt b b' \<Longrightarrow> settings (config b') = settings (config b)"
  by (rule reachable_settings)

lemma settings_fixed_witness: "oracle_key (settings (config sample_bank6)) = ORACLE"
  using settings_fixed [OF sample_good] reachable_run [of sample_runtime sample_bank sample_events]
  by (simp add: sample_run, simp add: settings_def sample_bank_def sample_config_def)

text \<open>
  A credit accounts for every satoshi of its deposits, ten lamports each: what was added to the
  pegged total and to the stranded total together is the value of the part.
\<close>

theorem credit_accounts_for_deposits:
  assumes "runtime_ok rt" "exec rt (CreditDeposits data remaining height block_hash first count) b = Inr b'"
    and "DepositAnswer_decode data = Some answer"
  shows "unat (pegged_lamports (config b')) + unat (stranded_lamports (config b')) =
     unat (pegged_lamports (config b)) + unat (stranded_lamports (config b))
       + 10 * (\<Sum>d\<leftarrow>da_deposits answer. unat (ad_value_sats d))"
proof -
  have "credit_deposits rt data remaining height block_hash first count b = Inr b'"
    using assms(2) by (simp add: exec_dispatch)
  then show ?thesis
  proof (rule credit_deposits_inv)
    fix vault a "end" s cfg'
    assume g: "credit_guards (config b) data height block_hash first count = Inr (a, end)"
      and l: "credit_loop rt vault (da_deposits a)
        \<lparr>cl_ledger = ledger b, cl_targets = remaining,
         cl_high_water = deposit_high_water (config b), cl_credited = 0, cl_stranded = 0\<rparr> = Inr s"
      and c: "credit_commit (config b) height block_hash (da_total a) end s = Inr cfg'"
      and b': "b' = b\<lparr>config := cfg', ledger := cl_ledger s\<rparr>"
    have "a = answer" using credit_guards_effect(2) [OF g] assms(3) by simp
    then show ?thesis
      using credit_loop_effect [OF runtime_okD(1) [OF assms(1)] l] credit_commit_effect(2,3) [OF c]
      by (simp add: b')
  qed
qed

lemma credit_accounts_for_deposits_witness:
  "unat (pegged_lamports (config sample_bank1)) + unat (stranded_lamports (config sample_bank1)) =
   unat (pegged_lamports (config sample_bank)) + unat (stranded_lamports (config sample_bank))
     + 10 * (100000 + 20000)"
  using credit_accounts_for_deposits [OF sample_runtime_ok sample_credit_ok [unfolded sample_credit_def],
      OF decode_deposit_answer_data]
  by (simp add: sample_block_def answered_def)

text \<open>
  C8: The treasury pays out only for a valid checkpoint, and then the whole treasury above its rent
  goes to the payee of the pair: the answer holds the commitment to this Solana block and payee, the
  bank recorded the block, its credits lie within the lag and are all on the active chain.
\<close>

theorem treasury_pays_valid_checkpoint_only:
  assumes "runtime_ok rt" "treasury_key rt (config b) = Some t"
    and "exec rt (SettleBmm slot data payee height block_hash solana_block) b = Inr b'"
    and "balance (ledger b') t < balance (ledger b) t"
  shows "\<exists>a. BmmAnswer_decode data = Some a \<and> ans_height a = height \<and> ans_block_hash a = block_hash \<and>
     ans_solana_block a = solana_block \<and>
     ans_commitment a = Some (commitment_of rt solana_block (meta_key payee)) \<and>
     ans_recorded a \<and> ans_credits_active a \<and>
     unat height \<le> unat (ans_credited_height a) + unat (deposit_lag (config b)) \<and>
     balance (ledger b') t = unat (rt_minimum_balance rt 0) \<and>
     balance (ledger b') (meta_key payee) =
       balance (ledger b) (meta_key payee) + (balance (ledger b) t - unat (rt_minimum_balance rt 0))"
proof -
  note tr = runtime_okD(1) [OF assms(1)]
  have sb: "settle_bmm rt slot data payee height block_hash solana_block b = Inr b'"
    using assms(3) by (simp add: exec_dispatch)
  then show ?thesis
  proof (rule settle_bmm_inv)
    fix config_k treasury a pays b1
    assume s: "treasury_key rt (config b) = Some treasury" "BmmAnswer_decode data = Some a"
      "ans_height a = height" "ans_block_hash a = block_hash" "ans_solana_block a = solana_block"
      "settle_pays rt (config b) slot height solana_block (meta_key payee) a = Inr pays"
      "(if pays then pay_treasury rt treasury config_k payee b else Inr b) = Inr b1"
      and b': "b' = b1\<lparr>config := (config b1)\<lparr>bmm_next_height := height + 1, bmm_next_since_slot := slot\<rparr>\<rparr>"
    have tt: "treasury = t" using s(1) assms(2) by simp
    have pays: pays using s(7) assms(4) b' by (cases pays) auto
    then have valid: "ans_commitment a = Some (commitment_of rt solana_block (meta_key payee))"
      "ans_recorded a" "ans_credits_active a"
      "height \<le> saturating_add (ans_credited_height a) (deposit_lag (config b))"
      using s(6) by (auto simp: settle_pays_def result_iff split: option.splits if_splits)
    have lag: "unat height \<le> unat (ans_credited_height a) + unat (deposit_lag (config b))"
      using valid(4) by (simp add: word_le_nat_alt arith_iff)
    have "pay_treasury rt t config_k payee b = Inr b1" using s(7) pays tt by simp
    then show ?thesis
    proof (rule pay_treasury_effect [OF tr])
      assume "b1 = b" then show ?thesis using assms(4) b' by simp
    next
      fix vault payout
      assume p: "paid_out rt config_k vault t payee payout b b1"
      then have m: "moved t (meta_key payee) payout (ledger b) (ledger b1)" and ne: "t \<noteq> meta_key payee"
        and n: "unat payout = balance (ledger b) t - unat (rt_minimum_balance rt 0)" "payout \<noteq> 0"
        by (auto simp: paid_out_def arith_iff balance_def word_neq_0_conv [symmetric])
      have "unat payout \<noteq> 0" using n(2) by (simp add: unat_eq_zero)
      then have "balance (ledger b1) t = unat (rt_minimum_balance rt 0)"
        using balance_moved_src [OF m ne] n(1) by simp
      moreover have "balance (ledger b1) (meta_key payee) = balance (ledger b) (meta_key payee) + unat payout"
        by (rule balance_moved_dst [OF m ne])
      ultimately show ?thesis using s(2-5) valid(1-3) lag n(1) by (simp add: b')
    qed
  qed
qed

lemma treasury_pays_valid_checkpoint_only_witness:
  "balance (ledger sample_bank6) 0x1fd7972757361657274 = 890880"
proof -
  have t: "treasury_key sample_runtime (config sample_bank5) = Some 0x1fd7972757361657274"
    by (rule sample_keys) (simp add: sample_bank5_def sample_bank4_def sample_bank3_def sample_bank2_def
        sample_bank1_def sample_config_def)
  have "ledger sample_bank5 0x1fd7972757361657274 = system_account 2000000"
    by (simp add: sample_bank5_def sample_bank4_def sample_bank3_def sample_bank2_def sample_bank1_def
        sample_config_def sample_ledger_def sample_numbers)
  moreover have "ledger sample_bank6 0x1fd7972757361657274 = system_account 890880"
    by (simp add: sample_bank6_def ALICE_def)
  ultimately have lt: "balance (ledger sample_bank6) 0x1fd7972757361657274 <
      balance (ledger sample_bank5) 0x1fd7972757361657274" by (simp add: balance_def)
  show ?thesis
    using treasury_pays_valid_checkpoint_only [OF sample_runtime_ok t sample_settle_ok [unfolded sample_settle_def] lt]
    by (auto simp: sample_rt_simps sample_rent_def)
qed

text \<open>
  A commitment that the pair of the transaction does not match moves the cursor with no payout,
  and only once the credits lie \<^verbatim>\<open>bmm_skip_blocks\<close> above the height and the grace of 300 slots passed.
\<close>

theorem unmatched_commitment_waits:
  assumes "exec rt (SettleBmm slot data payee height block_hash solana_block) b = Inr b'"
    and "BmmAnswer_decode data = Some a" "ans_commitment a = Some c"
    and "c \<noteq> commitment_of rt solana_block (meta_key payee)"
    and "unat height + unat (bmm_skip_blocks (config b)) < 2 ^ 64"
    and "unat (bmm_next_since_slot (config b)) + 300 < 2 ^ 64"
  shows "unat height + unat (bmm_skip_blocks (config b)) \<le> unat (credited_height (config b)) \<and>
     unat (bmm_next_since_slot (config b)) + 300 \<le> unat slot \<and>
     ledger b' = ledger b \<and> bmm_paid_total (config b') = bmm_paid_total (config b)"
proof -
  have "settle_bmm rt slot data payee height block_hash solana_block b = Inr b'"
    using assms(1) by (simp add: exec_dispatch)
  then show ?thesis
  proof (rule settle_bmm_inv)
    fix config_k treasury a' pays b1
    assume s: "BmmAnswer_decode data = Some a'"
      "settle_pays rt (config b) slot height solana_block (meta_key payee) a' = Inr pays"
      "(if pays then pay_treasury rt treasury config_k payee b else Inr b) = Inr b1"
      and b': "b' = b1\<lparr>config := (config b1)\<lparr>bmm_next_height := height + 1, bmm_next_since_slot := slot\<rparr>\<rparr>"
    have "a' = a" using s(1) assms(2) by simp
    then have "saturating_add height (bmm_skip_blocks (config b)) \<le> credited_height (config b)"
      "saturating_add (bmm_next_since_slot (config b)) SKIP_GRACE_SLOTS \<le> slot" "\<not> pays"
      using s(2) assms(3,4) by (auto simp: settle_pays_def result_iff split: if_splits)
    then show ?thesis
      using s(3) assms(5,6) by (simp add: b' word_le_nat_alt arith_iff SKIP_GRACE_SLOTS_def)
  qed
qed

text \<open>A commitment that nobody can open, settled late.\<close>

definition sample_skip :: instruction where
  "sample_skip =
     SettleBmm 400
       (answer_data \<lparr>q_height = 105, q_block_hash = 11, q_solana_block = 12\<rparr> (Some 0) None)
       (sample_meta ALICE) 105 11 12"

definition sample_late_bank :: bank where
  "sample_late_bank = sample_bank\<lparr>config := sample_config\<lparr>credited_height := 125\<rparr>\<rparr>"

lemma sample_commitment: "commitment_of sample_runtime 12 k = 12 * 2 ^ 248"
proof -
  have "array_of (replicate 31 0 @ [12]) = 12"
    by (simp add: array_of_def from_be_bytes_def from_le_bytes_def)
  then have bytes: "array_bytes 12 = replicate 31 0 @ [12]"
    using array_bytes_of [of "replicate 31 0 @ [12]"] by simp
  have zero: "(115792089237316195423570985008687907853269984665640564039457584007913129639936 :: pubkey) = 0"
    by simp
  show ?thesis
    by (simp add: commitment_of_def sample_rt_simps from_le_bytes_def bytes nat_of_le_append)
      (simp only: zero mult_zero_left)
qed

definition sample_skipped_bank :: bank where
  "sample_skipped_bank = sample_late_bank
     \<lparr>config := (config sample_late_bank)\<lparr>bmm_next_height := 106, bmm_next_since_slot := 400\<rparr>\<rparr>"

lemma sample_skip_ok: "exec sample_runtime sample_skip sample_late_bank = Inr sample_skipped_bank"
proof -
  have c: "config sample_late_bank = sample_config\<lparr>credited_height := 125\<rparr>"
    "ledger sample_late_bank = sample_ledger" by (simp_all add: sample_late_bank_def sample_bank_def)
  have v: "bump sample_config = 255" "treasury_bump sample_config = 253" "bmm_next_height sample_config = 105"
    "bmm_skip_blocks sample_config = 20" "bmm_next_since_slot sample_config = 0"
    by (simp_all add: sample_config_def)
  have t: "acc_owner (sample_ledger 0x1fd7972757361657274) = SYSTEM_PROGRAM_ID"
    by (simp add: sample_ledger_def sample_addresses)
  have k: "signatures_ok sample_runtime sample_skip"
    by (simp add: signatures_ok_def sample_skip_def sample_meta_def sample_rt_simps ALICE_def)
  show ?thesis
    unfolding exec_def sample_skipped_bank_def using k
    by (simp add: sample_skip_def settle_bmm_def c v t sample_keys Let_def decode_answer_data answer_of_def
        settle_pays_def sample_commitment saturating_add_def SKIP_GRACE_SLOTS_def checked_add_def)
qed

lemma unmatched_commitment_waits_witness:
  "125 \<le> unat (credited_height (config sample_late_bank)) \<and> ledger sample_skipped_bank = sample_ledger"
proof -
  have ne: "0 \<noteq> commitment_of sample_runtime 12 (meta_key (sample_meta ALICE))"
    by (simp add: sample_commitment)
  have b: "unat (105 :: u64) + unat (bmm_skip_blocks (config sample_late_bank)) < 2 ^ 64"
    "unat (bmm_next_since_slot (config sample_late_bank)) + 300 < 2 ^ 64"
    "bmm_skip_blocks (config sample_late_bank) = 20" "ledger sample_late_bank = sample_ledger"
    by (simp_all add: sample_late_bank_def sample_bank_def sample_config_def)
  show ?thesis
    using unmatched_commitment_waits [OF sample_skip_ok [unfolded sample_skip_def] decode_answer_data _ ne b(1,2)]
    by (simp add: answer_of_def b)
qed

lemma can_hold_ok: "meta_writable payee \<Longrightarrow> \<exists>h. can_hold rt L payee excluded n = Inr h"
  by (cases "can_hold rt L payee excluded n")
    (auto simp: can_hold_def Let_def split: option.splits if_splits)

lemma can_hold_room:
  "can_hold rt L payee excluded n = Inr True \<Longrightarrow> balance L (meta_key payee) + unat n < 2 ^ 64"
  by (auto simp: can_hold_def Let_def balance_def checked_add_def result_iff split: if_splits option.splits)

lemma pay_treasury_ok:
  assumes "transfer_ok rt" "vault_key rt (config b) = Some vault"
    and "acc_owner (ledger b t) = SYSTEM_PROGRAM_ID" "acc_len (ledger b t) = 0" "meta_writable payee"
    and "unat (bmm_paid_total (config b)) + balance (ledger b) t < 2 ^ 64"
  shows "\<exists>b'. pay_treasury rt t config_k payee b = Inr b'"
proof -
  let ?n = "saturating_sub (acc_lamports (ledger b t)) (rt_minimum_balance rt 0)"
  obtain h where h: "can_hold rt (ledger b) payee [t, config_k, vault] ?n = Inr h"
    using can_hold_ok [OF assms(5)] by blast
  have n: "unat ?n \<le> balance (ledger b) t" by (simp add: arith_iff balance_def)
  show ?thesis
  proof (cases "0 < ?n \<and> h")
    case True
    then have hold: "can_hold rt (ledger b) payee [t, config_k, vault] ?n = Inr True" using h by simp
    have "t \<noteq> meta_key payee" using can_hold_True [OF hold] by auto
    then have "rt_transfer rt t (meta_key payee) ?n (ledger b) \<noteq> None"
      using assms(1,3,4) n can_hold_room [OF hold] by (simp add: transfer_ok_def)
    moreover have "checked_add (bmm_paid_total (config b)) ?n \<noteq> None"
      using assms(6) n by (simp add: checked_add_def)
    ultimately show ?thesis
      using True hold assms(2) by (auto simp: pay_treasury_def Let_def)
  next
    case False
    then show ?thesis using h assms(2) by (auto simp: pay_treasury_def Let_def)
  qed
qed

lemma settle_passes:
  assumes "transfer_ok rt"
    and "config_key rt (config b) = Some config_k" "treasury_key rt (config b) = Some t"
    and "vault_key rt (config b) = Some vault"
    and "acc_owner (ledger b t) = SYSTEM_PROGRAM_ID" "acc_len (ledger b t) = 0" "meta_writable payee"
    and "unat (bmm_paid_total (config b)) + balance (ledger b) t < 2 ^ 64"
    and "unat (bmm_next_height (config b)) + 1 < 2 ^ 64"
    and "q_height q = bmm_next_height (config b)"
    and "settle_pays rt (config b) slot (bmm_next_height (config b)) (q_solana_block q) (meta_key payee)
      (answer_of q c r) = Inr pays"
  shows "\<exists>b'. settle_bmm rt slot (answer_data q c r) payee (bmm_next_height (config b)) (q_block_hash q)
       (q_solana_block q) b = Inr b' \<and>
     bmm_next_height (config b') = bmm_next_height (config b) + 1"
proof -
  let ?h = "bmm_next_height (config b)"
  have dec: "BmmAnswer_decode (answer_data q c r) = Some (answer_of q c r)" by (rule decode_answer_data)
  have fields: "ans_height (answer_of q c r) = ?h" "ans_block_hash (answer_of q c r) = q_block_hash q"
    "ans_solana_block (answer_of q c r) = q_solana_block q"
    using assms(10) by (simp_all add: answer_of_def)
  obtain b1 where b1: "(if pays then pay_treasury rt t config_k payee b else Inr b) = Inr b1"
    using pay_treasury_ok [OF assms(1,4-8)] by (cases pays) auto
  have "checked_add ?h 1 = Some (?h + 1)" using assms(9) by (simp add: checked_add_def)
  then show ?thesis
    using assms(2,3,5,11) fields b1 by (simp add: settle_bmm_def Let_def dec)
qed

text \<open>
  The cursor of the heights never gets stuck on an honest answer: at the next height, with the
  answer of the validator for the question of the transaction, a height with no commitment or with
  the pair of its commitment always settles, whether the checkpoint is valid or not.
\<close>

theorem answered_height_settles:
  assumes "runtime_ok rt"
    and "config_key rt (config b) = Some config_k" "treasury_key rt (config b) = Some t"
    and "vault_key rt (config b) = Some vault"
    and "acc_owner (ledger b t) = SYSTEM_PROGRAM_ID" "acc_len (ledger b t) = 0" "meta_writable payee"
    and "unat (bmm_paid_total (config b)) + balance (ledger b) t < 2 ^ 64"
    and "unat (bmm_next_height (config b)) + 1 < 2 ^ 64"
    and "q_height q = bmm_next_height (config b)"
    and "c = None \<or> c = Some (commitment_of rt (q_solana_block q) (meta_key payee))"
  shows "\<exists>b'. settle_bmm rt slot (answer_data q c r) payee (bmm_next_height (config b)) (q_block_hash q)
       (q_solana_block q) b = Inr b' \<and>
     bmm_next_height (config b') = bmm_next_height (config b) + 1"
proof -
  obtain pays where "settle_pays rt (config b) slot (bmm_next_height (config b)) (q_solana_block q) (meta_key payee)
      (answer_of q c r) = Inr pays"
    using assms(11)
    by (cases "settle_pays rt (config b) slot (bmm_next_height (config b)) (q_solana_block q) (meta_key payee)
      (answer_of q c r)") (auto simp: settle_pays_def answer_of_def)
  then show ?thesis by (rule settle_passes [OF runtime_okD(1) [OF assms(1)] assms(2-10)])
qed

lemma answered_height_settles_witness:
  "\<exists>b'. settle_bmm sample_runtime 9 (answer_data \<lparr>q_height = 105, q_block_hash = 1, q_solana_block = 2\<rparr> None None)
     (sample_meta ALICE) 105 1 2 sample_bank = Inr b'"
proof -
  let ?q = "\<lparr>q_height = 105, q_block_hash = 1, q_solana_block = 2\<rparr>"
  have keys: "config_key sample_runtime (config sample_bank) = Some 0x1ff6769666e6f63"
    "treasury_key sample_runtime (config sample_bank) = Some 0x1fd7972757361657274"
    "vault_key sample_runtime (config sample_bank) = Some 0x1fe746c756176"
    by (rule sample_keys, simp add: sample_bank_def sample_config_def)+
  have t: "ledger sample_bank 0x1fd7972757361657274 = system_account 2000000"
    by (simp add: sample_bank_def sample_ledger_def sample_addresses)
  have c: "bmm_next_height (config sample_bank) = 105" "bmm_paid_total (config sample_bank) = 0"
    by (simp_all add: sample_bank_def sample_config_def)
  have "\<exists>b'. settle_bmm sample_runtime 9 (answer_data ?q None None) (sample_meta ALICE)
      (bmm_next_height (config sample_bank)) (q_block_hash ?q) (q_solana_block ?q) sample_bank = Inr b' \<and>
      bmm_next_height (config b') = bmm_next_height (config sample_bank) + 1"
    by (rule answered_height_settles [OF sample_runtime_ok keys])
      (simp_all add: t c balance_def sample_meta_def)
  then show ?thesis by (auto simp: c)
qed

text \<open>
  A withdrawal that passes burns exactly its lamports: it lowers the pegged total by them, the
  vault gains them, and the next index gets a record whose payout and fee are a tenth of them.
\<close>

theorem withdraw_records_payout:
  assumes "good_state rt b" "exec rt (Withdraw user lamports fee_sats script) b = Inr b'"
    and "vault_key rt (config b) = Some v"
  shows "unat (pegged_lamports (config b)) = unat (pegged_lamports (config b')) + unat lamports \<and>
     balance (ledger b') v = balance (ledger b) v + unat lamports \<and>
     (\<exists>r. records b' = (records b)(withdrawal_count (config b) \<mapsto> r) \<and>
        records b (withdrawal_count (config b)) = None \<and>
        wr_owner r = meta_key user \<and> wr_script_pubkey r = script \<and> wr_fee_sats r = fee_sats \<and>
        unat lamports = 10 * (unat (wr_payout_sats r) + unat fee_sats) \<and>
        546 \<le> unat (wr_payout_sats r) \<and> 1000 \<le> unat fee_sats \<and> is_standard_script script) \<and>
     unat (withdrawal_count (config b')) = unat (withdrawal_count (config b)) + 1"
proof -
  have ok: "runtime_ok rt" and inv: "bank_inv rt b" using assms(1) by (simp_all add: good_state_def)
  have w: "withdraw rt user lamports fee_sats script b = Inr b'"
    and sg: "signatures_ok rt (Withdraw user lamports fee_sats script)"
    using assms(2) by (simp_all add: exec_dispatch)
  have "meta_signer user" by (rule withdraw_inv [OF w])
  then have key: "rt_has_key rt (meta_key user)" by (rule signed_has_key [OF sg])
  obtain r where r: "records b' = (records b)(withdrawal_count (config b) \<mapsto> r)"
      "record_ok rt (withdrawal_count (config b)) r"
    using withdraw_record_ok [OF w key] by blast
  have fields: "wr_owner r = meta_key user \<and> wr_script_pubkey r = script \<and> wr_fee_sats r = fee_sats \<and>
      wr_burned_lamports r = lamports \<and> is_standard_script script \<and>
      unat (pegged_lamports (config b)) = unat (pegged_lamports (config b')) + unat lamports \<and>
      unat (withdrawal_count (config b')) = unat (withdrawal_count (config b)) + 1"
  proof (rule withdraw_inv [OF w])
    fix vault L payout L'
    assume "is_standard_script script"
      "unat (pegged_lamports (config b)) = unat (pegged_lamports (config b) - lamports) + unat lamports"
      "unat (withdrawal_count (config b) + 1) = unat (withdrawal_count (config b)) + 1"
      and b': "b' = b\<lparr>config := (config b)\<lparr>pegged_lamports := pegged_lamports (config b) - lamports,
                               withdrawal_count := withdrawal_count (config b) + 1\<rparr>,
            records := (records b)(withdrawal_count (config b) \<mapsto>
               \<lparr>wr_index = withdrawal_count (config b), wr_owner = meta_key user,
                wr_burned_lamports = lamports, wr_payout_sats = payout, wr_fee_sats = fee_sats,
                wr_script_pubkey = script,
                wr_bump = snd (record_key rt (withdrawal_count (config b)))\<rparr>),
            ledger := L'\<rparr>"
    moreover have "records b' (withdrawal_count (config b)) = Some r" using r(1) by simp
    ultimately show ?thesis by auto
  qed
  have fresh: "records b (withdrawal_count (config b)) = None"
    using inv by (cases "records b (withdrawal_count (config b))") (auto simp: bank_inv_def)
  have "v \<noteq> fst (record_key rt (withdrawal_count (config b)))"
    using vault_ne_record [OF runtime_okD(4) [OF ok] assms(3)] by metis
  then have "balance (ledger b') v = balance (ledger b) v + unat lamports"
    using withdraw_balance [OF ok w key vault_no_key [OF runtime_okD(4) [OF ok] assms(3)]] assms(3) by simp
  moreover have "546 \<le> unat (wr_payout_sats r)" "1000 \<le> unat fee_sats"
    "unat lamports = 10 * (unat (wr_payout_sats r) + unat fee_sats)"
    using r(2) fields
    by (auto simp: record_ok_def MIN_PAYOUT_SATS_def MIN_FEE_SATS_def word_le_nat_alt)
  ultimately show ?thesis using fields r(1) fresh by blast
qed

lemma withdraw_records_payout_witness:
  "balance (ledger sample_bank2) 0x1fe746c756176 = balance (ledger sample_bank1) 0x1fe746c756176 + 500000"
proof -
  have "vault_key sample_runtime (config sample_bank1) = Some 0x1fe746c756176"
    by (rule sample_keys) (simp add: sample_bank1_def sample_config_def)
  from withdraw_records_payout [OF sample_good1 sample_withdraw_ok [unfolded sample_withdraw_def] this]
  show ?thesis by simp
qed

text \<open>
  Closing a record is possible only after its payment, it returns every lamport of the record to
  the owner that the record names, and it touches no other record.
\<close>

theorem close_returns_rent:
  assumes "runtime_ok rt" "exec rt (CloseRecord owner index) b = Inr b'"
  shows "\<exists>r. records b index = Some r \<and> meta_key owner = wr_owner r \<and>
     index < paid_through (config b) \<and> records b' = (records b)(index := None) \<and> config b' = config b \<and>
     balance (ledger b') (wr_owner r) =
       balance (ledger b) (wr_owner r) + balance (ledger b) (fst (record_key rt index)) \<and>
     balance (ledger b') (fst (record_key rt index)) = 0"
proof -
  have "close_record rt owner index b = Inr b'" using assms(2) by (simp add: exec_dispatch)
  then show ?thesis
  proof (rule close_record_inv)
    fix r L
    let ?k = "fst (record_key rt index)"
    assume r: "records b index = Some r" "meta_key owner = wr_owner r" "index < paid_through (config b)"
      and cl: "rt_close_account rt ?k (meta_key owner) (ledger b) = Some L"
      and b': "b' = b\<lparr>records := (records b)(index := None), ledger := L\<rparr>"
    have zero: "balance L ?k = 0" by (rule close_effect(4) [OF runtime_okD(3) [OF assms(1)] cl])
    obtain L1 where m: "?k \<noteq> meta_key owner" "moved ?k (meta_key owner) (acc_lamports (ledger b ?k)) (ledger b) L1"
      and L: "L = L1(?k := (L1 ?k)\<lparr>acc_owner := SYSTEM_PROGRAM_ID, acc_len := 0\<rparr>)"
      using runtime_okD(3) [OF assms(1)] cl unfolding close_ok_def by blast
    have "balance L (meta_key owner) = balance (ledger b) (meta_key owner) + balance (ledger b) ?k"
      using balance_moved_dst [OF m(2,1)] m(1) by (simp add: L balance_def)
    then show ?thesis using r zero by (simp add: b')
  qed
qed

lemma close_returns_rent_witness:
  "balance (ledger sample_bank5) 0x1ff00000000000000006c617761726468746977 = 0"
  using close_returns_rent [OF sample_runtime_ok sample_close_ok [unfolded sample_close_def]]
  by (auto simp: sample_keys)

text \<open>
  The program reads the BMM answer that the validator wrote, and only the question of the
  transaction decides its height and hashes.
\<close>

theorem bmm_answer_roundtrip: "BmmAnswer_decode (answer_data q c r) = Some (answer_of q c r)"
  by (rule decode_answer_data)

text \<open>
  The program reads the part of the deposits that the validator wrote: the hashes of the block,
  its deposit count, and the deposits of the part with the targets of their addresses.
\<close>

theorem deposit_answer_roundtrip:
  "length (blk_deposits blk) < 2 ^ 32 \<Longrightarrow>
   DepositAnswer_decode (deposit_answer_data target_of q blk) =
    Some \<lparr>da_height = cq_height q, da_block_hash = blk_hash blk, da_prev_block_hash = blk_prev_hash blk,
      da_total = word_of_nat (length (blk_deposits blk)), da_first = cq_first q,
      da_deposits = map (answered target_of)
        (take (unat (cq_count q)) (drop (unat (cq_first q)) (blk_deposits blk)))\<rparr>"
  by (rule decode_deposit_answer_data)

lemma deposit_answer_roundtrip_witness:
  "DepositAnswer_decode (deposit_answer_data sample_target
     \<lparr>cq_height = 101, cq_block_hash = 7, cq_first = 1, cq_count = 1\<rparr> sample_block) =
   Some \<lparr>da_height = 101, da_block_hash = 7, da_prev_block_hash = 6, da_total = 2, da_first = 1,
      da_deposits = [\<lparr>ad_sequence_number = 4, ad_value_sats = 20000, ad_target = None\<rparr>]\<rparr>"
  by (subst deposit_answer_roundtrip) (simp_all add: sample_block_def answered_def sample_target_def)

section \<open>An honest part is always credited\<close>

lemma can_take_ok: "meta_writable t \<Longrightarrow> \<exists>h. can_take rt L t vault n = Inr h"
  by (cases "can_take rt L t vault n") (auto simp: can_take_def Let_def split: option.splits if_splits)

lemma can_take_room:
  "can_take rt L t vault n = Inr True \<Longrightarrow> balance L (meta_key t) + unat n < 2 ^ 64"
  by (auto simp: can_take_def Let_def balance_def checked_add_def result_iff split: if_splits option.splits)

text \<open>The accounts that a transaction brings for the deposits: their targets in order, writable.\<close>

fun targets_match :: "AnsweredDeposit list \<Rightarrow> meta list \<Rightarrow> bool" where
  "targets_match [] ts = True"
| "targets_match (d # ds) ts =
     (case ad_target d of
        None \<Rightarrow> targets_match ds ts
      | Some key \<Rightarrow>
          (case ts of [] \<Rightarrow> False
           | t # ts' \<Rightarrow> meta_key t = key \<and> meta_writable t \<and> targets_match ds ts'))"

definition part_value :: "AnsweredDeposit list \<Rightarrow> nat" where
  "part_value ds = 10 * (\<Sum>d\<leftarrow>ds. unat (ad_value_sats d))"

lemma part_value_simps [simp]:
  "part_value [] = 0" "part_value (d # ds) = 10 * unat (ad_value_sats d) + part_value ds"
  by (simp_all add: part_value_def algebra_simps)

definition vault_ready :: "pubkey \<Rightarrow> nat \<Rightarrow> ledger \<Rightarrow> bool" where
  "vault_ready vault n L \<longleftrightarrow>
     acc_owner (L vault) = SYSTEM_PROGRAM_ID \<and> acc_len (L vault) = 0 \<and> n \<le> balance L vault"

lemma credit_one_ok:
  assumes "transfer_ok rt" "targets_match (d # ds) (cl_targets s)"
    and "vault_ready vault (10 * unat (ad_value_sats d) + n) (cl_ledger s)"
    and "cl_high_water s \<le> ad_sequence_number d" "unat (ad_sequence_number d) + 1 < 2 ^ 64"
    and "unat (cl_credited s) + unat (cl_stranded s) + 10 * unat (ad_value_sats d) < 2 ^ 64"
  shows "\<exists>s'. credit_one rt vault d s = Inr s' \<and> targets_match ds (cl_targets s') \<and>
     vault_ready vault n (cl_ledger s')"
proof -
  have b: "10 * unat (ad_value_sats d) < 2 ^ 64"
    using assms(6) by simp
  define lam where "lam = ad_value_sats d * LAMPORTS_PER_SAT"
  have mul: "checked_mul (ad_value_sats d) LAMPORTS_PER_SAT = Some lam"
    using b by (simp add: checked_mul_def LAMPORTS_PER_SAT_def lam_def mult.commute)
  then have lam: "unat lam = 10 * unat (ad_value_sats d)"
    by (simp add: arith_iff LAMPORTS_PER_SAT_def)
  have seq: "checked_add (ad_sequence_number d) 1 = Some (ad_sequence_number d + 1)"
    using assms(5) by (simp add: checked_add_def)
  have cr: "checked_add (cl_credited s) lam = Some (cl_credited s + lam)"
    and st: "checked_add (cl_stranded s) lam = Some (cl_stranded s + lam)"
    using assms(6) lam by (simp_all add: checked_add_def)
  have keep: "vault_ready vault n (cl_ledger s)"
    using assms(3) by (simp add: vault_ready_def)
  show ?thesis
  proof (cases "ad_target d")
    case None
    then show ?thesis
      using assms(2,4) mul seq st keep by (simp add: credit_one_def next_target_def)
  next
    case (Some key)
    then obtain t ts where t: "cl_targets s = t # ts" "meta_key t = key" "meta_writable t"
        "targets_match ds ts"
      using assms(2) by (auto split: list.splits)
    obtain h where h: "can_take rt (cl_ledger s) t vault lam = Inr h"
      using can_take_ok [OF t(3)] by blast
    show ?thesis
    proof (cases "h \<and> 0 < lam")
      case True
      then have take: "can_take rt (cl_ledger s) t vault lam = Inr True" using h by simp
      have ne: "vault \<noteq> meta_key t" using can_take_not_vault [OF take] by simp
      then have "rt_transfer rt vault (meta_key t) lam (cl_ledger s) \<noteq> None"
        using assms(1,3) lam can_take_room [OF take] by (simp add: transfer_ok_def vault_ready_def)
      then obtain L where L: "rt_transfer rt vault (meta_key t) lam (cl_ledger s) = Some L" by blast
      have m: "moved vault (meta_key t) lam (cl_ledger s) L" by (rule transfer_moved [OF assms(1) L])
      have "vault_ready vault n L"
        using assms(3) lam balance_moved_src [OF m ne] moved_shape(1,2) [OF m, of vault]
        unfolding vault_ready_def by auto
      then show ?thesis
        using True take Some t L assms(4) mul seq cr by (simp add: credit_one_def next_target_def)
    next
      case False
      then show ?thesis
        using h Some t assms(4) mul seq cr st keep
        by (cases h) (simp_all add: credit_one_def next_target_def)
    qed
  qed
qed

lemma credit_loop_ok:
  assumes "transfer_ok rt" "targets_match ds (cl_targets s)"
    and "vault_ready vault (part_value ds) (cl_ledger s)"
    and "sorted_wrt (<) (map (unat \<circ> ad_sequence_number) ds)"
    and "\<forall>d \<in> set ds. cl_high_water s \<le> ad_sequence_number d \<and> unat (ad_sequence_number d) + 1 < 2 ^ 64"
    and "unat (cl_credited s) + unat (cl_stranded s) + part_value ds < 2 ^ 64"
  shows "\<exists>s'. credit_loop rt vault ds s = Inr s'"
  using assms(2-)
proof (induction ds arbitrary: s)
  case (Cons d ds)
  have pre: "vault_ready vault (10 * unat (ad_value_sats d) + part_value ds) (cl_ledger s)"
    "cl_high_water s \<le> ad_sequence_number d" "unat (ad_sequence_number d) + 1 < 2 ^ 64"
    "unat (cl_credited s) + unat (cl_stranded s) + 10 * unat (ad_value_sats d) < 2 ^ 64"
    using Cons.prems by simp_all
  obtain s1 where s1: "credit_one rt vault d s = Inr s1" "targets_match ds (cl_targets s1)"
      "vault_ready vault (part_value ds) (cl_ledger s1)"
    using credit_one_ok [OF assms(1) Cons.prems(1) pre] by blast
  note eff = credit_one_effect [OF assms(1) s1(1)]
  have "\<forall>e \<in> set ds. cl_high_water s1 \<le> ad_sequence_number e \<and> unat (ad_sequence_number e) + 1 < 2 ^ 64"
    using Cons.prems(3,4) eff(2) by (auto simp: word_le_nat_alt)
  moreover have "unat (cl_credited s1) + unat (cl_stranded s1) + part_value ds < 2 ^ 64"
    using Cons.prems(5) eff(3) by simp
  ultimately show ?case
    using Cons.IH [OF s1(2,3)] Cons.prems(3) s1(1) by simp
qed simp

text \<open>
  A part that fits is never refused: when the part comes next, the transaction brings its targets
  writable and in order, the sequence numbers are new and the vault covers its value, the credit
  passes, whatever kind of accounts the targets are.
\<close>

lemma part_credited:
  assumes "runtime_ok rt" "config_key rt (config b) \<noteq> None" "vault_key rt (config b) = Some vault"
    and "credit_guards (config b) data height block_hash first count = Inr (answer, end)"
    and "targets_match (da_deposits answer) remaining"
    and "vault_ready vault (part_value (da_deposits answer)) (ledger b)"
    and "sorted_wrt (<) (map (unat \<circ> ad_sequence_number) (da_deposits answer))"
    and "\<forall>d \<in> set (da_deposits answer). deposit_high_water (config b) \<le> ad_sequence_number d \<and>
           unat (ad_sequence_number d) + 1 < 2 ^ 64"
    and "unat (pegged_lamports (config b)) + part_value (da_deposits answer) < 2 ^ 64"
    and "unat (stranded_lamports (config b)) + part_value (da_deposits answer) < 2 ^ 64"
  shows "\<exists>b'. credit_deposits rt data remaining height block_hash first count b = Inr b'"
proof -
  note tr = runtime_okD(1) [OF assms(1)]
  let ?s = "\<lparr>cl_ledger = ledger b, cl_targets = remaining, cl_high_water = deposit_high_water (config b),
    cl_credited = 0, cl_stranded = 0\<rparr>"
  obtain s where l: "credit_loop rt vault (da_deposits answer) ?s = Inr s"
    using credit_loop_ok [OF tr, of "da_deposits answer" ?s vault] assms(5-9) by auto
  have "unat (cl_credited s) + unat (cl_stranded s) = part_value (da_deposits answer)"
    using credit_loop_effect [OF tr l] by (simp add: part_value_def)
  then have "checked_add (pegged_lamports (config b)) (cl_credited s) \<noteq> None"
    "checked_add (stranded_lamports (config b)) (cl_stranded s) \<noteq> None"
    using assms(9,10) by (simp_all add: checked_add_def)
  then obtain cfg' where "credit_commit (config b) height block_hash (da_total answer) end s = Inr cfg'"
    by (auto simp: credit_commit_def Let_def)
  then show ?thesis
    using assms(2-4,6) l by (auto simp: credit_deposits_def Let_def vault_ready_def)
qed

end
