(* ===== verification/Layout.thy ===== *)
theory Layout
  imports Bridge_State
begin

text \<open>
  The byte layouts that the daemon shares with the bridge program and with the patched validator
  (\<^verbatim>\<open>daemon/src/bridge.rs\<close>): the reader, the config and the record accounts, the block record and the
  instructions. SHA-256 is code outside the repository, the parameter \<open>sha\<close>.
\<close>

section \<open>Text and discriminators\<close>

definition ascii :: "string \<Rightarrow> bytes" where
  "ascii s = map of_char s"

definition discriminator :: "(bytes \<Rightarrow> array32) \<Rightarrow> string \<Rightarrow> string \<Rightarrow> bytes" where
  "discriminator sha namespace name =
     take 8 (array_bytes (sha (ascii namespace @ ascii '':'' @ ascii name)))"

definition daemon_commitment_of :: "(bytes \<Rightarrow> array32) \<Rightarrow> array32 \<Rightarrow> pubkey \<Rightarrow> array32" where
  "daemon_commitment_of sha solana_block payee = sha (array_bytes solana_block @ array_bytes payee)"

lemma length_discriminator [simp]: "length (discriminator sha ns n) = 8"
  by (simp add: discriminator_def)

definition rent_exempt_lamports :: "nat \<Rightarrow> u64 \<Rightarrow> u64 option" where
  "rent_exempt_lamports data_len lamports_per_byte_year =
     (case try_from_nat data_len of
        None \<Rightarrow> None
      | Some len \<Rightarrow>
          (case checked_add 128 len of
             None \<Rightarrow> None
           | Some bytes \<Rightarrow> checked_mul bytes lamports_per_byte_year))"

section \<open>The reader\<close>

record Reader =
  rd_bytes :: bytes
  rd_at :: nat

definition Reader_new :: "bytes \<Rightarrow> Reader" where
  "Reader_new bytes = \<lparr>rd_bytes = bytes, rd_at = 0\<rparr>"

definition Reader_array :: "nat \<Rightarrow> Reader \<Rightarrow> (bytes \<times> Reader) option" where
  "Reader_array n r =
     (case get_slice (rd_at r) (rd_at r + n) (rd_bytes r) of
        None \<Rightarrow> None
      | Some out \<Rightarrow> Some (out, r\<lparr>rd_at := rd_at r + n\<rparr>))"

definition Reader_u8 :: "Reader \<Rightarrow> (u8 \<times> Reader) option" where
  "Reader_u8 r = map_option (\<lambda>(out, r'). (out ! 0, r')) (Reader_array 1 r)"

definition Reader_u32 :: "Reader \<Rightarrow> (u32 \<times> Reader) option" where
  "Reader_u32 r = map_option (\<lambda>(out, r'). (from_le_bytes out, r')) (Reader_array 4 r)"

definition Reader_u64 :: "Reader \<Rightarrow> (u64 \<times> Reader) option" where
  "Reader_u64 r = map_option (\<lambda>(out, r'). (from_le_bytes out, r')) (Reader_array 8 r)"

definition Reader_array32 :: "Reader \<Rightarrow> (array32 \<times> Reader) option" where
  "Reader_array32 r = map_option (\<lambda>(out, r'). (array_of out, r')) (Reader_array 32 r)"

definition Reader_bytes :: "nat \<Rightarrow> Reader \<Rightarrow> (bytes \<times> Reader) option" where
  "Reader_bytes len r = Reader_array len r"

lemmas Reader_defs = Reader_u8_def Reader_u32_def Reader_u64_def Reader_array32_def Reader_bytes_def
  Reader_array_def Reader_new_def get_slice_def

section \<open>The config\<close>

datatype LayoutError =
    ShortAccount string nat nat
  | NotTheLayout nat nat
  | WrongDiscriminator string
  | ScriptPubkeyOverrun u32
  | TruncatedField string string

definition Config_LEN :: nat where
  "Config_LEN = 8 + 32 + 8 * 5 + 8 * 3 + 32 + 8 + 32 + 8 + 1 + 1 + 1 + 8 * 7 + 32"

definition Config_encode :: "(bytes \<Rightarrow> array32) \<Rightarrow> Config \<Rightarrow> bytes" where
  "Config_encode sha c =
     discriminator sha ''account'' ''Config'' @ array_bytes (oracle_key c) @
     concat (map to_le_bytes
       [deposit_high_water c, pegged_lamports c, withdrawal_count c, bmm_next_height c,
        bmm_paid_total c, deposit_confirmations c, deposit_lag c, credited_height c]) @
     array_bytes (credited_block c) @ to_le_bytes (credit_index c) @
     array_bytes (credit_part_block c) @ to_le_bytes (stranded_lamports c) @
     [bump c, vault_bump c, treasury_bump c] @
     concat (map to_le_bytes
       [vault_supply c, float_lamports c, paid_through c, bundled_through c,
        bundle_sealed_height c, bmm_skip_blocks c, bmm_next_since_slot c]) @
     array_bytes (bundle_m6id c)"

text \<open>One field: \<^verbatim>\<open>reader.get().ok_or_else(|| cut("field"))?\<close>, and the rest of the reads.\<close>

definition field ::
  "string \<Rightarrow> string \<Rightarrow> (Reader \<Rightarrow> ('a \<times> Reader) option) \<Rightarrow> Reader \<Rightarrow> ('a \<Rightarrow> Reader \<Rightarrow> LayoutError + 'b) \<Rightarrow>
     LayoutError + 'b" where
  "field name f get r k = ok_or (get r) (TruncatedField name f) (\<lambda>(x, r'). k x r')"

definition Config_decode :: "(bytes \<Rightarrow> array32) \<Rightarrow> bytes \<Rightarrow> LayoutError + Config" where
  "Config_decode sha data =
     (if length data \<noteq> Config_LEN then Inl (NotTheLayout Config_LEN (length data))
      else if take 8 data \<noteq> discriminator sha ''account'' ''Config''
      then Inl (WrongDiscriminator ''Config'')
      else
        field ''Config'' ''oracle'' Reader_array32 (Reader_new (drop 8 data)) (\<lambda>oracle r.
        field ''Config'' ''deposit_high_water'' Reader_u64 r (\<lambda>high_water r.
        field ''Config'' ''pegged_lamports'' Reader_u64 r (\<lambda>pegged r.
        field ''Config'' ''withdrawal_count'' Reader_u64 r (\<lambda>count r.
        field ''Config'' ''bmm_next_height'' Reader_u64 r (\<lambda>next_height r.
        field ''Config'' ''bmm_paid_total'' Reader_u64 r (\<lambda>paid_total r.
        field ''Config'' ''deposit_confirmations'' Reader_u64 r (\<lambda>confirmations r.
        field ''Config'' ''deposit_lag'' Reader_u64 r (\<lambda>lag r.
        field ''Config'' ''credited_height'' Reader_u64 r (\<lambda>height r.
        field ''Config'' ''credited_block'' Reader_array32 r (\<lambda>block r.
        field ''Config'' ''credit_index'' Reader_u64 r (\<lambda>index r.
        field ''Config'' ''credit_part_block'' Reader_array32 r (\<lambda>part r.
        field ''Config'' ''stranded_lamports'' Reader_u64 r (\<lambda>stranded r.
        field ''Config'' ''bump'' Reader_u8 r (\<lambda>b r.
        field ''Config'' ''vault_bump'' Reader_u8 r (\<lambda>vb r.
        field ''Config'' ''treasury_bump'' Reader_u8 r (\<lambda>tb r.
        field ''Config'' ''vault_supply'' Reader_u64 r (\<lambda>supply r.
        field ''Config'' ''float_lamports'' Reader_u64 r (\<lambda>float r.
        field ''Config'' ''paid_through'' Reader_u64 r (\<lambda>paid r.
        field ''Config'' ''bundled_through'' Reader_u64 r (\<lambda>bundled r.
        field ''Config'' ''bundle_sealed_height'' Reader_u64 r (\<lambda>sealed r.
        field ''Config'' ''bmm_skip_blocks'' Reader_u64 r (\<lambda>skip r.
        field ''Config'' ''bmm_next_since_slot'' Reader_u64 r (\<lambda>since r.
        field ''Config'' ''bundle_m6id'' Reader_array32 r (\<lambda>m6id r.
        Inr \<lparr>oracle_key = oracle, deposit_high_water = high_water, pegged_lamports = pegged,
          withdrawal_count = count, bmm_next_height = next_height, bmm_paid_total = paid_total,
          deposit_confirmations = confirmations, deposit_lag = lag, credited_height = height,
          credited_block = block, credit_index = index, credit_part_block = part,
          stranded_lamports = stranded, bump = b, vault_bump = vb, treasury_bump = tb,
          vault_supply = supply, float_lamports = float, paid_through = paid,
          bundled_through = bundled, bundle_sealed_height = sealed, bmm_skip_blocks = skip,
          bmm_next_since_slot = since, bundle_m6id = m6id\<rparr>)))))))))))))))))))))))))"

definition config_of :: "bytes \<Rightarrow> Config" where
  "config_of d =
     \<lparr>oracle_key = array_of (subslice 8 40 d),
      deposit_high_water = from_le_bytes (subslice 40 48 d),
      pegged_lamports = from_le_bytes (subslice 48 56 d),
      withdrawal_count = from_le_bytes (subslice 56 64 d),
      bmm_next_height = from_le_bytes (subslice 64 72 d),
      bmm_paid_total = from_le_bytes (subslice 72 80 d),
      deposit_confirmations = from_le_bytes (subslice 80 88 d),
      deposit_lag = from_le_bytes (subslice 88 96 d),
      credited_height = from_le_bytes (subslice 96 104 d),
      credited_block = array_of (subslice 104 136 d),
      credit_index = from_le_bytes (subslice 136 144 d),
      credit_part_block = array_of (subslice 144 176 d),
      stranded_lamports = from_le_bytes (subslice 176 184 d),
      bump = d ! 184, vault_bump = d ! 185, treasury_bump = d ! 186,
      vault_supply = from_le_bytes (subslice 187 195 d),
      float_lamports = from_le_bytes (subslice 195 203 d),
      paid_through = from_le_bytes (subslice 203 211 d),
      bundled_through = from_le_bytes (subslice 211 219 d),
      bundle_sealed_height = from_le_bytes (subslice 219 227 d),
      bmm_skip_blocks = from_le_bytes (subslice 227 235 d),
      bmm_next_since_slot = from_le_bytes (subslice 235 243 d),
      bundle_m6id = array_of (subslice 243 275 d)\<rparr>"

lemma subslice_drop: "subslice a b (drop n xs) = subslice (n + a) (n + b) xs"
  by (simp add: subslice_def add.commute)

lemma subslice_nth0: "a < length xs \<Longrightarrow> a < b \<Longrightarrow> subslice a b xs ! 0 = xs ! a"
  by (simp add: subslice_def)

lemma Config_decode_config_of:
  assumes "length d = Config_LEN" "take 8 d = discriminator sha ''account'' ''Config''"
  shows "Config_decode sha d = Inr (config_of d)"
  using assms
  by (simp add: Config_decode_def field_def Reader_defs Config_LEN_def config_of_def subslice_drop subslice_nth0)

lemma length_Config_encode [simp]: "length (Config_encode sha c) = Config_LEN"
  by (simp add: Config_encode_def Config_LEN_def)

lemma config_of_encode: "config_of (Config_encode sha c) = c"
  by (simp add: config_of_def Config_encode_def append_layout_simps nth_append)

lemma Config_decode_encode: "Config_decode sha (Config_encode sha c) = Inr c"
proof -
  have "take 8 (Config_encode sha c) = discriminator sha ''account'' ''Config''"
    by (simp add: Config_encode_def)
  then show ?thesis by (simp add: Config_decode_config_of config_of_encode)
qed

lemma subslice_join_left:
  "a \<le> b \<Longrightarrow> b \<le> c \<Longrightarrow> subslice a b xs @ subslice b c xs @ ys = subslice a c xs @ ys"
  using subslice_join [of a b c xs] by (metis append.assoc)

lemma subslice_singleton: "i < length xs \<Longrightarrow> [xs ! i] = subslice i (Suc i) xs"
  by (simp add: subslice_def take_Suc_conv_app_nth Cons_nth_drop_Suc [symmetric] del: Cons_nth_drop_Suc)

lemma Config_encode_decode:
  assumes "Config_decode sha d = Inr c"
  shows "Config_encode sha c = d"
proof -
  have len: "length d = 275" and disc: "take 8 d = discriminator sha ''account'' ''Config''"
    using assms by (auto simp: Config_decode_def Config_LEN_def split: if_splits)
  then have c: "c = config_of d" using Config_decode_config_of [of d sha] assms by (simp add: Config_LEN_def)
  have bumps: "[d ! 184, d ! 185, d ! 186] = subslice 184 187 d"
  proof -
    have "[d ! 184, d ! 185, d ! 186] = [d ! 184] @ [d ! 185] @ [d ! 186]" by simp
    also have "\<dots> = subslice 184 185 d @ subslice 185 186 d @ subslice 186 187 d"
      using len subslice_singleton [of 184 d] subslice_singleton [of 185 d] subslice_singleton [of 186 d]
      by simp
    finally show ?thesis by (simp add: subslice_join)
  qed
  have d8: "take 8 d = subslice 0 8 d" by (simp add: subslice_def)
  have "Config_encode sha c =
      subslice 0 8 d @ subslice 8 40 d @ subslice 40 48 d @ subslice 48 56 d @ subslice 56 64 d @
      subslice 64 72 d @ subslice 72 80 d @ subslice 80 88 d @ subslice 88 96 d @ subslice 96 104 d @
      subslice 104 136 d @ subslice 136 144 d @ subslice 144 176 d @ subslice 176 184 d @
      subslice 184 187 d @ subslice 187 195 d @ subslice 195 203 d @ subslice 203 211 d @
      subslice 211 219 d @ subslice 219 227 d @ subslice 227 235 d @ subslice 235 243 d @ subslice 243 275 d"
    using len by (simp add: c Config_encode_def config_of_def disc [symmetric] d8 bumps [symmetric])
  also have "\<dots> = subslice 0 275 d"
    by (simp add: subslice_join_left subslice_join)
  also have "\<dots> = d" using len by (simp add: subslice_def)
  finally show ?thesis .
qed

interpretation config: codec "Config_encode sha"
    "\<lambda>d. case Config_decode sha d of Inr c \<Rightarrow> Some c | Inl _ \<Rightarrow> None" "\<lambda>_. True" for sha
  by unfold_locales
    (auto simp: Config_decode_encode split: sum.splits dest: Config_encode_decode)

text \<open>The offsets at which the patched validator reads the deposit credits from the config account.\<close>

record Credits =
  cr_credited_height :: u64
  cr_credited_block :: array32
  cr_part_block :: array32
  cr_lag :: u64

definition config_u64 :: "bytes \<Rightarrow> bytes \<Rightarrow> nat \<Rightarrow> u64 option" where
  "config_u64 config_discriminator data at =
     (case get_slice 0 8 data of
        None \<Rightarrow> None
      | Some head \<Rightarrow>
          if head \<noteq> config_discriminator then None
          else map_option from_le_bytes (get_slice at (at + 8) data))"

definition Credits_read :: "bytes \<Rightarrow> bytes \<Rightarrow> Credits option" where
  "Credits_read config_discriminator data =
     (case (config_u64 config_discriminator data 96, get_slice 104 136 data, get_slice 144 176 data,
            config_u64 config_discriminator data 88) of
        (Some height, Some block, Some part, Some lag) \<Rightarrow>
          Some \<lparr>cr_credited_height = height, cr_credited_block = array_of block,
            cr_part_block = array_of part, cr_lag = lag\<rparr>
      | _ \<Rightarrow> None)"

lemma Credits_read_encode:
  "Credits_read (discriminator sha ''account'' ''Config'') (Config_encode sha c) =
     Some \<lparr>cr_credited_height = credited_height c, cr_credited_block = credited_block c,
       cr_part_block = credit_part_block c, cr_lag = deposit_lag c\<rparr>"
proof -
  have len: "length (Config_encode sha c) = 275" by (simp add: Config_LEN_def)
  have c: "config_of (Config_encode sha c) = c" by (rule config_of_encode)
  have disc: "subslice 0 8 (Config_encode sha c) = discriminator sha ''account'' ''Config''"
    by (simp add: Config_encode_def append_layout_simps)
  have f: "from_le_bytes (subslice 96 104 (Config_encode sha c)) = credited_height c"
    "from_le_bytes (subslice 88 96 (Config_encode sha c)) = deposit_lag c"
    "array_of (subslice 104 136 (Config_encode sha c)) = credited_block c"
    "array_of (subslice 144 176 (Config_encode sha c)) = credit_part_block c"
    by (subst (2) c [symmetric], simp add: config_of_def)+
  show ?thesis
    by (simp add: Credits_read_def config_u64_def get_slice_def len Config_LEN_def disc f)
qed

definition live_bundle :: "Config \<Rightarrow> (u64 \<times> u64) option" where
  "live_bundle c =
     (if paid_through c < bundled_through c then Some (paid_through c, bundled_through c) else None)"

definition vault_surplus :: "Config \<Rightarrow> u64 \<Rightarrow> u64 option" where
  "vault_surplus c vault =
     (case checked_add vault (pegged_lamports c) of
        None \<Rightarrow> None
      | Some backed \<Rightarrow> checked_sub backed (vault_supply c))"

definition float_backed :: "Config \<Rightarrow> u64 \<Rightarrow> bool" where
  "float_backed c vault =
     (case vault_surplus c vault of None \<Rightarrow> False | Some surplus \<Rightarrow> float_lamports c \<le> surplus)"

section \<open>The withdrawal record\<close>

definition HEAD_LEN :: nat where
  "HEAD_LEN = 8 + 8 + 32 + 8 + 8 + 8 + 4"

definition WithdrawalRecord_decode :: "(bytes \<Rightarrow> array32) \<Rightarrow> bytes \<Rightarrow> LayoutError + WithdrawalRecord" where
  "WithdrawalRecord_decode sha data =
     (if length data < HEAD_LEN + 1 then Inl (ShortAccount ''WithdrawalRecord'' (HEAD_LEN + 1) (length data))
      else if take 8 data \<noteq> discriminator sha ''account'' ''WithdrawalRecord''
      then Inl (WrongDiscriminator ''WithdrawalRecord'')
      else
        field ''WithdrawalRecord'' ''index'' Reader_u64 (Reader_new (drop 8 data)) (\<lambda>index r.
        field ''WithdrawalRecord'' ''owner'' Reader_array32 r (\<lambda>owner r.
        field ''WithdrawalRecord'' ''burned_lamports'' Reader_u64 r (\<lambda>burned r.
        field ''WithdrawalRecord'' ''payout_sats'' Reader_u64 r (\<lambda>payout r.
        field ''WithdrawalRecord'' ''fee_sats'' Reader_u64 r (\<lambda>fee r.
        field ''WithdrawalRecord'' ''script_len'' Reader_u32 r (\<lambda>script_len r.
        ok_or (Reader_bytes (unat script_len) r) (ScriptPubkeyOverrun script_len) (\<lambda>(script, r).
        field ''WithdrawalRecord'' ''bump'' Reader_u8 r (\<lambda>b r.
        Inr \<lparr>wr_index = index, wr_owner = owner, wr_burned_lamports = burned, wr_payout_sats = payout,
          wr_fee_sats = fee, wr_script_pubkey = script, wr_bump = b\<rparr>)))))))))"

text \<open>
  What Anchor writes for the record account: the discriminator, the fields in order with the length
  of the script in four bytes, and zeros up to the space of the account.
\<close>

definition anchor_record :: "(bytes \<Rightarrow> array32) \<Rightarrow> WithdrawalRecord \<Rightarrow> bytes" where
  "anchor_record sha r =
     (let body = discriminator sha ''account'' ''WithdrawalRecord'' @ to_le_bytes (wr_index r) @
            array_bytes (wr_owner r) @ to_le_bytes (wr_burned_lamports r) @
            to_le_bytes (wr_payout_sats r) @ to_le_bytes (wr_fee_sats r) @
            to_le_bytes (word_of_nat (length (wr_script_pubkey r)) :: u32) @ wr_script_pubkey r @
            [wr_bump r]
      in body @ replicate (WITHDRAWAL_RECORD_SPACE - length body) 0)"

lemma WithdrawalRecord_decode_anchor:
  assumes "length (wr_script_pubkey r) \<le> MAX_SCRIPT_PUBKEY_LEN"
  shows "WithdrawalRecord_decode sha (anchor_record sha r) = Inr r"
proof -
  let ?n = "length (wr_script_pubkey r)"
  have n: "unat (word_of_nat ?n :: u32) = ?n"
    using assms by (simp add: unat_of_nat MAX_SCRIPT_PUBKEY_LEN_def)
  show ?thesis
    using assms
    by (simp add: WithdrawalRecord_decode_def anchor_record_def Let_def HEAD_LEN_def
        field_def Reader_defs n append_layout_simps nth_append WITHDRAWAL_RECORD_SPACE_def
        MAX_SCRIPT_PUBKEY_LEN_def)
      (simp add: subslice_def)
qed

section \<open>The block record\<close>

definition BLOCK_RECORD_ENTRY_LEN :: nat where
  "BLOCK_RECORD_ENTRY_LEN = 8 + 32 + 8 + 32 + 32"

definition BLOCK_RECORD_LEN :: nat where
  "BLOCK_RECORD_LEN = 2048 * BLOCK_RECORD_ENTRY_LEN"

definition BLOCK_RECORD_STRIDE :: u64 where
  "BLOCK_RECORD_STRIDE = 32"

record RecordedBlock =
  rb_slot :: u64
  rb_bank_hash :: array32
  rb_credited_height :: u64
  rb_credited_block :: array32
  rb_part_block :: array32

text \<open>\<^verbatim>\<open>std::cmp::Reverse\<close>: the order of the keys, turned around.\<close>

datatype 'a reverse = Reverse (unreverse: 'a)

instantiation reverse :: (linorder) linorder
begin

definition less_eq_reverse :: "'a reverse \<Rightarrow> 'a reverse \<Rightarrow> bool" where
  "less_eq_reverse a b \<longleftrightarrow> unreverse b \<le> unreverse a"

definition less_reverse :: "'a reverse \<Rightarrow> 'a reverse \<Rightarrow> bool" where
  "less_reverse a b \<longleftrightarrow> unreverse b < unreverse a"

instance
  by standard (auto simp: less_eq_reverse_def less_reverse_def intro: reverse.expand)

end

definition recorded_entry :: "bytes \<Rightarrow> RecordedBlock option" where
  "recorded_entry entry =
     (case Reader_u64 (Reader_new entry) of None \<Rightarrow> None | Some (s, r) \<Rightarrow>
     (case Reader_array32 r of None \<Rightarrow> None | Some (bank_hash, r) \<Rightarrow>
     (case Reader_u64 r of None \<Rightarrow> None | Some (height, r) \<Rightarrow>
     (case Reader_array32 r of None \<Rightarrow> None | Some (block, r) \<Rightarrow>
     (case Reader_array32 r of None \<Rightarrow> None | Some (part, r) \<Rightarrow>
        if bank_hash \<noteq> 0
        then Some \<lparr>rb_slot = s, rb_bank_hash = bank_hash, rb_credited_height = height,
               rb_credited_block = block, rb_part_block = part\<rparr>
        else None)))))"

definition recorded_blocks :: "bytes \<Rightarrow> RecordedBlock list" where
  "recorded_blocks rec =
     sort_key (\<lambda>b. Reverse (rb_slot b))
       (List.map_filter recorded_entry (chunks_exact BLOCK_RECORD_ENTRY_LEN rec))"

text \<open>The validator writes the last block of each stride of slots in the place of the stride.\<close>

definition record_entry :: "RecordedBlock \<Rightarrow> bytes" where
  "record_entry b =
     to_le_bytes (rb_slot b) @ array_bytes (rb_bank_hash b) @ to_le_bytes (rb_credited_height b) @
     array_bytes (rb_credited_block b) @ array_bytes (rb_part_block b)"

definition stride_index :: "u64 \<Rightarrow> nat" where
  "stride_index s = unat (s div BLOCK_RECORD_STRIDE mod 2048)"

definition record_block :: "RecordedBlock \<Rightarrow> bytes \<Rightarrow> bytes" where
  "record_block b rec =
     (if length rec \<noteq> BLOCK_RECORD_LEN then rec
      else copy_into (stride_index (rb_slot b) * BLOCK_RECORD_ENTRY_LEN) (record_entry b) rec)"

lemma length_record_entry [simp]: "length (record_entry b) = BLOCK_RECORD_ENTRY_LEN"
  by (simp add: record_entry_def BLOCK_RECORD_ENTRY_LEN_def)

lemma recorded_entry_record: "recorded_entry (record_entry b) = (if rb_bank_hash b = 0 then None else Some b)"
  by (simp add: recorded_entry_def record_entry_def Reader_defs append_layout_simps)

lemma copy_chunk:
  assumes "0 < n" "length xs = n * k" "i < k" "length x = n"
  shows "chunks_exact n (copy_into (i * n) x xs) = (chunks_exact n xs)[i := x]"
  using assms(2,3)
proof (induction k arbitrary: i xs)
  case (Suc k)
  have split: "xs = take n xs @ drop n xs" and len: "length (take n xs) = n" "length (drop n xs) = n * k"
    using Suc.prems(1) by simp_all
  have chunks: "chunks_exact n xs = take n xs # chunks_exact n (drop n xs)"
    using chunks_exact_append [OF len(1) assms(1), of "drop n xs"] by simp
  show ?case
  proof (cases i)
    case 0
    then have "copy_into (i * n) x xs = x @ drop n xs" by (simp add: copy_into_def assms(4))
    then show ?thesis by (simp add: 0 chunks chunks_exact_append [OF assms(4,1)])
  next
    case (Suc j)
    have "copy_into (i * n) x xs = take n xs @ copy_into (j * n) x (drop n xs)"
      using take_add [of n "j * n" xs] by (simp add: Suc copy_into_def add.commute add.left_commute)
    then have "chunks_exact n (copy_into (i * n) x xs) =
        take n xs # chunks_exact n (copy_into (j * n) x (drop n xs))"
      by (simp add: chunks_exact_append [OF len(1) assms(1)])
    also have "\<dots> = take n xs # (chunks_exact n (drop n xs))[j := x]"
      using Suc.IH [OF len(2), of j] Suc.prems(2) Suc by simp
    finally show ?thesis by (simp add: Suc chunks)
  qed
qed simp

lemma stride_index_bound: "stride_index s < 2048"
  unfolding stride_index_def by (simp add: unat_mod)

lemma record_block_chunks:
  assumes "length rec = BLOCK_RECORD_LEN"
  shows "chunks_exact BLOCK_RECORD_ENTRY_LEN (record_block b rec) =
    (chunks_exact BLOCK_RECORD_ENTRY_LEN rec)[stride_index (rb_slot b) := record_entry b]"
  using assms copy_chunk [of BLOCK_RECORD_ENTRY_LEN rec 2048 "stride_index (rb_slot b)" "record_entry b"]
    stride_index_bound
  by (simp add: record_block_def BLOCK_RECORD_LEN_def BLOCK_RECORD_ENTRY_LEN_def mult.commute)

lemma length_chunks_exact:
  assumes "0 < n" "length xs = n * k"
  shows "length (chunks_exact n xs) = k"
  using assms(2)
proof (induction k arbitrary: xs)
  case (Suc k)
  have len: "length (take n xs) = n" "length (drop n xs) = n * k" using Suc.prems by simp_all
  have "chunks_exact n xs = take n xs # chunks_exact n (drop n xs)"
    using chunks_exact_append [OF len(1) assms(1), of "drop n xs"] by simp
  then show ?case using Suc.IH [OF len(2)] by simp
qed simp

lemma set_map_filter: "set (List.map_filter f xs) = {y. \<exists>x \<in> set xs. f x = Some y}"
  by (induction xs) (auto simp: map_filter_simps split: option.split)

lemma recorded_after_record:
  assumes "length rec = BLOCK_RECORD_LEN" "rb_bank_hash b \<noteq> 0"
  shows "b \<in> set (recorded_blocks (record_block b rec))"
proof -
  let ?cs = "chunks_exact BLOCK_RECORD_ENTRY_LEN rec"
  have "length ?cs = 2048"
    using assms(1) length_chunks_exact [of BLOCK_RECORD_ENTRY_LEN rec 2048]
    by (simp add: BLOCK_RECORD_LEN_def BLOCK_RECORD_ENTRY_LEN_def)
  then have "record_entry b \<in> set (?cs[stride_index (rb_slot b) := record_entry b])"
    using stride_index_bound by (simp add: set_update_memI)
  then show ?thesis
    using assms(2) recorded_entry_record [of b]
    by (auto simp: recorded_blocks_def set_map_filter record_block_chunks [OF assms(1)])
qed

lemma recorded_newest_first:
  "sorted_wrt (\<lambda>a b. rb_slot b \<le> rb_slot a) (recorded_blocks rec)"
proof -
  have "sorted (map (\<lambda>b. Reverse (rb_slot b)) (recorded_blocks rec))"
    by (simp add: recorded_blocks_def)
  then show ?thesis by (simp add: sorted_map less_eq_reverse_def)
qed

section \<open>Instructions\<close>

type_synonym find_pda = "bytes list \<Rightarrow> pubkey \<Rightarrow> pubkey \<times> u8"

record Instruction =
  ix_program :: pubkey
  ix_accounts :: "meta list"
  ix_data :: bytes

text \<open>\<^verbatim>\<open>AccountMeta::new\<close> and \<^verbatim>\<open>AccountMeta::new_readonly\<close>.\<close>

definition writable_meta :: "pubkey \<Rightarrow> bool \<Rightarrow> meta" where
  "writable_meta k s = \<lparr>meta_key = k, meta_signer = s, meta_writable = True\<rparr>"

definition readonly_meta :: "pubkey \<Rightarrow> bool \<Rightarrow> meta" where
  "readonly_meta k s = \<lparr>meta_key = k, meta_signer = s, meta_writable = False\<rparr>"

definition config_pda :: "find_pda \<Rightarrow> pubkey \<Rightarrow> pubkey \<times> u8" where
  "config_pda fpa program_id = fpa [CONFIG_SEED] program_id"

definition vault_pda :: "find_pda \<Rightarrow> pubkey \<Rightarrow> pubkey \<times> u8" where
  "vault_pda fpa program_id = fpa [VAULT_SEED] program_id"

definition withdrawal_pda :: "find_pda \<Rightarrow> pubkey \<Rightarrow> u64 \<Rightarrow> pubkey \<times> u8" where
  "withdrawal_pda fpa program_id index = fpa [WITHDRAWAL_SEED, to_le_bytes index] program_id"

definition treasury_pda :: "find_pda \<Rightarrow> pubkey \<Rightarrow> pubkey \<times> u8" where
  "treasury_pda fpa program_id = fpa [TREASURY_SEED] program_id"

definition COMPUTE_BUDGET_ID :: pubkey where
  "COMPUTE_BUDGET_ID = 0x306466fe5211732ffecadba72c39be7bc8ce5bbc5f7126b2c439b3a40000000"

definition credit_deposits_ix ::
  "(bytes \<Rightarrow> array32) \<Rightarrow> find_pda \<Rightarrow> pubkey \<Rightarrow> u64 \<Rightarrow> array32 \<Rightarrow> u32 \<Rightarrow> u8 \<Rightarrow> pubkey list \<Rightarrow> Instruction" where
  "credit_deposits_ix sha fpa program_id height block_hash first count targets =
     \<lparr>ix_program = program_id,
      ix_accounts =
        [writable_meta (fst (config_pda fpa program_id)) False,
         writable_meta (fst (vault_pda fpa program_id)) False,
         readonly_meta DEPOSIT_ANSWER_ID False, readonly_meta SYSTEM_PROGRAM_ID False] @
        map (\<lambda>target. writable_meta target False) targets,
      ix_data =
        discriminator sha ''global'' ''credit_deposits'' @ to_le_bytes height @ array_bytes block_hash @
        to_le_bytes first @ [count]\<rparr>"

definition withdraw_ix ::
  "(bytes \<Rightarrow> array32) \<Rightarrow> find_pda \<Rightarrow> pubkey \<Rightarrow> pubkey \<Rightarrow> u64 \<Rightarrow> u64 \<Rightarrow> u64 \<Rightarrow> bytes \<Rightarrow> Instruction" where
  "withdraw_ix sha fpa program_id user index lamports fee_sats script_pubkey =
     \<lparr>ix_program = program_id,
      ix_accounts =
        [writable_meta (fst (config_pda fpa program_id)) False,
         writable_meta (fst (vault_pda fpa program_id)) False,
         writable_meta (fst (withdrawal_pda fpa program_id index)) False,
         writable_meta user True, readonly_meta SYSTEM_PROGRAM_ID False],
      ix_data =
        discriminator sha ''global'' ''withdraw'' @ to_le_bytes lamports @ to_le_bytes fee_sats @
        to_le_bytes (word_of_nat (length script_pubkey) :: u32) @ script_pubkey\<rparr>"

definition compute_unit_limit_ix :: "u32 \<Rightarrow> Instruction" where
  "compute_unit_limit_ix units =
     \<lparr>ix_program = COMPUTE_BUDGET_ID, ix_accounts = [], ix_data = 2 # to_le_bytes units\<rparr>"

definition transfer_ix :: "pubkey \<Rightarrow> pubkey \<Rightarrow> u64 \<Rightarrow> Instruction" where
  "transfer_ix src dst lamports =
     \<lparr>ix_program = SYSTEM_PROGRAM_ID, ix_accounts = [writable_meta src True, writable_meta dst False],
      ix_data = to_le_bytes (2 :: u32) @ to_le_bytes lamports\<rparr>"

definition seal_bundle_ix ::
  "(bytes \<Rightarrow> array32) \<Rightarrow> find_pda \<Rightarrow> pubkey \<Rightarrow> pubkey \<Rightarrow> u64 \<Rightarrow> array32 \<Rightarrow> Instruction" where
  "seal_bundle_ix sha fpa program_id orc through m6id =
     \<lparr>ix_program = program_id,
      ix_accounts = [writable_meta (fst (config_pda fpa program_id)) False, readonly_meta orc True],
      ix_data =
        discriminator sha ''global'' ''seal_bundle'' @ to_le_bytes through @ array_bytes m6id\<rparr>"

definition bundle_paid_ix ::
  "(bytes \<Rightarrow> array32) \<Rightarrow> find_pda \<Rightarrow> pubkey \<Rightarrow> pubkey \<Rightarrow> u64 \<Rightarrow> u64 \<Rightarrow> array32 \<Rightarrow> array32 \<Rightarrow> Instruction" where
  "bundle_paid_ix sha fpa program_id orc through height block_hash m6id =
     \<lparr>ix_program = program_id,
      ix_accounts =
        [writable_meta (fst (config_pda fpa program_id)) False, readonly_meta orc True,
         readonly_meta BMM_PAID_ID False],
      ix_data =
        discriminator sha ''global'' ''bundle_paid'' @ to_le_bytes through @ to_le_bytes height @
        array_bytes block_hash @ array_bytes m6id\<rparr>"

definition close_record_ix ::
  "(bytes \<Rightarrow> array32) \<Rightarrow> find_pda \<Rightarrow> pubkey \<Rightarrow> pubkey \<Rightarrow> u64 \<Rightarrow> Instruction" where
  "close_record_ix sha fpa program_id owner index =
     \<lparr>ix_program = program_id,
      ix_accounts =
        [readonly_meta (fst (config_pda fpa program_id)) False,
         writable_meta (fst (withdrawal_pda fpa program_id index)) False, writable_meta owner False],
      ix_data = discriminator sha ''global'' ''close_record'' @ to_le_bytes index\<rparr>"

definition settle_bmm_ix ::
  "(bytes \<Rightarrow> array32) \<Rightarrow> find_pda \<Rightarrow> pubkey \<Rightarrow> u64 \<Rightarrow> array32 \<Rightarrow> array32 \<Rightarrow> pubkey \<Rightarrow> Instruction" where
  "settle_bmm_ix sha fpa program_id height block_hash solana_block payee =
     \<lparr>ix_program = program_id,
      ix_accounts =
        [writable_meta (fst (config_pda fpa program_id)) False,
         writable_meta (fst (treasury_pda fpa program_id)) False, writable_meta payee False,
         readonly_meta BMM_ANSWER_ID False, readonly_meta SYSTEM_PROGRAM_ID False],
      ix_data =
        discriminator sha ''global'' ''settle_bmm'' @ to_le_bytes height @ array_bytes block_hash @
        array_bytes solana_block\<rparr>"

section \<open>The questions that the validator reads from the instructions\<close>

definition SETTLE_BMM_DISCRIMINATOR :: bytes where
  "SETTLE_BMM_DISCRIMINATOR = [223, 214, 151, 212, 138, 42, 77, 15]"

definition CREDIT_DEPOSITS_DISCRIMINATOR :: bytes where
  "CREDIT_DEPOSITS_DISCRIMINATOR = [81, 116, 1, 140, 214, 108, 237, 178]"

definition BUNDLE_PAID_DISCRIMINATOR :: bytes where
  "BUNDLE_PAID_DISCRIMINATOR = [252, 58, 105, 195, 106, 211, 35, 52]"

text \<open>\<^verbatim>\<open>split_first_chunk\<close> is \<^term>\<open>Reader_array\<close> on the bytes that are left.\<close>

definition arguments_of :: "bytes \<Rightarrow> pubkey \<Rightarrow> bytes \<Rightarrow> Reader option" where
  "arguments_of disc program_id data =
     (if program_id \<noteq> ID then None
      else case Reader_array 8 (Reader_new data) of
        None \<Rightarrow> None
      | Some (d, r) \<Rightarrow> if d \<noteq> disc then None else Some r)"

definition settle_bmm_question :: "pubkey \<Rightarrow> bytes \<Rightarrow> Question option" where
  "settle_bmm_question program_id data =
     (case arguments_of SETTLE_BMM_DISCRIMINATOR program_id data of None \<Rightarrow> None | Some r \<Rightarrow>
     (case Reader_u64 r of None \<Rightarrow> None | Some (height, r) \<Rightarrow>
     (case Reader_array32 r of None \<Rightarrow> None | Some (block_hash, r) \<Rightarrow>
     (case Reader_array32 r of None \<Rightarrow> None | Some (solana_block, r) \<Rightarrow>
        Some \<lparr>q_height = height, q_block_hash = block_hash, q_solana_block = solana_block\<rparr>))))"

definition bundle_paid_question :: "pubkey \<Rightarrow> bytes \<Rightarrow> PaidQuestion option" where
  "bundle_paid_question program_id data =
     (case arguments_of BUNDLE_PAID_DISCRIMINATOR program_id data of None \<Rightarrow> None | Some r \<Rightarrow>
     (case Reader_u64 r of None \<Rightarrow> None | Some (through, r) \<Rightarrow>
     (case Reader_u64 r of None \<Rightarrow> None | Some (height, r) \<Rightarrow>
     (case Reader_array32 r of None \<Rightarrow> None | Some (block_hash, r) \<Rightarrow>
     (case Reader_array32 r of None \<Rightarrow> None | Some (m6id, r) \<Rightarrow>
        Some \<lparr>pq_height = height, pq_block_hash = block_hash, pq_m6id = m6id\<rparr>)))))"

definition credit_deposits_question :: "pubkey \<Rightarrow> bytes \<Rightarrow> CreditQuestion option" where
  "credit_deposits_question program_id data =
     (case arguments_of CREDIT_DEPOSITS_DISCRIMINATOR program_id data of None \<Rightarrow> None | Some r \<Rightarrow>
     (case Reader_u64 r of None \<Rightarrow> None | Some (height, r) \<Rightarrow>
     (case Reader_array32 r of None \<Rightarrow> None | Some (block_hash, r) \<Rightarrow>
     (case Reader_u32 r of None \<Rightarrow> None | Some (first, r) \<Rightarrow>
     (case Reader_u8 r of None \<Rightarrow> None | Some (count, r) \<Rightarrow>
        Some \<lparr>cq_height = height, cq_block_hash = block_hash, cq_first = first, cq_count = count\<rparr>)))))"

text \<open>The discriminators of the validator are the digests of the names, as its own tests say.\<close>

definition discriminators_ok :: "(bytes \<Rightarrow> array32) \<Rightarrow> bool" where
  "discriminators_ok sha \<longleftrightarrow>
     discriminator sha ''global'' ''settle_bmm'' = SETTLE_BMM_DISCRIMINATOR \<and>
     discriminator sha ''global'' ''credit_deposits'' = CREDIT_DEPOSITS_DISCRIMINATOR \<and>
     discriminator sha ''global'' ''bundle_paid'' = BUNDLE_PAID_DISCRIMINATOR"

lemma read_questions:
  assumes "discriminators_ok sha"
  shows "settle_bmm_question ID (ix_data (settle_bmm_ix sha fpa ID height block_hash solana_block payee)) =
      Some \<lparr>q_height = height, q_block_hash = block_hash, q_solana_block = solana_block\<rparr>"
    and "bundle_paid_question ID (ix_data (bundle_paid_ix sha fpa ID orc through height block_hash m6id)) =
      Some \<lparr>pq_height = height, pq_block_hash = block_hash, pq_m6id = m6id\<rparr>"
    and "credit_deposits_question ID
        (ix_data (credit_deposits_ix sha fpa ID height block_hash first count targets)) =
      Some \<lparr>cq_height = height, cq_block_hash = block_hash, cq_first = first, cq_count = count\<rparr>"
  using assms
  by (simp_all add: discriminators_ok_def settle_bmm_question_def bundle_paid_question_def
      credit_deposits_question_def settle_bmm_ix_def bundle_paid_ix_def credit_deposits_ix_def
      arguments_of_def Reader_defs append_layout_simps SETTLE_BMM_DISCRIMINATOR_def
      BUNDLE_PAID_DISCRIMINATOR_def CREDIT_DEPOSITS_DISCRIMINATOR_def) (simp_all add: subslice_def)
section \<open>Properties\<close>

text \<open>
  The config account is a codec: the daemon reads exactly the bytes that the genesis writes for a
  config, it refuses every other byte string, and two configs never share their bytes.
\<close>

theorem config_account_codec:
  "(case Config_decode sha data of Inr c' \<Rightarrow> Some c' | Inl _ \<Rightarrow> None) = Some c \<longleftrightarrow>
     data = Config_encode sha c"
  by (simp add: config.dec_iff)

text \<open>
  The patched validator reads the credits of the bridge at fixed offsets of the config account,
  and finds there what the daemon's encoder wrote.
\<close>

theorem validator_reads_credits:
  "Credits_read (discriminator sha ''account'' ''Config'') (Config_encode sha c) =
     Some \<lparr>cr_credited_height = credited_height c, cr_credited_block = credited_block c,
       cr_part_block = credit_part_block c, cr_lag = deposit_lag c\<rparr>"
  by (rule Credits_read_encode)

text \<open>
  The daemon reads back the record that the program stored in a record account, for every script
  that fits its space.
\<close>

theorem record_account_roundtrip:
  "length (wr_script_pubkey r) \<le> MAX_SCRIPT_PUBKEY_LEN \<Longrightarrow>
   WithdrawalRecord_decode sha (anchor_record sha r) = Inr r"
  by (rule WithdrawalRecord_decode_anchor)

lemma record_account_roundtrip_witness:
  "\<exists>r. wr_fee_sats r = 1000 \<and> length (wr_script_pubkey r) = 22 \<and>
     WithdrawalRecord_decode (\<lambda>_. 0) (anchor_record (\<lambda>_. 0) r) = Inr r"
proof -
  let ?r = "\<lparr>wr_index = 3, wr_owner = 4, wr_burned_lamports = 20000, wr_payout_sats = 1000,
    wr_fee_sats = 1000, wr_script_pubkey = replicate 22 7, wr_bump = 255\<rparr>"
  have "WithdrawalRecord_decode (\<lambda>_. 0) (anchor_record (\<lambda>_. 0) ?r) = Inr ?r"
    by (rule record_account_roundtrip) (simp add: MAX_SCRIPT_PUBKEY_LEN_def)
  then show ?thesis by (intro exI [of _ ?r]) simp
qed

text \<open>
  The block record lists its blocks newest first, and a block that the validator wrote is in the
  list of the daemon, with its credits.
\<close>

theorem recorded_block_listed:
  "length rec = BLOCK_RECORD_LEN \<Longrightarrow> rb_bank_hash b \<noteq> 0 \<Longrightarrow>
   b \<in> set (recorded_blocks (record_block b rec)) \<and>
   sorted_wrt (\<lambda>x y. rb_slot y \<le> rb_slot x) (recorded_blocks (record_block b rec))"
  using recorded_after_record recorded_newest_first by blast

lemma recorded_block_listed_witness:
  "\<lparr>rb_slot = 70, rb_bank_hash = 1, rb_credited_height = 9, rb_credited_block = 2, rb_part_block = 0\<rparr> \<in>
   set (recorded_blocks (record_block
     \<lparr>rb_slot = 70, rb_bank_hash = 1, rb_credited_height = 9, rb_credited_block = 2, rb_part_block = 0\<rparr>
     (replicate BLOCK_RECORD_LEN 0)))"
  by (rule recorded_block_listed [THEN conjunct1]) simp_all

text \<open>
  C11: An instruction that the daemon builds asks the validator the question of its arguments: the
  validator reads the height, the hashes and the part that the daemon named.
\<close>

theorem instructions_ask_their_questions:
  assumes "discriminators_ok sha"
  shows "settle_bmm_question ID (ix_data (settle_bmm_ix sha fpa ID height block_hash solana_block payee)) =
      Some \<lparr>q_height = height, q_block_hash = block_hash, q_solana_block = solana_block\<rparr> \<and>
    bundle_paid_question ID (ix_data (bundle_paid_ix sha fpa ID orc through height block_hash m6id)) =
      Some \<lparr>pq_height = height, pq_block_hash = block_hash, pq_m6id = m6id\<rparr> \<and>
    credit_deposits_question ID
        (ix_data (credit_deposits_ix sha fpa ID height block_hash first count targets)) =
      Some \<lparr>cq_height = height, cq_block_hash = block_hash, cq_first = first, cq_count = count\<rparr>"
  by (intro conjI) (rule read_questions [OF assms])+

definition sample_sha :: "bytes \<Rightarrow> array32" where
  "sample_sha text =
     array_of ((if text = ascii ''global:settle_bmm'' then SETTLE_BMM_DISCRIMINATOR
                else if text = ascii ''global:credit_deposits'' then CREDIT_DEPOSITS_DISCRIMINATOR
                else BUNDLE_PAID_DISCRIMINATOR) @ replicate 24 0)"

lemma instructions_ask_their_questions_witness:
  "settle_bmm_question ID (ix_data (settle_bmm_ix sample_sha (\<lambda>_ _. (0, 0)) ID 5 6 7 8)) =
     Some \<lparr>q_height = 5, q_block_hash = 6, q_solana_block = 7\<rparr>"
proof -
  have "discriminators_ok sample_sha"
    by (simp add: discriminators_ok_def discriminator_def sample_sha_def ascii_def
        SETTLE_BMM_DISCRIMINATOR_def BUNDLE_PAID_DISCRIMINATOR_def CREDIT_DEPOSITS_DISCRIMINATOR_def)
  then show ?thesis by (rule instructions_ask_their_questions [THEN conjunct1])
qed

text \<open>
  The daemon and the bridge program open withdrawals at the same point: the daemon calls the float
  backed exactly when the checks of the program on the same config and vault pass.
\<close>

theorem float_gate_agrees:
  "float_backed c vault \<longleftrightarrow>
     (\<exists>backed needed. checked_add vault (pegged_lamports c) = Some backed \<and>
        checked_add (vault_supply c) (float_lamports c) = Some needed \<and> needed \<le> backed)"
proof
  assume "float_backed c vault"
  then obtain backed surplus where s: "checked_add vault (pegged_lamports c) = Some backed"
      "unat backed = unat surplus + unat (vault_supply c)" "float_lamports c \<le> surplus"
    by (auto simp: float_backed_def vault_surplus_def arith_iff split: option.splits)
  have "unat (vault_supply c) + unat (float_lamports c) \<le> unat backed"
    using s(2,3) by (simp add: word_le_nat_alt)
  moreover from this have "unat (vault_supply c) + unat (float_lamports c) < 2 ^ 64"
    using le_less_trans [OF _ unat_bound [of backed]] by simp
  then have "checked_add (vault_supply c) (float_lamports c) = Some (vault_supply c + float_lamports c)"
    by (simp add: checked_add_def)
  ultimately show "\<exists>backed needed. checked_add vault (pegged_lamports c) = Some backed \<and>
        checked_add (vault_supply c) (float_lamports c) = Some needed \<and> needed \<le> backed"
    using s(1)
    by (intro exI [of _ backed] exI [of _ "vault_supply c + float_lamports c"])
      (simp_all add: arith_iff word_le_nat_alt)
next
  assume "\<exists>backed needed. checked_add vault (pegged_lamports c) = Some backed \<and>
        checked_add (vault_supply c) (float_lamports c) = Some needed \<and> needed \<le> backed"
  then obtain backed where b: "checked_add vault (pegged_lamports c) = Some backed"
      "unat (vault_supply c) + unat (float_lamports c) \<le> unat backed"
    by (auto simp: arith_iff word_le_nat_alt)
  then have "checked_sub backed (vault_supply c) = Some (backed - vault_supply c)"
    "unat (backed - vault_supply c) = unat backed - unat (vault_supply c)"
    by (simp_all add: checked_sub_def word_le_nat_alt unat_sub)
  then show "float_backed c vault"
    using b by (simp add: float_backed_def vault_surplus_def word_le_nat_alt)
qed

end
