(* ===== verification/M6.thy ===== *)
theory M6
  imports Bridge_Sample
begin

text \<open>
  The blinded M6 of a withdrawal bundle (\<^verbatim>\<open>daemon/src/m6.rs\<close> and \<^verbatim>\<open>bundle_of\<close> of \<^verbatim>\<open>daemon/src/peg.rs\<close>).
  The consensus encoding of a transaction and its txid are code of the Bitcoin library, the fields of
  the parameter \<^verbatim>\<open>bitcoin\<close>; \<open>bitcoin_ok\<close> says how long its encodings are.
\<close>

section \<open>Transactions\<close>

record TxOut =
  txout_value :: u64
  txout_script :: bytes

record Transaction =
  tx_lock_time :: u32
  tx_output :: "TxOut list"

text \<open>A blinded M6 has version two and no input.\<close>

record bitcoin =
  bc_version_two :: bytes
  bc_var_int :: "nat \<Rightarrow> bytes"
  bc_txout :: "TxOut \<Rightarrow> bytes"
  bc_lock_time :: "u32 \<Rightarrow> bytes"
  bc_op_return :: "bytes \<Rightarrow> bytes"
  bc_txid :: "Transaction \<Rightarrow> array32"

record Payout =
  po_script :: bytes
  po_sats :: u64

datatype M6Error =
    NoPayouts | ZeroPayout | PayoutOverflow | TooHeavy nat | FirstRecordTooLarge u64 | TreasuryForm nat

definition is_treasury_form :: "bytes \<Rightarrow> bool" where
  "is_treasury_form script \<longleftrightarrow>
     length script = 4 \<and> (script ! 0 = 0xb4 \<or> script ! 0 = 0xb7) \<and> script ! 1 = 0x01 \<and> script ! 3 = 0x51"

definition MAX_BLINDED_WEIGHT :: nat where
  "MAX_BLINDED_WEIGHT = 300000"

definition fee_output :: "bitcoin \<Rightarrow> u64 \<Rightarrow> TxOut" where
  "fee_output bc fee_sats = \<lparr>txout_value = 0, txout_script = bc_op_return bc (to_be_bytes fee_sats)\<rparr>"

definition serialize_legacy :: "bitcoin \<Rightarrow> Transaction \<Rightarrow> bytes" where
  "serialize_legacy bc blinded =
     bc_version_two bc @ bc_var_int bc 0 @ bc_var_int bc (length (tx_output blinded)) @
     concat (map (bc_txout bc) (tx_output blinded)) @ bc_lock_time bc (tx_lock_time blinded)"

text \<open>The position of the first payout with the form of a treasury output.\<close>

fun position :: "('a \<Rightarrow> bool) \<Rightarrow> 'a list \<Rightarrow> nat option" where
  "position p [] = None"
| "position p (x # xs) = (if p x then Some 0 else map_option Suc (position p xs))"

fun total_sats :: "u64 \<Rightarrow> Payout list \<Rightarrow> M6Error + u64" where
  "total_sats t [] = Inr t"
| "total_sats t (p # ps) = ok_or (checked_add t (po_sats p)) PayoutOverflow (\<lambda>t'. total_sats t' ps)"

definition build_blinded_m6 :: "bitcoin \<Rightarrow> u64 \<Rightarrow> Payout list \<Rightarrow> M6Error + Transaction" where
  "build_blinded_m6 bc fee_sats payouts =
     require (payouts \<noteq> []) NoPayouts (
     case position (\<lambda>p. is_treasury_form (po_script p)) payouts of
       Some at \<Rightarrow> Inl (TreasuryForm at)
     | None \<Rightarrow>
         attempt (total_sats 0 payouts) (\<lambda>t.
         require (t \<noteq> 0) ZeroPayout (
         let blinded = \<lparr>tx_lock_time = 0,
               tx_output = fee_output bc fee_sats #
                 map (\<lambda>p. \<lparr>txout_value = po_sats p, txout_script = po_script p\<rparr>) payouts\<rparr>;
             weight = length (serialize_legacy bc blinded) * 4
         in require (weight \<le> MAX_BLINDED_WEIGHT) (TooHeavy weight) (Inr blinded))))"

definition m6id :: "bitcoin \<Rightarrow> Transaction \<Rightarrow> array32" where
  "m6id bc blinded = bc_txid bc blinded"

fun bundle_payouts ::
  "u64 \<Rightarrow> Payout list \<Rightarrow> WithdrawalRecord list \<Rightarrow> M6Error + (u64 \<times> Payout list)" where
  "bundle_payouts fee_sats payouts [] = Inr (fee_sats, payouts)"
| "bundle_payouts fee_sats payouts (r # rs) =
     ok_or (checked_add fee_sats (wr_fee_sats r)) PayoutOverflow (\<lambda>fee_sats'.
     bundle_payouts fee_sats'
       (payouts @ [\<lparr>po_script = wr_script_pubkey r, po_sats = wr_payout_sats r\<rparr>]) rs)"

definition bundle_of :: "bitcoin \<Rightarrow> WithdrawalRecord list \<Rightarrow> M6Error + Transaction" where
  "bundle_of bc rs =
     attempt (bundle_payouts 0 [] rs) (\<lambda>(fee_sats, payouts).
     attempt (build_blinded_m6 bc fee_sats payouts) (\<lambda>blinded.
     let first = (case rs of [] \<Rightarrow> 0 | r # _ \<Rightarrow> wr_index r) in
     ok_or (try_from first) (FirstRecordTooLarge first) (\<lambda>first_u32.
     Inr (blinded\<lparr>tx_lock_time := first_u32\<rparr>))))"

section \<open>Documented behaviour of the Bitcoin encoding\<close>

definition var_int_len :: "nat \<Rightarrow> nat" where
  "var_int_len n = (if n < 0xfd then 1 else if n \<le> 0xffff then 3 else if n \<le> 0xffffffff then 5 else 9)"

definition bitcoin_ok :: "bitcoin \<Rightarrow> bool" where
  "bitcoin_ok bc \<longleftrightarrow>
     length (bc_version_two bc) = 4 \<and>
     (\<forall>n. length (bc_var_int bc n) = var_int_len n) \<and>
     (\<forall>out. length (bc_txout bc out) =
        8 + var_int_len (length (txout_script out)) + length (txout_script out)) \<and>
     (\<forall>t. length (bc_lock_time bc t) = 4) \<and>
     (\<forall>data. length data \<le> 75 \<longrightarrow> length (bc_op_return bc data) = 2 + length data)"

section \<open>Lemmas\<close>

lemma position_None: "position p xs = None \<longleftrightarrow> (\<forall>x \<in> set xs. \<not> p x)"
  by (induction xs) auto

lemma standard_script_length: "is_standard_script s \<Longrightarrow> 22 \<le> length s \<and> length s \<le> 34"
  by (auto simp: is_standard_script_def matches_template_def)

lemma standard_not_treasury: "is_standard_script s \<Longrightarrow> \<not> is_treasury_form s"
  using standard_script_length by (fastforce simp: is_treasury_form_def)

lemma total_sats_sum:
  "unat t + (\<Sum>p\<leftarrow>ps. unat (po_sats p)) < 2 ^ 64 \<Longrightarrow>
     \<exists>t'. total_sats t ps = Inr t' \<and> unat t' = unat t + (\<Sum>p\<leftarrow>ps. unat (po_sats p))"
proof (induction ps arbitrary: t)
  case (Cons p ps)
  have fits: "unat t + unat (po_sats p) < 2 ^ LENGTH(64)"
    using Cons.prems by simp
  then have add: "unat (t + po_sats p) = unat t + unat (po_sats p)"
    by (rule unat_add_lem [THEN iffD1])
  then have "\<exists>t'. total_sats (t + po_sats p) ps = Inr t' \<and>
      unat t' = unat (t + po_sats p) + (\<Sum>p\<leftarrow>ps. unat (po_sats p))"
    using Cons.prems by (intro Cons.IH) simp
  then show ?case using fits add by (auto simp: checked_add_def)
qed simp

lemma total_sats_value:
  "total_sats t ps = Inr t' \<Longrightarrow> unat t' = unat t + (\<Sum>p\<leftarrow>ps. unat (po_sats p))"
  by (induction ps arbitrary: t) (auto simp: result_iff arith_iff)

lemma bundle_payouts_ok:
  "unat fee + (\<Sum>r\<leftarrow>rs. unat (wr_fee_sats r)) < 2 ^ 64 \<Longrightarrow>
     \<exists>fee'. bundle_payouts fee ps rs =
         Inr (fee', ps @ map (\<lambda>r. \<lparr>po_script = wr_script_pubkey r, po_sats = wr_payout_sats r\<rparr>) rs) \<and>
       unat fee' = unat fee + (\<Sum>r\<leftarrow>rs. unat (wr_fee_sats r))"
proof (induction rs arbitrary: fee ps)
  case (Cons r rs)
  have fits: "unat fee + unat (wr_fee_sats r) < 2 ^ LENGTH(64)" using Cons.prems by simp
  then have add: "unat (fee + wr_fee_sats r) = unat fee + unat (wr_fee_sats r)"
    by (rule unat_add_lem [THEN iffD1])
  let ?p = "\<lparr>po_script = wr_script_pubkey r, po_sats = wr_payout_sats r\<rparr>"
  have "\<exists>fee'. bundle_payouts (fee + wr_fee_sats r) (ps @ [?p]) rs =
         Inr (fee', (ps @ [?p]) @ map (\<lambda>r. \<lparr>po_script = wr_script_pubkey r, po_sats = wr_payout_sats r\<rparr>) rs) \<and>
       unat fee' = unat (fee + wr_fee_sats r) + (\<Sum>r\<leftarrow>rs. unat (wr_fee_sats r))"
    using Cons.prems add by (intro Cons.IH) simp
  then show ?case using fits add by (auto simp: checked_add_def)
qed simp

lemma bundle_payouts_value:
  "bundle_payouts fee ps rs = Inr (fee', ps') \<Longrightarrow>
     unat fee' = unat fee + (\<Sum>r\<leftarrow>rs. unat (wr_fee_sats r)) \<and>
     ps' = ps @ map (\<lambda>r. \<lparr>po_script = wr_script_pubkey r, po_sats = wr_payout_sats r\<rparr>) rs"
  by (induction rs arbitrary: fee ps) (fastforce simp: result_iff arith_iff)+

lemma weight_bound:
  assumes "bitcoin_ok bc" "length payouts \<le> 1500"
    and "\<forall>p \<in> set payouts. length (po_script p) \<le> 34"
  shows "length (serialize_legacy bc \<lparr>tx_lock_time = t,
      tx_output = fee_output bc fee # map (\<lambda>p. \<lparr>txout_value = po_sats p, txout_script = po_script p\<rparr>) payouts\<rparr>) * 4
    \<le> MAX_BLINDED_WEIGHT"
proof -
  let ?outs = "map (\<lambda>p. \<lparr>txout_value = po_sats p, txout_script = po_script p\<rparr>) payouts"
  have out: "length (bc_txout bc out) = 8 + var_int_len (length (txout_script out)) + length (txout_script out)"
    and vi: "length (bc_var_int bc n) = var_int_len n" for out n
    using assms(1) by (simp_all add: bitcoin_ok_def)
  have "\<forall>out \<in> set ?outs. length (bc_txout bc out) \<le> 43"
    using assms(3) by (auto simp: out var_int_len_def)
  then have "sum_list (map (length \<circ> bc_txout bc) ?outs) \<le> sum_list (map (\<lambda>_. 43) ?outs)"
    by (intro sum_list_mono) auto
  also have "\<dots> = 43 * length payouts" by (simp add: comp_def sum_list_triv)
  finally have outs: "length (concat (map (bc_txout bc) ?outs)) \<le> 43 * length payouts"
    by (simp add: length_concat comp_def)
  have fee: "length (bc_txout bc (fee_output bc fee)) = 19"
    using assms(1) by (simp add: out fee_output_def bitcoin_ok_def var_int_len_def)
  have "length (bc_var_int bc (Suc (length payouts))) \<le> 3"
    using assms(2) by (simp add: vi var_int_len_def)
  moreover have "length (bc_var_int bc 0) = 1" by (simp add: vi var_int_len_def)
  ultimately show ?thesis
    using assms(1,2) outs fee by (simp add: serialize_legacy_def bitcoin_ok_def MAX_BLINDED_WEIGHT_def)
qed

text \<open>The transaction of a bundle, when it builds.\<close>

definition bundle_tx :: "bitcoin \<Rightarrow> WithdrawalRecord list \<Rightarrow> Transaction \<Rightarrow> bool" where
  "bundle_tx bc rs tx \<longleftrightarrow>
     (\<exists>fee. unat fee = (\<Sum>r\<leftarrow>rs. unat (wr_fee_sats r)) \<and>
        tx_output tx = fee_output bc fee #
          map (\<lambda>r. \<lparr>txout_value = wr_payout_sats r, txout_script = wr_script_pubkey r\<rparr>) rs) \<and>
     rs \<noteq> [] \<and> unat (tx_lock_time tx) = unat (wr_index (hd rs))"

lemma bundle_of_tx:
  assumes "bundle_of bc rs = Inr tx"
  shows "bundle_tx bc rs tx"
proof -
  obtain fee payouts blinded lock where
    p: "bundle_payouts 0 [] rs = Inr (fee, payouts)"
    and b: "build_blinded_m6 bc fee payouts = Inr blinded"
    and l: "unat lock = unat (case rs of [] \<Rightarrow> 0 | r # _ \<Rightarrow> wr_index r)"
    and tx: "tx = blinded\<lparr>tx_lock_time := lock\<rparr>"
    using assms by (auto simp: bundle_of_def result_iff arith_iff Let_def)
  have v: "unat fee = (\<Sum>r\<leftarrow>rs. unat (wr_fee_sats r))"
    "payouts = map (\<lambda>r. \<lparr>po_script = wr_script_pubkey r, po_sats = wr_payout_sats r\<rparr>) rs"
    using bundle_payouts_value [OF p] by simp_all
  have o: "tx_output blinded = fee_output bc fee #
      map (\<lambda>p. \<lparr>txout_value = po_sats p, txout_script = po_script p\<rparr>) payouts" and ne: "payouts \<noteq> []"
    using b by (auto simp: build_blinded_m6_def result_iff Let_def split: option.splits)
  then have "rs \<noteq> []" using v(2) by auto
  then have "unat (tx_lock_time tx) = unat (wr_index (hd rs))" using l by (cases rs) (simp_all add: tx)
  moreover have "tx_output tx = fee_output bc fee #
      map (\<lambda>r. \<lparr>txout_value = wr_payout_sats r, txout_script = wr_script_pubkey r\<rparr>) rs"
    using o by (simp add: tx v(2) comp_def)
  ultimately show ?thesis using \<open>rs \<noteq> []\<close> v(1) unfolding bundle_tx_def by blast
qed

lemma bundle_of_builds:
  assumes "bitcoin_ok bc" "rs \<noteq> []" "length rs \<le> 1500"
    and "\<forall>r \<in> set rs. is_standard_script (wr_script_pubkey r) \<and> wr_payout_sats r \<noteq> 0"
    and "(\<Sum>r\<leftarrow>rs. unat (wr_payout_sats r)) < 2 ^ 64" "(\<Sum>r\<leftarrow>rs. unat (wr_fee_sats r)) < 2 ^ 64"
    and "unat (wr_index (hd rs)) < 2 ^ 32"
  shows "\<exists>tx. bundle_of bc rs = Inr tx"
proof -
  let ?ps = "map (\<lambda>r. \<lparr>po_script = wr_script_pubkey r, po_sats = wr_payout_sats r\<rparr>) rs"
  obtain fee where p: "bundle_payouts 0 [] rs = Inr (fee, ?ps)"
    using bundle_payouts_ok [of 0 rs "[]"] assms(6) by auto
  obtain t where t: "total_sats 0 ?ps = Inr t" "unat t = (\<Sum>r\<leftarrow>rs. unat (wr_payout_sats r))"
    using total_sats_sum [of 0 ?ps] assms(5) by (auto simp: comp_def)
  have "unat (wr_payout_sats (hd rs)) \<le> (\<Sum>r\<leftarrow>rs. unat (wr_payout_sats r))"
    using assms(2) by (intro member_le_sum_list) auto
  moreover have "unat (wr_payout_sats (hd rs)) \<noteq> 0" using assms(2,4) by (simp add: unat_eq_zero)
  ultimately have "unat t \<noteq> 0" using t(2) by linarith
  then have "t \<noteq> 0" by auto
  moreover have "position (\<lambda>p. is_treasury_form (po_script p)) ?ps = None"
    using assms(4) standard_not_treasury by (auto simp: position_None)
  moreover have "length (serialize_legacy bc \<lparr>tx_lock_time = 0,
      tx_output = fee_output bc fee # map (\<lambda>p. \<lparr>txout_value = po_sats p, txout_script = po_script p\<rparr>) ?ps\<rparr>) * 4
    \<le> MAX_BLINDED_WEIGHT"
    using assms(3,4) standard_script_length by (intro weight_bound [OF assms(1)]) auto
  ultimately obtain blinded where b: "build_blinded_m6 bc fee ?ps = Inr blinded"
    using assms(2) t(1) by (auto simp: build_blinded_m6_def Let_def comp_def)
  have "(try_from (wr_index (hd rs)) :: u32 option) \<noteq> None"
    using assms(7) by (simp add: try_from_def)
  then show ?thesis
    using p b assms(2) by (cases rs) (auto simp: bundle_of_def Let_def)
qed

section \<open>Properties\<close>

definition range_records :: "bank \<Rightarrow> nat \<Rightarrow> nat \<Rightarrow> WithdrawalRecord list" where
  "range_records b lo hi = map (\<lambda>i. the (records b (word_of_nat i))) [lo ..< hi]"


definition sample_bitcoin :: bitcoin where
  "sample_bitcoin =
     \<lparr>bc_version_two = [2, 0, 0, 0], bc_var_int = (\<lambda>n. replicate (var_int_len n) 0),
      bc_txout = (\<lambda>out. to_le_bytes (txout_value out) @
         replicate (var_int_len (length (txout_script out))) 0 @ txout_script out),
      bc_lock_time = to_le_bytes, bc_op_return = (\<lambda>data. 0x6a # word_of_nat (length data) # data),
      bc_txid = (\<lambda>tx. ucast (tx_lock_time tx))\<rparr>"

lemma sample_bitcoin_ok: "bitcoin_ok sample_bitcoin"
  by (simp add: bitcoin_ok_def sample_bitcoin_def)


text \<open>
  The transaction of a bundle tells what it pays: two bundles with the same blinded M6 start at
  the same record and pay the same scripts the same amounts in the same order.
\<close>

theorem bundle_determines_payouts:
  assumes "bundle_of bc rs = Inr tx" "bundle_of bc rs' = Inr tx"
  shows "wr_index (hd rs) = wr_index (hd rs') \<and>
     map (\<lambda>r. (wr_script_pubkey r, wr_payout_sats r)) rs = map (\<lambda>r. (wr_script_pubkey r, wr_payout_sats r)) rs'"
proof -
  let ?out = "\<lambda>r. \<lparr>txout_value = wr_payout_sats r, txout_script = wr_script_pubkey r\<rparr>"
  have t: "bundle_tx bc rs tx" "bundle_tx bc rs' tx" by (rule bundle_of_tx, fact)+
  then have "map ?out rs = map ?out rs'" by (auto simp: bundle_tx_def)
  then have "map (\<lambda>out. (txout_script out, txout_value out)) (map ?out rs) =
      map (\<lambda>out. (txout_script out, txout_value out)) (map ?out rs')" by (rule arg_cong)
  moreover have "wr_index (hd rs) = wr_index (hd rs')" using t by (simp add: bundle_tx_def word_eq_unat)
  ultimately show ?thesis by (simp add: comp_def)
qed

lemma bundle_determines_payouts_witness:
  "\<exists>tx. bundle_of sample_bitcoin [sample_record] = Inr tx \<and> wr_index (hd [sample_record]) = wr_index sample_record"
proof -
  obtain tx where "bundle_of sample_bitcoin [sample_record] = Inr tx"
    using bundle_of_builds [OF sample_bitcoin_ok, of "[sample_record]"]
    by (auto simp: sample_record_def is_standard_script_def matches_template_def)
  then show ?thesis using bundle_determines_payouts [of sample_bitcoin "[sample_record]" tx "[sample_record]"] by simp
qed

end
