(* ===== verification/Enforcer_Text.thy ===== *)
theory Enforcer_Text
  imports Layout
begin

text \<open>
  The text and the scripts that the daemon trades with the enforcer (\<^verbatim>\<open>daemon/src/hex.rs\<close> and the pure
  part of \<^verbatim>\<open>daemon/src/enforcer.rs\<close>): hex, the hashes in either byte order, the declaration of the
  sidechain, and the output scripts of M1 and M2. A title and a description are their UTF-8 bytes.
\<close>

section \<open>Hex\<close>

definition hex_digit :: "nat \<Rightarrow> char" where
  "hex_digit n = ''0123456789abcdef'' ! n"

definition hex_byte :: "u8 \<Rightarrow> string" where
  "hex_byte b = [hex_digit (unat b div 16), hex_digit (unat b mod 16)]"

definition hex_encode :: "bytes \<Rightarrow> string" where
  "hex_encode bs = foldl (\<lambda>out b. out @ hex_byte b) [] bs"

text \<open>\<^verbatim>\<open>char::to_digit(16)\<close>.\<close>

definition to_digit16 :: "char \<Rightarrow> nat option" where
  "to_digit16 c =
     (let n = of_char c in
      if 48 \<le> n \<and> n \<le> 57 then Some (n - 48)
      else if 97 \<le> n \<and> n \<le> 102 then Some (n - 87)
      else if 65 \<le> n \<and> n \<le> 70 then Some (n - 55) else None)"

text \<open>The status of a gRPC call that failed.\<close>

datatype Code = AlreadyExists | InvalidArgument | OtherCode nat

record Status =
  st_code :: Code
  st_message :: string

datatype EnforcerError =
    BadUrl string | Call string Status | MissingField string | TitleTooLong nat nat
  | NotHex string string | NotATransaction array32 | WrongNetwork string string
  | NoBlockAtHeight u32 | BlockNotFound array32 | BadCommitmentLength nat

definition hex_pair :: "string \<Rightarrow> string \<Rightarrow> string \<Rightarrow> EnforcerError + u8" where
  "hex_pair hex label pair =
     ok_or (to_digit16 (pair ! 0)) (NotHex label hex) (\<lambda>high.
     ok_or (to_digit16 (pair ! 1)) (NotHex label hex) (\<lambda>low.
     Inr (word_of_nat high * 16 + word_of_nat low)))"

fun hex_pairs :: "string \<Rightarrow> string \<Rightarrow> bytes \<Rightarrow> string list \<Rightarrow> EnforcerError + bytes" where
  "hex_pairs hex label bytes [] = Inr bytes"
| "hex_pairs hex label bytes (pair # pairs) =
     attempt (hex_pair hex label pair) (\<lambda>b. hex_pairs hex label (bytes @ [b]) pairs)"

definition decode_hex :: "string \<Rightarrow> string \<Rightarrow> EnforcerError + bytes" where
  "decode_hex hex label =
     require (length hex mod 2 = 0) (NotHex label hex)
       (hex_pairs hex label [] (chunks_exact 2 hex))"

text \<open>A hash comes with its bytes turned around, a BIP300 M6ID as it is.\<close>

definition decode_reverse_hash :: "string option \<Rightarrow> string \<Rightarrow> EnforcerError + array32" where
  "decode_reverse_hash hex label =
     ok_or hex (MissingField label) (\<lambda>hex.
     attempt (decode_hex hex label) (\<lambda>bytes.
     require (length (rev bytes) = 32) (NotHex label hex) (Inr (array_of (rev bytes)))))"

definition decode_reverse_txid :: "string option \<Rightarrow> string \<Rightarrow> EnforcerError + array32" where
  "decode_reverse_txid hex label =
     ok_or hex (MissingField label) (\<lambda>hex.
     attempt (decode_hex hex label) (\<lambda>bytes.
     require (length (rev bytes) = 32) (NotHex label hex) (Inr (array_of (rev bytes)))))"

definition decode_txid :: "string option \<Rightarrow> string \<Rightarrow> EnforcerError + array32" where
  "decode_txid hex label =
     ok_or hex (MissingField label) (\<lambda>hex.
     attempt (decode_hex hex label) (\<lambda>bytes.
     require (length bytes = 32) (NotHex label hex) (Inr (array_of bytes))))"

lemma hex_encode_concat: "hex_encode bs = concat (map hex_byte bs)"
proof -
  have "foldl (\<lambda>out b. out @ hex_byte b) out bs = out @ concat (map hex_byte bs)" for out
    by (induction bs arbitrary: out) simp_all
  then show ?thesis by (simp add: hex_encode_def)
qed

lemma hex_encode_simps [simp]:
  "hex_encode [] = []" "hex_encode (b # bs) = hex_byte b @ hex_encode bs"
  by (simp_all add: hex_encode_concat)

lemma length_hex_encode [simp]: "length (hex_encode bs) = 2 * length bs"
  by (induction bs) (simp_all add: hex_byte_def)

lemma to_digit16_digit: "n < 16 \<Longrightarrow> to_digit16 (hex_digit n) = Some n"
proof -
  assume "n < 16"
  then have "n \<in> set [0..<16]" by simp
  moreover have "\<forall>n \<in> set [0..<16]. to_digit16 (hex_digit n) = Some n"
    by (simp add: upt_rec hex_digit_def to_digit16_def Let_def)
  ultimately show ?thesis by blast
qed

lemma hex_pair_byte: "hex_pair hex label (hex_byte b) = Inr b"
proof -
  have b: "unat b < 256" using unat_bound [of b] by simp
  then have "unat b div 16 < 16" "unat b mod 16 < 16" by simp_all
  moreover have "word_of_nat (unat b div 16) * 16 + word_of_nat (unat b mod 16) = b"
  proof -
    have "unat b div 16 * 16 + unat b mod 16 = unat b" by simp
    then have "(word_of_nat (unat b div 16 * 16 + unat b mod 16) :: u8) = b" by simp
    then show ?thesis by (simp only: of_nat_add of_nat_mult) simp
  qed
  ultimately show ?thesis
    by (simp add: hex_pair_def hex_byte_def to_digit16_digit)
qed

lemma chunks_hex_encode: "chunks_exact 2 (hex_encode bs) = map hex_byte bs"
proof -
  have "\<forall>x \<in> set (map hex_byte bs). length x = 2" by (auto simp: hex_byte_def)
  then show ?thesis
    using chunks_exact_concat [of 2 "map hex_byte bs"] by (simp add: hex_encode_concat)
qed

lemma hex_pairs_bytes: "hex_pairs hex label acc (map hex_byte bs) = Inr (acc @ bs)"
  by (induction bs arbitrary: acc) (simp_all add: hex_pair_byte)

lemma decode_hex_encode: "decode_hex (hex_encode bs) label = Inr bs"
  by (simp add: decode_hex_def chunks_hex_encode hex_pairs_bytes)

section \<open>Decimal text\<close>

function decimal :: "nat \<Rightarrow> string" where
  "decimal n = (if n < 10 then [char_of (48 + n)] else decimal (n div 10) @ [char_of (48 + n mod 10)])"
  by pat_completeness auto
termination by (relation "measure id") auto

declare decimal.simps [simp del]

definition digits_value :: "string \<Rightarrow> nat" where
  "digits_value s = foldl (\<lambda>v c. 10 * v + (of_char c - 48)) 0 s"

lemma of_char_digit: "n < 10 \<Longrightarrow> of_char (char_of (48 + n)) = (48 + n :: nat)"
  by simp

lemma decimal_digits: "c \<in> set (decimal n) \<Longrightarrow> (48 :: nat) \<le> of_char c \<and> of_char c \<le> (57 :: nat)"
proof (induction n rule: decimal.induct)
  case (1 n)
  have dig: "(48 :: nat) \<le> of_char (char_of (48 + m)) \<and> of_char (char_of (48 + m)) \<le> (57 :: nat)"
    if "m < 10" for m :: nat
    using of_char_digit [OF that] that by simp
  show ?case
  proof (cases "n < 10")
    case True
    then have "c = char_of (48 + n)" using "1.prems" by (subst (asm) decimal.simps) simp
    then show ?thesis using dig [OF True] by simp
  next
    case False
    then have "c \<in> set (decimal (n div 10)) \<or> c = char_of (48 + n mod 10)"
      using "1.prems" by (subst (asm) decimal.simps) auto
    then show ?thesis using "1.IH" [OF False] dig [of "n mod 10"] by auto
  qed
qed

lemma digits_value_decimal: "digits_value (decimal n) = n"
proof (induction n rule: decimal.induct)
  case (1 n)
  show ?case
  proof (cases "n < 10")
    case True
    then show ?thesis
      using of_char_digit [OF True] by (subst decimal.simps) (simp add: digits_value_def)
  next
    case False
    have "digits_value (decimal n) = 10 * digits_value (decimal (n div 10)) + n mod 10"
      using False of_char_digit [of "n mod 10"] by (subst decimal.simps) (simp add: digits_value_def)
    then show ?thesis using "1.IH" [OF False] by simp
  qed
qed

lemma decimal_inj: "decimal m = decimal n \<Longrightarrow> m = n"
  by (metis digits_value_decimal)

section \<open>Output scripts\<close>

definition M1_TAG :: bytes where "M1_TAG = [0xd5, 0xe0, 0xc4, 0xaf]"
definition M2_TAG :: bytes where "M2_TAG = [0xd6, 0xe1, 0xc5, 0xdf]"

definition op_return :: "bytes \<Rightarrow> bytes" where
  "op_return payload =
     [0x6a] @
     (if length payload \<le> 75 then [word_of_nat (length payload)]
      else if length payload \<le> 255 then [0x4c, word_of_nat (length payload)]
      else 0x4d # to_le_bytes (word_of_nat (length payload) :: u16)) @
     payload"

text \<open>How a node reads the single push of an \<^verbatim>\<open>OP_RETURN\<close> output.\<close>

definition read_op_return :: "bytes \<Rightarrow> bytes option" where
  "read_op_return script =
     (case script of
        op # n # rest \<Rightarrow>
          if op \<noteq> 0x6a then None
          else if n \<le> 75 then (if length rest = unat n then Some rest else None)
          else if n = 0x4c then
            (case rest of m # data \<Rightarrow> if length data = unat m then Some data else None | [] \<Rightarrow> None)
          else if n = 0x4d then
            (case get_slice 0 2 rest of
               None \<Rightarrow> None
             | Some l \<Rightarrow>
                 if length (drop 2 rest) = unat (from_le_bytes l :: u16) then Some (drop 2 rest) else None)
          else None
      | _ \<Rightarrow> None)"

lemma read_op_return_op_return:
  assumes "length payload < 2 ^ 16"
  shows "read_op_return (op_return payload) = Some payload"
proof -
  consider "length payload \<le> 75" | "75 < length payload" "length payload \<le> 255" | "255 < length payload"
    by linarith
  then show ?thesis
  proof cases
    case 1
    then have "unat (word_of_nat (length payload) :: u8) = length payload" by (simp add: unat_of_nat)
    with 1 show ?thesis by (simp add: read_op_return_def op_return_def word_le_nat_alt)
  next
    case 2
    then have "unat (word_of_nat (length payload) :: u8) = length payload" by (simp add: unat_of_nat)
    with 2 show ?thesis by (simp add: read_op_return_def op_return_def)
  next
    case 3
    then have "unat (word_of_nat (length payload) :: u16) = length payload"
      using assms by (simp add: unat_of_nat)
    with 3 show ?thesis
      by (simp add: read_op_return_def op_return_def get_slice_def append_layout_simps)
  qed
qed

section \<open>The declaration\<close>

record Declaration =
  dl_title :: bytes
  dl_description :: bytes
  dl_hash_id_1 :: bytes
  dl_hash_id_2 :: bytes

definition MAX_TITLE_LEN :: nat where "MAX_TITLE_LEN = 255"

definition with_hashes :: "bytes \<Rightarrow> bytes \<Rightarrow> bytes \<Rightarrow> bytes \<Rightarrow> EnforcerError + Declaration" where
  "with_hashes title description hash_id_1 hash_id_2 =
     (if MAX_TITLE_LEN < length title then Inl (TitleTooLong (length title) MAX_TITLE_LEN)
      else Inr \<lparr>dl_title = title, dl_description = description, dl_hash_id_1 = hash_id_1,
             dl_hash_id_2 = hash_id_2\<rparr>)"

definition Declaration_new :: "bytes \<Rightarrow> bytes \<Rightarrow> EnforcerError + Declaration" where
  "Declaration_new title description = with_hashes title description (replicate 32 0) (replicate 20 0)"

definition declaration_bytes :: "Declaration \<Rightarrow> bytes" where
  "declaration_bytes d =
     [0, word_of_nat (length (dl_title d))] @ dl_title d @ dl_description d @ dl_hash_id_1 d @
     dl_hash_id_2 d"

definition digest :: "(bytes \<Rightarrow> array32) \<Rightarrow> Declaration \<Rightarrow> array32" where
  "digest sha256d d = sha256d (declaration_bytes d)"

definition proposal_hash :: "(bytes \<Rightarrow> array32) \<Rightarrow> Declaration \<Rightarrow> string" where
  "proposal_hash sha256d d = hex_encode (rev (array_bytes (digest sha256d d)))"

definition m1_script :: "u8 \<Rightarrow> Declaration \<Rightarrow> string" where
  "m1_script sidechain d = hex_encode (op_return (M1_TAG @ [sidechain] @ declaration_bytes d))"

definition m2_script :: "(bytes \<Rightarrow> array32) \<Rightarrow> u8 \<Rightarrow> Declaration \<Rightarrow> string" where
  "m2_script sha256d sidechain d =
     hex_encode (op_return (M2_TAG @ [sidechain] @ array_bytes (digest sha256d d)))"

text \<open>The types of the hashes, and the length that the constructor checks.\<close>

definition declaration_ok :: "Declaration \<Rightarrow> bool" where
  "declaration_ok d \<longleftrightarrow>
     length (dl_title d) \<le> MAX_TITLE_LEN \<and> length (dl_hash_id_1 d) = 32 \<and> length (dl_hash_id_2 d) = 20"

definition read_declaration :: "bytes \<Rightarrow> Declaration option" where
  "read_declaration data =
     (case data of
        version # len # rest \<Rightarrow>
          if version \<noteq> 0 \<or> length rest < unat len + 52 then None
          else Some \<lparr>dl_title = take (unat len) rest,
                 dl_description = subslice (unat len) (length rest - 52) rest,
                 dl_hash_id_1 = subslice (length rest - 52) (length rest - 20) rest,
                 dl_hash_id_2 = drop (length rest - 20) rest\<rparr>
      | _ \<Rightarrow> None)"

lemma read_declaration_bytes:
  assumes "declaration_ok d"
  shows "read_declaration (declaration_bytes d) = Some d"
proof -
  have "unat (word_of_nat (length (dl_title d)) :: u8) = length (dl_title d)"
    using assms by (simp add: declaration_ok_def MAX_TITLE_LEN_def unat_of_nat)
  then show ?thesis
    using assms
    by (simp add: read_declaration_def declaration_bytes_def declaration_ok_def subslice_def)
qed

lemma declaration_bytes_inj:
  "declaration_ok d \<Longrightarrow> declaration_ok e \<Longrightarrow> declaration_bytes d = declaration_bytes e \<Longrightarrow> d = e"
  by (metis option.inject read_declaration_bytes)

section \<open>Properties\<close>

text \<open>
  Hex text round trips: the daemon reads back every byte string that it writes as hex, and a hash
  that it prints turned around is the hash that it reads.
\<close>

theorem hex_roundtrip:
  "decode_hex (hex_encode bs) label = Inr bs \<and>
   decode_reverse_hash (Some (hex_encode (rev (array_bytes h)))) label = Inr h"
  by (simp add: decode_hex_encode decode_reverse_hash_def)

text \<open>
  The M1 script of a declaration says what it declares: a node that reads the push finds the tag,
  the slot and bytes from which exactly this title, description and pair of hashes come back.
\<close>

theorem m1_script_roundtrip:
  assumes "declaration_ok d" "length (dl_title d) + length (dl_description d) < 60000"
  shows "\<exists>script payload. decode_hex (m1_script sidechain d) label = Inr script \<and>
     read_op_return script = Some payload \<and> take 4 payload = M1_TAG \<and> payload ! 4 = sidechain \<and>
     read_declaration (drop 5 payload) = Some d"
proof -
  let ?payload = "M1_TAG @ [sidechain] @ declaration_bytes d"
  have "length ?payload < 2 ^ 16"
    using assms by (simp add: M1_TAG_def declaration_bytes_def declaration_ok_def)
  then have "read_op_return (op_return ?payload) = Some ?payload" by (rule read_op_return_op_return)
  then show ?thesis
    using assms(1) by (intro exI [of _ "op_return ?payload"] exI [of _ ?payload])
      (simp add: m1_script_def decode_hex_encode read_declaration_bytes M1_TAG_def)
qed

lemma m1_script_roundtrip_witness:
  "\<exists>script payload.
     decode_hex (m1_script 8 \<lparr>dl_title = ascii ''sol'', dl_description = [], dl_hash_id_1 = replicate 32 1,
       dl_hash_id_2 = replicate 20 2\<rparr>) ''m1'' = Inr script \<and> read_op_return script = Some payload"
proof -
  have "declaration_ok \<lparr>dl_title = ascii ''sol'', dl_description = [], dl_hash_id_1 = replicate 32 1,
       dl_hash_id_2 = replicate 20 2\<rparr>"
    by (simp add: declaration_ok_def ascii_def MAX_TITLE_LEN_def)
  from m1_script_roundtrip [OF this, of 8 "''m1''"] show ?thesis
    by (auto simp: ascii_def)
qed

end
