(* ===== verification/Network.thy ===== *)
theory Network
  imports Bytes
begin

text \<open>
  The networks of the peg (\<^verbatim>\<open>daemon/src/network.rs\<close>): what each one is called, where its node listens,
  and how the BIP300 constants of an enforcer tell the eCash networks from Bitcoin. The parser of Bitcoin
  addresses is code of the Bitcoin library, a parameter of \<open>script_pubkey_of\<close>.
\<close>

datatype PegNetwork = Alphanet | Betanet | Ecash | Mainnet | Testnet | Signet | Regtest

datatype BitcoinNetwork = Bitcoin_Main | Bitcoin_Testnet | Bitcoin_Signet | Bitcoin_Regtest

datatype UnknownNetwork = UnknownNetwork string

definition BITCOIN_BUNDLE_THRESHOLD :: u32 where
  "BITCOIN_BUNDLE_THRESHOLD = 13150"

definition ALL_NETWORKS :: "PegNetwork list" where
  "ALL_NETWORKS = [Alphanet, Betanet, Ecash, Mainnet, Testnet, Signet, Regtest]"

fun reported_as :: "PegNetwork \<Rightarrow> PegNetwork" where
  "reported_as Alphanet = Mainnet"
| "reported_as Betanet = Mainnet"
| "reported_as Ecash = Mainnet"
| "reported_as other = other"

fun fork_flag :: "PegNetwork \<Rightarrow> string" where
  "fork_flag Alphanet = ''ecash-alphanet''"
| "fork_flag Betanet = ''ecash-betanet''"
| "fork_flag Ecash = ''ecash''"
| "fork_flag _ = ''bitcoin''"

fun bitcoin_network :: "PegNetwork \<Rightarrow> BitcoinNetwork" where
  "bitcoin_network Testnet = Bitcoin_Testnet"
| "bitcoin_network Signet = Bitcoin_Signet"
| "bitcoin_network Regtest = Bitcoin_Regtest"
| "bitcoin_network _ = Bitcoin_Main"

fun rpc_port :: "PegNetwork \<Rightarrow> u16" where
  "rpc_port Testnet = 18332"
| "rpc_port Signet = 38332"
| "rpc_port Regtest = 18443"
| "rpc_port _ = 8332"

fun p2p_port :: "PegNetwork \<Rightarrow> u16" where
  "p2p_port Testnet = 18333"
| "p2p_port Signet = 38333"
| "p2p_port Regtest = 18444"
| "p2p_port _ = 8333"

fun coin_type :: "PegNetwork \<Rightarrow> u32" where
  "coin_type Testnet = 1"
| "coin_type Signet = 1"
| "coin_type Regtest = 1"
| "coin_type _ = 0"

fun network_name :: "PegNetwork \<Rightarrow> string" where
  "network_name Alphanet = ''alphanet''"
| "network_name Betanet = ''betanet''"
| "network_name Ecash = ''ecash''"
| "network_name Mainnet = ''mainnet''"
| "network_name Testnet = ''testnet''"
| "network_name Signet = ''signet''"
| "network_name Regtest = ''regtest''"

fun ecash_marks :: "PegNetwork \<Rightarrow> (u32 \<times> u32) option" where
  "ecash_marks Ecash = Some (6048, 973728)"
| "ecash_marks Betanet = Some (13150, 967680)"
| "ecash_marks Alphanet = Some (72, 963648)"
| "ecash_marks _ = None"

definition identify :: "PegNetwork option \<Rightarrow> u32 \<Rightarrow> u32 \<Rightarrow> PegNetwork option" where
  "identify reported bundle_threshold activation_height =
     (if reported \<noteq> Some Mainnet then reported
      else
        let marks = (bundle_threshold, activation_height) in
        case find (\<lambda>network. ecash_marks network = Some marks) [Ecash, Betanet, Alphanet] of
          Some network \<Rightarrow> Some network
        | None \<Rightarrow>
            if bundle_threshold = BITCOIN_BUNDLE_THRESHOLD \<and>
               (activation_height = 0 \<or> activation_height = - 1)
            then Some Mainnet else None)"

text \<open>\<^verbatim>\<open>to_ascii_lowercase\<close> changes the 26 upper-case letters.\<close>

definition ascii_lower :: "char \<Rightarrow> char" where
  "ascii_lower c =
     (if 65 \<le> (of_char c :: nat) \<and> (of_char c :: nat) \<le> 90 then char_of (of_char c + 32 :: nat) else c)"

definition network_of_lower :: "string \<Rightarrow> PegNetwork option" where
  "network_of_lower text =
     (if text = ''alphanet'' then Some Alphanet
      else if text = ''betanet'' then Some Betanet
      else if text = ''ecash'' then Some Ecash
      else if text = ''mainnet'' \<or> text = ''bitcoin'' \<or> text = ''main'' then Some Mainnet
      else if text = ''testnet'' \<or> text = ''test'' then Some Testnet
      else if text = ''signet'' then Some Signet
      else if text = ''regtest'' then Some Regtest
      else None)"

definition network_from_str :: "string \<Rightarrow> UnknownNetwork + PegNetwork" where
  "network_from_str text =
     (case network_of_lower (map ascii_lower text) of
        Some network \<Rightarrow> Inr network
      | None \<Rightarrow> Inl (UnknownNetwork text))"

datatype NetworkAddressError = NotAnAddress string | AddressOfAnotherNetwork string string

text \<open>\<open>parse_address\<close> gives the script of an address and the networks it is valid on.\<close>

definition script_pubkey_of ::
  "(string \<Rightarrow> (bytes \<times> (BitcoinNetwork \<Rightarrow> bool)) option) \<Rightarrow> string \<Rightarrow> PegNetwork \<Rightarrow>
     NetworkAddressError + bytes" where
  "script_pubkey_of parse_address address network =
     ok_or (parse_address address) (NotAnAddress address) (\<lambda>(script, valid_on).
     require (valid_on (bitcoin_network network)) (AddressOfAnotherNetwork address (network_name network))
       (Inr script))"

lemma all_networks: "set ALL_NETWORKS = UNIV"
  unfolding ALL_NETWORKS_def using PegNetwork.exhaust by auto

lemma network_from_name: "network_from_str (network_name n) = Inr n"
  by (cases n) (simp_all add: network_from_str_def network_of_lower_def ascii_lower_def)

lemma ecash_marks_inj: "ecash_marks a = Some m \<Longrightarrow> ecash_marks b = Some m \<Longrightarrow> a = b"
  by (cases a; cases b) auto

text \<open>The constants that an enforcer of a network reports (BIP300).\<close>

fun constants_of :: "PegNetwork \<Rightarrow> (u32 \<times> u32) \<Rightarrow> bool" where
  "constants_of Ecash m = (m = (6048, 973728))"
| "constants_of Betanet m = (m = (13150, 967680))"
| "constants_of Alphanet m = (m = (72, 963648))"
| "constants_of Mainnet m = (fst m = 13150 \<and> snd m \<in> {0, - 1})"
| "constants_of _ m = True"

lemma identify_iff:
  "identify (Some (reported_as n)) threshold height = Some n \<longleftrightarrow> constants_of n (threshold, height)"
  by (cases n) (auto simp: identify_def BITCOIN_BUNDLE_THRESHOLD_def)

end
