(* ===== verification/Chain.thy ===== *)
theory Chain
  imports Enforcer_Text
begin

text \<open>
  The paged walk of the active eCash chain (\<^verbatim>\<open>daemon/src/enforcer.rs\<close>). The trait \<^verbatim>\<open>ChainPages\<close> is a
  locale: what the two reads of the enforcer promise for one active chain. The walks are functions of
  the reads; the locale holds their correctness, and it is interpreted on the chain that the source
  itself implements the trait for.
\<close>

section \<open>Headers and events\<close>

record Header =
  hd_height :: u32
  hd_hash :: array32
  hd_prev :: array32

text \<open>The paid transaction of a bundle is its consensus encoding.\<close>

datatype BundleEvent = Submitted array32 | Succeeded array32 bytes | Failed array32

record DepositEvent =
  de_sequence_number :: u64
  de_address :: bytes
  de_value_sats :: u64

datatype PegEvent =
    Connect array32 u32 "DepositEvent list" "BundleEvent list"
  | Disconnect array32

type_synonym tip = "array32 \<times> u32"
type_synonym read_headers = "array32 \<Rightarrow> u32 \<Rightarrow> EnforcerError + Header list"
type_synonym read_events = "array32 \<Rightarrow> array32 \<Rightarrow> EnforcerError + PegEvent list"

definition PAGE_BLOCKS :: u32 where
  "PAGE_BLOCKS = 1000"

section \<open>header_at\<close>

text \<open>The loop of \<^verbatim>\<open>header_at\<close>: each page moves the cursor strictly down.\<close>

function header_loop :: "read_headers \<Rightarrow> u32 \<Rightarrow> tip \<Rightarrow> EnforcerError + Header" where
  "header_loop headers height cursor =
     (let wide = min (snd cursor - height) PAGE_BLOCKS in
      attempt (headers (fst cursor) wide) (\<lambda>page.
      case find (\<lambda>h. hd_height h = height) page of
        Some h \<Rightarrow> Inr h
      | None \<Rightarrow>
          if page \<noteq> [] \<and> height < hd_height (last page) \<and> hd_height (last page) \<le> snd cursor
          then header_loop headers height (hd_prev (last page), hd_height (last page) - 1)
          else Inl (NoBlockAtHeight height)))"
  by pat_completeness auto

termination
proof (relation "measure (\<lambda>(headers, height, cursor). unat (snd cursor))")
  fix headers :: read_headers and height :: u32 and cursor :: tip and wide :: u32 and page :: "Header list"
  assume "page \<noteq> [] \<and> height < hd_height (last page) \<and> hd_height (last page) \<le> snd cursor"
  then have "unat (hd_height (last page)) \<le> unat (snd cursor)" "0 < unat (hd_height (last page))"
    by (auto simp: word_le_nat_alt word_less_nat_alt)
  moreover from this have "unat (hd_height (last page) - 1) = unat (hd_height (last page)) - 1"
    by (simp add: unat_sub word_le_nat_alt)
  ultimately show "((headers, height, hd_prev (last page), hd_height (last page) - 1), headers, height, cursor)
      \<in> measure (\<lambda>(headers, height, cursor). unat (snd cursor))"
    by simp
qed simp

declare header_loop.simps [simp del]

definition header_at :: "read_headers \<Rightarrow> tip \<Rightarrow> u32 \<Rightarrow> EnforcerError + Header" where
  "header_at headers tip height =
     (if snd tip < height then Inl (NoBlockAtHeight height) else header_loop headers height tip)"

definition block_at :: "read_headers \<Rightarrow> tip \<Rightarrow> u32 \<Rightarrow> EnforcerError + (array32 \<times> array32)" where
  "block_at headers tip height =
     attempt (header_at headers tip height) (\<lambda>h. Inr (hd_hash h, hd_prev h))"

lemma header_loop_height: "header_loop headers height cursor = Inr h \<Longrightarrow> hd_height h = height"
proof (induction headers height cursor rule: header_loop.induct)
  case (1 headers height cursor)
  from "1.prems" obtain page where page: "headers (fst cursor) (min (snd cursor - height) PAGE_BLOCKS) = Inr page"
    and rest: "(case find (\<lambda>h. hd_height h = height) page of
        Some h \<Rightarrow> Inr h
      | None \<Rightarrow>
          if page \<noteq> [] \<and> height < hd_height (last page) \<and> hd_height (last page) \<le> snd cursor
          then header_loop headers height (hd_prev (last page), hd_height (last page) - 1)
          else Inl (NoBlockAtHeight height)) = Inr h"
    by (subst (asm) header_loop.simps) (auto simp: Let_def result_iff)
  show ?case
  proof (cases "find (\<lambda>h. hd_height h = height) page")
    case None
    then show ?thesis using "1.IH" [OF refl page None] rest by (auto split: if_splits)
  next
    case (Some h')
    then have "h' = h" using rest by simp
    then show ?thesis using Some by (auto simp: find_Some_iff)
  qed
qed

lemma header_at_height: "header_at headers tip height = Inr h \<Longrightarrow> hd_height h = height"
  by (auto simp: header_at_def header_loop_height split: if_splits)

section \<open>peg_data_from\<close>

text \<open>The pages of \<^verbatim>\<open>peg_data_from\<close>, newest first: the hash below the page and its top hash.\<close>

lemma lower_height_below:
  "start_height < t \<Longrightarrow> max (saturating_sub t PAGE_BLOCKS) start_height < t"
  by (auto simp: max_def saturating_sub_def PAGE_BLOCKS_def word_less_nat_alt word_le_nat_alt unat_sub)

function peg_pages ::
  "read_headers \<Rightarrow> u32 \<Rightarrow> tip \<Rightarrow> (array32 \<times> array32) list \<Rightarrow>
     EnforcerError + (array32 \<times> array32) list" where
  "peg_pages headers start_height upper pages =
     (if start_height < snd upper then
        let lower_height = max (saturating_sub (snd upper) PAGE_BLOCKS) start_height in
        attempt (header_at headers upper lower_height) (\<lambda>lower.
        peg_pages headers start_height (hd_hash lower, hd_height lower)
          (pages @ [(hd_hash lower, fst upper)]))
      else Inr pages)"
  by pat_completeness auto

termination
proof (relation "measure (\<lambda>(headers, start_height, upper, pages). unat (snd upper))")
  fix headers :: read_headers and start_height :: u32 and upper :: tip
    and pages :: "(array32 \<times> array32) list" and lower_height lower
  assume "start_height < snd upper"
    and "lower_height = max (saturating_sub (snd upper) PAGE_BLOCKS) start_height"
    and "header_at headers upper lower_height = Inr lower"
  then have "unat (hd_height lower) < unat (snd upper)"
    using header_at_height [of headers upper lower_height lower] lower_height_below [of start_height "snd upper"]
    by (simp add: word_less_nat_alt)
  then show "((headers, start_height, (hd_hash lower, hd_height lower), pages @ [(hd_hash lower, fst upper)]),
      headers, start_height, upper, pages)
    \<in> measure (\<lambda>(headers, start_height, upper, pages). unat (snd upper))"
    by simp
qed simp

declare peg_pages.simps [simp del]

fun page_events ::
  "read_events \<Rightarrow> PegEvent list \<Rightarrow> (array32 \<times> array32) list \<Rightarrow> EnforcerError + PegEvent list" where
  "page_events peg_events events [] = Inr events"
| "page_events peg_events events ((lower, upper) # pages) =
     attempt (peg_events lower upper) (\<lambda>more. page_events peg_events (events @ more) pages)"

definition peg_data_from ::
  "read_headers \<Rightarrow> read_events \<Rightarrow> tip \<Rightarrow> u32 \<Rightarrow> EnforcerError + PegEvent list" where
  "peg_data_from headers peg_events tip start_height =
     attempt (peg_pages headers start_height tip []) (\<lambda>pages.
     page_events peg_events [] (rev pages))"

section \<open>ActiveHeaders\<close>

text \<open>
  \<^verbatim>\<open>by_height\<close> of \<^verbatim>\<open>ActiveHeaders\<close> maps a height to the header of this height, so it is the list of its
  headers in the order of their heights.
\<close>

fun insert_header :: "Header \<Rightarrow> Header list \<Rightarrow> Header list" where
  "insert_header h [] = [h]"
| "insert_header h (x # xs) =
     (if hd_height h < hd_height x then h # x # xs
      else if hd_height h = hd_height x then h # xs
      else x # insert_header h xs)"

definition extend_headers :: "Header list \<Rightarrow> Header list \<Rightarrow> Header list" where
  "extend_headers kept fresh = fold insert_header fresh kept"

definition active_get :: "u32 \<Rightarrow> Header list \<Rightarrow> Header option" where
  "active_get height kept = find (\<lambda>h. hd_height h = height) kept"

definition below :: "Header list \<Rightarrow> u32 \<Rightarrow> tip option" where
  "below page lowest =
     (if page \<noteq> [] \<and> lowest < hd_height (last page)
      then Some (hd_prev (last page), hd_height (last page) - 1) else None)"

definition read_page :: "read_headers \<Rightarrow> tip \<Rightarrow> u32 \<Rightarrow> u32 \<Rightarrow> EnforcerError + Header list" where
  "read_page headers at lowest wide =
     (let wide' = min (min wide (snd at - lowest)) PAGE_BLOCKS in
      attempt (headers (fst at) wide') (\<lambda>page.
      require (page \<noteq> [] \<and> (hd_hash (hd page), hd_height (hd page)) = at \<and>
               list_all (\<lambda>(upper, lower). hd_hash lower = hd_prev upper \<and> hd_height lower + 1 = hd_height upper)
                 (windows2 page))
        (NoBlockAtHeight (snd at)) (Inr page)))"

text \<open>
  The first loop of \<^verbatim>\<open>follow\<close>, with the calls that are left: it reads down from the tip until a kept
  header matches, the floor is reached, or no call is left.
\<close>

fun follow_down ::
  "read_headers \<Rightarrow> u32 \<Rightarrow> nat \<Rightarrow> Header list \<Rightarrow> Header list \<Rightarrow> tip option \<Rightarrow>
     EnforcerError + (nat \<times> Header list \<times> Header list)" where
  "follow_down headers lowest left kept fresh None = Inr (left, [], fresh)"
| "follow_down headers lowest left kept fresh (Some at) =
     (if (case active_get (snd at) kept of None \<Rightarrow> False | Some k \<Rightarrow> hd_hash k = fst at)
      then Inr (left, filter (\<lambda>h. hd_height h \<le> snd at) kept, fresh)
      else
        case left of
          0 \<Rightarrow> Inr (left, [], fresh)
        | Suc left' \<Rightarrow>
            let gap = (if kept \<noteq> [] \<and> hd_height (last kept) < snd at
                       then snd at - hd_height (last kept) - 1 else PAGE_BLOCKS) in
            attempt (read_page headers at lowest gap) (\<lambda>page.
            follow_down headers lowest left' kept (fresh @ page) (below page lowest)))"

text \<open>The second loop reads below the kept headers. An error keeps the pages before it.\<close>

fun follow_more ::
  "read_headers \<Rightarrow> u32 \<Rightarrow> nat \<Rightarrow> Header list \<Rightarrow> (EnforcerError + unit) \<times> Header list" where
  "follow_more headers lowest 0 kept = (Inr (), kept)"
| "follow_more headers lowest (Suc left) kept =
     (case kept of
        [] \<Rightarrow> (Inr (), kept)
      | first # rest \<Rightarrow>
          (case below [first] lowest of
             None \<Rightarrow> (Inr (), kept)
           | Some at \<Rightarrow>
               (case read_page headers at lowest PAGE_BLOCKS of
                  Inl e \<Rightarrow> (Inl e, kept)
                | Inr page \<Rightarrow> follow_more headers lowest left (extend_headers kept page))))"

definition follow ::
  "read_headers \<Rightarrow> tip \<Rightarrow> u32 \<Rightarrow> nat \<Rightarrow> Header list \<Rightarrow> (EnforcerError + unit) \<times> Header list" where
  "follow headers tip lowest pages kept =
     (let kept = filter (\<lambda>h. lowest \<le> hd_height h \<and> hd_height h \<le> snd tip) kept;
          cursor = (if lowest \<le> snd tip then Some tip else None)
      in case follow_down headers lowest pages kept [] cursor of
           Inl e \<Rightarrow> (Inl e, kept)
         | Inr (left, kept', fresh) \<Rightarrow> follow_more headers lowest left (extend_headers kept' fresh))"

section \<open>One active chain\<close>

lemma page_events_append:
  "page_events peg_events es (xs @ ys) =
     attempt (page_events peg_events es xs) (\<lambda>es'. page_events peg_events es' ys)"
proof (induction xs arbitrary: es)
  case (Cons x xs)
  obtain l u where "x = (l, u)" by (cases x)
  then show ?case using Cons by (cases "peg_events l u") simp_all
qed simp

lemma insert_header_between:
  "\<forall>x \<in> set xs. hd_height x < hd_height h \<Longrightarrow> \<forall>y \<in> set ys. hd_height h < hd_height y \<Longrightarrow>
   insert_header h (xs @ ys) = xs @ h # ys"
proof (induction xs)
  case Nil
  then show ?case by (cases ys) simp_all
qed auto

lemma find_SomeD: "find p xs = Some x \<Longrightarrow> x \<in> set xs \<and> p x"
  by (induction xs) (auto split: if_splits)

definition tip_of :: "(nat \<Rightarrow> Header) \<Rightarrow> nat \<Rightarrow> tip" where
  "tip_of chain n = (hd_hash (chain n), word_of_nat n)"

text \<open>
  The kept headers of \<^verbatim>\<open>ActiveHeaders\<close>: some chain without a gap, of this branch or of another one, in
  which the hash of an active header names no other header.
\<close>

definition kept_on :: "(nat \<Rightarrow> Header) \<Rightarrow> nat \<Rightarrow> Header list \<Rightarrow> bool" where
  "kept_on chain tip_height kept \<longleftrightarrow>
     successively (\<lambda>x y. unat (hd_height y) = unat (hd_height x) + 1 \<and> hd_prev y = hd_hash x) kept \<and>
     (\<forall>h \<in> set kept. \<forall>n \<le> tip_height. hd_hash h = hd_hash (chain n) \<longrightarrow> h = chain n)"

text \<open>
  What the reads answer for one active chain up to a height: the headers in the order of the chain,
  newest first, at most as many as asked, and the peg events of the blocks above a lower block.
\<close>

locale active_chain =
  fixes headers :: read_headers
    and peg_events :: read_events
    and chain :: "nat \<Rightarrow> Header"
    and events_at :: "nat \<Rightarrow> PegEvent list"
    and tip_height :: nat
  assumes tip_fits: "tip_height < 2 ^ 32"
    and chain_height: "n \<le> tip_height \<Longrightarrow> hd_height (chain n) = word_of_nat n"
    and chain_linked: "n < tip_height \<Longrightarrow> hd_prev (chain (Suc n)) = hd_hash (chain n)"
    and headers_answer: "n \<le> tip_height \<Longrightarrow>
      headers (hd_hash (chain n)) wide = Inr (map chain (rev [n - unat wide ..< Suc n]))"
    and events_answer: "lo < hi \<Longrightarrow> hi \<le> tip_height \<Longrightarrow>
      peg_events (hd_hash (chain lo)) (hd_hash (chain hi)) = Inr (concat (map events_at [Suc lo ..< Suc hi]))"
begin

abbreviation tip_at :: "nat \<Rightarrow> tip" where
  "tip_at \<equiv> tip_of chain"

lemma fits: "n \<le> tip_height \<Longrightarrow> unat (word_of_nat n :: u32) = n"
  using tip_fits by (simp add: unat_of_nat)

lemma height_nat: "n \<le> tip_height \<Longrightarrow> unat (hd_height (chain n)) = n"
  by (simp add: chain_height fits)

lemma height_pred: "0 < n \<Longrightarrow> n \<le> tip_height \<Longrightarrow> hd_height (chain n) - 1 = word_of_nat (n - 1)"
  by (simp add: chain_height of_nat_diff)

lemma prev_hash: "0 < n \<Longrightarrow> n \<le> tip_height \<Longrightarrow> hd_prev (chain n) = hd_hash (chain (n - 1))"
  using chain_linked [of "n - 1"] by simp

lemma find_page:
  assumes "n \<le> tip_height"
  shows "find (\<lambda>h. hd_height h = word_of_nat m) (map chain (rev [lo ..< Suc n])) =
    (if m \<le> n \<and> lo \<le> m then Some (chain m) else if m \<le> tip_height then None
     else find (\<lambda>h. hd_height h = word_of_nat m) (map chain (rev [lo ..< Suc n])))"
proof (cases "m \<le> tip_height")
  case True
  have eq: "hd_height (chain i) = word_of_nat m \<longleftrightarrow> i = m" if "i \<le> n" for i
  proof -
    have "i \<le> tip_height" using that assms by simp
    then show ?thesis using True fits chain_height by (metis)
  qed
  show ?thesis
  proof (cases "m \<le> n \<and> lo \<le> m")
    case inside: True
    then obtain x where x: "find (\<lambda>h. hd_height h = word_of_nat m) (map chain (rev [lo ..< Suc n])) = Some x"
      using eq [of m] by (cases "find (\<lambda>h. hd_height h = word_of_nat m) (map chain (rev [lo ..< Suc n]))")
        (auto simp: find_None_iff simp del: upt_Suc)
    then have "x \<in> set (map chain (rev [lo ..< Suc n]))" "hd_height x = word_of_nat m"
      using find_SomeD [OF x] by blast+
    then have "x = chain m" using eq by auto
    then show ?thesis using x inside by (simp del: upt_Suc)
  next
    case False
    then have "find (\<lambda>h. hd_height h = word_of_nat m) (map chain (rev [lo ..< Suc n])) = None"
      using eq by (auto simp: find_None_iff simp del: upt_Suc)
    then show ?thesis using False True by (simp del: upt_Suc)
  qed
qed (use assms in \<open>simp del: upt_Suc\<close>)

lemma header_loop_chain:
  "m \<le> n \<Longrightarrow> n \<le> tip_height \<Longrightarrow> header_loop headers (word_of_nat m) (tip_at n) = Inr (chain m)"
proof (induction n rule: less_induct)
  case (less n)
  let ?w = "min (word_of_nat n - word_of_nat m) PAGE_BLOCKS :: u32"
  have sub: "unat (word_of_nat n - word_of_nat m :: u32) = n - m"
    using less.prems fits [of n] fits [of m] by (simp add: unat_sub word_le_nat_alt)
  then have w: "unat ?w = min (n - m) 1000"
    by (simp add: min_def word_le_nat_alt PAGE_BLOCKS_def)
  have page: "headers (hd_hash (chain n)) ?w = Inr (map chain (rev [n - unat ?w ..< Suc n]))"
    by (rule headers_answer [OF less.prems(2)])
  have last: "last (map chain (rev [n - unat ?w ..< Suc n])) = chain (n - unat ?w)"
    by (simp add: last_map last_rev del: upt_Suc)
  show ?case
  proof (cases "n - m \<le> 1000")
    case True
    then have "find (\<lambda>h. hd_height h = word_of_nat m) (map chain (rev [n - unat ?w ..< Suc n])) = Some (chain m)"
      using less.prems w by (subst find_page) simp_all
    then show ?thesis
      by (subst header_loop.simps) (simp add: tip_of_def Let_def page del: upt_Suc)
  next
    case False
    let ?k = "n - 1000"
    have k: "unat ?w = 1000" "n - unat ?w = ?k" "m < ?k" "?k \<le> tip_height" "0 < ?k" "?k < n"
      using False w less.prems by simp_all
    then have none: "find (\<lambda>h. hd_height h = word_of_nat m) (map chain (rev [?k ..< Suc n])) = None"
      using less.prems by (subst find_page) simp_all
    have "word_of_nat m < hd_height (chain ?k)" "hd_height (chain ?k) \<le> word_of_nat n"
      using k less.prems by (simp_all add: word_less_nat_alt word_le_nat_alt fits height_nat)
    moreover have "(hd_prev (chain ?k), hd_height (chain ?k) - 1) = tip_at (?k - 1)"
      using prev_hash [OF k(5,4)] height_pred [OF k(5,4)] by (simp add: tip_of_def)
    moreover have "header_loop headers (word_of_nat m) (tip_at (?k - 1)) = Inr (chain m)"
      using k less.prems by (intro less.IH) simp_all
    ultimately show ?thesis
      using page last none k(2)
      by (subst header_loop.simps) (simp add: tip_of_def Let_def del: upt_Suc)
  qed
qed

lemma header_at_chain:
  assumes "m \<le> n" "n \<le> tip_height"
  shows "header_at headers (tip_at n) (word_of_nat m) = Inr (chain m)"
proof -
  have "\<not> (word_of_nat n :: u32) < word_of_nat m"
    using assms fits by (simp add: word_less_nat_alt)
  then show ?thesis
    using header_loop_chain [OF assms] by (simp add: header_at_def tip_of_def)
qed

text \<open>\<^verbatim>\<open>peg_data_from\<close> gives the events of every block above the start, oldest first.\<close>

lemma peg_pages_chain:
  "m \<le> n \<Longrightarrow> n \<le> tip_height \<Longrightarrow>
   \<exists>ps. peg_pages headers (word_of_nat m) (tip_at n) acc = Inr (acc @ ps) \<and>
     (\<forall>es. page_events peg_events es (rev ps) = Inr (es @ concat (map events_at [Suc m ..< Suc n])))"
proof (induction n arbitrary: acc rule: less_induct)
  case (less n)
  show ?case
  proof (cases "m = n")
    case True
    then show ?thesis by (subst peg_pages.simps) (simp add: tip_of_def)
  next
    case False
    let ?k = "max (n - 1000) m"
    have k: "m \<le> ?k" "?k < n" "?k \<le> tip_height" using False less.prems by auto
    have lt: "(word_of_nat m :: u32) < word_of_nat n"
      using False less.prems fits by (simp add: word_less_nat_alt)
    have low: "max (saturating_sub (word_of_nat n) PAGE_BLOCKS) (word_of_nat m :: u32) = word_of_nat ?k"
    proof -
      have "unat (max (saturating_sub (word_of_nat n) PAGE_BLOCKS) (word_of_nat m :: u32)) = ?k"
        using less.prems fits
        by (simp add: max_def word_le_nat_alt arith_iff PAGE_BLOCKS_def)
      then show ?thesis using fits [OF k(3)] by (simp add: word_eq_unat)
    qed
    have at: "header_at headers (tip_at n) (word_of_nat ?k) = Inr (chain ?k)"
      using k less.prems by (intro header_at_chain) simp_all
    have tip: "(hd_hash (chain ?k), hd_height (chain ?k)) = tip_at ?k"
      using k by (simp add: tip_of_def chain_height)
    let ?page = "(hd_hash (chain ?k), hd_hash (chain n))"
    obtain ps where ps: "peg_pages headers (word_of_nat m) (tip_at ?k) (acc @ [?page]) = Inr ((acc @ [?page]) @ ps)"
      and ev: "\<forall>es. page_events peg_events es (rev ps) = Inr (es @ concat (map events_at [Suc m ..< Suc ?k]))"
      using less.IH [OF k(2) k(1) k(3), of "acc @ [?page]"] by blast
    have "peg_pages headers (word_of_nat m) (tip_at n) acc = Inr (acc @ (?page # ps))"
      using lt low at tip ps by (subst peg_pages.simps) (simp add: Let_def tip_of_def)
    moreover have "page_events peg_events es (rev (?page # ps)) =
        Inr (es @ concat (map events_at [Suc m ..< Suc n]))" for es
    proof -
      have "[Suc m ..< Suc n] = [Suc m ..< Suc ?k] @ [Suc ?k ..< Suc n]"
        using k upt_add_eq_append [of "Suc m" "Suc ?k" "n - ?k"] by simp
      then show ?thesis
        using ev events_answer [OF k(2) less.prems(2)] by (simp add: page_events_append del: upt_Suc)
    qed
    ultimately show ?thesis by blast
  qed
qed

lemma peg_data_from_chain:
  assumes "m \<le> n" "n \<le> tip_height"
  shows "peg_data_from headers peg_events (tip_at n) (word_of_nat m) =
    Inr (concat (map events_at [Suc m ..< Suc n]))"
  using peg_pages_chain [OF assms, of "[]"] by (auto simp: peg_data_from_def simp del: upt_Suc)

abbreviation kept_ok :: "Header list \<Rightarrow> bool" where
  "kept_ok \<equiv> kept_on chain tip_height"

lemma kept_ends_at:
  assumes "kept_ok (xs @ [chain n])" "n \<le> tip_height"
  shows "\<exists>a \<le> n. xs @ [chain n] = map chain [a ..< Suc n]"
  using assms
proof (induction xs arbitrary: n rule: rev_induct)
  case Nil
  then show ?case by (intro exI [of _ n]) simp
next
  case (snoc x xs)
  have link: "unat (hd_height (chain n)) = unat (hd_height x) + 1" "hd_prev (chain n) = hd_hash x"
    using snoc.prems(1) by (simp_all add: kept_on_def successively_append_iff)
  then have n: "0 < n" using height_nat [OF snoc.prems(2)] by simp
  have "hd_hash x = hd_hash (chain (n - 1))" using link(2) prev_hash [OF n snoc.prems(2)] by simp
  moreover have "x \<in> set ((xs @ [x]) @ [chain n])" "n - 1 \<le> tip_height" using snoc.prems(2) by simp_all
  ultimately have x: "x = chain (n - 1)" using snoc.prems(1) unfolding kept_on_def by blast
  have "kept_ok (xs @ [chain (n - 1)])"
    using snoc.prems(1) x by (simp add: kept_on_def successively_append_iff)
  moreover have "n - 1 \<le> tip_height" using snoc.prems(2) by simp
  ultimately obtain a where "a \<le> n - 1" "xs @ [chain (n - 1)] = map chain [a ..< Suc (n - 1)]"
    using snoc.IH [of "n - 1"] by blast
  then show ?case using n x by (intro exI [of _ a]) simp
qed

lemma kept_prefix:
  assumes "kept_ok kept" "chain n \<in> set kept" "n \<le> tip_height"
  shows "\<exists>a \<le> n. filter (\<lambda>h. unat (hd_height h) \<le> n) kept = map chain [a ..< Suc n]"
proof -
  obtain xs ys where kept: "kept = xs @ chain n # ys" using split_list [OF assms(2)] by blast
  have "kept_ok (xs @ [chain n])"
    using assms(1) by (simp add: kept kept_on_def successively_append_iff)
  then obtain a where a: "a \<le> n" "xs @ [chain n] = map chain [a ..< Suc n]"
    using kept_ends_at [OF _ assms(3)] by blast
  have "\<forall>h \<in> set (map chain [a ..< Suc n]). unat (hd_height h) \<le> n"
    using assms(3) height_nat by (auto simp del: upt_Suc)
  then have "\<forall>h \<in> set (xs @ [chain n]). unat (hd_height h) \<le> n" unfolding a(2) .
  moreover have "\<forall>h \<in> set ys. n < unat (hd_height h)"
  proof -
    have "successively (\<lambda>x y. unat (hd_height x) < unat (hd_height y)) kept"
      using assms(1) unfolding kept_on_def by (elim conjE successively_mono) simp_all
    then have "sorted_wrt (\<lambda>x y. unat (hd_height x) < unat (hd_height y)) kept"
      by (subst (asm) successively_conv_sorted_wrt) (auto intro: transpI)
    then show ?thesis using height_nat [OF assms(3)] by (simp add: kept sorted_wrt_append)
  qed
  ultimately have "filter (\<lambda>h. unat (hd_height h) \<le> n) (xs @ [chain n]) = xs @ [chain n]"
    "filter (\<lambda>h. unat (hd_height h) \<le> n) ys = []"
    by (auto simp: filter_empty_conv not_le)
  then have "filter (\<lambda>h. unat (hd_height h) \<le> n) kept = xs @ [chain n]"
    by (simp add: kept split: if_splits)
  then show ?thesis using a by auto
qed

text \<open>One page of the chain, and the cursor below it.\<close>

lemma heights_less [simp]:
  "i \<le> tip_height \<Longrightarrow> j \<le> tip_height \<Longrightarrow> hd_height (chain i) < hd_height (chain j) \<longleftrightarrow> i < j"
  by (simp add: word_less_nat_alt height_nat)

lemma height_word_less:
  "i \<le> tip_height \<Longrightarrow> j \<le> tip_height \<Longrightarrow> (word_of_nat i :: u32) < word_of_nat j \<longleftrightarrow> i < j"
  by (simp add: word_less_nat_alt fits)

lemma height_word_le:
  "i \<le> tip_height \<Longrightarrow> j \<le> tip_height \<Longrightarrow> (word_of_nat i :: u32) \<le> word_of_nat j \<longleftrightarrow> i \<le> j"
  by (simp add: word_le_nat_alt fits)

lemma page_linked:
  "n \<le> tip_height \<Longrightarrow>
   list_all (\<lambda>(upper, lower). hd_hash lower = hd_prev upper \<and> hd_height lower + 1 = hd_height upper)
     (windows2 (map chain (rev [k ..< Suc n])))"
proof (induction n)
  case 0
  then show ?case by simp
next
  case (Suc n)
  show ?case
  proof (cases "k \<le> n")
    case True
    then have "rev [k ..< Suc (Suc n)] = Suc n # n # rev [k ..< n]" by simp
    moreover have "rev [k ..< Suc n] = n # rev [k ..< n]" using True by simp
    ultimately show ?thesis
      using Suc chain_linked [of n] by (simp add: chain_height del: upt_Suc)
  qed simp
qed

lemma read_page_chain:
  assumes "l \<le> n" "n \<le> tip_height"
  shows "read_page headers (tip_at n) (word_of_nat l) gap =
    Inr (map chain (rev [n - min (min (unat gap) (n - l)) 1000 ..< Suc n]))"
proof -
  have sub: "unat (word_of_nat n - word_of_nat l :: u32) = n - l"
    using assms fits [of n] fits [of l] by (simp add: unat_sub word_le_nat_alt)
  have w: "unat (min (min gap (word_of_nat n - word_of_nat l)) PAGE_BLOCKS) = min (min (unat gap) (n - l)) 1000"
    by (simp add: min_def word_le_nat_alt PAGE_BLOCKS_def sub)
  let ?k = "n - min (min (unat gap) (n - l)) 1000"
  have "rev [?k ..< Suc n] = n # rev [?k ..< n]" by simp
  then have "map chain (rev [?k ..< Suc n]) \<noteq> []"
    "hd (map chain (rev [?k ..< Suc n])) = chain n" by (simp_all del: upt_Suc)
  then show ?thesis
    using headers_answer [OF assms(2)] page_linked [OF assms(2), of ?k] assms(2)
    by (simp add: read_page_def tip_of_def Let_def w chain_height require_def del: upt_Suc)
qed

lemma below_chain:
  assumes "k \<le> n" "k \<le> tip_height" "l \<le> tip_height"
  shows "below (map chain (rev [k ..< Suc n])) (word_of_nat l) = (if l < k then Some (tip_at (k - 1)) else None)"
proof -
  have "last (map chain (rev [k ..< Suc n])) = chain k" "map chain (rev [k ..< Suc n]) \<noteq> []"
    using assms(1) by (simp_all add: last_map last_rev del: upt_Suc)
  then show ?thesis
    using assms prev_hash [of k] height_pred [of k]
    by (auto simp: below_def tip_of_def chain_height height_word_less simp del: upt_Suc)
qed

lemma extend_chain:
  "c \<le> b \<Longrightarrow> b \<le> Suc tip_height \<Longrightarrow> \<forall>x \<in> set xs. \<exists>i < c. x = chain i \<Longrightarrow>
   \<forall>y \<in> set ys. \<exists>i \<ge> b. i \<le> tip_height \<and> y = chain i \<Longrightarrow>
   extend_headers (xs @ ys) (map chain (rev [c ..< b])) = xs @ map chain [c ..< b] @ ys"
proof (induction b arbitrary: ys)
  case 0
  then show ?case by (simp add: extend_headers_def)
next
  case (Suc b)
  show ?case
  proof (cases "c = Suc b")
    case True
    then show ?thesis by (simp add: extend_headers_def)
  next
    case False
    then have cb: "c \<le> b" "b \<le> tip_height" using Suc.prems by simp_all
    have "\<forall>x \<in> set xs. hd_height x < hd_height (chain b)" using Suc.prems(3) cb by fastforce
    moreover have "\<forall>y \<in> set ys. hd_height (chain b) < hd_height y" using Suc.prems(4) cb by fastforce
    ultimately have "insert_header (chain b) (xs @ ys) = xs @ chain b # ys"
      by (rule insert_header_between)
    moreover have "\<forall>y \<in> set (chain b # ys). \<exists>i \<ge> b. i \<le> tip_height \<and> y = chain i"
      using Suc.prems(4) cb by (metis Suc_leD order_refl set_ConsD)
    then have "extend_headers (xs @ chain b # ys) (map chain (rev [c ..< b])) =
        xs @ map chain [c ..< b] @ chain b # ys"
      using Suc.IH Suc.prems(3) cb by simp
    ultimately show ?thesis using cb by (simp add: extend_headers_def)
  qed
qed

text \<open>\<^verbatim>\<open>follow\<close> keeps a part of the chain that ends at the tip.\<close>

definition matches :: "nat \<Rightarrow> Header list \<Rightarrow> bool" where
  "matches l kept \<longleftrightarrow>
     (\<forall>n k. l \<le> n \<longrightarrow> n \<le> tip_height \<longrightarrow> active_get (word_of_nat n) kept = Some k \<longrightarrow>
       hd_hash k = hd_hash (chain n) \<longrightarrow>
       (\<exists>a. l \<le> a \<and> a \<le> n \<and> filter (\<lambda>h. hd_height h \<le> word_of_nat n) kept = map chain [a ..< Suc n]))"

lemma filter_upt: "n \<le> tip_height \<Longrightarrow>
  filter (\<lambda>h. l \<le> unat (hd_height h)) (map chain [a ..< Suc n]) = map chain [max a l ..< Suc n]"
proof (induction n)
  case 0
  then show ?case using height_nat [of 0] by (auto simp: max_def)
next
  case (Suc n)
  then show ?case using height_nat [of "Suc n"] by (auto simp: max_def not_le)
qed

lemma kept_matches:
  assumes "kept_ok kept" "l \<le> tip_height" "t \<le> tip_height"
  shows "matches l (filter (\<lambda>h. word_of_nat l \<le> hd_height h \<and> hd_height h \<le> word_of_nat t) kept)"
  unfolding matches_def
proof (intro allI impI)
  fix n k
  let ?kept = "filter (\<lambda>h. word_of_nat l \<le> hd_height h \<and> hd_height h \<le> word_of_nat t) kept"
  assume n: "l \<le> n" "n \<le> tip_height" and get: "active_get (word_of_nat n) ?kept = Some k"
    and hash: "hd_hash k = hd_hash (chain n)"
  have k: "k \<in> set kept" "hd_height k = word_of_nat n" "hd_height k \<le> word_of_nat t"
    using find_SomeD [OF get [unfolded active_get_def]] by auto
  have "k = chain n" using assms(1) k(1) hash n unfolding kept_on_def by blast
  then obtain a where a: "a \<le> n" "filter (\<lambda>h. unat (hd_height h) \<le> n) kept = map chain [a ..< Suc n]"
    using kept_prefix [OF assms(1)] k(1) n by blast
  have "n \<le> t" using k(2,3) n assms(3) height_word_le by simp
  then have "filter (\<lambda>h. hd_height h \<le> word_of_nat n) ?kept =
      filter (\<lambda>h. l \<le> unat (hd_height h)) (filter (\<lambda>h. unat (hd_height h) \<le> n) kept)"
    using n assms by (auto simp: word_le_nat_alt fits intro!: filter_cong)
  also have "\<dots> = map chain [max a l ..< Suc n]"
    unfolding a(2) using filter_upt n by blast
  finally show "\<exists>a. l \<le> a \<and> a \<le> n \<and> filter (\<lambda>h. hd_height h \<le> word_of_nat n) ?kept = map chain [a ..< Suc n]"
    using a(1) n(1) by (intro exI [of _ "max a l"]) simp
qed

definition behind :: "Header list \<Rightarrow> nat \<Rightarrow> bool" where
  "behind kept n \<longleftrightarrow> kept \<noteq> [] \<and> hd_height (last kept) < word_of_nat n"

lemma page_width:
  assumes n: "n \<le> tip_height"
    and gap: "gap = (if behind kept n then word_of_nat n - hd_height (last kept) - 1 else PAGE_BLOCKS)"
    and k: "k = n - min (min (unat gap) (n - l)) 1000" and low: "l < k"
  shows "1001 \<le> Suc n - k + (if behind kept n \<and> \<not> behind kept (k - 1) then 1000 else 0)"
proof (cases "1000 \<le> unat gap")
  case True
  then have "k = n - 1000" using k low by (auto simp: min_def split: if_splits)
  then show ?thesis using low by simp
next
  case False
  then have far: "behind kept n" using gap by (auto simp: PAGE_BLOCKS_def split: if_splits)
  let ?h = "unat (hd_height (last kept))"
  have h: "?h < n" using far fits [OF n] by (simp add: behind_def word_less_nat_alt)
  have "unat (word_of_nat n - hd_height (last kept)) = n - ?h"
    using h fits [OF n] by (simp add: unat_sub word_le_nat_alt)
  then have "unat gap = n - ?h - 1"
    using gap far h by (simp add: unat_sub word_le_nat_alt)
  then have "k - 1 = ?h" using k low False h by (auto simp: min_def split: if_splits)
  then have "\<not> behind kept (k - 1)" by (simp add: behind_def)
  then show ?thesis using far k by simp
qed

lemma follow_down_chain:
  "l \<le> n \<Longrightarrow> n \<le> tip_height \<Longrightarrow> matches l kept \<Longrightarrow>
   \<exists>a b left'. follow_down headers (word_of_nat l) left kept fresh (Some (tip_at n)) =
       Inr (left', map chain [a ..< b], fresh @ map chain (rev [b ..< Suc n])) \<and>
     l \<le> a \<and> a \<le> b \<and> b \<le> Suc n \<and> left' \<le> left \<and> (0 < left \<longrightarrow> a \<le> n) \<and>
     (a = l \<or> (left - left') * 1001 \<le> Suc n - b + (if behind kept n then 1000 else 0))"
proof (induction left arbitrary: n fresh)
  case (0 n fresh)
  show ?case
  proof (cases "active_get (word_of_nat n) kept")
    case None
    then show ?thesis using 0
      by (intro exI [of _ "Suc n"] exI [of _ 0]) (simp add: tip_of_def)
  next
    case (Some k)
    show ?thesis
    proof (cases "hd_hash k = hd_hash (chain n)")
      case True
      then obtain a where "l \<le> a" "a \<le> n" "filter (\<lambda>h. hd_height h \<le> word_of_nat n) kept = map chain [a ..< Suc n]"
        using 0 Some unfolding matches_def by blast
      then show ?thesis using Some True
        by (intro exI [of _ a] exI [of _ "Suc n"] exI [of _ 0]) (simp add: tip_of_def del: upt_Suc)
    next
      case False
      then show ?thesis using 0 Some
        by (intro exI [of _ "Suc n"] exI [of _ 0]) (simp add: tip_of_def)
    qed
  qed
next
  case (Suc left n fresh)
  show ?case
  proof (cases "case active_get (word_of_nat n) kept of None \<Rightarrow> False | Some k \<Rightarrow> hd_hash k = hd_hash (chain n)")
    case True
    then obtain k where k: "active_get (word_of_nat n) kept = Some k" "hd_hash k = hd_hash (chain n)"
      by (auto split: option.splits)
    then obtain a where "l \<le> a" "a \<le> n" "filter (\<lambda>h. hd_height h \<le> word_of_nat n) kept = map chain [a ..< Suc n]"
      using Suc.prems unfolding matches_def by blast
    then show ?thesis using k
      by (intro exI [of _ a] exI [of _ "Suc n"] exI [of _ "Suc left"]) (simp add: tip_of_def del: upt_Suc)
  next
    case no_match: False
    define gap :: u32 where "gap = (if behind kept n then word_of_nat n - hd_height (last kept) - 1 else PAGE_BLOCKS)"
    define k where "k = n - min (min (unat gap) (n - l)) 1000"
    have k: "l \<le> k" "k \<le> n" "k \<le> tip_height" "l \<le> tip_height" using Suc.prems by (auto simp: k_def)
    have step: "follow_down headers (word_of_nat l) (Suc left) kept fresh (Some (tip_at n)) =
        follow_down headers (word_of_nat l) left kept (fresh @ map chain (rev [k ..< Suc n]))
          (if l < k then Some (tip_at (k - 1)) else None)"
    proof -
      have at: "fst (tip_at n) = hd_hash (chain n)" "snd (tip_at n) = word_of_nat n" by (simp_all add: tip_of_def)
      have gap: "(if kept \<noteq> [] \<and> hd_height (last kept) < snd (tip_at n)
          then snd (tip_at n) - hd_height (last kept) - 1 else PAGE_BLOCKS) = gap"
        by (simp add: behind_def at gap_def)
      have none: "\<not> (case active_get (snd (tip_at n)) kept of None \<Rightarrow> False
          | Some k \<Rightarrow> hd_hash k = fst (tip_at n))"
        using no_match by (simp add: at split: option.splits)
      have "follow_down headers (word_of_nat l) (Suc left) kept fresh (Some (tip_at n)) =
          attempt (read_page headers (tip_at n) (word_of_nat l) gap) (\<lambda>page.
          follow_down headers (word_of_nat l) left kept (fresh @ page) (below page (word_of_nat l)))"
        by (subst follow_down.simps) (simp only: if_not_P [OF none] nat.case Let_def gap)
      then show ?thesis
        unfolding read_page_chain [OF Suc.prems(1,2), of gap, folded k_def] attempt_simps below_chain [OF k(2,3,4)] .
    qed
    show ?thesis
    proof (cases "l < k")
      case False
      then have kl: "k = l" using k(1) by simp
      then show ?thesis unfolding step using False Suc.prems
        by (intro exI [of _ l] exI [of _ left]) (simp del: upt_Suc)
    next
      case True
      then have prev: "l \<le> k - 1" "k - 1 \<le> tip_height" using k by simp_all
      obtain a b left' where
        run: "follow_down headers (word_of_nat l) left kept (fresh @ map chain (rev [k ..< Suc n]))
            (Some (tip_at (k - 1))) =
          Inr (left', map chain [a ..< b],
            (fresh @ map chain (rev [k ..< Suc n])) @ map chain (rev [b ..< Suc (k - 1)]))"
        and facts: "l \<le> a" "a \<le> b" "b \<le> Suc (k - 1)" "left' \<le> left"
        and more: "a = l \<or> (left - left') * 1001 \<le> Suc (k - 1) - b + (if behind kept (k - 1) then 1000 else 0)"
        using Suc.IH [OF prev Suc.prems(3), of "fresh @ map chain (rev [k ..< Suc n])"] by blast
      have b: "b \<le> k" using facts True by simp
      have "rev [b ..< Suc n] = rev [k ..< Suc n] @ rev [b ..< k]"
        using b k(2) upt_add_eq_append [of b k "Suc n - k"] by (simp del: upt_Suc flip: rev_append)
      moreover have "Suc (k - 1) = k" using True by simp
      ultimately have run': "follow_down headers (word_of_nat l) (Suc left) kept fresh (Some (tip_at n)) =
          Inr (left', map chain [a ..< b], fresh @ map chain (rev [b ..< Suc n]))"
        using run True unfolding step by (simp del: upt_Suc)
      have "(word_of_nat (k - 1) :: u32) \<le> word_of_nat n"
        using height_word_le [OF prev(2) Suc.prems(2)] k(2) by simp
      then have stays: "behind kept (k - 1) \<Longrightarrow> behind kept n"
        unfolding behind_def using less_le_trans by blast
      have width: "1001 \<le> Suc n - k + (if behind kept n \<and> \<not> behind kept (k - 1) then 1000 else 0)"
        by (rule page_width [OF Suc.prems(2) gap_def k_def True])
      have "a = l \<or> (Suc left - left') * 1001 \<le> Suc n - b + (if behind kept n then 1000 else 0)"
        using more width stays b k(2) facts(4) \<open>Suc (k - 1) = k\<close> by (auto simp: Suc_diff_le split: if_splits)
      then show ?thesis
        using run' facts b k(2) by (intro exI [of _ a] exI [of _ b] exI [of _ left']) simp
    qed
  qed
qed

lemma extend_down:
  assumes "a \<le> b" "b \<le> c" "c \<le> Suc tip_height"
  shows "extend_headers (map chain [a ..< b]) (map chain (rev [b ..< c])) = map chain [a ..< c]"
proof -
  have "extend_headers (map chain [a ..< b] @ []) (map chain (rev [b ..< c])) =
      map chain [a ..< b] @ map chain [b ..< c] @ []"
    by (rule extend_chain) (use assms in auto)
  moreover have "[a ..< c] = [a ..< b] @ [b ..< c]" using assms upt_add_eq_append [of a b "c - b"] by simp
  ultimately show ?thesis by simp
qed

lemma extend_below:
  assumes "c \<le> a" "a \<le> b" "b \<le> Suc tip_height"
  shows "extend_headers (map chain [a ..< b]) (map chain (rev [c ..< a])) = map chain [c ..< b]"
proof -
  have "extend_headers ([] @ map chain [a ..< b]) (map chain (rev [c ..< a])) =
      [] @ map chain [c ..< a] @ map chain [a ..< b]"
    by (rule extend_chain) (use assms in auto)
  moreover have "[c ..< b] = [c ..< a] @ [a ..< b]" using assms upt_add_eq_append [of c a "b - a"] by simp
  ultimately show ?thesis by simp
qed

lemma follow_more_chain:
  "l \<le> a \<Longrightarrow> a \<le> t \<Longrightarrow> t \<le> tip_height \<Longrightarrow>
   \<exists>a'. follow_more headers (word_of_nat l) left (map chain [a ..< Suc t]) = (Inr (), map chain [a' ..< Suc t]) \<and>
     l \<le> a' \<and> a' \<le> a \<and> (a' = l \<or> left * 1001 \<le> a - a')"
proof (induction left arbitrary: a)
  case 0
  then show ?case by (intro exI [of _ a]) simp
next
  case (Suc left a)
  have split: "[a ..< Suc t] = a # [Suc a ..< Suc t]" using Suc.prems by (simp add: upt_conv_Cons)
  have "below (map chain (rev [a ..< Suc a])) (word_of_nat l) = (if l < a then Some (tip_at (a - 1)) else None)"
    by (rule below_chain) (use Suc.prems in simp_all)
  then have next_at: "below [chain a] (word_of_nat l) = (if l < a then Some (tip_at (a - 1)) else None)" by simp
  show ?case
  proof (cases "l < a")
    case False
    then show ?thesis using Suc.prems next_at split
      by (intro exI [of _ a]) (simp del: upt_Suc)
  next
    case True
    let ?c = "a - 1 - min (a - 1 - l) 1000"
    have c: "l \<le> ?c" "?c \<le> a" "?c \<le> t" using True Suc.prems by auto
    have "read_page headers (tip_at (a - 1)) (word_of_nat l) PAGE_BLOCKS =
        Inr (map chain (rev [a - 1 - min (min (unat PAGE_BLOCKS) (a - 1 - l)) 1000 ..< Suc (a - 1)]))"
      by (rule read_page_chain) (use True Suc.prems in simp_all)
    then have page: "read_page headers (tip_at (a - 1)) (word_of_nat l) PAGE_BLOCKS = Inr (map chain (rev [?c ..< a]))"
      using True by (simp add: PAGE_BLOCKS_def min.commute del: upt_Suc)
    have "follow_more headers (word_of_nat l) (Suc left) (map chain [a ..< Suc t]) =
        follow_more headers (word_of_nat l) left (map chain [?c ..< Suc t])"
      using next_at True page split extend_below [of ?c a "Suc t"] c Suc.prems
      by (simp del: upt_Suc)
    moreover obtain a' where "follow_more headers (word_of_nat l) left (map chain [?c ..< Suc t]) =
        (Inr (), map chain [a' ..< Suc t])" "l \<le> a'" "a' \<le> ?c" "a' = l \<or> left * 1001 \<le> ?c - a'"
      using Suc.IH [OF c(1,3) Suc.prems(3)] by blast
    ultimately show ?thesis using True
      by (intro exI [of _ a']) (auto simp: min_def split: if_splits)
  qed
qed

lemma follow_chain:
  assumes "l \<le> t" "t \<le> tip_height" "kept_ok kept" "0 < pages"
  shows "\<exists>a. follow headers (tip_at t) (word_of_nat l) pages kept = (Inr (), map chain [a ..< Suc t]) \<and>
    l \<le> a \<and> a \<le> t \<and> (a = l \<or> pages * 1001 \<le> Suc t - a + 1000)"
proof -
  let ?kept = "filter (\<lambda>h. word_of_nat l \<le> hd_height h \<and> hd_height h \<le> word_of_nat t) kept"
  have fits': "l \<le> tip_height" using assms by simp
  have m: "matches l ?kept" by (rule kept_matches [OF assms(3) fits' assms(2)])
  obtain a b left' where
    down: "follow_down headers (word_of_nat l) pages ?kept [] (Some (tip_at t)) =
      Inr (left', map chain [a ..< b], map chain (rev [b ..< Suc t]))"
    and facts: "l \<le> a" "a \<le> b" "b \<le> Suc t" "left' \<le> pages" "0 < pages \<longrightarrow> a \<le> t"
    and raw: "a = l \<or> (pages - left') * 1001 \<le> Suc t - b + (if behind ?kept t then 1000 else 0)"
    using follow_down_chain [OF assms(1,2) m, of pages "[]"] unfolding append_Nil by blast
  have more: "a = l \<or> (pages - left') * 1001 \<le> Suc t - b + 1000" using raw by (auto split: if_splits)
  have at: "a \<le> t" using facts(5) assms(4) by blast
  have ext: "extend_headers (map chain [a ..< b]) (map chain (rev [b ..< Suc t])) = map chain [a ..< Suc t]"
    by (rule extend_down) (use facts assms in simp_all)
  obtain a' where up: "follow_more headers (word_of_nat l) left' (map chain [a ..< Suc t]) =
      (Inr (), map chain [a' ..< Suc t])" "l \<le> a'" "a' \<le> a" "a' = l \<or> left' * 1001 \<le> a - a'"
    using follow_more_chain [OF facts(1) at assms(2)] by blast
  have "(word_of_nat l :: u32) \<le> word_of_nat t" using assms fits' height_word_le by simp
  then have "follow headers (tip_at t) (word_of_nat l) pages kept = (Inr (), map chain [a' ..< Suc t])"
    using down ext up(1) by (simp add: follow_def tip_of_def Let_def del: upt_Suc follow_down.simps follow_more.simps)
  moreover have "a' = l \<or> pages * 1001 \<le> Suc t - a' + 1000"
  proof (cases "a' = l")
    case False
    then have "left' * 1001 \<le> a - a'" "(pages - left') * 1001 \<le> Suc t - b + 1000"
      using up more by auto
    moreover have "(pages - left') * 1001 + left' * 1001 = pages * 1001"
      using facts(4) by (simp flip: distrib_right)
    ultimately show ?thesis using facts(1-4) up(2,3) by linarith
  qed simp
  ultimately show ?thesis using up(2,3) at by (intro exI [of _ a']) simp
qed

end

end
