(* ===== verification/Enforcer.thy ===== *)
theory Enforcer
  imports Chain Network M6
begin

text \<open>
  The client of the enforcer (\<^verbatim>\<open>daemon/src/enforcer.rs\<close>). A gRPC call is a parameter: what it answers to a
  request, a status when it fails. The messages are the fields that the client reads and writes, each
  optional as the protocol has it. The client is the provider of the walks of theory \<open>Chain\<close>: from a
  service that answers for one active chain it gives the reads of this chain.
\<close>

section \<open>Messages\<close>

text \<open>A hex message is optional, and so is the text in it.\<close>

type_synonym hex_message = "string option option"

definition hex_of :: "hex_message \<Rightarrow> string option" where
  "hex_of m = (case m of None \<Rightarrow> None | Some hex \<Rightarrow> hex)"

record BlockHeaderInfo =
  bh_block_hash :: hex_message
  bh_prev_block_hash :: hex_message
  bh_height :: u32

record DepositOutput =
  do_address :: hex_message
  do_value_sats :: "u64 option"

record ProtoDeposit =
  pd_sequence_number :: "u64 option"
  pd_output :: "DepositOutput option"

datatype BundleEventKind = KindSubmitted | KindFailed | KindSucceeded hex_message

record WithdrawalBundleEvent =
  wb_m6id :: hex_message
  wb_event :: "BundleEventKind option option"

datatype BlockEvent = EventDeposit ProtoDeposit | EventWithdrawalBundle WithdrawalBundleEvent

type_synonym BlockInfo = "BlockEvent option list"

datatype StreamEvent =
    ConnectBlock "BlockHeaderInfo option" "BlockInfo option"
  | DisconnectBlock hex_message

type_synonym SubscribeEventsResponse = "StreamEvent option option"

text \<open>A call that fails carries its name and its status.\<close>

definition rpc :: "string \<Rightarrow> Status + 'a \<Rightarrow> EnforcerError + 'a" where
  "rpc call answer = map_err (Call call) answer"

lemma rpc_iff [result_iff]: "rpc call answer = Inr x \<longleftrightarrow> answer = Inr x"
  by (simp add: rpc_def result_iff)

lemma rpc_Inr [simp]: "rpc call (Inr x) = Inr x"
  by (simp add: rpc_def)

section \<open>Events\<close>

definition deposit_event :: "ProtoDeposit \<Rightarrow> EnforcerError + DepositEvent" where
  "deposit_event deposit =
     ok_or (pd_output deposit) (MissingField ''deposit.output'') (\<lambda>output.
     ok_or (hex_of (do_address output)) (MissingField ''deposit.output.address'') (\<lambda>hex.
     ok_or (pd_sequence_number deposit) (MissingField ''deposit.sequence_number'') (\<lambda>sequence_number.
     attempt (decode_hex hex ''deposit.output.address'') (\<lambda>address.
     ok_or (do_value_sats output) (MissingField ''deposit.output.value_sats'') (\<lambda>value_sats.
     Inr \<lparr>de_sequence_number = sequence_number, de_address = address, de_value_sats = value_sats\<rparr>)))))"

text \<open>\<open>deserialize\<close> reads a transaction in its consensus encoding.\<close>

definition bundle_event ::
  "(bytes \<Rightarrow> bytes option) \<Rightarrow> WithdrawalBundleEvent \<Rightarrow> EnforcerError + BundleEvent" where
  "bundle_event deserialize bundle =
     attempt (decode_txid (hex_of (wb_m6id bundle)) ''m6id'') (\<lambda>m6id.
     ok_or (wb_event bundle) (MissingField ''withdrawal_bundle.event'') (\<lambda>event.
     ok_or event (MissingField ''withdrawal_bundle.event.event'') (\<lambda>kind.
     case kind of
       KindSubmitted \<Rightarrow> Inr (Submitted m6id)
     | KindFailed \<Rightarrow> Inr (Failed m6id)
     | KindSucceeded transaction \<Rightarrow>
         ok_or (hex_of transaction) (MissingField ''succeeded.transaction'') (\<lambda>hex.
         attempt (decode_hex hex ''succeeded.transaction'') (\<lambda>bytes.
         ok_or (deserialize bytes) (NotATransaction m6id) (\<lambda>paid. Inr (Succeeded m6id paid)))))))"

fun block_events ::
  "(bytes \<Rightarrow> bytes option) \<Rightarrow> DepositEvent list \<Rightarrow> BundleEvent list \<Rightarrow> BlockInfo \<Rightarrow>
     EnforcerError + (DepositEvent list \<times> BundleEvent list)" where
  "block_events deserialize deposits bundles [] = Inr (deposits, bundles)"
| "block_events deserialize deposits bundles (item # items) =
     ok_or item (MissingField ''block_info.event'') (\<lambda>event.
     case event of
       EventDeposit deposit \<Rightarrow>
         attempt (deposit_event deposit) (\<lambda>d. block_events deserialize (deposits @ [d]) bundles items)
     | EventWithdrawalBundle bundle \<Rightarrow>
         attempt (bundle_event deserialize bundle) (\<lambda>b.
         block_events deserialize deposits (bundles @ [b]) items))"

definition connect_event ::
  "(bytes \<Rightarrow> bytes option) \<Rightarrow> BlockHeaderInfo option \<Rightarrow> BlockInfo option \<Rightarrow> EnforcerError + PegEvent" where
  "connect_event deserialize header block_info =
     ok_or header (MissingField ''header_info'') (\<lambda>header.
     attempt (decode_reverse_hash (hex_of (bh_block_hash header)) ''block_hash'') (\<lambda>block_hash.
     ok_or block_info (MissingField ''block_info'') (\<lambda>block_info.
     attempt (block_events deserialize [] [] block_info) (\<lambda>(deposits, bundles).
     Inr (Connect block_hash (bh_height header) deposits bundles)))))"

definition peg_event ::
  "(bytes \<Rightarrow> bytes option) \<Rightarrow> SubscribeEventsResponse \<Rightarrow> EnforcerError + PegEvent" where
  "peg_event deserialize response =
     ok_or response (MissingField ''event'') (\<lambda>outer.
     ok_or outer (MissingField ''event.event'') (\<lambda>event.
     case event of
       DisconnectBlock hash \<Rightarrow>
         attempt (decode_reverse_hash (hex_of hash) ''block_hash'') (\<lambda>h. Inr (Disconnect h))
     | ConnectBlock header block_info \<Rightarrow> connect_event deserialize header block_info))"

section \<open>Headers and peg data\<close>

text \<open>A hash prints with its bytes turned around.\<close>

definition hash_text :: "array32 \<Rightarrow> string" where
  "hash_text h = hex_encode (rev (array_bytes h))"

definition header_of :: "BlockHeaderInfo \<Rightarrow> EnforcerError + Header" where
  "header_of header =
     attempt (decode_reverse_hash (hex_of (bh_block_hash header)) ''block_hash'') (\<lambda>hash.
     attempt (decode_reverse_hash (hex_of (bh_prev_block_hash header)) ''prev_block_hash'') (\<lambda>prev.
     Inr \<lparr>hd_height = bh_height header, hd_hash = hash, hd_prev = prev\<rparr>))"

type_synonym header_info_call = "string \<Rightarrow> u32 \<Rightarrow> Status + BlockHeaderInfo list"

definition Enforcer_headers :: "header_info_call \<Rightarrow> read_headers" where
  "Enforcer_headers get_block_header_info block max_ancestors =
     attempt (rpc ''GetBlockHeaderInfo'' (get_block_header_info (hash_text block) max_ancestors))
       (collect header_of)"

type_synonym peg_data_call =
  "string option \<Rightarrow> string \<Rightarrow> Status + (BlockHeaderInfo option \<times> BlockInfo option) list"

definition two_way_peg_data ::
  "(bytes \<Rightarrow> bytes option) \<Rightarrow> peg_data_call \<Rightarrow> array32 option \<Rightarrow> array32 \<Rightarrow>
     EnforcerError + PegEvent list" where
  "two_way_peg_data deserialize get_two_way_peg_data start end_block =
     attempt (rpc ''GetTwoWayPegData''
         (get_two_way_peg_data (map_option hash_text start) (hash_text end_block)))
       (collect (\<lambda>(header, info). connect_event deserialize header info))"

definition Enforcer_peg_events :: "(bytes \<Rightarrow> bytes option) \<Rightarrow> peg_data_call \<Rightarrow> read_events" where
  "Enforcer_peg_events deserialize get_two_way_peg_data start end_block =
     two_way_peg_data deserialize get_two_way_peg_data (Some start) end_block"

text \<open>The read of \<^verbatim>\<open>block_deposits\<close> is the one of \<open>Enforcer_peg_events\<close>, with the parent as the start.\<close>

definition block_deposits :: "read_events \<Rightarrow> array32 \<Rightarrow> array32 \<Rightarrow> EnforcerError + DepositEvent list" where
  "block_deposits peg_events block_hash prev_hash =
     attempt (peg_events prev_hash block_hash) (\<lambda>events.
     Inr (concat (map (\<lambda>event.
       case event of
         Connect h height deposits bundles \<Rightarrow> if h = block_hash then deposits else []
       | Disconnect h \<Rightarrow> []) events)))"

definition chain_tip_hash :: "(Status + BlockHeaderInfo option) \<Rightarrow> EnforcerError + array32" where
  "chain_tip_hash get_chain_tip =
     attempt (rpc ''GetChainTip'' get_chain_tip) (\<lambda>response.
     ok_or response (MissingField ''block_header_info'') (\<lambda>header.
     decode_reverse_hash (hex_of (bh_block_hash header)) ''block_hash''))"

definition enforcer_tip :: "(Status + BlockHeaderInfo option) \<Rightarrow> EnforcerError + tip" where
  "enforcer_tip get_chain_tip =
     attempt (rpc ''GetChainTip'' get_chain_tip) (\<lambda>response.
     ok_or response (MissingField ''block_header_info'') (\<lambda>header.
     attempt (decode_reverse_hash (hex_of (bh_block_hash header)) ''block_hash'') (\<lambda>hash.
     Inr (hash, bh_height header))))"

section \<open>BMM commitments\<close>

datatype CommitmentResult = Commitment hex_message "hex_message list" | BlockNotFoundResult

type_synonym commitment_call = "string \<Rightarrow> u32 \<Rightarrow> Status + CommitmentResult option"

definition commitment_at :: "commitment_call \<Rightarrow> array32 \<Rightarrow> EnforcerError + array32 option" where
  "commitment_at get_bmm_h_star_commitment block_hash =
     attempt (rpc ''GetBmmHStarCommitment'' (get_bmm_h_star_commitment (hash_text block_hash) 0)) (\<lambda>result.
     case result of
       Some (Commitment commitment ancestors) \<Rightarrow>
         (case hex_of commitment of
            Some hex \<Rightarrow>
              attempt (decode_hex hex ''commitment'') (\<lambda>bytes.
              require (length bytes = 32) (BadCommitmentLength (length bytes))
                (Inr (Some (array_of bytes))))
          | None \<Rightarrow> Inr None)
     | Some BlockNotFoundResult \<Rightarrow> Inl (BlockNotFound block_hash)
     | None \<Rightarrow> Inl (MissingField ''result''))"

definition active_block ::
  "read_headers \<Rightarrow> commitment_call \<Rightarrow> tip \<Rightarrow> u32 \<Rightarrow> EnforcerError + (array32 \<times> array32 option)" where
  "active_block headers get_bmm_h_star_commitment at height =
     attempt (header_at headers at height) (\<lambda>header.
     attempt (commitment_at get_bmm_h_star_commitment (hd_hash header)) (\<lambda>commitment.
     Inr (hd_hash header, commitment)))"

definition headers_and_commitments ::
  "header_info_call \<Rightarrow> commitment_call \<Rightarrow> array32 \<Rightarrow> u32 \<Rightarrow> EnforcerError + (nat \<times> nat)" where
  "headers_and_commitments get_block_header_info get_bmm_h_star_commitment block_hash max_ancestors =
     attempt (rpc ''GetBlockHeaderInfo'' (get_block_header_info (hash_text block_hash) max_ancestors)) (\<lambda>hs.
     attempt (rpc ''GetBmmHStarCommitment''
       (get_bmm_h_star_commitment (hash_text block_hash) max_ancestors)) (\<lambda>result.
     Inr (length hs,
       (case result of Some (Commitment c ancestors) \<Rightarrow> length ancestors + 1 | _ \<Rightarrow> 0))))"

record BmmRequest =
  br_value_sats :: u64
  br_height :: u32
  br_critical_hash :: string
  br_prev_bytes :: string

definition create_bmm_request ::
  "(BmmRequest \<Rightarrow> Status + hex_message) \<Rightarrow> u64 \<Rightarrow> tip \<Rightarrow> array32 \<Rightarrow> EnforcerError + array32" where
  "create_bmm_request create bid_sats at h_star =
     attempt (rpc ''CreateBmmCriticalDataTransaction''
       (create \<lparr>br_value_sats = bid_sats, br_height = snd at,
         br_critical_hash = hex_encode (array_bytes h_star), br_prev_bytes = hash_text (fst at)\<rparr>)) (\<lambda>txid.
     decode_reverse_txid (hex_of txid) ''txid'')"

text \<open>\<^verbatim>\<open>bid_rejected\<close>: the bid spends a coin that the active chain does not hold.\<close>

definition bid_rejected :: "EnforcerError \<Rightarrow> bool" where
  "bid_rejected e =
     (case e of
        Call call source \<Rightarrow>
          list_ex (\<lambda>mark. contains mark (st_message source))
            [''bad-txns-inputs-missingorspent'', ''missing-inputs'']
      | _ \<Rightarrow> False)"

section \<open>The network of the enforcer\<close>

record Bip300Constants =
  bc_slot_activation_threshold :: u32
  bc_slot_proposal_max_age :: u32
  bc_bundle_max_age :: u32
  bc_bundle_inclusion_threshold :: u32
  bc_activation_height :: u32

definition default_constants :: Bip300Constants where
  "default_constants =
     \<lparr>bc_slot_activation_threshold = 0, bc_slot_proposal_max_age = 0, bc_bundle_max_age = 0,
      bc_bundle_inclusion_threshold = 0, bc_activation_height = 0\<rparr>"

datatype ProtoNetwork =
  ProtoUnspecified | ProtoUnknown | ProtoMainnet | ProtoTestnet | ProtoSignet | ProtoRegtest

text \<open>\<open>proto_network\<close> reads the number of the protocol.\<close>

definition peg_network :: "(int \<Rightarrow> ProtoNetwork option) \<Rightarrow> int \<Rightarrow> PegNetwork option" where
  "peg_network proto_network value =
     (case proto_network value of
        None \<Rightarrow> None
      | Some ProtoMainnet \<Rightarrow> Some Mainnet
      | Some ProtoTestnet \<Rightarrow> Some Testnet
      | Some ProtoSignet \<Rightarrow> Some Signet
      | Some ProtoRegtest \<Rightarrow> Some Regtest
      | Some ProtoUnspecified \<Rightarrow> None
      | Some ProtoUnknown \<Rightarrow> None)"

record ChainInfo =
  ci_network :: "PegNetwork option"
  ci_slot_activation_threshold :: u32
  ci_slot_proposal_max_age :: u32
  ci_bundle_max_age :: u32
  ci_bundle_inclusion_threshold :: u32
  ci_activation_height :: u32

definition chain_info ::
  "(int \<Rightarrow> ProtoNetwork option) \<Rightarrow> Status + (int \<times> Bip300Constants option) \<Rightarrow>
     EnforcerError + ChainInfo" where
  "chain_info proto_network get_chain_info =
     attempt (rpc ''GetChainInfo'' get_chain_info) (\<lambda>(network, constants).
     let constants = (case constants of Some c \<Rightarrow> c | None \<Rightarrow> default_constants) in
     Inr \<lparr>ci_network =
            identify (peg_network proto_network network) (bc_bundle_inclusion_threshold constants)
              (bc_activation_height constants),
          ci_slot_activation_threshold = bc_slot_activation_threshold constants,
          ci_slot_proposal_max_age = bc_slot_proposal_max_age constants,
          ci_bundle_max_age = bc_bundle_max_age constants,
          ci_bundle_inclusion_threshold = bc_bundle_inclusion_threshold constants,
          ci_activation_height = bc_activation_height constants\<rparr>)"

definition check_network ::
  "(int \<Rightarrow> ProtoNetwork option) \<Rightarrow> Status + (int \<times> Bip300Constants option) \<Rightarrow> PegNetwork \<Rightarrow>
     EnforcerError + unit" where
  "check_network proto_network get_chain_info want =
     attempt (chain_info proto_network get_chain_info) (\<lambda>info.
     if ci_network info \<noteq> Some want
     then Inl (WrongNetwork (network_name want)
       (case ci_network info of
          Some network \<Rightarrow> network_name network
        | None \<Rightarrow>
            ''an unknown chain (bundle threshold '' @ decimal (unat (ci_bundle_inclusion_threshold info)) @
            '', activation height '' @ decimal (unat (ci_activation_height info)) @ '')''))
     else Inr ())"

section \<open>Slots, proposals and votes\<close>

record V0 =
  v0_title :: "bytes option"
  v0_description :: "bytes option"
  v0_hash_id_1 :: hex_message
  v0_hash_id_2 :: hex_message

type_synonym SidechainDeclaration = "V0 option"

definition declaration_v0 :: "SidechainDeclaration option \<Rightarrow> V0 option" where
  "declaration_v0 declaration = (case declaration of None \<Rightarrow> None | Some d \<Rightarrow> d)"

record SlotAnswer =
  sa_sidechain_number :: "u32 option"
  sa_vote_count :: "u32 option"
  sa_proposal_height :: "u32 option"
  sa_activation_height :: "u32 option"
  sa_declaration :: "SidechainDeclaration option"

record SlotInfo =
  sl_sidechain_number :: u32
  sl_vote_count :: u32
  sl_proposal_height :: u32
  sl_activation_height :: "u32 option"
  sl_title :: "bytes option"
  sl_hash_id_1 :: "string option"
  sl_hash_id_2 :: "string option"

definition or_zero :: "'a::zero option \<Rightarrow> 'a" where
  "or_zero m = (case m of Some x \<Rightarrow> x | None \<Rightarrow> 0)"

definition sidechains :: "Status + SlotAnswer list \<Rightarrow> EnforcerError + SlotInfo list" where
  "sidechains get_sidechains =
     attempt (rpc ''GetSidechains'' get_sidechains) (\<lambda>slots.
     Inr (map (\<lambda>slot.
       let declared = declaration_v0 (sa_declaration slot) in
       \<lparr>sl_sidechain_number = or_zero (sa_sidechain_number slot),
        sl_vote_count = or_zero (sa_vote_count slot),
        sl_proposal_height = or_zero (sa_proposal_height slot),
        sl_activation_height = sa_activation_height slot,
        sl_title = Option.bind declared v0_title,
        sl_hash_id_1 = Option.bind declared (\<lambda>v0. hex_of (v0_hash_id_1 v0)),
        sl_hash_id_2 = Option.bind declared (\<lambda>v0. hex_of (v0_hash_id_2 v0))\<rparr>) slots))"

record ProposalAnswer =
  pa_sidechain_number :: "u32 option"
  pa_vote_count :: "u32 option"
  pa_proposal_height :: "u32 option"
  pa_proposal_age :: "u32 option"
  pa_description_hash :: hex_message

record ProposalInfo =
  pi_sidechain_number :: u32
  pi_vote_count :: u32
  pi_proposal_height :: u32
  pi_proposal_age :: u32
  pi_description_hash :: string

definition sidechain_proposals :: "Status + ProposalAnswer list \<Rightarrow> EnforcerError + ProposalInfo list" where
  "sidechain_proposals get_sidechain_proposals =
     attempt (rpc ''GetSidechainProposals'' get_sidechain_proposals) (\<lambda>proposals.
     Inr (map (\<lambda>p.
       \<lparr>pi_sidechain_number = or_zero (pa_sidechain_number p),
        pi_vote_count = or_zero (pa_vote_count p),
        pi_proposal_height = or_zero (pa_proposal_height p),
        pi_proposal_age = or_zero (pa_proposal_age p),
        pi_description_hash =
          (case hex_of (pa_description_hash p) of Some hex \<Rightarrow> hex | None \<Rightarrow> [])\<rparr>) proposals))"

record ProposalRequest =
  rq_sidechain_id :: "u32 option"
  rq_declaration :: "SidechainDeclaration option"

definition submit_sidechain_proposal ::
  "(ProposalRequest \<Rightarrow> Status + unit) \<Rightarrow> u32 \<Rightarrow> Declaration \<Rightarrow> EnforcerError + unit" where
  "submit_sidechain_proposal submit sidechain_id declared =
     (let declaration = Some \<lparr>v0_title = Some (dl_title declared),
            v0_description = Some (dl_description declared),
            v0_hash_id_1 = Some (Some (hex_encode (dl_hash_id_1 declared))),
            v0_hash_id_2 = Some (Some (hex_encode (dl_hash_id_2 declared)))\<rparr>
      in case submit \<lparr>rq_sidechain_id = Some sidechain_id, rq_declaration = Some declaration\<rparr> of
           Inr _ \<Rightarrow> Inr ()
         | Inl status \<Rightarrow>
             if st_code status = AlreadyExists then Inr ()
             else Inl (Call ''SubmitSidechainProposal'' status))"

definition is_repeat_ack :: "Status \<Rightarrow> bool" where
  "is_repeat_ack status = contains ''UNIQUE constraint failed: sidechain_acks'' (st_message status)"

record AckRequest =
  aq_sidechain_number :: "u32 option"
  aq_description_hash :: hex_message
  aq_ack :: bool

definition set_sidechain_ack ::
  "(AckRequest \<Rightarrow> Status + unit) \<Rightarrow> u32 \<Rightarrow> string \<Rightarrow> bool \<Rightarrow> EnforcerError + unit" where
  "set_sidechain_ack send sidechain_number description_hash ack =
     (case send \<lparr>aq_sidechain_number = Some sidechain_number,
                 aq_description_hash = Some (Some description_hash), aq_ack = ack\<rparr> of
        Inr _ \<Rightarrow> Inr ()
      | Inl status \<Rightarrow>
          if is_repeat_ack status then Inr () else Inl (Call ''SetSidechainAck'' status))"

section \<open>Bundles, deposits and blocks\<close>

definition bundle_proposals ::
  "(u32 \<Rightarrow> Status + (hex_message \<times> u32 option) list) \<Rightarrow> u32 \<Rightarrow> EnforcerError + (array32 \<times> u32) list" where
  "bundle_proposals get_withdrawal_bundle_proposals sidechain_id =
     attempt (rpc ''GetWithdrawalBundleProposals'' (get_withdrawal_bundle_proposals sidechain_id))
       (collect (\<lambda>(id, vote_count).
          attempt (decode_txid (hex_of id) ''m6id'') (\<lambda>txid. Inr (txid, or_zero vote_count))))"

definition propose_withdrawal_bundle ::
  "bitcoin \<Rightarrow> (u32 \<Rightarrow> bytes \<Rightarrow> Status + unit) \<Rightarrow> u32 \<Rightarrow> Transaction \<Rightarrow> EnforcerError + unit" where
  "propose_withdrawal_bundle bc propose sidechain_id blinded =
     attempt (rpc ''ProposeWithdrawalBundle'' (propose sidechain_id (serialize_legacy bc blinded)))
       (\<lambda>_. Inr ())"

record DepositRequest =
  dr_sidechain_id :: u32
  dr_address :: string
  dr_value_sats :: u64
  dr_fee_sats :: u64

definition create_deposit ::
  "(DepositRequest \<Rightarrow> Status + hex_message) \<Rightarrow> u32 \<Rightarrow> string \<Rightarrow> u64 \<Rightarrow> u64 \<Rightarrow> EnforcerError + array32" where
  "create_deposit create sidechain_id address value_sats fee_sats =
     attempt (rpc ''CreateDepositTransaction''
       (create \<lparr>dr_sidechain_id = sidechain_id, dr_address = address, dr_value_sats = value_sats,
                dr_fee_sats = fee_sats\<rparr>)) (\<lambda>txid.
     decode_reverse_txid (hex_of txid) ''txid'')"

definition generate_to_address ::
  "(u32 \<Rightarrow> string \<Rightarrow> Status + (string option) list) \<Rightarrow> u32 \<Rightarrow> string \<Rightarrow> EnforcerError + array32 list" where
  "generate_to_address generate blocks address =
     attempt (rpc ''GenerateToAddress'' (generate blocks address))
       (collect (\<lambda>hash. decode_reverse_hash hash ''block_hash''))"

record Ctip =
  ct_value_sats :: u64
  ct_sequence_number :: u64

definition ctip :: "(u32 \<Rightarrow> Status + (u64 \<times> u64) option) \<Rightarrow> u32 \<Rightarrow> EnforcerError + Ctip option" where
  "ctip get_ctip sidechain_id =
     attempt (rpc ''GetCtip'' (get_ctip sidechain_id)) (\<lambda>answer.
     Inr (map_option (\<lambda>(value, sequence_number).
       \<lparr>ct_value_sats = value, ct_sequence_number = sequence_number\<rparr>) answer))"

section \<open>The wallet, the votes and the events\<close>

text \<open>
  \<open>from_shared\<close> is the URL parser of the transport, and \<open>channel\<close> what it opens. The values of a policy are
  in the generated protocol.
\<close>

definition Enforcer_connect :: "(string \<Rightarrow> 'c option) \<Rightarrow> string \<Rightarrow> u32 \<Rightarrow> EnforcerError + ('c \<times> u32)" where
  "Enforcer_connect from_shared url sidechain_id =
     ok_or (from_shared url) (BadUrl url) (\<lambda>channel. Inr (channel, sidechain_id))"

definition set_ack_all_proposals :: "(int \<Rightarrow> Status + unit) \<Rightarrow> int \<Rightarrow> EnforcerError + unit" where
  "set_ack_all_proposals send policy = attempt (rpc ''SetAckAllProposals'' (send policy)) (\<lambda>_. Inr ())"

definition set_withdrawal_bundle_policy :: "(int \<Rightarrow> Status + unit) \<Rightarrow> int \<Rightarrow> EnforcerError + unit" where
  "set_withdrawal_bundle_policy send policy =
     attempt (rpc ''SetWithdrawalBundlePolicy'' (send policy)) (\<lambda>_. Inr ())"

definition new_wallet_address :: "Status + string \<Rightarrow> EnforcerError + string" where
  "new_wallet_address create_new_address = rpc ''CreateNewAddress'' create_new_address"

definition wallet_balance :: "Status + (u64 \<times> u64) \<Rightarrow> EnforcerError + (u64 \<times> u64)" where
  "wallet_balance get_balance = attempt (rpc ''GetBalance'' get_balance) (\<lambda>(confirmed, pending). Inr (confirmed, pending))"

definition full_scan :: "Status + unit \<Rightarrow> EnforcerError + unit" where
  "full_scan scan = attempt (rpc ''FullScan'' scan) (\<lambda>_. Inr ())"

text \<open>The stream of the events: each item is an event or the status that ended it.\<close>

definition subscribe_events ::
  "(u32 \<Rightarrow> Status + (Status + SubscribeEventsResponse) list) \<Rightarrow> u32 \<Rightarrow>
     EnforcerError + (Status + SubscribeEventsResponse) list" where
  "subscribe_events subscribe sidechain_id = rpc ''SubscribeEvents'' (subscribe sidechain_id)"

end
