(* ===== verification/Enforcer_Service.thy ===== *)
theory Enforcer_Service
  imports Enforcer
begin

text \<open>
  What the daemon relies on from its enforcer: it answers for one active chain. The client decodes these
  answers into the reads of theory \<open>Chain\<close>, so the walks of the daemon give the headers and the events of
  this chain. The interface is interpreted on a service that answers like the one in the tests of
  \<^verbatim>\<open>daemon/src/enforcer.rs\<close>.
\<close>

section \<open>The answers of the enforcer\<close>

definition header_answer :: "Header \<Rightarrow> BlockHeaderInfo" where
  "header_answer h =
     \<lparr>bh_block_hash = Some (Some (hash_text (hd_hash h))),
      bh_prev_block_hash = Some (Some (hash_text (hd_prev h))), bh_height = hd_height h\<rparr>"

lemma decode_hash_text: "decode_reverse_hash (Some (hash_text h)) label = Inr h"
  by (simp add: hash_text_def decode_reverse_hash_def decode_hex_encode)

lemma header_of_answer: "header_of (header_answer h) = Inr h"
  by (simp add: header_of_def header_answer_def hex_of_def decode_hash_text)

text \<open>
  A block without an event for the slot can be left out of the peg data; \<open>blocks_at\<close> is what the enforcer
  sends for the block at a height.
\<close>

locale enforcer_service =
  fixes get_block_header_info :: header_info_call
    and get_two_way_peg_data :: peg_data_call
    and deserialize :: "bytes \<Rightarrow> bytes option"
    and chain :: "nat \<Rightarrow> Header"
    and blocks_at :: "nat \<Rightarrow> (BlockHeaderInfo option \<times> BlockInfo option) list"
    and events_at :: "nat \<Rightarrow> PegEvent list"
    and tip_height :: nat
  assumes service_fits: "tip_height < 2 ^ 32"
    and service_height: "n \<le> tip_height \<Longrightarrow> hd_height (chain n) = word_of_nat n"
    and service_linked: "n < tip_height \<Longrightarrow> hd_prev (chain (Suc n)) = hd_hash (chain n)"
    and service_headers: "n \<le> tip_height \<Longrightarrow>
      get_block_header_info (hash_text (hd_hash (chain n))) wide =
        Inr (map (header_answer \<circ> chain) (rev [n - unat wide ..< Suc n]))"
    and service_peg_data: "lo < hi \<Longrightarrow> hi \<le> tip_height \<Longrightarrow>
      get_two_way_peg_data (Some (hash_text (hd_hash (chain lo)))) (hash_text (hd_hash (chain hi))) =
        Inr (concat (map blocks_at [Suc lo ..< Suc hi]))"
    and service_blocks: "n \<le> tip_height \<Longrightarrow>
      collect (\<lambda>(header, info). connect_event deserialize header info) (blocks_at n) = Inr (events_at n)"
begin

lemma collect_blocks:
  "\<forall>n \<in> set ns. n \<le> tip_height \<Longrightarrow>
   collect (\<lambda>(header, info). connect_event deserialize header info) (concat (map blocks_at ns)) =
     Inr (concat (map events_at ns))"
  by (induction ns) (simp_all add: collect_append service_blocks)

lemma headers_of_chain:
  "n \<le> tip_height \<Longrightarrow>
   Enforcer_headers get_block_header_info (hd_hash (chain n)) wide =
     Inr (map chain (rev [n - unat wide ..< Suc n]))"
  by (simp add: Enforcer_headers_def service_headers header_of_answer
      collect_map [where g = "header_answer \<circ> chain" and h = chain] del: upt_Suc)

lemma events_of_chain:
  assumes "lo < hi" "hi \<le> tip_height"
  shows "Enforcer_peg_events deserialize get_two_way_peg_data (hd_hash (chain lo)) (hd_hash (chain hi)) =
    Inr (concat (map events_at [Suc lo ..< Suc hi]))"
  using assms collect_blocks [of "[Suc lo ..< Suc hi]"]
  by (simp add: Enforcer_peg_events_def two_way_peg_data_def service_peg_data del: upt_Suc)

end

sublocale enforcer_service \<subseteq> active_chain "Enforcer_headers get_block_header_info"
  "Enforcer_peg_events deserialize get_two_way_peg_data" chain events_at tip_height
  by unfold_locales
    (use service_fits service_height service_linked headers_of_chain events_of_chain in blast)+

context enforcer_service
begin

lemma peg_history:
  "m \<le> n \<Longrightarrow> n \<le> tip_height \<Longrightarrow>
   peg_data_from (Enforcer_headers get_block_header_info)
      (Enforcer_peg_events deserialize get_two_way_peg_data) (tip_of chain n) (word_of_nat m) =
    Inr (concat (map events_at [Suc m ..< Suc n]))"
  by (rule peg_data_from_chain)

lemma active_header:
  "m \<le> n \<Longrightarrow> n \<le> tip_height \<Longrightarrow>
   header_at (Enforcer_headers get_block_header_info) (tip_of chain n) (word_of_nat m) = Inr (chain m)"
  by (rule header_at_chain)

lemma active_headers:
  "l \<le> t \<Longrightarrow> t \<le> tip_height \<Longrightarrow> kept_on chain tip_height kept \<Longrightarrow> 0 < pages \<Longrightarrow>
   \<exists>a. follow (Enforcer_headers get_block_header_info) (tip_of chain t) (word_of_nat l) pages kept =
       (Inr (), map chain [a ..< Suc t]) \<and>
     l \<le> a \<and> a \<le> t \<and> (a = l \<or> pages * 1001 \<le> Suc t - a + 1000)"
  by (rule follow_chain)

end

section \<open>A service for one chain\<close>

text \<open>The hash of a block holds its height, and every hundredth block submits a bundle.\<close>

definition fake_hash :: "nat \<Rightarrow> array32" where
  "fake_hash n = word_of_nat n"

definition fake_chain :: "nat \<Rightarrow> Header" where
  "fake_chain n = \<lparr>hd_height = word_of_nat n, hd_hash = fake_hash n, hd_prev = fake_hash (n - 1)\<rparr>"

definition fake_height :: "string \<Rightarrow> nat" where
  "fake_height hex = (case decode_reverse_hash (Some hex) ''block_hash'' of Inr h \<Rightarrow> unat h | Inl _ \<Rightarrow> 0)"

definition fake_headers :: header_info_call where
  "fake_headers hex wide =
     Inr (map (header_answer \<circ> fake_chain) (rev [fake_height hex - unat wide ..< Suc (fake_height hex)]))"

definition fake_block :: "nat \<Rightarrow> (BlockHeaderInfo option \<times> BlockInfo option) list" where
  "fake_block n =
     (if n mod 100 = 0 then
        [(Some (header_answer (fake_chain n)),
          Some [Some (EventWithdrawalBundle
            \<lparr>wb_m6id = Some (Some (hex_encode (array_bytes 1))), wb_event = Some (Some KindSubmitted)\<rparr>)])]
      else [])"

definition fake_events :: "nat \<Rightarrow> PegEvent list" where
  "fake_events n =
     (if n mod 100 = 0 then [Connect (fake_hash n) (word_of_nat n) [] [Submitted 1]] else [])"

definition fake_peg_data :: peg_data_call where
  "fake_peg_data start end_block =
     (case start of
        None \<Rightarrow> Inr []
      | Some low \<Rightarrow> Inr (concat (map fake_block [Suc (fake_height low) ..< Suc (fake_height end_block)])))"

lemma fake_height_text: "n < 2 ^ 32 \<Longrightarrow> fake_height (hash_text (fake_hash n)) = n"
  by (simp add: fake_height_def decode_hash_text fake_hash_def unat_of_nat)

lemma decode_txid_encode: "decode_txid (Some (hex_encode (array_bytes h))) label = Inr h"
  by (simp add: decode_txid_def decode_hex_encode)

interpretation fake: enforcer_service fake_headers fake_peg_data Some fake_chain fake_block fake_events "2500"
proof unfold_locales
  fix n :: nat and wide :: u32
  assume "n \<le> 2500"
  then show "fake_headers (hash_text (hd_hash (fake_chain n))) wide =
      Inr (map (header_answer \<circ> fake_chain) (rev [n - unat wide ..< Suc n]))"
    by (simp add: fake_headers_def fake_chain_def fake_height_text del: upt_Suc)
next
  fix lo hi :: nat
  assume "lo < hi" "hi \<le> 2500"
  then show "fake_peg_data (Some (hash_text (hd_hash (fake_chain lo)))) (hash_text (hd_hash (fake_chain hi))) =
      Inr (concat (map fake_block [Suc lo ..< Suc hi]))"
    by (simp add: fake_peg_data_def fake_chain_def fake_height_text del: upt_Suc)
next
  fix n :: nat
  assume "n \<le> 2500"
  show "collect (\<lambda>(header, info). connect_event Some header info) (fake_block n) = Inr (fake_events n)"
    by (simp add: fake_block_def fake_events_def connect_event_def header_answer_def hex_of_def
        decode_hash_text bundle_event_def decode_txid_encode fake_chain_def)
qed (simp_all add: fake_chain_def)

section \<open>Properties\<close>

text \<open>
  C38: The paged read of the peg history is complete and in order: for an enforcer that answers for one
  active chain, it gives the events of every block above the start up to the tip, oldest first, each
  block once, however many pages of at most 1000 blocks it takes.
\<close>

theorem peg_history_complete:
  assumes "enforcer_service get_block_header_info get_two_way_peg_data deserialize chain blocks_at events_at
      tip_height"
    and "m \<le> n" "n \<le> tip_height"
  shows "peg_data_from (Enforcer_headers get_block_header_info)
      (Enforcer_peg_events deserialize get_two_way_peg_data) (tip_of chain n) (word_of_nat m) =
    Inr (concat (map events_at [Suc m ..< Suc n]))"
  using assms by (rule enforcer_service.peg_history)

lemma peg_history_complete_witness:
  "peg_data_from (Enforcer_headers fake_headers) (Enforcer_peg_events Some fake_peg_data)
     (tip_of fake_chain 2500) 0 = Inr (concat (map fake_events [Suc 0 ..< Suc 2500]))"
  using peg_history_complete [OF fake.enforcer_service_axioms, of 0 2500] by (simp del: upt_Suc)

text \<open>
  The header that a walk finds at a height is the one of the active chain, and for a height above the
  tip it finds none: no page of another branch gets in.
\<close>

theorem header_at_active:
  assumes "enforcer_service get_block_header_info get_two_way_peg_data deserialize chain blocks_at events_at
      tip_height"
    and "n \<le> tip_height" "m < 2 ^ 32"
  shows "header_at (Enforcer_headers get_block_header_info) (tip_of chain n) (word_of_nat m) =
    (if m \<le> n then Inr (chain m) else Inl (NoBlockAtHeight (word_of_nat m)))"
proof (cases "m \<le> n")
  case True
  then show ?thesis using enforcer_service.active_header [OF assms(1) _ assms(2)] by simp
next
  case False
  then have "(word_of_nat n :: u32) < word_of_nat m" using assms(3) by (simp add: word_less_nat_alt unat_of_nat)
  then show ?thesis using False by (simp add: header_at_def tip_of_def)
qed

lemma header_at_active_witness:
  "header_at (Enforcer_headers fake_headers) (tip_of fake_chain 2500) 1 = Inr (fake_chain 1) \<and>
   header_at (Enforcer_headers fake_headers) (tip_of fake_chain 100) 200 = Inl (NoBlockAtHeight 200)"
  using header_at_active [OF fake.enforcer_service_axioms, of 2500 1]
    header_at_active [OF fake.enforcer_service_axioms, of 100 200] by simp

text \<open>
  C39: The kept headers follow the active chain over every reorg: whatever branch was kept before, a
  follow within its budget of calls ends with the headers of the active chain from some height up to the
  tip, without a gap, and once the budget covers the blocks to the floor, from the floor.
\<close>

theorem follow_active_chain:
  assumes "enforcer_service get_block_header_info get_two_way_peg_data deserialize chain blocks_at events_at
      tip_height"
    and "l \<le> t" "t \<le> tip_height" "kept_on chain tip_height kept" "0 < pages"
  shows "\<exists>a. follow (Enforcer_headers get_block_header_info) (tip_of chain t) (word_of_nat l) pages kept =
      (Inr (), map chain [a ..< Suc t]) \<and> l \<le> a \<and> a \<le> t \<and>
    (Suc t - l + 1000 < pages * 1001 \<longrightarrow> a = l)"
proof -
  from enforcer_service.active_headers [OF assms] obtain a where
    "follow (Enforcer_headers get_block_header_info) (tip_of chain t) (word_of_nat l) pages kept =
      (Inr (), map chain [a ..< Suc t])" "l \<le> a" "a \<le> t" "a = l \<or> pages * 1001 \<le> Suc t - a + 1000" by blast
  then show ?thesis by (intro exI [of _ a]) auto
qed

text \<open>A kept branch that left the chain at height 3.\<close>

definition stale_branch :: "Header list" where
  "stale_branch =
     [\<lparr>hd_height = 3, hd_hash = 2 ^ 40 + 3, hd_prev = 2\<rparr>,
      \<lparr>hd_height = 4, hd_hash = 2 ^ 40 + 4, hd_prev = 2 ^ 40 + 3\<rparr>]"

lemma stale_branch_kept: "kept_on fake_chain 2500 stale_branch"
proof -
  have other: "x \<noteq> fake_hash n" if "n \<le> 2500" "2500 < unat x" for n and x :: array32
  proof -
    have "unat (fake_hash n) = n" using that(1) by (simp add: fake_hash_def unat_of_nat)
    then show ?thesis using that by auto
  qed
  have "2500 < unat (2 ^ 40 + 3 :: array32)" "2500 < unat (2 ^ 40 + 4 :: array32)" by simp_all
  then show ?thesis using other by (auto simp: kept_on_def stale_branch_def fake_chain_def)
qed

lemma follow_active_chain_witness:
  "\<exists>a. follow (Enforcer_headers fake_headers) (tip_of fake_chain 2500) 2 4 stale_branch =
      (Inr (), map fake_chain [a ..< Suc 2500]) \<and> a = 2"
  using follow_active_chain [OF fake.enforcer_service_axioms _ _ stale_branch_kept, of 2 2500 4]
  by (auto simp del: upt_Suc)

end
