(* ===== verification/Deposit_Address.thy ===== *)
theory Deposit_Address
  imports Enforcer_Text
begin

text \<open>
  Deposit addresses (\<^verbatim>\<open>daemon/src/address.rs\<close>, and \<^verbatim>\<open>Deposit::target\<close> of the patched validator). A text is
  its UTF-8 bytes, one \<^typ>\<open>char\<close> each. Base58 and SHA-256 are code outside the repository: the fields of
  \<open>codes\<close>, with their documented behaviour in \<open>codes_ok\<close>.
\<close>

section \<open>Text\<close>

text \<open>\<^verbatim>\<open>str::from_utf8\<close>, by the table of the Unicode standard.\<close>

definition continuation :: "u8 \<Rightarrow> bool" where
  "continuation b \<longleftrightarrow> 0x80 \<le> b \<and> b \<le> 0xbf"

definition second_byte :: "u8 \<Rightarrow> u8 \<Rightarrow> bool" where
  "second_byte a b \<longleftrightarrow>
     (if a = 0xe0 then 0xa0 \<le> b \<and> b \<le> 0xbf
      else if a = 0xed then 0x80 \<le> b \<and> b \<le> 0x9f
      else if a = 0xf0 then 0x90 \<le> b \<and> b \<le> 0xbf
      else if a = 0xf4 then 0x80 \<le> b \<and> b \<le> 0x8f
      else continuation b)"

fun utf8_ok :: "bytes \<Rightarrow> bool" where
  "utf8_ok [] \<longleftrightarrow> True"
| "utf8_ok (a # rest) \<longleftrightarrow>
     (if a \<le> 0x7f then utf8_ok rest
      else if 0xc2 \<le> a \<and> a \<le> 0xdf then
        (case rest of b # rest' \<Rightarrow> continuation b \<and> utf8_ok rest' | _ \<Rightarrow> False)
      else if 0xe0 \<le> a \<and> a \<le> 0xef then
        (case rest of b # c # rest' \<Rightarrow> second_byte a b \<and> continuation c \<and> utf8_ok rest' | _ \<Rightarrow> False)
      else if 0xf0 \<le> a \<and> a \<le> 0xf4 then
        (case rest of
           b # c # d # rest' \<Rightarrow> second_byte a b \<and> continuation c \<and> continuation d \<and> utf8_ok rest'
         | _ \<Rightarrow> False)
      else False)"

definition from_utf8 :: "bytes \<Rightarrow> string option" where
  "from_utf8 bs = (if utf8_ok bs then Some (map (\<lambda>b. char_of (unat b)) bs) else None)"

definition text_bytes :: "string \<Rightarrow> bytes" where
  "text_bytes s = map (\<lambda>c. word_of_nat (of_char c)) s"

text \<open>\<^verbatim>\<open>str::split\<close> gives the parts between the separators, at least one.\<close>

fun split_on :: "char \<Rightarrow> string \<Rightarrow> string list" where
  "split_on sep [] = [[]]"
| "split_on sep (c # cs) =
     (if c = sep then [] # split_on sep cs
      else case split_on sep cs of [] \<Rightarrow> [[c]] | part # parts \<Rightarrow> (c # part) # parts)"

lemma split_on_plain: "sep \<notin> set s \<Longrightarrow> split_on sep s = [s]"
  by (induction s) auto

lemma split_on_append: "sep \<notin> set s \<Longrightarrow> split_on sep (s @ sep # t) = s # split_on sep t"
  by (induction s) auto

lemma ascii_text_ok: "\<forall>c \<in> set s. of_char c < (128 :: nat) \<Longrightarrow> utf8_ok (text_bytes s)"
proof (induction s)
  case (Cons c s)
  then have "(word_of_nat (of_char c) :: u8) \<le> 0x7f" by (simp add: word_le_nat_alt unat_of_nat)
  then show ?case using Cons by (simp add: text_bytes_def)
qed (simp add: text_bytes_def)

lemma from_text_bytes:
  assumes "\<forall>c \<in> set s. of_char c < (128 :: nat)"
  shows "from_utf8 (text_bytes s) = Some s"
proof -
  have "char_of (unat (word_of_nat (of_char c) :: u8)) = c" if "c \<in> set s" for c
    using assms that by (auto simp: unat_of_nat)
  then show ?thesis
    using ascii_text_ok [OF assms] by (simp add: from_utf8_def text_bytes_def map_idI)
qed

section \<open>address.rs\<close>

record codes =
  co_base58_decode :: "string \<Rightarrow> bytes option"
  co_base58_encode :: "bytes \<Rightarrow> string"
  co_sha256 :: "bytes \<Rightarrow> array32"

definition CHECKSUM_BYTES :: nat where
  "CHECKSUM_BYTES = 3"

datatype AddressError = Base58 | WrongPubkeyLength nat

definition checksum_of :: "codes \<Rightarrow> string \<Rightarrow> string" where
  "checksum_of co prefix = hex_encode (take CHECKSUM_BYTES (array_bytes (co_sha256 co (text_bytes prefix))))"

definition format_deposit_address :: "codes \<Rightarrow> u8 \<Rightarrow> pubkey \<Rightarrow> string" where
  "format_deposit_address co sidechain pubkey =
     (let prefix = ''s'' @ decimal (unat sidechain) @ ''_'' @ co_base58_encode co (array_bytes pubkey) @ ''_''
      in prefix @ checksum_of co prefix)"

definition parse_deposit_recipient :: "codes \<Rightarrow> string \<Rightarrow> AddressError + pubkey" where
  "parse_deposit_recipient co body =
     ok_or (co_base58_decode co body) Base58 (\<lambda>bytes.
     require (length bytes = 32) (WrongPubkeyLength (length bytes)) (Inr (array_of bytes)))"

definition ok_of :: "'e + 'a \<Rightarrow> 'a option" where
  "ok_of m = (case m of Inl _ \<Rightarrow> None | Inr x \<Rightarrow> Some x)"

definition deposit_target :: "codes \<Rightarrow> string \<Rightarrow> u8 \<Rightarrow> pubkey option" where
  "deposit_target co body sidechain =
     (case split_on CHR ''_'' body of
        [pubkey] \<Rightarrow> ok_of (parse_deposit_recipient co pubkey)
      | [prefix, pubkey, checksum] \<Rightarrow>
          if prefix \<noteq> ''s'' @ decimal (unat sidechain) \<or>
             checksum \<noteq> checksum_of co (prefix @ ''_'' @ pubkey @ ''_'')
          then None else ok_of (parse_deposit_recipient co pubkey)
      | _ \<Rightarrow> None)"

section \<open>The rule of the validator\<close>

definition decode_base58 :: "codes \<Rightarrow> nat \<Rightarrow> string \<Rightarrow> bytes option" where
  "decode_base58 co n body =
     (let longest = n * 137 div 100 + 1 in
      if longest < length body then None
      else case co_base58_decode co body of
             None \<Rightarrow> None
           | Some bytes \<Rightarrow> if length bytes = n then Some bytes else None)"

definition Deposit_target :: "codes \<Rightarrow> u8 \<Rightarrow> bytes \<Rightarrow> pubkey option" where
  "Deposit_target co sidechain_slot address =
     (case from_utf8 address of
        None \<Rightarrow> None
      | Some body \<Rightarrow>
          (case split_on CHR ''_'' body of
             [pubkey] \<Rightarrow> map_option array_of (decode_base58 co 32 pubkey)
           | [prefix, pubkey, checksum] \<Rightarrow>
               if prefix \<noteq> ''s'' @ decimal (unat sidechain_slot) then None
               else
                 let signed = prefix @ ''_'' @ pubkey @ ''_'';
                     digest = array_bytes (co_sha256 co (text_bytes signed));
                     expected = concat (map hex_byte (take 3 digest))
                 in if checksum \<noteq> expected then None else map_option array_of (decode_base58 co 32 pubkey)
           | _ \<Rightarrow> None))"

text \<open>
  Base58 has no underscore and only ASCII letters and digits, it decodes what it encodes, and no text
  above 44 characters decodes to 32 bytes.
\<close>

definition codes_ok :: "codes \<Rightarrow> bool" where
  "codes_ok co \<longleftrightarrow>
     (\<forall>k. \<forall>c \<in> set (co_base58_encode co (array_bytes k)). c \<noteq> CHR ''_'' \<and> of_char c < (128 :: nat)) \<and>
     (\<forall>k. co_base58_decode co (co_base58_encode co (array_bytes k)) = Some (array_bytes k)) \<and>
     (\<forall>s bs. co_base58_decode co s = Some bs \<longrightarrow> length bs = 32 \<longrightarrow> length s \<le> 44)"

lemma decode_base58_recipient:
  assumes "codes_ok co"
  shows "map_option array_of (decode_base58 co 32 s) = ok_of (parse_deposit_recipient co s)"
proof (cases "co_base58_decode co s")
  case (Some bs)
  then have "length bs = 32 \<longrightarrow> length s \<le> 44" using assms unfolding codes_ok_def by blast
  then show ?thesis using Some
    by (auto simp: decode_base58_def parse_deposit_recipient_def ok_of_def require_def)
qed (simp add: decode_base58_def parse_deposit_recipient_def ok_of_def)

lemma validator_target:
  assumes "codes_ok co"
  shows "Deposit_target co s address = (case from_utf8 address of None \<Rightarrow> None | Some t \<Rightarrow> deposit_target co t s)"
  unfolding Deposit_target_def deposit_target_def Let_def checksum_of_def CHECKSUM_BYTES_def
  by (simp add: decode_base58_recipient [OF assms] hex_encode_concat split: option.split list.split)

lemma hex_digit_plain: "n < 16 \<Longrightarrow> hex_digit n \<noteq> CHR ''_'' \<and> of_char (hex_digit n) < (128 :: nat)"
proof -
  assume "n < 16"
  then have "n \<in> set [0..<16]" by simp
  moreover have "\<forall>n \<in> set [0..<16]. hex_digit n \<noteq> CHR ''_'' \<and> of_char (hex_digit n) < (128 :: nat)"
    by (simp add: upt_rec hex_digit_def)
  ultimately show ?thesis by blast
qed

lemma hex_plain: "c \<in> set (hex_encode bs) \<Longrightarrow> c \<noteq> CHR ''_'' \<and> of_char c < (128 :: nat)"
proof (induction bs)
  case (Cons b bs)
  have "unat b div 16 < 16" "unat b mod 16 < 16" using unat_bound [of b] by simp_all
  then show ?case using Cons hex_digit_plain by (auto simp: hex_byte_def)
qed simp

lemma decimal_plain: "c \<in> set (decimal n) \<Longrightarrow> c \<noteq> CHR ''_'' \<and> of_char c < (128 :: nat)"
  using decimal_digits [of c n] by auto

lemma format_split:
  assumes "codes_ok co"
  shows "split_on CHR ''_'' (format_deposit_address co s k) =
    [''s'' @ decimal (unat s), co_base58_encode co (array_bytes k),
     checksum_of co (''s'' @ decimal (unat s) @ ''_'' @ co_base58_encode co (array_bytes k) @ ''_'')]"
proof -
  have "CHR ''_'' \<notin> set (''s'' @ decimal (unat s))"
    "CHR ''_'' \<notin> set (co_base58_encode co (array_bytes k))"
    "\<And>p. CHR ''_'' \<notin> set (checksum_of co p)"
    using decimal_plain hex_plain assms unfolding codes_ok_def checksum_of_def by auto
  then show ?thesis
    using split_on_append [of "CHR ''_''" "''s'' @ decimal (unat s)"]
      split_on_append [of "CHR ''_''" "co_base58_encode co (array_bytes k)"]
      split_on_plain [of "CHR ''_''"]
    by (simp add: format_deposit_address_def Let_def)
qed

lemma format_ascii:
  assumes "codes_ok co"
  shows "\<forall>c \<in> set (format_deposit_address co s k). of_char c < (128 :: nat)"
  using decimal_plain hex_plain assms
  unfolding codes_ok_def format_deposit_address_def checksum_of_def Let_def by auto

text \<open>
  C40: A deposit to a copied address credits exactly its pubkey: the daemon and the patched validator read
  the address that the daemon formats for a slot as its pubkey on this slot, as nobody's on any other
  slot, and a bare base58 pubkey on every slot. On every payload at all, the two agree.
\<close>

theorem deposit_address_roundtrip:
  assumes "codes_ok co"
  shows "deposit_target co (format_deposit_address co sidechain k) s' = (if s' = sidechain then Some k else None) \<and>
    deposit_target co (co_base58_encode co (array_bytes k)) s' = Some k \<and>
    Deposit_target co s' (text_bytes (format_deposit_address co sidechain k)) =
      (if s' = sidechain then Some k else None) \<and>
    Deposit_target co s' address =
      (case from_utf8 address of None \<Rightarrow> None | Some t \<Rightarrow> deposit_target co t s')"
proof -
  have bare: "split_on CHR ''_'' (co_base58_encode co (array_bytes k)) = [co_base58_encode co (array_bytes k)]"
    using assms by (intro split_on_plain) (auto simp: codes_ok_def)
  have parse: "ok_of (parse_deposit_recipient co (co_base58_encode co (array_bytes k))) = Some k"
    using assms by (simp add: codes_ok_def parse_deposit_recipient_def ok_of_def)
  have same: "decimal (unat sidechain) = decimal (unat s') \<longleftrightarrow> s' = sidechain"
    using decimal_inj by (auto simp: word_unat_eq_iff)
  have full: "deposit_target co (format_deposit_address co sidechain k) s' =
      (if s' = sidechain then Some k else None)"
    using same parse by (simp add: deposit_target_def format_split [OF assms])
  have "from_utf8 (text_bytes (format_deposit_address co sidechain k)) =
      Some (format_deposit_address co sidechain k)"
    by (rule from_text_bytes [OF format_ascii [OF assms]])
  then show ?thesis
    using full bare parse validator_target [OF assms] by (simp add: deposit_target_def)
qed

section \<open>Codes that meet the hypotheses\<close>

text \<open>A code with 64 letters: 43 of them for a pubkey.\<close>

fun letters :: "nat \<Rightarrow> nat \<Rightarrow> string" where
  "letters 0 x = []"
| "letters (Suc n) x = char_of (30 + x mod 64) # letters n (x div 64)"

fun letters_value :: "string \<Rightarrow> nat" where
  "letters_value [] = 0"
| "letters_value (c # cs) = (of_char c - 30) + 64 * letters_value cs"

definition sample_codes :: codes where
  "sample_codes =
     \<lparr>co_base58_decode = (\<lambda>s. if length s = 43 then Some (array_bytes (word_of_nat (letters_value s))) else None),
      co_base58_encode = (\<lambda>bs. letters 43 (unat (array_of bs))),
      co_sha256 = (\<lambda>bs. word_of_nat (nat_of_le bs))\<rparr>"

lemma letter_value: "(of_char (char_of (30 + x mod 64) :: char) :: nat) = 30 + x mod 64"
proof -
  have "x mod 64 < 64" by (rule mod_less_divisor) (rule zero_less_numeral)
  then have "30 + x mod 64 < 256" by linarith
  then show ?thesis unfolding of_char_of by (rule mod_less)
qed

lemma letters_value_letters: "letters_value (letters n x) = x mod 64 ^ n"
proof (induction n arbitrary: x)
  case (Suc n)
  have "x mod 64 ^ Suc n = x mod 64 + 64 * (x div 64 mod 64 ^ n)"
    unfolding power_Suc mod_mult2_eq by simp
  then show ?case using Suc.IH by (simp only: letters.simps letters_value.simps letter_value add_diff_cancel_left')
qed simp

lemma letters_plain: "c \<in> set (letters n x) \<Longrightarrow> c \<noteq> CHR ''_'' \<and> of_char c < (128 :: nat)"
proof (induction n arbitrary: x)
  case (Suc n)
  have plain: "c \<noteq> CHR ''_'' \<and> of_char c < (128 :: nat)" if "c = char_of (30 + x mod 64)"
  proof -
    have "x mod 64 < 64" by (rule mod_less_divisor) (rule zero_less_numeral)
    then have "(of_char c :: nat) < 94" unfolding that letter_value by linarith
    then show ?thesis by auto
  qed
  have "c = char_of (30 + x mod 64) \<or> c \<in> set (letters n (x div 64))" using Suc.prems by (simp only: letters.simps set_simps insert_iff)
  then show ?case using Suc.IH plain by blast
qed simp

lemma length_letters [simp]: "length (letters n x) = n"
  by (induction n arbitrary: x) simp_all

lemma sample_codes_ok: "codes_ok sample_codes"
proof -
  have "letters_value (letters 43 (unat k)) = unat k" for k :: array32
  proof -
    have "unat k < 2 ^ 256" using unat_bound [of k] by simp
    then have "unat k < 64 ^ 43" by simp
    then show ?thesis by (simp only: letters_value_letters mod_less)
  qed
  then show ?thesis
    using letters_plain by (auto simp: codes_ok_def sample_codes_def split: if_splits)
qed

lemma deposit_address_roundtrip_witness:
  "deposit_target sample_codes (format_deposit_address sample_codes 8 77) 8 = Some 77 \<and>
   deposit_target sample_codes (format_deposit_address sample_codes 8 77) 9 = None"
  using deposit_address_roundtrip [OF sample_codes_ok, of 8 77 8] deposit_address_roundtrip [OF sample_codes_ok, of 8 77 9]
  by simp

end
