(* ===== verification/Daemon_World.thy ===== *)
theory Daemon_World
  imports Enforcer Layout
begin

text \<open>
  How the daemon acts on the world: a call takes the state of the world, gives a result, and leaves a new
  state. The two nodes behind the calls, the Solana RPC and the enforcer, are the fields of \<open>node\<close>. The
  reads of a walk through the blocks name each block by its hash, so one walk sees one state.
\<close>

section \<open>Actions\<close>

type_synonym ('w, 'e, 'a) act = "'w \<Rightarrow> ('e + 'a) \<times> 'w"

definition return :: "'a \<Rightarrow> ('w, 'e, 'a) act" where
  "return x w = (Inr x, w)"

text \<open>A result that takes no call, and the operator \<^verbatim>\<open>?\<close> after a call.\<close>

definition pure :: "'e + 'a \<Rightarrow> ('w, 'e, 'a) act" where
  "pure r w = (r, w)"

definition perform :: "('w, 'e, 'a) act \<Rightarrow> ('a \<Rightarrow> ('w, 'e, 'b) act) \<Rightarrow> ('w, 'e, 'b) act" where
  "perform m k w = (case m w of (Inl e, w') \<Rightarrow> (Inl e, w') | (Inr x, w') \<Rightarrow> k x w')"

definition action_err :: "('e \<Rightarrow> 'f) \<Rightarrow> ('w, 'e, 'a) act \<Rightarrow> ('w, 'f, 'a) act" where
  "action_err f m w = (case m w of (r, w') \<Rightarrow> (map_err f r, w'))"

text \<open>A read of the state that leaves it.\<close>

definition look :: "('w \<Rightarrow> 'e + 'a) \<Rightarrow> ('w, 'e, 'a) act" where
  "look f w = (f w, w)"

lemma return_iff [result_iff]: "return x w = (Inr y, w') \<longleftrightarrow> y = x \<and> w' = w"
  by (auto simp: return_def)

lemma pure_iff [result_iff]: "pure r w = (Inr y, w') \<longleftrightarrow> r = Inr y \<and> w' = w"
  by (auto simp: pure_def)

lemma look_iff [result_iff]: "look f w = (Inr y, w') \<longleftrightarrow> f w = Inr y \<and> w' = w"
  by (auto simp: look_def)

lemma perform_iff [result_iff]:
  "perform m k w = (Inr y, w') \<longleftrightarrow> (\<exists>x w1. m w = (Inr x, w1) \<and> k x w1 = (Inr y, w'))"
  by (auto simp: perform_def split: prod.splits sum.splits)

lemma action_err_iff [result_iff]: "action_err f m w = (Inr y, w') \<longleftrightarrow> m w = (Inr y, w')"
  by (auto simp: action_err_def result_iff split: prod.splits)

lemma act_simps [simp]:
  "perform (return x) k = k x" "perform (pure (Inr x)) k = k x"
  "perform (pure (Inl e)) k = pure (Inl e)"
  by (auto simp: perform_def return_def pure_def fun_eq_iff)

text \<open>An action on the world beside a memory of the process.\<close>

definition on_world :: "('w, 'e, 'a) act \<Rightarrow> ('s \<times> 'w, 'e, 'a) act" where
  "on_world m s = (case m (snd s) of (r, w') \<Rightarrow> (r, (fst s, w')))"

definition get_memory :: "('s \<times> 'w, 'e, 's) act" where
  "get_memory s = (Inr (fst s), s)"

definition put_memory :: "'s \<Rightarrow> ('s \<times> 'w, 'e, unit) act" where
  "put_memory m s = (Inr (), (m, snd s))"

lemma on_world_iff [result_iff]:
  "on_world m s = (Inr x, s') \<longleftrightarrow> (\<exists>w'. m (snd s) = (Inr x, w') \<and> s' = (fst s, w'))"
  by (auto simp: on_world_def split: prod.splits)

lemma get_memory_iff [result_iff]: "get_memory s = (Inr x, s') \<longleftrightarrow> x = fst s \<and> s' = s"
  by (auto simp: get_memory_def)

lemma put_memory_iff [result_iff]: "put_memory m s = (Inr x, s') \<longleftrightarrow> s' = (m, snd s)"
  by (auto simp: put_memory_def)

section \<open>The nodes\<close>

datatype CommitmentConfig = Processed | Confirmed | Finalized

datatype RpcError = RpcResponseError int string | RpcOtherError string

record RpcAccount =
  ra_lamports :: u64
  ra_owner :: pubkey
  ra_data :: bytes

text \<open>A transaction with its payer, who signs it.\<close>

record SolanaTransaction =
  st_instructions :: "Instruction list"
  st_payer :: pubkey
  st_blockhash :: array32

record 'w node =
  nd_get_account_data :: "CommitmentConfig \<Rightarrow> pubkey \<Rightarrow> ('w, RpcError, bytes) act"
  nd_get_account :: "CommitmentConfig \<Rightarrow> pubkey \<Rightarrow> ('w, RpcError, RpcAccount option) act"
  nd_get_multiple_accounts ::
    "CommitmentConfig \<Rightarrow> pubkey list \<Rightarrow> ('w, RpcError, RpcAccount option list) act"
  nd_get_latest_blockhash :: "('w, RpcError, array32) act"
  nd_send_and_confirm :: "SolanaTransaction \<Rightarrow> ('w, RpcError, unit) act"
  nd_tip :: "('w, EnforcerError, tip) act"
  nd_headers :: "'w \<Rightarrow> read_headers"
  nd_peg_events :: "'w \<Rightarrow> read_events"
  nd_propose_withdrawal_bundle :: "Transaction \<Rightarrow> ('w, EnforcerError, unit) act"
  nd_commitment_at :: "array32 \<Rightarrow> ('w, EnforcerError, array32 option) act"
  nd_create_bmm_request :: "u64 \<Rightarrow> tip \<Rightarrow> array32 \<Rightarrow> ('w, EnforcerError, array32) act"

text \<open>The codes that the daemon uses: SHA-256, the program addresses, base58, and the Bitcoin encoding.\<close>

record Settings =
  se_sidechain_id :: u8
  se_program_id :: pubkey
  se_new_bundle_log :: bool

record tools =
  to_sha256 :: "bytes \<Rightarrow> array32"
  to_find_pda :: find_pda
  to_bitcoin :: bitcoin
  to_parse_txid :: "string \<Rightarrow> array32 option"

end
