(* ===== verification/Credit.thy ===== *)
theory Credit
  imports Bridge_Properties Deposit_Address Enforcer_Service Daemon_World
begin

text \<open>
  The credit loop (\<^verbatim>\<open>daemon/src/credit.rs\<close>): the next part of the deposits of the next eCash block. Its
  property joins the daemon, the patched validator and the bridge program: the part that the daemon names
  is the part that the validator answers and the program credits.
\<close>

definition MAX_PART :: nat where
  "MAX_PART = 16"

definition CREDIT_COMPUTE_UNITS :: u32 where
  "CREDIT_COMPUTE_UNITS = 1400000"

datatype CreditError =
    CreditEnforcer EnforcerError | CreditBridge LayoutError | CreditRpc string RpcError
  | CreditHeightTooLarge u64

record Part =
  pt_height :: u64
  pt_first :: u32
  pt_count :: u8
  pt_total :: nat
  pt_targets :: "pubkey list"

text \<open>\<^verbatim>\<open>try_from(n).unwrap_or(MAX)\<close>.\<close>

definition or_max :: "nat \<Rightarrow> 'a::len word" where
  "or_max n = (case try_from_nat n of Some w \<Rightarrow> w | None \<Rightarrow> - 1)"

definition target :: "codes \<Rightarrow> u8 \<Rightarrow> DepositEvent \<Rightarrow> pubkey option" where
  "target co sidechain deposit =
     (case from_utf8 (de_address deposit) of
        None \<Rightarrow> None
      | Some body \<Rightarrow> deposit_target co body sidechain)"

definition next_part :: "codes \<Rightarrow> u64 \<Rightarrow> u64 \<Rightarrow> DepositEvent list \<Rightarrow> u8 \<Rightarrow> Part" where
  "next_part co height index deposits sidechain =
     (let first = min (unat index) (length deposits);
          part = subslice first (min (length deposits) (first + MAX_PART)) deposits
      in \<lparr>pt_height = height, pt_first = or_max first, pt_count = or_max (length part),
          pt_total = length deposits, pt_targets = List.map_filter (target co sidechain) part\<rparr>)"

definition can_credit :: "Config \<Rightarrow> array32 \<Rightarrow> array32 \<Rightarrow> bool" where
  "can_credit cfg block_hash prev_hash \<longleftrightarrow>
     (credited_block cfg = 0 \<or> credited_block cfg = prev_hash) \<and>
     (credit_index cfg = 0 \<or> credit_part_block cfg = block_hash)"

definition credit_is_ready :: "u64 \<Rightarrow> u64 \<Rightarrow> u64 \<Rightarrow> bool" where
  "credit_is_ready height tip_height confirmations =
     (case checked_add height confirmations of
        None \<Rightarrow> False
      | Some needed \<Rightarrow>
          (case checked_add needed 1 of None \<Rightarrow> False | Some needed \<Rightarrow> needed \<le> tip_height))"

definition credit_read_config ::
  "tools \<Rightarrow> 'w node \<Rightarrow> pubkey \<Rightarrow> ('w, CreditError, Config) act" where
  "credit_read_config tools nd program_id =
     perform (action_err (CreditRpc ''getAccountInfo(config)'')
       (nd_get_account_data nd Processed (fst (config_pda (to_find_pda tools) program_id)))) (\<lambda>data.
     pure (map_err CreditBridge (Config_decode (to_sha256 tools) data)))"

text \<open>One round of the loop: true when a credit landed. A send that fails is only a warning.\<close>

definition credit_next ::
  "codes \<Rightarrow> tools \<Rightarrow> 'w node \<Rightarrow> pubkey \<Rightarrow> pubkey \<Rightarrow> u8 \<Rightarrow> ('w, CreditError, bool) act" where
  "credit_next co tools nd program_id payer sidechain =
     perform (credit_read_config tools nd program_id) (\<lambda>cfg.
     let height = saturating_add (credited_height cfg) 1 in
     perform (action_err CreditEnforcer (nd_tip nd)) (\<lambda>tip.
     if \<not> credit_is_ready height (ucast (snd tip)) (deposit_confirmations cfg) then return False
     else
       perform (pure (ok_or (try_from height) (CreditHeightTooLarge height) Inr)) (\<lambda>at.
       perform (action_err CreditEnforcer (look (\<lambda>w. block_at (nd_headers nd w) tip at))) (\<lambda>(block_hash, prev_hash).
       if \<not> can_credit cfg block_hash prev_hash then return False
       else
         perform (action_err CreditEnforcer
           (look (\<lambda>w. block_deposits (nd_peg_events nd w) block_hash prev_hash))) (\<lambda>deposits.
         let part = next_part co height (credit_index cfg) deposits sidechain;
             instruction = credit_deposits_ix (to_sha256 tools) (to_find_pda tools) program_id height
               block_hash (pt_first part) (pt_count part) (pt_targets part) in
         perform (action_err (CreditRpc ''getLatestBlockhash'') (nd_get_latest_blockhash nd)) (\<lambda>blockhash.
         (\<lambda>w. case nd_send_and_confirm nd
                  \<lparr>st_instructions = [compute_unit_limit_ix CREDIT_COMPUTE_UNITS, instruction],
                   st_payer = payer, st_blockhash = blockhash\<rparr> w of
                (Inr _, w') \<Rightarrow> (Inr True, w')
              | (Inl _, w') \<Rightarrow> (Inr False, w'))))))))"

text \<open>
  The loop of the daemon for a number of rounds: it waits after a round without a credit, and only an
  error ends it.
\<close>

fun run_credit ::
  "codes \<Rightarrow> tools \<Rightarrow> 'w node \<Rightarrow> ('w \<Rightarrow> 'w) \<Rightarrow> pubkey \<Rightarrow> pubkey \<Rightarrow> u8 \<Rightarrow> nat \<Rightarrow> ('w, CreditError, unit) act" where
  "run_credit co tools nd idle program_id payer sidechain 0 = return ()"
| "run_credit co tools nd idle program_id payer sidechain (Suc turns) =
     perform (credit_next co tools nd program_id payer sidechain) (\<lambda>landed.
     perform (\<lambda>w. (Inr (), if landed then w else idle w)) (\<lambda>_.
     run_credit co tools nd idle program_id payer sidechain turns))"

section \<open>The part of the daemon is the part of the program\<close>

text \<open>The deposit of an event, as the validator holds it.\<close>

definition deposit_of :: "DepositEvent \<Rightarrow> Deposit" where
  "deposit_of d =
     \<lparr>dep_sequence_number = de_sequence_number d, dep_value_sats = de_value_sats d,
      dep_address = de_address d\<rparr>"

lemma or_max_small: "n < 2 ^ LENGTH('a) \<Longrightarrow> unat (or_max n :: 'a::len word) = n"
  by (simp add: or_max_def try_from_nat_def unat_of_nat)

lemma answered_target:
  assumes "codes_ok co"
  shows "ad_target (answered (Deposit_target co s) (deposit_of d)) = target co s d"
  by (simp add: answered_def deposit_of_def target_def validator_target [OF assms])

lemma targets_match_part:
  assumes "codes_ok co"
  shows "targets_match (map (answered (Deposit_target co s) \<circ> deposit_of) ds)
    (map (\<lambda>t. writable_meta t False) (List.map_filter (target co s) ds))"
proof (induction ds)
  case (Cons d ds)
  then show ?case
    by (cases "target co s d")
      (simp_all add: answered_target [OF assms] map_filter_simps writable_meta_def)
qed simp

lemma next_part_first:
  "unat i \<le> length ds \<Longrightarrow> length ds < 2 ^ 32 \<Longrightarrow> unat (pt_first (next_part co h i ds s)) = unat i"
  by (simp add: next_part_def Let_def or_max_small)

lemma next_part_slice:
  assumes "unat i \<le> length ds"
  shows "subslice (min (unat i) (length ds)) (min (length ds) (min (unat i) (length ds) + MAX_PART)) ds =
    take 16 (drop (unat i) ds)"
proof (cases "unat i + 16 \<le> length ds")
  case True
  then show ?thesis using assms by (simp add: subslice_def MAX_PART_def min_absorb1 min_absorb2)
next
  case False
  then show ?thesis using assms by (simp add: subslice_def MAX_PART_def min_absorb1)
qed

lemma next_part_count:
  "unat i \<le> length ds \<Longrightarrow> unat (pt_count (next_part co h i ds s)) = length (take 16 (drop (unat i) ds))"
  unfolding next_part_def Let_def Part.simps(3) next_part_slice by (rule or_max_small) simp

lemma next_part_guards:
  assumes "codes_ok co" "checked_add (credited_height cfg) 1 = Some height" "can_credit cfg hash prev"
    and "length deposits < 2 ^ 32" "unat (credit_index cfg) \<le> length deposits"
    and "deposits \<noteq> [] \<longrightarrow> unat (credit_index cfg) < length deposits"
    and part: "part = next_part co height (credit_index cfg) deposits sidechain"
    and q: "q = \<lparr>cq_height = height, cq_block_hash = hash, cq_first = pt_first part, cq_count = pt_count part\<rparr>"
  shows "\<exists>answer end.
    credit_guards cfg
      (deposit_answer_data (Deposit_target co sidechain) q
        \<lparr>blk_hash = hash, blk_prev_hash = prev, blk_deposits = map deposit_of deposits\<rparr>)
      height hash (pt_first part) (pt_count part) = Inr (answer, end) \<and>
    da_deposits answer =
      map (answered (Deposit_target co sidechain) \<circ> deposit_of) (take 16 (drop (unat (credit_index cfg)) deposits))"
proof -
  let ?blk = "\<lparr>blk_hash = hash, blk_prev_hash = prev, blk_deposits = map deposit_of deposits\<rparr>"
  let ?ds = "take 16 (drop (unat (credit_index cfg)) deposits)"
  have first: "unat (pt_first part) = unat (credit_index cfg)" unfolding part by (rule next_part_first) fact+
  have count: "unat (pt_count part) = length ?ds" unfolding part by (rule next_part_count) fact
  let ?answer = "\<lparr>da_height = height, da_block_hash = hash, da_prev_block_hash = prev,
      da_total = word_of_nat (length deposits), da_first = pt_first part,
      da_deposits = map (answered (Deposit_target co sidechain) \<circ> deposit_of) ?ds\<rparr>"
  have dec: "DepositAnswer_decode (deposit_answer_data (Deposit_target co sidechain) q ?blk) = Some ?answer"
    using assms(4)
    by (subst decode_deposit_answer_data) (simp_all add: q first count drop_map take_map min_def)
  have idx: "ucast (pt_first part) = credit_index cfg"
    using first by (simp add: word_unat_eq_iff unat_widen)
  have "unat (ucast (pt_first part) :: u64) + unat (ucast (pt_count part) :: u64) < 2 ^ 64"
    using assms(4,5) first count by (simp add: unat_widen)
  then obtain e where e: "checked_add (ucast (pt_first part) :: u64) (ucast (pt_count part)) = Some e"
    by (simp add: checked_add_def)
  have some: "0 < pt_count part \<or> (word_of_nat (length deposits) :: u32) = 0"
  proof (cases "deposits = []")
    case False
    then have "0 < unat (pt_count part)" using assms(6) count by simp
    then show ?thesis by (simp add: word_less_nat_alt)
  qed simp
  have "credit_guards cfg (deposit_answer_data (Deposit_target co sidechain) q ?blk) height hash
      (pt_first part) (pt_count part) = Inr (?answer, e)"
    using assms(2,3) idx count e some by (auto simp: credit_guards_def dec can_credit_def)
  then show ?thesis by (intro exI [of _ ?answer] exI [of _ e]) simp
qed

text \<open>
  C13: The credit that the daemon builds lands: it asks the patched validator for the part that the config
  of the bridge waits for, names the targets that the validator reads from the deposits, in their order,
  and the bridge program takes the instruction with the answer of the validator, whenever the vault
  covers the part and the numbers of the deposits are new.
\<close>

theorem daemon_credit_lands:
  assumes "runtime_ok rt" "codes_ok co" "discriminators_ok sha"
    and "config_key rt (config b) \<noteq> None" "vault_key rt (config b) = Some vault"
    and "checked_add (credited_height (config b)) 1 = Some height" "can_credit (config b) hash prev"
    and "length deposits < 2 ^ 32" "unat (credit_index (config b)) \<le> length deposits"
    and "deposits \<noteq> [] \<longrightarrow> unat (credit_index (config b)) < length deposits"
    and part: "part = next_part co height (credit_index (config b)) deposits sidechain"
    and ix: "ix = credit_deposits_ix sha fpa ID height hash (pt_first part) (pt_count part) (pt_targets part)"
    and ds: "ds = take 16 (drop (unat (credit_index (config b))) deposits)"
    and "sorted_wrt (<) (map (unat \<circ> de_sequence_number) ds)"
    and "\<forall>d \<in> set ds. deposit_high_water (config b) \<le> de_sequence_number d \<and>
           unat (de_sequence_number d) + 1 < 2 ^ 64"
    and val: "val = 10 * (\<Sum>d\<leftarrow>ds. unat (de_value_sats d))"
    and "vault_ready vault val (ledger b)"
    and "unat (pegged_lamports (config b)) + val < 2 ^ 64" "unat (stranded_lamports (config b)) + val < 2 ^ 64"
  shows "\<exists>q b'. credit_deposits_question ID (ix_data ix) = Some q \<and>
    credit_deposits rt
      (deposit_answer_data (Deposit_target co sidechain) q
        \<lparr>blk_hash = hash, blk_prev_hash = prev, blk_deposits = map deposit_of deposits\<rparr>)
      (drop 4 (ix_accounts ix)) height hash (pt_first part) (pt_count part) b = Inr b'"
proof -
  let ?q = "\<lparr>cq_height = height, cq_block_hash = hash, cq_first = pt_first part, cq_count = pt_count part\<rparr>"
  let ?f = "answered (Deposit_target co sidechain) \<circ> deposit_of"
  have question: "credit_deposits_question ID (ix_data ix) = Some ?q"
    unfolding ix by (rule read_questions(3) [OF assms(3)])
  obtain answer e where guards: "credit_guards (config b) (deposit_answer_data (Deposit_target co sidechain) ?q
      \<lparr>blk_hash = hash, blk_prev_hash = prev, blk_deposits = map deposit_of deposits\<rparr>)
      height hash (pt_first part) (pt_count part) = Inr (answer, e)"
    and answer: "da_deposits answer = map ?f ds"
    using next_part_guards [OF assms(2,6-10) part refl] unfolding ds by blast
  have accounts: "drop 4 (ix_accounts ix) =
      map (\<lambda>t. writable_meta t False) (List.map_filter (target co sidechain) ds)"
    using next_part_slice [OF assms(9)] by (simp add: ix credit_deposits_ix_def part next_part_def Let_def ds)
  have seq: "map (unat \<circ> ad_sequence_number) (da_deposits answer) = map (unat \<circ> de_sequence_number) ds"
    "part_value (da_deposits answer) = val"
    by (simp_all add: answer answered_def deposit_of_def part_value_def val comp_def)
  have "\<exists>b'. credit_deposits rt (deposit_answer_data (Deposit_target co sidechain) ?q
      \<lparr>blk_hash = hash, blk_prev_hash = prev, blk_deposits = map deposit_of deposits\<rparr>)
      (drop 4 (ix_accounts ix)) height hash (pt_first part) (pt_count part) b = Inr b'"
  proof (rule part_credited [OF assms(1,4,5) guards])
    show "targets_match (da_deposits answer) (drop 4 (ix_accounts ix))"
      unfolding answer accounts by (rule targets_match_part [OF assms(2)])
    show "sorted_wrt (<) (map (unat \<circ> ad_sequence_number) (da_deposits answer))"
      unfolding seq(1) by (rule assms(14))
    show "\<forall>d \<in> set (da_deposits answer). deposit_high_water (config b) \<le> ad_sequence_number d \<and>
        unat (ad_sequence_number d) + 1 < 2 ^ 64"
      using assms(15) by (simp add: answer answered_def deposit_of_def)
  qed (use assms(17-) in \<open>simp_all only: seq(2)\<close>)
  then show ?thesis using question by blast
qed

definition sample_deposits :: "DepositEvent list" where
  "sample_deposits =
     [\<lparr>de_sequence_number = 3, de_address = text_bytes (co_base58_encode sample_codes (array_bytes ALICE)),
       de_value_sats = 100000\<rparr>,
      \<lparr>de_sequence_number = 4, de_address = [0xff], de_value_sats = 20000\<rparr>]"

definition sample_part :: Part where
  "sample_part = next_part sample_codes 101 (credit_index (config sample_bank)) sample_deposits 8"

definition sample_credit_ix :: Instruction where
  "sample_credit_ix =
     credit_deposits_ix sample_sha (\<lambda>_ _. (0, 0)) ID 101 7 (pt_first sample_part) (pt_count sample_part)
       (pt_targets sample_part)"

lemma daemon_credit_lands_witness:
  "\<exists>q b'. credit_deposits_question ID (ix_data sample_credit_ix) = Some q \<and>
    credit_deposits sample_runtime
      (deposit_answer_data (Deposit_target sample_codes 8) q
        \<lparr>blk_hash = 7, blk_prev_hash = 6, blk_deposits = map deposit_of sample_deposits\<rparr>)
      (drop 4 (ix_accounts sample_credit_ix)) 101 7 (pt_first sample_part) (pt_count sample_part) sample_bank = Inr b'"
proof -
  have c: "config sample_bank = sample_config" "bump sample_config = 255" "vault_bump sample_config = 254"
    by (simp_all add: sample_bank_def sample_config_def)
  have k: "config_key sample_runtime (config sample_bank) \<noteq> None"
    "vault_key sample_runtime (config sample_bank) = Some 0x1fe746c756176"
    by (simp_all add: sample_keys c)
  have d: "discriminators_ok sample_sha"
    by (simp add: discriminators_ok_def discriminator_def sample_sha_def ascii_def
        SETTLE_BMM_DISCRIMINATOR_def BUNDLE_PAID_DISCRIMINATOR_def CREDIT_DEPOSITS_DISCRIMINATOR_def)
  have nxt: "checked_add (credited_height (config sample_bank)) 1 = Some 101"
    "can_credit (config sample_bank) 7 6" "unat (credit_index (config sample_bank)) = 0"
    by (simp_all add: c sample_config_def checked_add_def can_credit_def)
  have ds: "sample_deposits = take 16 (drop (unat (credit_index (config sample_bank))) sample_deposits)"
    by (simp add: nxt sample_deposits_def)
  have "vault_ready 0x1fe746c756176 1200000 (ledger sample_bank)"
    by (simp add: vault_ready_def sample_bank_def sample_ledger_def sample_addresses balance_def system_account_def)
  then show ?thesis
    using daemon_credit_lands [OF sample_runtime_ok sample_codes_ok d k nxt(1,2) _ _ _ sample_part_def
        sample_credit_ix_def ds, of "1200000"]
    by (simp add: nxt(3)) (simp add: sample_deposits_def c sample_config_def)
qed

end
