(* ===== verification/Proposals.thy ===== *)
theory Proposals
  imports Daemon_World
begin

text \<open>
  The journal of the bundles that the daemon handed to its enforcer (\<^verbatim>\<open>daemon/src/proposals.rs\<close>): the file
  and its copy in memory, the ranges that overlap, and the failures that free a range. The file system
  is a record of calls; the locale \<open>file_system\<close> is what the durable write relies on, a crash at any
  of its calls included.
\<close>

section \<open>The journal\<close>

datatype BundleStatus = StatusUnknown | StatusSubmitted u32 | StatusFailed u32 | StatusSucceeded u32

definition FAILURE_CONFIRMATIONS :: u32 where
  "FAILURE_CONFIRMATIONS = 6"

record Proposal =
  pr_start :: u64
  pr_end :: u64
  pr_m6id :: string
  pr_sealed_height :: u64
  pr_proposed_at :: u32

definition overlaps :: "Proposal \<Rightarrow> u64 \<times> u64 \<Rightarrow> bool" where
  "overlaps p rng \<longleftrightarrow> pr_start p < snd rng \<and> fst rng < pr_end p"

record Kept =
  kp_dropped_through :: u64
  kp_list :: "Proposal list"

definition Kept_default :: Kept where
  "Kept_default = \<lparr>kp_dropped_through = 0, kp_list = []\<rparr>"

text \<open>A path: its directory, its last name, and the extension of this name.\<close>

datatype path = Path (pt_dir: string) (pt_stem: string) (pt_extension: "string option")

definition with_extension :: "path \<Rightarrow> string \<Rightarrow> path" where
  "with_extension p e = Path (pt_dir p) (pt_stem p) (Some e)"

datatype io_error = NotFound | OtherIo string

datatype ProposalsError =
    ReadError path io_error | ParseError path | MissingError path u64 | WriteError path io_error

record 'w file_calls =
  fs_read :: "path \<Rightarrow> ('w, io_error, bytes) act"
  fs_create :: "path \<Rightarrow> ('w, io_error, unit) act"
  fs_write_all :: "path \<Rightarrow> bytes \<Rightarrow> ('w, io_error, unit) act"
  fs_sync_all :: "path \<Rightarrow> ('w, io_error, unit) act"
  fs_rename :: "path \<Rightarrow> path \<Rightarrow> ('w, io_error, unit) act"
  fs_sync_dir :: "string \<Rightarrow> ('w, io_error, unit) act"
  fs_to_json :: "Kept \<Rightarrow> bytes option"
  fs_from_json :: "bytes \<Rightarrow> Kept option"

record Proposals =
  ps_path :: path
  ps_kept :: Kept
  ps_existed :: bool

definition load :: "'w file_calls \<Rightarrow> path \<Rightarrow> ('w, ProposalsError, Proposals) act" where
  "load fs p w =
     (case fs_read fs p w of
        (Inr body, w') \<Rightarrow>
          (ok_or (fs_from_json fs body) (ParseError p) (\<lambda>kept.
             Inr \<lparr>ps_path = p, ps_kept = kept, ps_existed = True\<rparr>), w')
      | (Inl NotFound, w') \<Rightarrow> (Inr \<lparr>ps_path = p, ps_kept = Kept_default, ps_existed = False\<rparr>, w')
      | (Inl e, w') \<Rightarrow> (Inl (ReadError p e), w'))"

definition write_durably :: "'w file_calls \<Rightarrow> path \<Rightarrow> bytes \<Rightarrow> ('w, io_error, unit) act" where
  "write_durably fs p body =
     (let fresh = with_extension p ''new'' in
      perform (fs_create fs fresh) (\<lambda>_.
      perform (fs_write_all fs fresh body) (\<lambda>_.
      perform (fs_sync_all fs fresh) (\<lambda>_.
      perform (fs_rename fs fresh p) (\<lambda>_.
      fs_sync_dir fs (if pt_dir p = [] then ''.'' else pt_dir p))))))"

definition write_kept :: "'w file_calls \<Rightarrow> path \<Rightarrow> Kept \<Rightarrow> ('w, ProposalsError, unit) act" where
  "write_kept fs p kept =
     perform (pure (ok_or (fs_to_json fs kept) (ParseError p) Inr)) (\<lambda>body.
     action_err (WriteError p) (write_durably fs p body))"

text \<open>
  The operations that write act on the memory of the journal beside the world. The memory changes only
  after the write.
\<close>

type_synonym ('w, 'a) journal_act = "(Proposals \<times> 'w, ProposalsError, 'a) act"

definition persist :: "'w file_calls \<Rightarrow> ('w, unit) journal_act" where
  "persist fs =
     perform get_memory (\<lambda>ps.
     if ps_existed ps then return ()
     else
       perform (on_world (write_kept fs (ps_path ps) (ps_kept ps))) (\<lambda>_.
       put_memory (ps\<lparr>ps_existed := True\<rparr>)))"

definition store :: "'w file_calls \<Rightarrow> Kept \<Rightarrow> ('w, unit) journal_act" where
  "store fs kept =
     perform get_memory (\<lambda>ps.
     if kept = ps_kept ps then return ()
     else
       perform (on_world (write_kept fs (ps_path ps) kept)) (\<lambda>_.
       put_memory (ps\<lparr>ps_kept := kept, ps_existed := True\<rparr>)))"

definition kept_add :: "Proposal \<Rightarrow> Kept \<Rightarrow> Kept" where
  "kept_add proposal kept =
     kept\<lparr>kp_list := filter (\<lambda>old. pr_m6id old \<noteq> pr_m6id proposal) (kp_list kept) @ [proposal]\<rparr>"

definition add :: "'w file_calls \<Rightarrow> Proposal \<Rightarrow> ('w, unit) journal_act" where
  "add fs proposal = perform get_memory (\<lambda>ps. store fs (kept_add proposal (ps_kept ps)))"

definition kept_drop :: "u64 \<Rightarrow> Kept \<Rightarrow> Kept" where
  "kept_drop through kept =
     \<lparr>kp_dropped_through = max (kp_dropped_through kept) through,
      kp_list = filter (\<lambda>old. through < pr_end old) (kp_list kept)\<rparr>"

definition drop_paid :: "'w file_calls \<Rightarrow> u64 \<Rightarrow> ('w, unit) journal_act" where
  "drop_paid fs through =
     perform get_memory (\<lambda>ps.
     if through \<le> kp_dropped_through (ps_kept ps) \<and>
        list_all (\<lambda>kept. through < pr_end kept) (kp_list (ps_kept ps))
     then return ()
     else store fs (kept_drop through (ps_kept ps)))"

definition overlapping :: "Proposals \<Rightarrow> u64 \<times> u64 \<Rightarrow> string option \<Rightarrow> Proposal list" where
  "overlapping ps rng own =
     filter (\<lambda>kept. overlaps kept rng \<and> Some (pr_m6id kept) \<noteq> own) (kp_list (ps_kept ps))"

definition check_journal :: "Proposals \<Rightarrow> u64 \<Rightarrow> bool \<Rightarrow> ProposalsError + unit" where
  "check_journal ps count new_log =
     (if ps_existed ps \<or> count = 0 \<or> new_log then Inr ()
      else Inl (MissingError (ps_path ps) count))"

definition freed :: "Proposal \<Rightarrow> BundleStatus \<Rightarrow> u32 \<Rightarrow> bool" where
  "freed p status tip_height =
     (case status of
        StatusFailed height \<Rightarrow>
          pr_proposed_at p < height \<and> FAILURE_CONFIRMATIONS \<le> saturating_sub tip_height height + 1
      | _ \<Rightarrow> False)"

definition blocking :: "(Proposal \<times> BundleStatus) list \<Rightarrow> u32 \<Rightarrow> Proposal option" where
  "blocking found tip_height =
     map_option fst (find (\<lambda>(proposal, status). \<not> freed proposal status tip_height) found)"

section \<open>The file and the memory\<close>

text \<open>
  What the calls of the file system do to the content of the files, when they succeed and when they fail:
  a call touches only the file that it names, a rename happens or does not, and a body reads back as it
  was written. \<open>content\<close> is what a restart would find.
\<close>

definition file_system_ok :: "'w file_calls \<Rightarrow> ('w \<Rightarrow> path \<Rightarrow> bytes option) \<Rightarrow> bool" where
  "file_system_ok fs content \<longleftrightarrow>
     (\<forall>p w r w'. fs_create fs p w = (r, w') \<longrightarrow> (\<forall>q. q \<noteq> p \<longrightarrow> content w' q = content w q)) \<and>
     (\<forall>p b w r w'. fs_write_all fs p b w = (r, w') \<longrightarrow>
        (\<forall>q. q \<noteq> p \<longrightarrow> content w' q = content w q) \<and> (r = Inr () \<longrightarrow> content w' p = Some b)) \<and>
     (\<forall>p w r w'. fs_sync_all fs p w = (r, w') \<longrightarrow> content w' = content w) \<and>
     (\<forall>d w r w'. fs_sync_dir fs d w = (r, w') \<longrightarrow> content w' = content w) \<and>
     (\<forall>p q w r w'. fs_rename fs p q w = (r, w') \<longrightarrow>
        content w' = (if r = Inr () then (content w)(q := content w p, p := None) else content w)) \<and>
     (\<forall>p w r w'. fs_read fs p w = (r, w') \<longrightarrow> content w' = content w \<and>
        (r = Inl NotFound \<longleftrightarrow> content w p = None) \<and> (\<forall>b. r = Inr b \<longrightarrow> content w p = Some b)) \<and>
     (\<forall>kept b. fs_to_json fs kept = Some b \<longrightarrow> fs_from_json fs b = Some kept)"

lemma file_system_okD:
  assumes "file_system_ok fs content"
  shows "fs_create fs p w = (r, w') \<Longrightarrow> q \<noteq> p \<Longrightarrow> content w' q = content w q"
    and "fs_write_all fs p b w = (r, w') \<Longrightarrow> q \<noteq> p \<Longrightarrow> content w' q = content w q"
    and "fs_write_all fs p b w = (Inr (), w') \<Longrightarrow> content w' p = Some b"
    and "fs_sync_all fs p w = (r, w') \<Longrightarrow> content w' = content w"
    and "fs_sync_dir fs d w = (r, w') \<Longrightarrow> content w' = content w"
    and "fs_rename fs p q w = (Inr (), w') \<Longrightarrow> content w' = (content w)(q := content w p, p := None)"
    and "fs_rename fs p q w = (Inl e, w') \<Longrightarrow> content w' = content w"
    and "fs_read fs p w = (rr, w') \<Longrightarrow> content w' = content w"
    and "fs_read fs p w = (Inr body, w') \<Longrightarrow> content w p = Some body"
    and "fs_read fs p w = (Inl NotFound, w') \<Longrightarrow> content w p = None"
    and "fs_to_json fs kept = Some body \<Longrightarrow> fs_from_json fs body = Some kept"
proof -
  note ok = assms [unfolded file_system_ok_def]
  note c = ok [THEN conjunct2] 
  note d = c [THEN conjunct2]
  note e = d [THEN conjunct2]
  note f = e [THEN conjunct2]
  note g = f [THEN conjunct2]
  show "fs_create fs p w = (r, w') \<Longrightarrow> q \<noteq> p \<Longrightarrow> content w' q = content w q"
    by (rule ok [THEN conjunct1, rule_format])
  show "fs_write_all fs p b w = (r, w') \<Longrightarrow> q \<noteq> p \<Longrightarrow> content w' q = content w q"
    by (rule c [THEN conjunct1, rule_format, THEN conjunct1, rule_format])
  show "fs_write_all fs p b w = (Inr (), w') \<Longrightarrow> content w' p = Some b"
    by (rule c [THEN conjunct1, rule_format, THEN conjunct2, rule_format]) simp_all
  show "fs_sync_all fs p w = (r, w') \<Longrightarrow> content w' = content w"
    by (rule d [THEN conjunct1, rule_format])
  show "fs_sync_dir fs d w = (r, w') \<Longrightarrow> content w' = content w"
    by (rule e [THEN conjunct1, rule_format])
  show "fs_rename fs p q w = (Inr (), w') \<Longrightarrow> content w' = (content w)(q := content w p, p := None)"
    using f [THEN conjunct1, rule_format, of p q w "Inr ()" w'] by simp
  show "fs_rename fs p q w = (Inl e, w') \<Longrightarrow> content w' = content w"
    using f [THEN conjunct1, rule_format, of p q w "Inl e" w'] by simp
  show "fs_read fs p w = (rr, w') \<Longrightarrow> content w' = content w"
    by (rule g [THEN conjunct1, rule_format, THEN conjunct1])
  show "fs_read fs p w = (Inr body, w') \<Longrightarrow> content w p = Some body"
    using g [THEN conjunct1, rule_format, of p w "Inr body" w'] by simp
  show "fs_read fs p w = (Inl NotFound, w') \<Longrightarrow> content w p = None"
    using g [THEN conjunct1, rule_format, of p w "Inl NotFound" w'] by simp
  show "fs_to_json fs kept = Some body \<Longrightarrow> fs_from_json fs body = Some kept"
    by (rule g [THEN conjunct2, rule_format])
qed

lemma perform_cases:
  "perform m k w = (r, w') \<Longrightarrow>
   (\<exists>e. m w = (Inl e, w') \<and> r = Inl e) \<or> (\<exists>x w1. m w = (Inr x, w1) \<and> k x w1 = (r, w'))"
  by (auto simp: perform_def split: prod.splits sum.splits)

text \<open>The durable write changes the file to the body or not at all, wherever it stops.\<close>

lemma write_durably_atomic:
  assumes ok: "file_system_ok fs content" and p: "pt_extension p \<noteq> Some ''new''"
    and run: "write_durably fs p body w = (r, w')"
  shows "content w' p = content w p \<and> r \<noteq> Inr () \<or> content w' p = Some body"
proof -
  note fsD = file_system_okD [OF ok]
  let ?q = "with_extension p ''new''"
  have ne: "p \<noteq> ?q" using p by (cases p) (auto simp: with_extension_def)
  note steps = run [unfolded write_durably_def Let_def]
  from perform_cases [OF steps] consider e where "fs_create fs ?q w = (Inl e, w')" "r = Inl e"
    | w1 where "fs_create fs ?q w = (Inr (), w1)"
      "perform (fs_write_all fs ?q body) (\<lambda>_. perform (fs_sync_all fs ?q) (\<lambda>_.
         perform (fs_rename fs ?q p) (\<lambda>_. fs_sync_dir fs (if pt_dir p = [] then ''.'' else pt_dir p)))) w1 = (r, w')"
    by auto
  then show ?thesis
  proof cases
    case 1
    then show ?thesis using fsD(1) ne by simp
  next
    case 2
    have w1: "content w1 p = content w p" using fsD(1) [OF 2(1) ne] .
    from perform_cases [OF 2(2)] consider e where "fs_write_all fs ?q body w1 = (Inl e, w')" "r = Inl e"
      | w2 where "fs_write_all fs ?q body w1 = (Inr (), w2)"
        "perform (fs_sync_all fs ?q) (\<lambda>_.
           perform (fs_rename fs ?q p) (\<lambda>_. fs_sync_dir fs (if pt_dir p = [] then ''.'' else pt_dir p))) w2 = (r, w')"
      by auto
    then show ?thesis
    proof cases
      case 1
      then show ?thesis using fsD(2) ne w1 by fastforce
    next
      case 2
      have w2: "content w2 p = content w p" "content w2 ?q = Some body"
        using fsD(2) [OF 2(1) ne] fsD(3) [OF 2(1)] w1 by simp_all
      from perform_cases [OF 2(2)] consider e where "fs_sync_all fs ?q w2 = (Inl e, w')" "r = Inl e"
        | w3 where "fs_sync_all fs ?q w2 = (Inr (), w3)"
          "perform (fs_rename fs ?q p) (\<lambda>_. fs_sync_dir fs (if pt_dir p = [] then ''.'' else pt_dir p)) w3 = (r, w')"
        by auto
      then show ?thesis
      proof cases
        case 1
        then show ?thesis using fsD(4) [OF 1(1)] w2 by simp
      next
        case 2
        have w3: "content w3 = content w2" using fsD(4) [OF 2(1)] .
        from perform_cases [OF 2(2)] show ?thesis
          using fsD(5-7) w2 w3 ne by fastforce
      qed
    qed
  qed
qed

text \<open>The memory and the file agree; a file that is not there holds no proposal.\<close>

definition on_disk :: "'w file_calls \<Rightarrow> ('w \<Rightarrow> path \<Rightarrow> bytes option) \<Rightarrow> Proposals \<Rightarrow> 'w \<Rightarrow> bool" where
  "on_disk fs content ps w \<longleftrightarrow>
     (if ps_existed ps
      then \<exists>b. content w (ps_path ps) = Some b \<and> fs_from_json fs b = Some (ps_kept ps)
      else content w (ps_path ps) = None \<and> ps_kept ps = Kept_default)"

lemma write_kept_result:
  assumes "file_system_ok fs content" "pt_extension p \<noteq> Some ''new''"
    and "write_kept fs p kept w = (r, w')"
  shows "content w' p = content w p \<and> r \<noteq> Inr () \<or>
    (\<exists>b. content w' p = Some b \<and> fs_from_json fs b = Some kept)"
proof (cases "fs_to_json fs kept")
  case None
  then show ?thesis using assms(3) by (auto simp: write_kept_def pure_def)
next
  case (Some b)
  then have "action_err (WriteError p) (write_durably fs p b) w = (r, w')"
    using assms(3) by (simp add: write_kept_def)
  then obtain r' where "write_durably fs p b w = (r', w')" "r = map_err (WriteError p) r'"
    by (auto simp: action_err_def split: prod.splits)
  then show ?thesis
    using write_durably_atomic [OF assms(1,2)] file_system_okD(11) [OF assms(1) Some]
    by (cases r') fastforce+
qed

lemma store_result:
  assumes "file_system_ok fs content" "pt_extension (ps_path ps) \<noteq> Some ''new''" "on_disk fs content ps w"
    and "store fs kept (ps, w) = (r, (ps', w'))"
  shows "on_disk fs content ps' w' \<and> ps_kept ps' = kept \<and> ps_path ps' = ps_path ps \<or>
    r \<noteq> Inr () \<and> ps' = ps \<and>
      (on_disk fs content ps w' \<or> on_disk fs content (ps\<lparr>ps_kept := kept, ps_existed := True\<rparr>) w')"
proof (cases "kept = ps_kept ps")
  case True
  then show ?thesis using assms(3,4) by (auto simp: store_def perform_def get_memory_def return_def)
next
  case False
  obtain r1 w1 where wr: "write_kept fs (ps_path ps) kept w = (r1, w1)" by (cases "write_kept fs (ps_path ps) kept w")
  note res = write_kept_result [OF assms(1,2) wr]
  show ?thesis
  proof (cases r1)
    case (Inl e)
    then have "ps' = ps \<and> w' = w1 \<and> r = Inl e"
      using assms(4) wr False by (auto simp: store_def perform_def get_memory_def on_world_def)
    then show ?thesis using res assms(3) Inl by (auto simp: on_disk_def)
  next
    case (Inr u)
    then have "ps' = ps\<lparr>ps_kept := kept, ps_existed := True\<rparr> \<and> w' = w1"
      using assms(4) wr False by (auto simp: store_def perform_def get_memory_def on_world_def put_memory_def)
    then show ?thesis using res Inr by (auto simp: on_disk_def)
  qed
qed

lemma load_on_disk:
  assumes "file_system_ok fs content" "on_disk fs content ps w" "load fs (ps_path ps) w = (Inr ps', w')"
  shows "ps' = ps"
proof -
  note fsD = file_system_okD [OF assms(1)]
  obtain r w1 where read: "fs_read fs (ps_path ps) w = (r, w1)" by (cases "fs_read fs (ps_path ps) w")
  show ?thesis
  proof (cases r)
    case (Inl e)
    then have "e = NotFound" "ps' = \<lparr>ps_path = ps_path ps, ps_kept = Kept_default, ps_existed = False\<rparr>"
      using assms(3) read by (auto simp: load_def split: io_error.splits)
    moreover have "content w (ps_path ps) = None" using fsD(10) read Inl calculation(1) by blast
    ultimately show ?thesis using assms(2) by (cases ps) (auto simp: on_disk_def split: if_splits)
  next
    case (Inr body)
    then have "content w (ps_path ps) = Some body" using fsD(9) read by blast
    then show ?thesis
      using assms(2,3) read Inr by (cases ps) (auto simp: on_disk_def load_def result_iff split: if_splits)
  qed
qed

text \<open>What the journal always holds: each M6ID once, and no range that lies below the dropped records.\<close>

definition kept_ok :: "Kept \<Rightarrow> bool" where
  "kept_ok kept \<longleftrightarrow>
     distinct (map pr_m6id (kp_list kept)) \<and> (\<forall>p \<in> set (kp_list kept). kp_dropped_through kept < pr_end p)"

lemma kept_ok_add: "kept_ok kept \<Longrightarrow> kp_dropped_through kept < pr_end p \<Longrightarrow> kept_ok (kept_add p kept)"
  by (auto simp: kept_ok_def kept_add_def distinct_map_filter)

lemma kept_ok_drop: "kept_ok kept \<Longrightarrow> kept_ok (kept_drop through kept)"
  by (auto simp: kept_ok_def kept_drop_def distinct_map_filter max_def)

lemma kept_ok_default: "kept_ok Kept_default"
  by (simp add: kept_ok_def Kept_default_def)

lemma add_run: "add fs proposal (ps, w) = store fs (kept_add proposal (ps_kept ps)) (ps, w)"
  by (simp add: add_def perform_def get_memory_def)

lemma kept_drop_same:
  "through \<le> kp_dropped_through kept \<Longrightarrow> list_all (\<lambda>p. through < pr_end p) (kp_list kept) \<Longrightarrow>
   kept_drop through kept = kept"
  by (cases kept) (simp add: kept_drop_def list_all_iff max_absorb1)

lemma drop_paid_run: "drop_paid fs through (ps, w) = store fs (kept_drop through (ps_kept ps)) (ps, w)"
  using kept_drop_same [of through "ps_kept ps"]
  by (auto simp: drop_paid_def store_def perform_def get_memory_def return_def)

lemma reload_after_store:
  assumes "file_system_ok fs content" "pt_extension (ps_path ps) \<noteq> Some ''new''" "on_disk fs content ps w"
    and "store fs kept (ps, w) = (r, (ps', w'))" and "load fs (ps_path ps) w' = (Inr ps2, w2)"
  shows "if r = Inr () then ps2 = ps' \<and> ps_kept ps' = kept
    else ps' = ps \<and> (ps_kept ps2 = ps_kept ps \<or> ps_kept ps2 = kept)"
proof -
  from store_result [OF assms(1-4)]
  consider "on_disk fs content ps' w'" "ps_kept ps' = kept" "ps_path ps' = ps_path ps"
    | "r \<noteq> Inr ()" "ps' = ps" "on_disk fs content ps w'"
    | "r \<noteq> Inr ()" "ps' = ps" "on_disk fs content (ps\<lparr>ps_kept := kept, ps_existed := True\<rparr>) w'" by blast
  then show ?thesis
  proof cases
    case 1
    have "load fs (ps_path ps') w' = (Inr ps2, w2)" using assms(5) 1(3) by simp
    then have eq: "ps2 = ps'" by (rule load_on_disk [OF assms(1) 1(1)])
    show ?thesis
    proof (cases "r = Inr ()")
      case False
      then have "ps' = ps" using assms(4)
        by (auto simp: store_def perform_def get_memory_def return_def on_world_def put_memory_def
            split: if_splits prod.splits sum.splits)
      then show ?thesis using False eq 1 by simp
    qed (use eq 1 in simp)
  next
    case 2
    then show ?thesis using load_on_disk [OF assms(1) 2(3) assms(5)] by simp
  next
    case 3
    have "load fs (ps_path (ps\<lparr>ps_kept := kept, ps_existed := True\<rparr>)) w' = (Inr ps2, w2)" using assms(5) by simp
    then have "ps2 = ps\<lparr>ps_kept := kept, ps_existed := True\<rparr>" by (rule load_on_disk [OF assms(1) 3(3)])
    then show ?thesis using 3 by simp
  qed
qed


text \<open>Files whose second write fails: the state is the content of the files and the calls so far.\<close>

definition sample_proposal :: Proposal where
  "sample_proposal = \<lparr>pr_start = 0, pr_end = 1, pr_m6id = ''09'', pr_sealed_height = 5, pr_proposed_at = 7\<rparr>"

definition sample_files :: "((path \<Rightarrow> bytes option) \<times> nat) file_calls" where
  "sample_files =
     \<lparr>fs_read = (\<lambda>p w. (case fst w p of None \<Rightarrow> Inl NotFound | Some b \<Rightarrow> Inr b, w)),
      fs_create = (\<lambda>p w. (Inr (), ((fst w)(p := Some []), snd w))),
      fs_write_all = (\<lambda>p b w. (if snd w = 0 then Inr () else Inl (OtherIo ''full''),
        ((fst w)(p := Some (if snd w = 0 then b else [])), snd w + 1))),
      fs_sync_all = (\<lambda>p w. (Inr (), w)),
      fs_rename = (\<lambda>p q w. (Inr (), ((fst w)(q := fst w p, p := None), snd w))),
      fs_sync_dir = (\<lambda>d w. (Inr (), w)),
      fs_to_json = (\<lambda>k. if k = kept_add sample_proposal Kept_default then Some [1] else None),
      fs_from_json = (\<lambda>b. if b = [1] then Some (kept_add sample_proposal Kept_default) else None)\<rparr>"

lemma sample_files_ok: "file_system_ok sample_files fst"
  unfolding file_system_ok_def sample_files_def by (auto split: option.splits if_splits)

definition sample_path :: path where
  "sample_path = Path ''data'' ''bundles'' (Some ''json'')"


end
