(* ===== verification/Peg.thy ===== *)
theory Peg
  imports Proposals Bridge_Properties Enforcer_Service
begin

text \<open>
  The peg loop (\<^verbatim>\<open>daemon/src/peg.rs\<close>): what a pass reads, the next step that it picks, and the
  instructions and the proposals that it sends. The lemmas join it with the journal, with the walks of
  the active chain, and with the bridge program.
\<close>

section \<open>Withdrawal records\<close>

definition CLOSE_BATCH :: nat where
  "CLOSE_BATCH = 10"

datatype PegError =
    PegEnforcer EnforcerError | PegBridge LayoutError | PegM6 M6Error | PegRpc string RpcError
  | MissingRecord u64 | PegHeightTooLarge u64 | PegProposals ProposalsError
  | Overlap string u64 u64 | BelowDropped u64 u64 | BadM6id string | SealedM6idMismatch array32 array32

definition record_of :: "tools \<Rightarrow> pubkey \<Rightarrow> u64 \<Rightarrow> RpcAccount \<Rightarrow> WithdrawalRecord option" where
  "record_of tools program_id index account =
     (if ra_owner account \<noteq> program_id then None
      else case WithdrawalRecord_decode (to_sha256 tools) (ra_data account) of
             Inl e \<Rightarrow> None
           | Inr r \<Rightarrow> if wr_index r = index then Some r else None)"

text \<open>\<^verbatim>\<open>slice::chunks\<close>: the last chunk can be shorter.\<close>

function chunks :: "nat \<Rightarrow> 'a list \<Rightarrow> 'a list list" where
  "chunks n xs = (if xs = [] \<or> n = 0 then [] else take n xs # chunks n (drop n xs))"
  by pat_completeness auto
termination by (relation "measure (length \<circ> snd)") auto

declare chunks.simps [simp del]

definition indices :: "u64 \<times> u64 \<Rightarrow> u64 list" where
  "indices r = map word_of_nat [unat (fst r) ..< unat (snd r)]"

definition chunk_records ::
  "tools \<Rightarrow> pubkey \<Rightarrow> u64 list \<Rightarrow> RpcAccount option list \<Rightarrow> WithdrawalRecord list" where
  "chunk_records tools program_id chunk accounts =
     List.map_filter (\<lambda>(index, account). Option.bind account (record_of tools program_id index))
       (zip chunk accounts)"

fun read_chunks ::
  "tools \<Rightarrow> 'w node \<Rightarrow> pubkey \<Rightarrow> CommitmentConfig \<Rightarrow> WithdrawalRecord list \<Rightarrow> u64 list list \<Rightarrow>
     ('w, PegError, WithdrawalRecord list) act" where
  "read_chunks tools nd program_id commitment found [] = return found"
| "read_chunks tools nd program_id commitment found (chunk # rest) =
     perform (action_err (PegRpc ''getMultipleAccounts'')
       (nd_get_multiple_accounts nd commitment
         (map (\<lambda>index. fst (withdrawal_pda (to_find_pda tools) program_id index)) chunk))) (\<lambda>accounts.
     read_chunks tools nd program_id commitment (found @ chunk_records tools program_id chunk accounts) rest)"

definition read_records ::
  "tools \<Rightarrow> 'w node \<Rightarrow> pubkey \<Rightarrow> u64 \<times> u64 \<Rightarrow> CommitmentConfig \<Rightarrow> ('w, PegError, WithdrawalRecord list) act" where
  "read_records tools nd program_id rng commitment =
     read_chunks tools nd program_id commitment [] (chunks 100 (indices rng))"

fun complete_at :: "u64 list \<Rightarrow> u64 list \<Rightarrow> PegError + unit" where
  "complete_at [] found = Inr ()"
| "complete_at (index # rest) found =
     (case found of
        [] \<Rightarrow> Inl (MissingRecord index)
      | f # fs \<Rightarrow> if f = index then complete_at rest fs else Inl (MissingRecord index))"

definition complete :: "u64 \<times> u64 \<Rightarrow> WithdrawalRecord list \<Rightarrow> PegError + WithdrawalRecord list" where
  "complete live rs = attempt (complete_at (indices live) (map wr_index rs)) (\<lambda>_. Inr rs)"

definition live_records ::
  "tools \<Rightarrow> 'w node \<Rightarrow> pubkey \<Rightarrow> u64 \<times> u64 \<Rightarrow> CommitmentConfig \<Rightarrow> ('w, PegError, WithdrawalRecord list) act" where
  "live_records tools nd program_id live commitment =
     perform (read_records tools nd program_id live commitment) (\<lambda>rs. pure (complete live rs))"

section \<open>The status of a bundle\<close>

fun bundle_scan :: "array32 \<Rightarrow> u32 \<Rightarrow> BundleEvent list \<Rightarrow> BundleStatus \<Rightarrow> BundleStatus \<times> bool" where
  "bundle_scan own height [] status = (status, False)"
| "bundle_scan own height (bundle # bundles) status =
     (case bundle of
        Succeeded i paid \<Rightarrow>
          if i = own then (StatusSucceeded height, True) else bundle_scan own height bundles status
      | Submitted i \<Rightarrow> bundle_scan own height bundles (if i = own then StatusSubmitted height else status)
      | Failed i \<Rightarrow> bundle_scan own height bundles (if i = own then StatusFailed height else status))"

text \<open>The flag of \<open>bundle_scan\<close> is the early return of the loop.\<close>

fun status_loop :: "array32 \<Rightarrow> PegEvent list \<Rightarrow> BundleStatus \<Rightarrow> BundleStatus" where
  "status_loop own [] status = status"
| "status_loop own (Disconnect h # events) status = status_loop own events status"
| "status_loop own (Connect h height deposits bundles # events) status =
     (case bundle_scan own height bundles status of
        (status', True) \<Rightarrow> status'
      | (status', False) \<Rightarrow> status_loop own events status')"

definition bundle_status :: "PegEvent list \<Rightarrow> array32 \<Rightarrow> BundleStatus" where
  "bundle_status events own = status_loop own events StatusUnknown"

definition advance :: "BundleStatus \<Rightarrow> PegEvent list \<Rightarrow> array32 \<Rightarrow> BundleStatus" where
  "advance prev events own =
     (case prev of
        StatusSucceeded h \<Rightarrow> prev
      | _ \<Rightarrow> (case bundle_status events own of StatusUnknown \<Rightarrow> prev | status \<Rightarrow> status))"

definition height_u32 :: "u64 \<Rightarrow> PegError + u32" where
  "height_u32 height = ok_or (try_from height) (PegHeightTooLarge height) Inr"

definition bundle_status_at ::
  "'w node \<Rightarrow> tip \<Rightarrow> u64 \<Rightarrow> array32 \<Rightarrow> ('w, PegError, BundleStatus) act" where
  "bundle_status_at nd tip sealed_height own =
     perform (pure (height_u32 sealed_height)) (\<lambda>start.
     perform (action_err PegEnforcer (look (\<lambda>w.
       peg_data_from (nd_headers nd w) (nd_peg_events nd w) tip (min start (snd tip))))) (\<lambda>events.
     return (bundle_status events own)))"

record Scan =
  sc_m6id :: array32
  sc_height :: u32
  sc_hash :: array32
  sc_status :: BundleStatus

text \<open>
  A scan reads the enforcer only by block hashes below the tip, so it is a function of these reads.
\<close>

definition scan_bundle ::
  "read_headers \<Rightarrow> read_events \<Rightarrow> tip \<Rightarrow> u64 \<Rightarrow> array32 \<Rightarrow> Scan option \<Rightarrow> PegError + Scan" where
  "scan_bundle headers peg_events tip sealed_height own known =
     attempt
       (case known of
          None \<Rightarrow> Inr None
        | Some l \<Rightarrow>
            if sc_m6id l = own \<and> sc_height l \<le> snd tip
            then attempt (map_err PegEnforcer (block_at headers tip (sc_height l))) (\<lambda>(hash, prev).
                 Inr (if hash = sc_hash l then Some l else None))
            else Inr None) (\<lambda>kept.
     attempt
       (case kept of
          Some l \<Rightarrow> Inr (sc_height l, sc_status l)
        | None \<Rightarrow> attempt (height_u32 sealed_height) (\<lambda>h. Inr (min h (snd tip), StatusUnknown))) (\<lambda>(start, prev).
     attempt (map_err PegEnforcer (peg_data_from headers peg_events tip start)) (\<lambda>events.
     Inr \<lparr>sc_m6id = own, sc_height = snd tip, sc_hash = fst tip, sc_status = advance prev events own\<rparr>)))"

section \<open>The next step\<close>

datatype Action = Wait | Seal | Propose | MarkPaid u64 u32

record View =
  vw_processed :: Config
  vw_finalized :: Config
  vw_status :: BundleStatus
  vw_tip_height :: u32

definition decide :: "View \<Rightarrow> Action" where
  "decide view =
     (let processed = vw_processed view in
      if live_bundle processed = None then
        (if bundled_through processed < withdrawal_count processed then Seal else Wait)
      else
        case live_bundle (vw_finalized view) of
          None \<Rightarrow> Wait
        | Some live \<Rightarrow>
            if snd live \<le> paid_through processed then Wait
            else
              case vw_status view of
                StatusSucceeded height \<Rightarrow>
                  let confirmations = (ucast (saturating_sub (vw_tip_height view) height) :: u64) + 1 in
                  if max (deposit_confirmations (vw_finalized view)) 1 \<le> confirmations
                  then MarkPaid (snd live) height else Wait
              | _ \<Rightarrow> Propose)"

text \<open>The memory of the loop.\<close>

record Memory =
  me_proposals :: Proposals
  me_closed_through :: u64
  me_scan :: "Scan option"

type_synonym ('w, 'a) peg_act = "(Memory \<times> 'w, PegError, 'a) act"

definition on_journal :: "('w, 'a) journal_act \<Rightarrow> ('w, 'a) peg_act" where
  "on_journal m s =
     (case m (me_proposals (fst s), snd s) of
        (r, (ps, w)) \<Rightarrow> (map_err PegProposals r, (fst s)\<lparr>me_proposals := ps\<rparr>, w))"

text \<open>The error of a \<^verbatim>\<open>finalized\<close> read while the validator holds no finalized state.\<close>

definition finalized_unavailable :: "RpcError \<Rightarrow> bool" where
  "finalized_unavailable e =
     (case e of
        RpcResponseError code message \<Rightarrow> code = - 32004 \<or> contains ''Block not available'' message
      | RpcOtherError message \<Rightarrow> contains ''Block not available'' message)"

definition config_and_vault ::
  "tools \<Rightarrow> 'w node \<Rightarrow> pubkey \<Rightarrow> CommitmentConfig \<Rightarrow> ('w, PegError, Config \<times> u64) act" where
  "config_and_vault tools nd program_id commitment =
     perform (action_err (PegRpc ''getMultipleAccounts(config, vault)'')
       (nd_get_multiple_accounts nd commitment
         [fst (config_pda (to_find_pda tools) program_id), fst (vault_pda (to_find_pda tools) program_id)])) (\<lambda>accounts.
     let data = (case accounts of Some a # _ \<Rightarrow> ra_data a | _ \<Rightarrow> []);
         vault = (case accounts of _ # Some a # _ \<Rightarrow> ra_lamports a | _ \<Rightarrow> 0) in
     pure (attempt (map_err PegBridge (Config_decode (to_sha256 tools) data)) (\<lambda>cfg. Inr (cfg, vault))))"

definition peg_read_config ::
  "tools \<Rightarrow> 'w node \<Rightarrow> pubkey \<Rightarrow> CommitmentConfig \<Rightarrow> ('w, PegError, Config) act" where
  "peg_read_config tools nd program_id commitment =
     perform (action_err (PegRpc ''getAccountInfo(config)'')
       (nd_get_account nd commitment (fst (config_pda (to_find_pda tools) program_id)))) (\<lambda>account.
     let data = (case account of Some a \<Rightarrow> ra_data a | None \<Rightarrow> []) in
     pure (map_err PegBridge (Config_decode (to_sha256 tools) data)))"

definition send_all :: "'w node \<Rightarrow> pubkey \<Rightarrow> Instruction list \<Rightarrow> ('w, PegError, unit) act" where
  "send_all nd orc instructions =
     perform (action_err (PegRpc ''getLatestBlockhash'') (nd_get_latest_blockhash nd)) (\<lambda>blockhash.
     action_err (PegRpc ''sendTransaction'') (nd_send_and_confirm nd
       \<lparr>st_instructions = instructions, st_payer = orc, st_blockhash = blockhash\<rparr>))"

definition send :: "'w node \<Rightarrow> pubkey \<Rightarrow> Instruction \<Rightarrow> ('w, PegError, unit) act" where
  "send nd orc instruction = send_all nd orc [instruction]"

text \<open>The statuses of the overlapping proposals, in their order.\<close>

fun overlap_statuses ::
  "tools \<Rightarrow> 'w node \<Rightarrow> tip \<Rightarrow> (Proposal \<times> BundleStatus) list \<Rightarrow> Proposal list \<Rightarrow>
     ('w, PegError, (Proposal \<times> BundleStatus) list) act" where
  "overlap_statuses tools nd tip statuses [] = return statuses"
| "overlap_statuses tools nd tip statuses (proposal # rest) =
     perform (pure (ok_or (to_parse_txid tools (pr_m6id proposal)) (BadM6id (pr_m6id proposal)) Inr)) (\<lambda>own.
     perform (bundle_status_at nd tip (pr_sealed_height proposal) own) (\<lambda>status.
     overlap_statuses tools nd tip (statuses @ [(proposal, status)]) rest))"

definition check_overlap ::
  "tools \<Rightarrow> 'w node \<Rightarrow> Proposals \<Rightarrow> u64 \<times> u64 \<Rightarrow> string option \<Rightarrow> ('w, PegError, unit) act" where
  "check_overlap tools nd proposals rng own =
     (if fst rng < kp_dropped_through (ps_kept proposals)
      then pure (Inl (BelowDropped (fst rng) (kp_dropped_through (ps_kept proposals))))
      else if overlapping proposals rng own = [] then return ()
      else
        perform (action_err PegEnforcer (nd_tip nd)) (\<lambda>tip.
        perform (overlap_statuses tools nd tip [] (overlapping proposals rng own)) (\<lambda>statuses.
        case blocking statuses (snd tip) of
          Some proposal \<Rightarrow> pure (Inl (Overlap (pr_m6id proposal) (fst rng) (snd rng)))
        | None \<Rightarrow> return ())))"

definition closed_through :: "u64 \<Rightarrow> u64 \<Rightarrow> WithdrawalRecord list \<Rightarrow> u64" where
  "closed_through cursor final_paid_through left =
     (let lower = filter (\<lambda>index. index < final_paid_through) (map wr_index left) in
      max cursor (if lower = [] then final_paid_through else Min (set lower)))"

fun close_batches ::
  "tools \<Rightarrow> 'w node \<Rightarrow> pubkey \<Rightarrow> pubkey \<Rightarrow> WithdrawalRecord list list \<Rightarrow> ('w, PegError, unit) act" where
  "close_batches tools nd program_id orc [] = return ()"
| "close_batches tools nd program_id orc (batch # rest) =
     perform (send_all nd orc
       (map (\<lambda>r. close_record_ix (to_sha256 tools) (to_find_pda tools) program_id (wr_owner r) (wr_index r)) batch))
       (\<lambda>_. close_batches tools nd program_id orc rest)"

definition close_paid ::
  "tools \<Rightarrow> 'w node \<Rightarrow> pubkey \<Rightarrow> pubkey \<Rightarrow> Config \<Rightarrow> Config \<Rightarrow> ('w, unit) peg_act" where
  "close_paid tools nd program_id orc processed finalized =
     perform get_memory (\<lambda>memory.
     if paid_through processed \<le> me_closed_through memory then return ()
     else
       perform (on_world (read_records tools nd program_id
         (me_closed_through memory, paid_through processed) Processed)) (\<lambda>rs.
       perform (on_world (close_batches tools nd program_id orc (chunks CLOSE_BATCH rs))) (\<lambda>_.
       perform (on_world (read_records tools nd program_id
         (me_closed_through memory, paid_through finalized) Finalized)) (\<lambda>left.
       put_memory (memory\<lparr>me_closed_through :=
         closed_through (me_closed_through memory) (paid_through finalized) left\<rparr>)))))"

section \<open>One pass\<close>

record live_view =
  lv_blinded :: Transaction
  lv_m6id :: array32
  lv_live :: "u64 \<times> u64"
  lv_tip :: tip

text \<open>The first half of a pass: the live bundle, checked against the sealed M6ID, and its status.\<close>

definition view_bundle ::
  "tools \<Rightarrow> 'w node \<Rightarrow> pubkey \<Rightarrow> Config \<Rightarrow> Config \<Rightarrow> ('w, View \<times> live_view option) peg_act" where
  "view_bundle tools nd program_id processed finalized =
     (let view = \<lparr>vw_processed = processed, vw_finalized = finalized, vw_status = StatusUnknown,
                  vw_tip_height = 0\<rparr>
      in case (live_bundle processed, live_bundle finalized) of
           (Some _, Some live) \<Rightarrow>
             perform (on_world (live_records tools nd program_id live Finalized)) (\<lambda>rs.
             perform (pure (map_err PegM6 (bundle_of (to_bitcoin tools) rs))) (\<lambda>blinded.
             let own = m6id (to_bitcoin tools) blinded in
             if own \<noteq> bundle_m6id finalized
             then pure (Inl (SealedM6idMismatch own (bundle_m6id finalized)))
             else
               perform (on_world (action_err PegEnforcer (nd_tip nd))) (\<lambda>tip.
               perform get_memory (\<lambda>memory.
               perform (on_world (look (\<lambda>w. scan_bundle (nd_headers nd w) (nd_peg_events nd w) tip
                 (bundle_sealed_height finalized) own (me_scan memory)))) (\<lambda>scan.
               perform (put_memory (memory\<lparr>me_scan := Some scan\<rparr>)) (\<lambda>_.
               return (view\<lparr>vw_status := sc_status scan, vw_tip_height := snd tip\<rparr>,
                 Some \<lparr>lv_blinded = blinded, lv_m6id = own, lv_live = live, lv_tip = tip\<rparr>)))))))
         | _ \<Rightarrow> return (view, None))"

definition seal_step ::
  "tools \<Rightarrow> 'w node \<Rightarrow> pubkey \<Rightarrow> pubkey \<Rightarrow> Config \<Rightarrow> Config \<Rightarrow> ('w, unit) peg_act" where
  "seal_step tools nd program_id orc processed finalized =
     (let start = paid_through processed;
          end = min (saturating_add start MAX_BUNDLE_RECORDS) (withdrawal_count finalized)
      in if start < end
         then
           perform get_memory (\<lambda>memory.
           perform (on_world (check_overlap tools nd (me_proposals memory) (start, end) None)) (\<lambda>_.
           perform (on_world (live_records tools nd program_id (start, end) Finalized)) (\<lambda>rs.
           perform (pure (map_err PegM6 (bundle_of (to_bitcoin tools) rs))) (\<lambda>blinded.
           on_world (send nd orc (seal_bundle_ix (to_sha256 tools) (to_find_pda tools) program_id orc end
             (m6id (to_bitcoin tools) blinded)))))))
         else return ())"

definition propose_step ::
  "tools \<Rightarrow> 'w file_calls \<Rightarrow> 'w node \<Rightarrow> Config \<Rightarrow> View \<Rightarrow> live_view \<Rightarrow> ('w, unit) peg_act" where
  "propose_step tools fs nd finalized view lv =
     (let i = hash_text (lv_m6id lv) in
      perform get_memory (\<lambda>memory.
      perform (on_world (check_overlap tools nd (me_proposals memory) (lv_live lv) (Some i))) (\<lambda>_.
      let proposal = \<lparr>pr_start = fst (lv_live lv), pr_end = snd (lv_live lv), pr_m6id = i,
            pr_sealed_height = bundle_sealed_height finalized, pr_proposed_at = - 1\<rparr> in
      perform (on_journal (add fs proposal)) (\<lambda>_.
      perform (on_world (action_err PegEnforcer (nd_propose_withdrawal_bundle nd (lv_blinded lv)))) (\<lambda>_.
      perform (on_world (action_err PegEnforcer (nd_tip nd))) (\<lambda>after.
      on_journal (add fs (proposal\<lparr>pr_proposed_at := max (vw_tip_height view) (snd after)\<rparr>))))))))"

definition paid_step ::
  "tools \<Rightarrow> 'w node \<Rightarrow> pubkey \<Rightarrow> pubkey \<Rightarrow> live_view \<Rightarrow> u64 \<Rightarrow> u32 \<Rightarrow> ('w, unit) peg_act" where
  "paid_step tools nd program_id orc lv through height =
     perform (on_world (action_err PegEnforcer (look (\<lambda>w. block_at (nd_headers nd w) (lv_tip lv) height)))) (\<lambda>(block_hash, prev).
     on_world (send nd orc (bundle_paid_ix (to_sha256 tools) (to_find_pda tools) program_id orc through
       (ucast height) block_hash (lv_m6id lv))))"

definition pass ::
  "tools \<Rightarrow> 'w file_calls \<Rightarrow> 'w node \<Rightarrow> Settings \<Rightarrow> pubkey \<Rightarrow> ('w, unit) peg_act" where
  "pass tools fs nd opts orc =
     (let program_id = se_program_id opts in
      perform (on_world (peg_read_config tools nd program_id Processed)) (\<lambda>processed.
      perform (on_world (peg_read_config tools nd program_id Finalized)) (\<lambda>finalized.
      perform (on_journal (drop_paid fs (paid_through finalized))) (\<lambda>_.
      perform (view_bundle tools nd program_id processed finalized) (\<lambda>(view, bundle).
      perform
        (case decide view of
           Wait \<Rightarrow> return ()
         | Seal \<Rightarrow> seal_step tools nd program_id orc processed finalized
         | Propose \<Rightarrow>
             (case bundle of Some lv \<Rightarrow> propose_step tools fs nd finalized view lv | None \<Rightarrow> return ())
         | MarkPaid through height \<Rightarrow>
             (case bundle of Some lv \<Rightarrow> paid_step tools nd program_id orc lv through height | None \<Rightarrow> return ())) (\<lambda>_.
      close_paid tools nd program_id orc processed finalized))))))"

text \<open>
  The start of the peg before its loop, and one turn of the loop: it ends only with the error of a
  bundle that eCash can never pay.
\<close>

definition start_peg ::
  "tools \<Rightarrow> 'w file_calls \<Rightarrow> 'w node \<Rightarrow> Settings \<Rightarrow> path \<Rightarrow> ('w, PegError, Memory) act" where
  "start_peg tools fs nd opts log_path =
     perform (action_err PegProposals (load fs log_path)) (\<lambda>proposals.
     perform (peg_read_config tools nd (se_program_id opts) Processed) (\<lambda>cfg.
     perform (pure (map_err PegProposals
       (check_journal proposals (withdrawal_count cfg) (se_new_bundle_log opts)))) (\<lambda>_.
     (\<lambda>w. case persist fs (proposals, w) of
            (r, (ps, w')) \<Rightarrow>
              (map_err PegProposals (attempt r (\<lambda>_.
                Inr \<lparr>me_proposals = ps, me_closed_through = 0, me_scan = None\<rparr>)), w')))))"

fun peg_loop ::
  "tools \<Rightarrow> 'w file_calls \<Rightarrow> 'w node \<Rightarrow> Settings \<Rightarrow> pubkey \<Rightarrow> nat \<Rightarrow> Memory \<times> 'w \<Rightarrow>
     PegError option \<times> (Memory \<times> 'w)" where
  "peg_loop tools fs nd opts orc 0 s = (None, s)"
| "peg_loop tools fs nd opts orc (Suc turns) s =
     (case pass tools fs nd opts orc s of
        (Inl (SealedM6idMismatch built sealed), s') \<Rightarrow> (Some (SealedM6idMismatch built sealed), s')
      | (_, s') \<Rightarrow> peg_loop tools fs nd opts orc turns s')"

end
