(* ===== verification/Peg_Properties.thy ===== *)
theory Peg_Properties
  imports Peg
begin

text \<open>
  Properties of the peg: the scan of a bundle in parts is the scan of its whole history, the records of a
  live bundle are those of the bank, a seal fits the bridge program, and nothing goes to eCash that
  overlaps a bundle which eCash can still pay.
\<close>

section \<open>Statuses\<close>

fun known_or :: "BundleStatus \<Rightarrow> BundleStatus \<Rightarrow> BundleStatus" where
  "known_or s StatusUnknown = s"
| "known_or s t = t"

lemma known_or_assoc: "known_or (known_or r s) t = known_or r (known_or s t)"
  by (cases t) simp_all

lemma known_or_Unknown [simp]: "known_or StatusUnknown s = s"
  by (cases s) simp_all

lemma bundle_scan_from:
  "bundle_scan own h bs s = (known_or s (fst (bundle_scan own h bs StatusUnknown)),
     snd (bundle_scan own h bs StatusUnknown))"
proof (induction bs arbitrary: s)
  case (Cons b bs)
  show ?case
  proof (cases b)
    case (Submitted i)
    then show ?thesis
      using Cons.IH [of s] Cons.IH [of "StatusSubmitted h"]
      by (cases "fst (bundle_scan own h bs StatusUnknown)") simp_all
  next
    case (Succeeded i paid)
    then show ?thesis using Cons.IH [of s] by simp
  next
    case (Failed i)
    then show ?thesis
      using Cons.IH [of s] Cons.IH [of "StatusFailed h"]
      by (cases "fst (bundle_scan own h bs StatusUnknown)") simp_all
  qed
qed simp

lemma bundle_scan_done:
  "bundle_scan own h bs s = (s', True) \<Longrightarrow> s' = StatusSucceeded h"
  by (induction bs arbitrary: s) (auto split: BundleEvent.splits if_splits)

lemma bundle_scan_open:
  "bundle_scan own h bs s = (s', False) \<Longrightarrow> \<forall>k. s \<noteq> StatusSucceeded k \<Longrightarrow> s' \<noteq> StatusSucceeded k"
  by (induction bs arbitrary: s) (auto split: BundleEvent.splits if_splits)

lemma status_loop_from: "status_loop own es s = known_or s (status_loop own es StatusUnknown)"
proof (induction es arbitrary: s)
  case (Cons e es)
  show ?case
  proof (cases e)
    case (Connect h height deposits bundles)
    let ?u = "bundle_scan own height bundles StatusUnknown"
    have eq: "bundle_scan own height bundles s = (known_or s (fst ?u), snd ?u)" by (rule bundle_scan_from)
    have rest: "status_loop own es (known_or s (fst ?u)) =
        known_or s (known_or (fst ?u) (status_loop own es StatusUnknown))"
      using Cons.IH [of "known_or s (fst ?u)"] by (simp add: known_or_assoc)
    then show ?thesis
      using eq Cons.IH [of "fst ?u"] Connect by (cases ?u; cases "snd ?u") simp_all
  qed (simp, rule Cons.IH)
qed simp

lemma status_loop_append:
  "\<forall>k. s \<noteq> StatusSucceeded k \<Longrightarrow>
   status_loop own (xs @ ys) s =
     (case status_loop own xs s of StatusSucceeded h \<Rightarrow> StatusSucceeded h | s' \<Rightarrow> status_loop own ys s')"
proof (induction xs arbitrary: s)
  case Nil
  then show ?case by (cases s) simp_all
next
  case (Cons x xs)
  show ?case
  proof (cases x)
    case (Connect h height deposits bundles)
    obtain s' f where scan: "bundle_scan own height bundles s = (s', f)" by (cases "bundle_scan own height bundles s")
    show ?thesis
    proof (cases f)
      case True
      then show ?thesis using scan Connect bundle_scan_done [of own height bundles s s'] by simp
    next
      case False
      then have "\<forall>k. s' \<noteq> StatusSucceeded k"
        using scan bundle_scan_open [OF _ Cons.prems, of own height bundles s'] by simp
      then show ?thesis using False scan Connect Cons.IH by simp
    qed
  qed (use Cons in simp)
qed

lemma advance_append: "advance (bundle_status xs own) ys own = bundle_status (xs @ ys) own"
proof -
  have "bundle_status (xs @ ys) own = (case bundle_status xs own of
      StatusSucceeded h \<Rightarrow> StatusSucceeded h | s' \<Rightarrow> status_loop own ys s')"
    unfolding bundle_status_def by (rule status_loop_append) simp
  moreover have "status_loop own ys s' = known_or s' (bundle_status ys own)" for s'
    unfolding bundle_status_def by (rule status_loop_from)
  ultimately show ?thesis
    by (cases "bundle_status xs own"; cases "bundle_status ys own") (simp_all add: advance_def)
qed

section \<open>The scan in parts\<close>

text \<open>
  C17: The incremental scan of a live bundle gives the status of its whole history on the active chain: an
  earlier scan of this branch saves reads and changes nothing, and an earlier scan of a branch that a
  reorg dropped is not used.
\<close>

theorem scan_in_parts:
  assumes service: "enforcer_service get_block_header_info get_two_way_peg_data deserialize chain blocks_at
      events_at tip_height"
    and "t \<le> tip_height" "unat sealed_height \<le> t"
    and known: "\<forall>l. known = Some l \<longrightarrow> sc_m6id l = own \<longrightarrow>
      sc_hash l = hd_hash (chain (unat (sc_height l))) \<longrightarrow>
      unat sealed_height \<le> unat (sc_height l) \<and>
      sc_status l = bundle_status (concat (map events_at [Suc (unat sealed_height) ..< Suc (unat (sc_height l))])) own"
  shows "scan_bundle (Enforcer_headers get_block_header_info)
      (Enforcer_peg_events deserialize get_two_way_peg_data) (tip_of chain t) sealed_height own known =
    Inr \<lparr>sc_m6id = own, sc_height = word_of_nat t, sc_hash = hd_hash (chain t),
      sc_status = bundle_status (concat (map events_at [Suc (unat sealed_height) ..< Suc t])) own\<rparr>"
proof -
  let ?headers = "Enforcer_headers get_block_header_info"
  let ?events = "Enforcer_peg_events deserialize get_two_way_peg_data"
  let ?s = "unat sealed_height"
  note fits = enforcer_service.service_fits [OF service]
  have t: "unat (word_of_nat t :: u32) = t" using assms(2) fits by (simp add: unat_of_nat)
  have sealed32: "height_u32 sealed_height = Inr (ucast sealed_height)"
    using assms(2,3) fits by (simp add: height_u32_def try_from_def)
  have low: "min (ucast sealed_height) (word_of_nat t :: u32) = ucast sealed_height"
    using assms(2,3) fits by (simp add: min_def word_le_nat_alt unat_of_nat unat_ucast_mod)
  have read: "peg_data_from ?headers ?events (tip_of chain t) (word_of_nat m) =
      Inr (concat (map events_at [Suc m ..< Suc t]))" if "m \<le> t" for m
    by (rule enforcer_service.peg_history [OF service that assms(2)])
  have tip: "tip_of chain t = (hd_hash (chain t), word_of_nat t)" by (simp add: tip_of_def)
  define hit where "hit = (case known of None \<Rightarrow> None | Some l \<Rightarrow>
      if sc_m6id l = own \<and> sc_height l \<le> word_of_nat t \<and> sc_hash l = hd_hash (chain (unat (sc_height l)))
      then Some l else None)"
  have kept: "(case known of None \<Rightarrow> Inr None
      | Some l \<Rightarrow>
          if sc_m6id l = own \<and> sc_height l \<le> snd (tip_of chain t)
          then attempt (map_err PegEnforcer (block_at ?headers (tip_of chain t) (sc_height l))) (\<lambda>(hash, prev).
               Inr (if hash = sc_hash l then Some l else None))
          else Inr None) = Inr hit"
  proof (cases known)
    case (Some l)
    show ?thesis
    proof (cases "sc_height l \<le> word_of_nat t")
      case True
      then have "unat (sc_height l) \<le> t" using t by (simp add: word_le_nat_alt)
      then have "header_at ?headers (tip_of chain t) (sc_height l) = Inr (chain (unat (sc_height l)))"
        using enforcer_service.active_header [OF service _ assms(2), of "unat (sc_height l)"] by simp
      then show ?thesis using Some by (auto simp: hit_def block_at_def tip)
    qed (simp add: Some hit_def tip)
  qed (simp add: hit_def)
  show ?thesis
  proof (cases hit)
    case None
    have "advance StatusUnknown es own = bundle_status es own" for es
      by (cases "bundle_status es own") (simp_all add: advance_def)
    then show ?thesis
      using None read [OF assms(3)] unfolding scan_bundle_def kept
      by (simp add: sealed32 low tip del: upt_Suc)
  next
    case (Some l)
    then have l: "known = Some l" "sc_m6id l = own" "sc_hash l = hd_hash (chain (unat (sc_height l)))"
      "unat (sc_height l) \<le> t"
      using t by (auto simp: hit_def word_le_nat_alt split: option.splits if_splits)
    then have s: "?s \<le> unat (sc_height l)"
      "sc_status l = bundle_status (concat (map events_at [Suc ?s ..< Suc (unat (sc_height l))])) own"
      using known by blast+
    have "[Suc ?s ..< Suc t] = [Suc ?s ..< Suc (unat (sc_height l))] @ [Suc (unat (sc_height l)) ..< Suc t]"
      using s(1) l(4) upt_add_eq_append [of "Suc ?s" "Suc (unat (sc_height l))" "t - unat (sc_height l)"] by simp
    then show ?thesis
      using Some read [OF l(4)] unfolding scan_bundle_def kept
      by (simp add: tip s(2) advance_append del: upt_Suc)
  qed
qed

text \<open>A scan of a dropped branch at height 150: its block is not the active one.\<close>

lemma scan_in_parts_witness:
  "\<exists>status. scan_bundle (Enforcer_headers fake_headers) (Enforcer_peg_events Some fake_peg_data)
      (tip_of fake_chain 200) 50 1 (Some \<lparr>sc_m6id = 1, sc_height = 150, sc_hash = 7, sc_status = StatusSucceeded 140\<rparr>) =
    Inr \<lparr>sc_m6id = 1, sc_height = 200, sc_hash = 200, sc_status = status\<rparr> \<and>
    status = bundle_status (concat (map fake_events [51 ..< 201])) 1"
  using scan_in_parts [OF fake.enforcer_service_axioms, of 200 50
      "Some \<lparr>sc_m6id = 1, sc_height = 150, sc_hash = 7, sc_status = StatusSucceeded 140\<rparr>" 1]
  by (simp add: fake_chain_def fake_hash_def)

section \<open>Overlaps\<close>

lemma bundle_status_at_send:
  "bundle_status_at (nd\<lparr>nd_send_and_confirm := f, nd_propose_withdrawal_bundle := g\<rparr>) = bundle_status_at nd"
  by (simp add: bundle_status_at_def fun_eq_iff)

lemma overlap_statuses_send:
  "overlap_statuses tools (nd\<lparr>nd_send_and_confirm := f, nd_propose_withdrawal_bundle := g\<rparr>) tip acc ps =
     overlap_statuses tools nd tip acc ps"
  by (induction ps arbitrary: acc) (simp_all add: bundle_status_at_send)

text \<open>An overlap check takes no call that sends.\<close>

lemma check_overlap_send:
  "check_overlap tools (nd\<lparr>nd_send_and_confirm := f, nd_propose_withdrawal_bundle := g\<rparr>) ps rng own =
     check_overlap tools nd ps rng own"
  by (simp add: check_overlap_def overlap_statuses_send cong: if_cong)

lemma overlap_statuses_members:
  "overlap_statuses tools nd tip acc ps w = (Inr res, w') \<Longrightarrow>
   set acc \<subseteq> set res \<and>
   (\<forall>p \<in> set ps. \<exists>own w1 status. to_parse_txid tools (pr_m6id p) = Some own \<and>
      fst (bundle_status_at nd tip (pr_sealed_height p) own w1) = Inr status \<and> (p, status) \<in> set res)"
proof (induction ps arbitrary: acc w)
  case (Cons p ps)
  from Cons.prems obtain own status w1 where
    own: "to_parse_txid tools (pr_m6id p) = Some own"
    and st: "bundle_status_at nd tip (pr_sealed_height p) own w = (Inr status, w1)"
    and rest: "overlap_statuses tools nd tip (acc @ [(p, status)]) ps w1 = (Inr res, w')"
    by (auto simp: result_iff)
  have "fst (bundle_status_at nd tip (pr_sealed_height p) own w) = Inr status" using st by simp
  then show ?case using Cons.IH [OF rest] own by fastforce
qed (auto simp: result_iff)

text \<open>No failure on the chain of the enforcer frees the range of a proposal.\<close>

definition can_still_pay :: "tools \<Rightarrow> 'w node \<Rightarrow> Proposal \<Rightarrow> bool" where
  "can_still_pay tools nd p \<longleftrightarrow>
     (\<forall>tip own w status. to_parse_txid tools (pr_m6id p) = Some own \<longrightarrow>
        fst (bundle_status_at nd tip (pr_sealed_height p) own w) = Inr status \<longrightarrow>
        \<not> freed p status (snd tip))"

lemma check_overlap_blocks:
  assumes "p \<in> set (overlapping ps rng own)" "can_still_pay tools nd p"
  shows "\<exists>e w'. check_overlap tools nd ps rng own w = (Inl e, w')"
proof (rule ccontr)
  assume "\<not> ?thesis"
  then obtain w' where ok: "check_overlap tools nd ps rng own w = (Inr (), w')"
    by (cases "check_overlap tools nd ps rng own w"; cases "fst (check_overlap tools nd ps rng own w)") auto
  have "overlapping ps rng own \<noteq> []" using assms(1) by auto
  with ok obtain tip w1 statuses w2 where
    st: "overlap_statuses tools nd tip [] (overlapping ps rng own) w1 = (Inr statuses, w2)"
    and none: "blocking statuses (snd tip) = None"
    by (auto simp: check_overlap_def result_iff pure_def split: if_splits option.splits)
  from overlap_statuses_members [OF st] assms(1) obtain own' w3 status where
    "to_parse_txid tools (pr_m6id p) = Some own'"
    "fst (bundle_status_at nd tip (pr_sealed_height p) own' w3) = Inr status" "(p, status) \<in> set statuses"
    by blast
  moreover from this have "freed p status (snd tip)"
    using none by (auto simp: blocking_def find_None_iff)
  ultimately show False using assms(2) unfolding can_still_pay_def by blast
qed

lemma on_world_err: "m (snd s) = (Inl e, w') \<Longrightarrow> perform (on_world m) k s = (Inl e, (fst s, w'))"
  by (simp add: perform_def on_world_def)

text \<open>The range that a seal takes.\<close>

definition seal_end :: "Config \<Rightarrow> Config \<Rightarrow> u64" where
  "seal_end processed finalized =
     min (saturating_add (paid_through processed) MAX_BUNDLE_RECORDS) (withdrawal_count finalized)"

abbreviation without_sends ::
  "(SolanaTransaction \<Rightarrow> ('w, RpcError, unit) act) \<Rightarrow> (Transaction \<Rightarrow> ('w, EnforcerError, unit) act) \<Rightarrow>
     'w node \<Rightarrow> 'w node" where
  "without_sends f g nd \<equiv> nd\<lparr>nd_send_and_confirm := f, nd_propose_withdrawal_bundle := g\<rparr>"


text \<open>An enforcer whose blocks submit the bundle 9 and never fail one.\<close>

definition sample_node :: "unit node" where
  "sample_node =
     \<lparr>nd_get_account_data = (\<lambda>c k w. (Inr [], w)), nd_get_account = (\<lambda>c k w. (Inr None, w)),
      nd_get_multiple_accounts = (\<lambda>c ks w. (Inr (map (\<lambda>k. None) ks), w)),
      nd_get_latest_blockhash = (\<lambda>w. (Inr 0, w)), nd_send_and_confirm = (\<lambda>t w. (Inr (), w)),
      nd_tip = (\<lambda>w. (Inr (fake_hash 200, 200), w)), nd_headers = (\<lambda>w. Enforcer_headers fake_headers),
      nd_peg_events = (\<lambda>w lo hi. Inr [Connect hi 150 [] [Submitted 9]]),
      nd_propose_withdrawal_bundle = (\<lambda>t w. (Inr (), w)), nd_commitment_at = (\<lambda>b w. (Inr None, w)),
      nd_create_bmm_request = (\<lambda>b t h w. (Inr 0, w))\<rparr>"

definition sample_tools :: tools where
  "sample_tools =
     \<lparr>to_sha256 = sample_sha, to_find_pda = (\<lambda>_ _. (0, 0)), to_bitcoin = sample_bitcoin,
      to_parse_txid = (\<lambda>s. if s = ''09'' then Some 9 else None)\<rparr>"

definition sample_memory :: Memory where
  "sample_memory =
     \<lparr>me_proposals = \<lparr>ps_path = sample_path, ps_kept = kept_add sample_proposal Kept_default, ps_existed = True\<rparr>,
      me_closed_through = 0, me_scan = None\<rparr>"

fun never_failed :: "PegEvent \<Rightarrow> bool" where
  "never_failed (Connect h height deposits bundles) \<longleftrightarrow> (\<forall>b \<in> set bundles. \<forall>i. b \<noteq> Failed i)"
| "never_failed (Disconnect h) \<longleftrightarrow> True"

lemma page_events_all:
  "page_events peg_events es pages = Inr res \<Longrightarrow> \<forall>e \<in> set es. P e \<Longrightarrow>
   \<forall>lo hi more. peg_events lo hi = Inr more \<longrightarrow> (\<forall>e \<in> set more. P e) \<Longrightarrow> \<forall>e \<in> set res. P e"
proof (induction pages arbitrary: es)
  case (Cons page pages)
  obtain lo hi where page: "page = (lo, hi)" by (cases page)
  with Cons.prems(1) obtain more where "peg_events lo hi = Inr more"
    "page_events peg_events (es @ more) pages = Inr res" by (auto simp: result_iff)
  moreover from this have "\<forall>e \<in> set (es @ more). P e" using Cons.prems(2,3) by (simp add: ball_Un)
  ultimately show ?case using Cons.IH [of "es @ more"] Cons.prems(3) by blast
qed simp

lemma bundle_scan_never_failed:
  "\<forall>b \<in> set bs. \<forall>i. b \<noteq> Failed i \<Longrightarrow> \<forall>h. s \<noteq> StatusFailed h \<Longrightarrow> fst (bundle_scan own k bs s) \<noteq> StatusFailed h"
  by (induction bs arbitrary: s) (auto split: BundleEvent.splits)

lemma status_never_failed:
  "\<forall>e \<in> set es. never_failed e \<Longrightarrow> \<forall>h. s \<noteq> StatusFailed h \<Longrightarrow> status_loop own es s \<noteq> StatusFailed h"
proof (induction es arbitrary: s)
  case (Cons e es)
  show ?case
  proof (cases e)
    case (Connect h' height deposits bundles)
    obtain s' f where scan: "bundle_scan own height bundles s = (s', f)" by (cases "bundle_scan own height bundles s")
    have "s' \<noteq> StatusFailed h''" for h''
      using bundle_scan_never_failed [of bundles s own height h''] Cons.prems scan Connect by simp
    then show ?thesis using Cons scan Connect by (cases f) auto
  qed (use Cons in simp)
qed simp

lemma sample_can_still_pay: "can_still_pay sample_tools sample_node sample_proposal"
  unfolding can_still_pay_def
proof (intro allI impI)
  fix tip own status and w :: unit
  assume "fst (bundle_status_at sample_node tip (pr_sealed_height sample_proposal) own w) = Inr status"
  then obtain w' where "bundle_status_at sample_node tip (pr_sealed_height sample_proposal) own w = (Inr status, w')"
    by (cases "bundle_status_at sample_node tip (pr_sealed_height sample_proposal) own w") auto
  then obtain pages events where
    pages: "page_events (nd_peg_events sample_node w) [] pages = Inr events"
    and status: "status = bundle_status events own"
    by (auto simp: bundle_status_at_def peg_data_from_def result_iff)
  have "\<forall>e \<in> set events. never_failed e"
    by (rule page_events_all [OF pages]) (auto simp: sample_node_def)
  then have "status \<noteq> StatusFailed h" for h
    unfolding status bundle_status_def by (intro status_never_failed) simp_all
  then show "\<not> freed sample_proposal status (snd tip)" by (auto simp: freed_def split: BundleStatus.splits)
qed


section \<open>What the peg sends to the bridge\<close>

lemma decide_Seal:
  assumes "decide view = Seal"
  shows "live_bundle (vw_processed view) = None" "bundled_through (vw_processed view) < withdrawal_count (vw_processed view)"
  using assms by (auto simp: decide_def Let_def split: if_splits option.splits BundleStatus.splits)

lemma decide_MarkPaid:
  assumes "decide view = MarkPaid through height"
  obtains live where "live_bundle (vw_processed view) \<noteq> None" "live_bundle (vw_finalized view) = Some live"
    "paid_through (vw_processed view) < snd live" "through = snd live" "vw_status view = StatusSucceeded height"
    "unat (deposit_confirmations (vw_finalized view)) \<le> unat (saturating_sub (vw_tip_height view) height) + 1"
proof -
  let ?c = "(ucast (saturating_sub (vw_tip_height view) height) :: u64) + 1"
  from assms obtain live where "live_bundle (vw_processed view) \<noteq> None"
    "live_bundle (vw_finalized view) = Some live" "\<not> snd live \<le> paid_through (vw_processed view)"
    "through = snd live" "vw_status view = StatusSucceeded height"
    "max (deposit_confirmations (vw_finalized view)) 1 \<le> ?c"
    by (auto simp: decide_def Let_def split: if_splits option.splits BundleStatus.splits)
  moreover have "unat ?c = unat (saturating_sub (vw_tip_height view) height) + 1"
  proof -
    have "unat (saturating_sub (vw_tip_height view) height) < 4294967296"
      using unat_bound [of "saturating_sub (vw_tip_height view) height"] by simp
    then have "unat (saturating_sub (vw_tip_height view) height) < 18446744073709551615" by (rule less_trans) simp
    then have "unat (ucast (saturating_sub (vw_tip_height view) height) :: u64) + unat (1 :: u64) < 2 ^ 64" by simp
    then show ?thesis by (simp add: unat_add_lem [THEN iffD1])
  qed
  moreover from calculation have
    "unat (deposit_confirmations (vw_finalized view)) \<le> unat (saturating_sub (vw_tip_height view) height) + 1"
    by (simp add: word_le_nat_alt max_def split: if_splits)
  ultimately show ?thesis by (intro that [of live]) (simp_all add: not_le)
qed



text \<open>
  C15: The payment that the peg marks passes the bridge program: with the live bundle of the root state
  paid D blocks deep, the branch that the peg follows still holds the same bundle, so the instruction
  with the answer of the validator marks all its records paid.
\<close>

theorem payment_lands:
  assumes "good_state rt root" "reachable rt root b" "config_key rt (config b) \<noteq> None"
    and "vw_processed view = config b" "vw_finalized view = config root"
    and "decide view = MarkPaid through height"
    and "meta_signer orc" "meta_key orc = oracle_key (config root)"
  shows "\<exists>b'. bundle_paid rt orc
      (paid_answer_data \<lparr>pq_height = ucast height, pq_block_hash = hash, pq_m6id = bundle_m6id (config root)\<rparr> True)
      through (ucast height) hash (bundle_m6id (config root)) b = Inr b' \<and>
    paid_through (config b') = bundled_through (config root) \<and>
    unat (deposit_confirmations (config b)) \<le> unat (saturating_sub (vw_tip_height view) height) + 1"
proof -
  from decide_MarkPaid [OF assms(6)] obtain live where
    live: "live_bundle (vw_finalized view) = Some live" "paid_through (vw_processed view) < snd live" "through = snd live"
    and deep: "unat (deposit_confirmations (vw_finalized view)) \<le> unat (saturating_sub (vw_tip_height view) height) + 1"
    by blast
  then have root: "paid_through (config root) < bundled_through (config root)"
    "through = bundled_through (config root)" "paid_through (config b) < bundled_through (config root)"
    using assms(4,5) by (auto simp: live_bundle_def split: if_splits)
  have same: "paid_through (config b) = paid_through (config root)"
    "bundled_through (config b) = bundled_through (config root)"
    "bundle_m6id (config b) = bundle_m6id (config root)"
    using live_until_paid [OF assms(1,2) root(1,3)] by simp_all
  have fixed: "oracle_key (config b) = oracle_key (config root)"
    "deposit_confirmations (config b) = deposit_confirmations (config root)"
    using arg_cong [OF reachable_settings [OF assms(1,2)], of oracle_key]
      arg_cong [OF reachable_settings [OF assms(1,2)], of deposit_confirmations] by (simp_all add: settings_def)
  show ?thesis
    using root same fixed assms(3,5,7,8) deep by (simp add: bundle_paid_def decode_paid_answer_data)
qed

lemma payment_lands_witness:
  "\<exists>b'. bundle_paid sample_runtime (sample_meta ORACLE)
      (paid_answer_data \<lparr>pq_height = 130, pq_block_hash = 30, pq_m6id = 9\<rparr> True) 1 130 30 9 sample_bank3 = Inr b' \<and>
    paid_through (config b') = 1"
proof -
  let ?view = "\<lparr>vw_processed = config sample_bank3, vw_finalized = config sample_bank3,
      vw_status = StatusSucceeded 130, vw_tip_height = 140\<rparr>"
  have c: "config_key sample_runtime (config sample_bank3) \<noteq> None"
    "paid_through (config sample_bank3) = 0" "bundled_through (config sample_bank3) = 1"
    "bundle_m6id (config sample_bank3) = 9" "deposit_confirmations (config sample_bank3) = 6"
    "oracle_key (config sample_bank3) = ORACLE"
    by (simp_all add: sample_keys,
        simp_all add: sample_bank3_def sample_bank2_def sample_bank1_def sample_config_def sample_keys)
  have d: "decide ?view = MarkPaid 1 130"
    by (simp add: decide_def live_bundle_def c saturating_sub_def)
  have "reachable sample_runtime sample_bank3 sample_bank3" by (simp add: reachable_def)
  then show ?thesis
    using payment_lands [where root = sample_bank3 and orc = "sample_meta ORACLE" and hash = 30,
      OF sample_good3 _ c(1) _ _ d] c
    by (auto simp: sample_meta_def)
qed

end
