(* ===== verification/Books.thy ===== *)
theory Books
  imports Peg_Properties Credit
begin

text \<open>
  The balance equations of the peg (\<^verbatim>\<open>daemon/src/books.rs\<close>). Its properties join the books with the
  bridge program: the instructions move lamports between the terms of the equation of the eCash
  treasury and never open it, and the program pays no withdrawal while the float has no backing.
\<close>

section \<open>The books\<close>

record Books =
  bo_supply :: u64
  bo_vault :: u64
  bo_float :: u64
  bo_pegged :: u64
  bo_stranded :: u64
  bo_ecash_treasury_sats :: u64
  bo_awaiting :: u64
  bo_awaiting_deposits :: nat
  bo_pending :: u64
  bo_pending_withdrawals :: nat

definition gifts :: "Books \<Rightarrow> u64 option" where
  "gifts books =
     (case checked_add (bo_vault books) (bo_pegged books) of
        None \<Rightarrow> None
      | Some n \<Rightarrow> checked_sub n (bo_supply books))"

definition vault_holds :: "Books \<Rightarrow> bool" where
  "vault_holds books \<longleftrightarrow> gifts books \<noteq> None"

definition Books_float_backed :: "Books \<Rightarrow> bool" where
  "Books_float_backed books = (case gifts books of None \<Rightarrow> False | Some g \<Rightarrow> bo_float books \<le> g)"

definition treasury_holds :: "Books \<Rightarrow> bool" where
  "treasury_holds books =
     (let left = checked_mul (bo_ecash_treasury_sats books) LAMPORTS_PER_SAT;
          right = Option.bind (checked_add (bo_pegged books) (bo_stranded books)) (\<lambda>n.
                  Option.bind (checked_add n (bo_awaiting books)) (\<lambda>n. checked_add n (bo_pending books)))
      in left \<noteq> None \<and> left = right)"

definition hold :: "Books \<Rightarrow> bool" where
  "hold books \<longleftrightarrow> vault_holds books \<and> Books_float_backed books \<and> treasury_holds books"

definition verdict :: "bool \<Rightarrow> string" where
  "verdict holds = (if holds then ''holds'' else ''DOES NOT HOLD'')"

definition number :: "u64 \<Rightarrow> string" where
  "number n = decimal (unat n)"

definition newline :: string where
  "newline = [CHR 0x0A]"

definition report :: "Books \<Rightarrow> string" where
  "report books =
     ''vault + pegged = supply + gifts: '' @ verdict (vault_holds books) @ newline @
     ''  vault                '' @ number (bo_vault books) @ newline @
     ''  pegged               '' @ number (bo_pegged books) @ newline @
     ''  supply               '' @ number (bo_supply books) @ newline @
     ''  gifts                '' @ (case gifts books of None \<Rightarrow> ''none'' | Some g \<Rightarrow> number g) @ newline @
     ''gifts >= float, so withdrawals are open: '' @ verdict (Books_float_backed books) @ newline @
     ''  float                '' @ number (bo_float books) @ newline @
     ''eCash treasury x 10 = pegged + stranded + awaiting credit + pending withdrawals: '' @
       verdict (treasury_holds books) @ newline @
     ''  eCash treasury x 10  '' @ number (saturating_mul (bo_ecash_treasury_sats books) LAMPORTS_PER_SAT) @
       '' ('' @ number (bo_ecash_treasury_sats books) @ '' sats)'' @ newline @
     ''  pegged               '' @ number (bo_pegged books) @ newline @
     ''  stranded             '' @ number (bo_stranded books) @ newline @
     ''  awaiting credit      '' @ number (bo_awaiting books) @
       '' ('' @ decimal (bo_awaiting_deposits books) @ '' deposits)'' @ newline @
     ''  pending withdrawals  '' @ number (bo_pending books) @
       '' ('' @ decimal (bo_pending_withdrawals books) @ '' records)'' @ newline"

datatype BooksError =
    BooksEnforcer EnforcerError | BooksBridge LayoutError | BooksPeg PegError | BooksM6 M6Error
  | BooksRpc string RpcError | BooksHeightTooLarge u64 | TipMoves

definition paid_on_ecash :: "BundleStatus \<Rightarrow> bool" where
  "paid_on_ecash status = (case status of StatusSucceeded h \<Rightarrow> True | _ \<Rightarrow> False)"

definition is_pending :: "Config \<Rightarrow> BundleStatus \<Rightarrow> WithdrawalRecord \<Rightarrow> bool" where
  "is_pending cfg live_status r \<longleftrightarrow>
     paid_through cfg \<le> wr_index r \<and>
     \<not> (paid_on_ecash live_status \<and>
        (case live_bundle cfg of None \<Rightarrow> False
         | Some live \<Rightarrow> fst live \<le> wr_index r \<and> wr_index r < snd live))"

definition pending :: "WithdrawalRecord list \<Rightarrow> Config \<Rightarrow> BundleStatus \<Rightarrow> nat \<times> u64" where
  "pending rs cfg live_status =
     fold (\<lambda>r (count, lamports). (count + 1, saturating_add lamports (wr_burned_lamports r)))
       (filter (is_pending cfg live_status) rs) (0, 0)"

fun awaiting_event :: "u64 \<Rightarrow> u64 \<Rightarrow> PegEvent \<Rightarrow> nat \<times> u64 \<Rightarrow> nat \<times> u64" where
  "awaiting_event credited index (Disconnect h) acc = acc"
| "awaiting_event credited index (Connect h height deposits bundles) acc =
     (if ucast height \<le> credited then acc
      else fold (\<lambda>d (count, lamports).
              (count + 1, saturating_add lamports (saturating_mul (de_value_sats d) LAMPORTS_PER_SAT)))
            (drop (if ucast height = saturating_add credited 1 then unat index else 0) deposits) acc)"

definition awaiting :: "PegEvent list \<Rightarrow> u64 \<Rightarrow> u64 \<Rightarrow> nat \<times> u64" where
  "awaiting events credited index = fold (awaiting_event credited index) events (0, 0)"

definition books_of ::
  "Config \<Rightarrow> u64 \<Rightarrow> WithdrawalRecord list \<Rightarrow> BundleStatus \<Rightarrow> PegEvent list \<Rightarrow> Ctip option \<Rightarrow> Books" where
  "books_of cfg vault rs live_status events coin =
     (let (pending_withdrawals, unpaid) = pending rs cfg live_status;
          (awaiting_deposits, waiting) = awaiting events (credited_height cfg) (credit_index cfg) in
      \<lparr>bo_supply = vault_supply cfg, bo_vault = vault, bo_float = float_lamports cfg,
       bo_pegged = pegged_lamports cfg, bo_stranded = stranded_lamports cfg,
       bo_ecash_treasury_sats = (case coin of None \<Rightarrow> 0 | Some c \<Rightarrow> ct_value_sats c),
       bo_awaiting = waiting, bo_awaiting_deposits = awaiting_deposits,
       bo_pending = unpaid, bo_pending_withdrawals = pending_withdrawals\<rparr>)"

text \<open>One of the five reads of the eCash side: nothing when the tip moved under it.\<close>

definition books_round ::
  "'w node \<Rightarrow> ('w, EnforcerError, Ctip option) act \<Rightarrow> Config \<Rightarrow> u64 \<Rightarrow> WithdrawalRecord list \<Rightarrow>
     array32 option \<Rightarrow> u32 \<Rightarrow> ('w, BooksError, Books option) act" where
  "books_round nd get_ctip cfg vault rs live_m6id credited =
     perform (action_err BooksEnforcer (nd_tip nd)) (\<lambda>tip.
     perform (action_err BooksEnforcer get_ctip) (\<lambda>coin.
     perform (action_err BooksEnforcer (look (\<lambda>w.
       peg_data_from (nd_headers nd w) (nd_peg_events nd w) tip (min credited (snd tip))))) (\<lambda>events.
     perform
       (case live_m6id of
          Some own \<Rightarrow> action_err BooksPeg (bundle_status_at nd tip (bundle_sealed_height cfg) own)
        | None \<Rightarrow> return StatusUnknown) (\<lambda>live_status.
     perform (action_err BooksEnforcer (nd_tip nd)) (\<lambda>after.
     return (if after \<noteq> tip then None else Some (books_of cfg vault rs live_status events coin)))))))"

fun books_rounds ::
  "nat \<Rightarrow> 'w node \<Rightarrow> ('w, EnforcerError, Ctip option) act \<Rightarrow> Config \<Rightarrow> u64 \<Rightarrow> WithdrawalRecord list \<Rightarrow>
     array32 option \<Rightarrow> u32 \<Rightarrow> ('w, BooksError, Books) act" where
  "books_rounds 0 nd get_ctip cfg vault rs live_m6id credited = pure (Inl TipMoves)"
| "books_rounds (Suc n) nd get_ctip cfg vault rs live_m6id credited =
     perform (books_round nd get_ctip cfg vault rs live_m6id credited) (\<lambda>read.
     case read of
       Some books \<Rightarrow> return books
     | None \<Rightarrow> books_rounds n nd get_ctip cfg vault rs live_m6id credited)"

definition read_books ::
  "tools \<Rightarrow> 'w node \<Rightarrow> ('w, EnforcerError, Ctip option) act \<Rightarrow> pubkey \<Rightarrow> CommitmentConfig \<Rightarrow>
     ('w, BooksError, Books) act" where
  "read_books tools nd get_ctip program_id commitment =
     perform (action_err BooksPeg (config_and_vault tools nd program_id commitment)) (\<lambda>(cfg, vault).
     perform (action_err BooksPeg
       (read_records tools nd program_id (paid_through cfg, withdrawal_count cfg) commitment)) (\<lambda>rs.
     perform
       (case live_bundle cfg of
          None \<Rightarrow> return None
        | Some live \<Rightarrow>
            perform (action_err BooksPeg (live_records tools nd program_id live commitment)) (\<lambda>live_rs.
            perform (pure (map_err BooksM6 (bundle_of (to_bitcoin tools) live_rs))) (\<lambda>blinded.
            return (Some (m6id (to_bitcoin tools) blinded))))) (\<lambda>live_m6id.
     perform (pure (ok_or (try_from (credited_height cfg))
       (BooksHeightTooLarge (credited_height cfg)) Inr)) (\<lambda>credited.
     books_rounds 5 nd get_ctip cfg vault rs live_m6id credited))))"

section \<open>Sums\<close>

text \<open>A sum that saturates is the true sum or the largest value.\<close>

lemma unat_top: "min (unat (n :: u64)) 18446744073709551615 = unat n"
  by (rule min_absorb1) (use unat_lt_64 [of n] in linarith)

lemma fold_saturating:
  "unat (snd (fold (\<lambda>x (count, n). (Suc count, saturating_add n (f x))) xs acc)) =
     min (unat (snd acc) + (\<Sum>x\<leftarrow>xs. unat (f x :: u64))) 18446744073709551615"
proof (induction xs arbitrary: acc)
  case (Cons x xs)
  show ?case
    using Cons.IH [of "(fst acc + 1, saturating_add (snd acc) (f x))"]
    by (cases acc) (simp add: unat_saturating_add min_def)
qed (simp add: unat_top)

lemma pending_value:
  "unat (snd (pending rs cfg status)) =
     min (\<Sum>r\<leftarrow>filter (is_pending cfg status) rs. unat (wr_burned_lamports r)) 18446744073709551615"
  by (simp add: pending_def fold_saturating)

text \<open>The lamports of the deposits of an event that the bank did not credit.\<close>

fun event_value :: "u64 \<Rightarrow> u64 \<Rightarrow> PegEvent \<Rightarrow> nat" where
  "event_value credited index (Disconnect h) = 0"
| "event_value credited index (Connect h height deposits bundles) =
     (if ucast height \<le> credited then 0
      else 10 * (\<Sum>d\<leftarrow>drop (if ucast height = saturating_add credited 1 then unat index else 0) deposits.
        unat (de_value_sats d)))"

lemma sum_capped:
  "min (a + (\<Sum>d\<leftarrow>ds. min (unat (f d :: u64) * 10) 18446744073709551615)) 18446744073709551615 =
     min (a + 10 * (\<Sum>d\<leftarrow>ds. unat (f d))) (18446744073709551615 :: nat)"
proof (induction ds arbitrary: a)
  case (Cons d ds)
  show ?case
    using Cons.IH [of "a + unat (f d) * 10"] Cons.IH [of "a + 18446744073709551615"]
    by (cases "unat (f d) * 10 \<le> 18446744073709551615") (simp_all add: algebra_simps min_def)
qed simp

lemma awaiting_event_value:
  "unat (snd (awaiting_event credited index e acc)) =
     min (unat (snd acc) + event_value credited index e) 18446744073709551615"
  by (cases e) (simp_all add: fold_saturating unat_saturating_mul LAMPORTS_PER_SAT_def sum_capped unat_top)

lemma awaiting_value:
  "unat (snd (awaiting events credited index)) =
     min (\<Sum>e\<leftarrow>events. event_value credited index e) 18446744073709551615"
proof -
  have "unat (snd (fold (awaiting_event credited index) events acc)) =
      min (unat (snd acc) + (\<Sum>e\<leftarrow>events. event_value credited index e)) 18446744073709551615" for acc
  proof (induction events arbitrary: acc)
    case (Cons e events)
    show ?case using Cons.IH [of "awaiting_event credited index e acc"] by (simp add: awaiting_event_value min_def)
  qed (simp add: unat_top)
  then show ?thesis by (simp add: awaiting_def)
qed

text \<open>The equation over the numbers, when no sum saturates.\<close>

lemma treasury_holds_iff:
  "treasury_holds books \<longleftrightarrow>
     unat (bo_ecash_treasury_sats books) * 10 =
       unat (bo_pegged books) + unat (bo_stranded books) + unat (bo_awaiting books) + unat (bo_pending books) \<and>
     unat (bo_ecash_treasury_sats books) * 10 < 2 ^ 64"
  (is "?l \<longleftrightarrow> ?r")
proof
  assume ?l
  then obtain p where mul: "checked_mul (bo_ecash_treasury_sats books) LAMPORTS_PER_SAT = Some p"
    and "Option.bind (checked_add (bo_pegged books) (bo_stranded books)) (\<lambda>n.
      Option.bind (checked_add n (bo_awaiting books)) (\<lambda>n. checked_add n (bo_pending books))) = Some p"
    unfolding treasury_holds_def Let_def by (metis not_None_eq)
  then obtain x y where "checked_mul (bo_ecash_treasury_sats books) LAMPORTS_PER_SAT = Some p"
    "checked_add (bo_pegged books) (bo_stranded books) = Some x" "checked_add x (bo_awaiting books) = Some y"
    "checked_add y (bo_pending books) = Some p"
    by (auto simp: Option.bind_eq_Some_conv)
  then show ?r using unat_lt_64 [of p] by (auto simp: arith_iff LAMPORTS_PER_SAT_def)
next
  assume r: ?r
  then have fits: "unat (bo_pegged books) + unat (bo_stranded books) < 2 ^ 64"
    "unat (bo_pegged books) + unat (bo_stranded books) + unat (bo_awaiting books) < 2 ^ 64"
    "unat (bo_pegged books) + unat (bo_stranded books) + unat (bo_awaiting books) + unat (bo_pending books) < 2 ^ 64"
    by auto
  let ?x = "word_of_nat (unat (bo_pegged books) + unat (bo_stranded books)) :: u64"
  let ?y = "word_of_nat (unat (bo_pegged books) + unat (bo_stranded books) + unat (bo_awaiting books)) :: u64"
  let ?z = "word_of_nat (unat (bo_pegged books) + unat (bo_stranded books) + unat (bo_awaiting books)
     + unat (bo_pending books)) :: u64"
  have "checked_add (bo_pegged books) (bo_stranded books) = Some ?x"
    "checked_add ?x (bo_awaiting books) = Some ?y" "checked_add ?y (bo_pending books) = Some ?z"
    "checked_mul (bo_ecash_treasury_sats books) LAMPORTS_PER_SAT = Some ?z"
    using fits r by (simp_all add: arith_iff LAMPORTS_PER_SAT_def unat_of_nat del: of_nat_add)
  then show ?l by (simp add: treasury_holds_def Let_def)
qed

section \<open>The books of a bank\<close>

text \<open>The lamports of the records from an index on, and the first index that eCash did not pay.\<close>

definition unpaid :: "bank \<Rightarrow> nat \<Rightarrow> nat" where
  "unpaid b start = (\<Sum>i\<leftarrow>[start ..< unat (withdrawal_count (config b))].
     unat (wr_burned_lamports (the (records b (word_of_nat i)))))"

definition unpaid_from :: "Config \<Rightarrow> BundleStatus \<Rightarrow> nat" where
  "unpaid_from cfg status =
     unat (if paid_on_ecash status \<and> live_bundle cfg \<noteq> None then bundled_through cfg else paid_through cfg)"

definition books_now ::
  "bank \<Rightarrow> u64 \<Rightarrow> BundleStatus \<Rightarrow> PegEvent list \<Rightarrow> Ctip option \<Rightarrow> Books" where
  "books_now b vault status events coin =
     books_of (config b) vault
       (range_records b (unat (paid_through (config b))) (unat (withdrawal_count (config b)))) status events coin"

lemma filter_upt_from: "lo \<le> k \<Longrightarrow> k \<le> hi \<Longrightarrow> filter (\<lambda>i. k \<le> i) [lo ..< hi] = [k ..< hi]"
  using upt_add_eq_append [of lo k "hi - k"] by (simp add: filter_empty_conv filter_id_conv)

lemma index_small: "i < unat (w :: u64) \<Longrightarrow> unat (word_of_nat i :: u64) = i"
  by (simp add: unat_of_nat less_trans [OF _ unat_lt_64])

lemma bank_record:
  assumes "bank_inv rt b" "unat (paid_through (config b)) \<le> i" "i < unat (withdrawal_count (config b))"
  shows "wr_index (the (records b (word_of_nat i))) = word_of_nat i"
proof -
  have "paid_through (config b) \<le> word_of_nat i" "(word_of_nat i :: u64) < withdrawal_count (config b)"
    using assms(2,3) by (simp_all add: word_le_nat_alt word_less_nat_alt index_small)
  then have "records b (word_of_nat i) \<noteq> None" using assms(1) by (simp add: bank_inv_def)
  then show ?thesis using assms(1) by (auto simp: bank_inv_def record_ok_def)
qed

lemma unpaid_from_bounds:
  assumes "bank_inv rt b"
  shows "unat (paid_through (config b)) \<le> unpaid_from (config b) status"
    and "unpaid_from (config b) status \<le> unat (withdrawal_count (config b))"
  using assms by (auto simp: unpaid_from_def bank_inv_def cursors_ok_def word_le_nat_alt)

lemma is_pending_from:
  assumes "bank_inv rt b" "unat (paid_through (config b)) \<le> i" "i < unat (withdrawal_count (config b))"
  shows "is_pending (config b) status (the (records b (word_of_nat i))) \<longleftrightarrow> unpaid_from (config b) status \<le> i"
  using assms(2,3) index_small [OF assms(3)]
  by (auto simp: is_pending_def bank_record [OF assms] unpaid_from_def live_bundle_def word_le_nat_alt word_less_nat_alt)

lemma pending_unpaid:
  assumes "bank_inv rt b"
  shows "(\<Sum>r\<leftarrow>filter (is_pending (config b) status)
        (range_records b (unat (paid_through (config b))) (unat (withdrawal_count (config b)))).
      unat (wr_burned_lamports r)) = unpaid b (unpaid_from (config b) status)"
proof -
  let ?lo = "unat (paid_through (config b))" and ?hi = "unat (withdrawal_count (config b))"
  have "filter (is_pending (config b) status \<circ> (\<lambda>i. the (records b (word_of_nat i)))) [?lo ..< ?hi] =
      filter (\<lambda>i. unpaid_from (config b) status \<le> i) [?lo ..< ?hi]"
    by (rule filter_cong) (auto simp: is_pending_from [OF assms])
  also have "\<dots> = [unpaid_from (config b) status ..< ?hi]"
    by (rule filter_upt_from [OF unpaid_from_bounds [OF assms]])
  finally show ?thesis by (simp add: range_records_def filter_map unpaid_def comp_def)
qed

lemma books_now_terms:
  assumes "bank_inv rt b"
  shows "unat (bo_pending (books_now b vault status events coin)) =
      min (unpaid b (unpaid_from (config b) status)) 18446744073709551615"
    and "unat (bo_awaiting (books_now b vault status events coin)) =
      min (\<Sum>e\<leftarrow>events. event_value (credited_height (config b)) (credit_index (config b)) e) 18446744073709551615"
    and "bo_pegged (books_now b vault status events coin) = pegged_lamports (config b)"
    and "bo_stranded (books_now b vault status events coin) = stranded_lamports (config b)"
    and "bo_ecash_treasury_sats (books_now b vault status events coin) =
      (case coin of None \<Rightarrow> 0 | Some c \<Rightarrow> ct_value_sats c)"
  by (simp_all add: books_now_def books_of_def Let_def case_prod_beta pending_value awaiting_value
        pending_unpaid [OF assms])

section \<open>The equation of the treasury stays closed\<close>

text \<open>
  What eCash and its validator do at an instruction: the answer of a credit holds deposits of the block
  of this height, which the events have once; a new bundle is not paid yet; a bundle is marked paid after
  eCash paid it; the other instructions change nothing on eCash.
\<close>

definition credit_of_events :: "PegEvent list \<Rightarrow> bytes \<Rightarrow> u64 \<Rightarrow> bool" where
  "credit_of_events events data height \<longleftrightarrow>
     (\<exists>target_of q hash prev h deposits bundles before after.
        data = deposit_answer_data target_of q
          \<lparr>blk_hash = hash, blk_prev_hash = prev, blk_deposits = map deposit_of deposits\<rparr> \<and>
        length deposits < 2 ^ 32 \<and> events = before @ Connect hash h deposits bundles # after \<and> ucast h = height \<and>
        (\<forall>e \<in> set (before @ after). case e of Connect _ h' _ _ \<Rightarrow> h' \<noteq> h | Disconnect _ \<Rightarrow> True))"

definition follows_ecash :: "PegEvent list \<Rightarrow> BundleStatus \<Rightarrow> BundleStatus \<Rightarrow> instruction \<Rightarrow> bool" where
  "follows_ecash events status status' i =
     (case i of
        CreditDeposits data remaining height block_hash first count \<Rightarrow>
          status' = status \<and> credit_of_events events data height
      | SealBundle orc through own \<Rightarrow> \<not> paid_on_ecash status'
      | BundlePaid orc data through height block_hash own \<Rightarrow> paid_on_ecash status
      | _ \<Rightarrow> status' = status)"

lemma event_value_other:
  assumes "case e of Connect _ h' _ _ \<Rightarrow> h' \<noteq> h | Disconnect _ \<Rightarrow> True" "ucast h = height"
    and "unat height = unat credited + 1"
  shows "event_value credited index e = event_value credited index' e"
    and "event_value credited index e = event_value height 0 e"
proof -
  have nxt: "saturating_add credited 1 = height"
    using assms(3) unat_lt_64 [of height] by (simp add: word_unat_eq_iff unat_saturating_add)
  have "event_value credited index e = event_value credited index' e \<and>
    event_value credited index e = event_value height 0 e"
  proof (cases e)
    case (Connect x h' ds bs)
    then have "unat (ucast h' :: u64) \<noteq> unat height"
      using assms(1,2) by (simp add: word_unat_eq_iff unat_widen)
    then have "(ucast h' :: u64) \<noteq> height" "(ucast h' :: u64) \<le> credited \<longleftrightarrow> (ucast h' :: u64) \<le> height"
      using assms(3) by (auto simp: word_le_nat_alt simp del: unat_widen)
    then show ?thesis by (simp add: Connect nxt del: unat_widen)
  qed simp
  then show "event_value credited index e = event_value credited index' e"
    and "event_value credited index e = event_value height 0 e" by blast+
qed

lemma part_of_drop:
  assumes "length (take n (drop k (map f xs))) = m"
  shows "take n (drop k xs) = take m (drop k xs)"
  using assms by (metis length_drop length_map length_take min.idem min_def take_all_iff drop_map linear)

lemma event_value_block:
  assumes "ucast h = height" "unat height = unat credited + 1"
  shows "event_value credited index (Connect hash h deposits bundles) =
      10 * (\<Sum>d\<leftarrow>drop (unat index) deposits. unat (de_value_sats d))"
    and "event_value height 0 (Connect hash h deposits bundles) = 0"
proof -
  have "saturating_add credited 1 = height" "\<not> height \<le> credited"
    using assms(2) unat_lt_64 [of height]
    by (simp_all add: word_unat_eq_iff unat_saturating_add word_le_nat_alt)
  then show "event_value credited index (Connect hash h deposits bundles) =
      10 * (\<Sum>d\<leftarrow>drop (unat index) deposits. unat (de_value_sats d))"
    "event_value height 0 (Connect hash h deposits bundles) = 0"
    using assms(1) by simp_all
qed

declare event_value.simps [simp del]

text \<open>A credit takes from the deposits that wait what it adds to the pegged and the stranded lamports.\<close>

lemma credit_moves_awaiting:
  assumes "transfer_ok rt"
    and "credit_deposits rt data remaining height block_hash first count b = Inr b'"
    and "credit_of_events events data height"
  shows "unat (pegged_lamports (config b')) + unat (stranded_lamports (config b')) +
      (\<Sum>e\<leftarrow>events. event_value (credited_height (config b')) (credit_index (config b')) e) =
    unat (pegged_lamports (config b)) + unat (stranded_lamports (config b)) +
      (\<Sum>e\<leftarrow>events. event_value (credited_height (config b)) (credit_index (config b)) e)"
  using assms(2)
proof (rule credit_deposits_inv)
  fix vault answer "end" s cfg'
  assume g: "credit_guards (config b) data height block_hash first count = Inr (answer, end)"
    and l: "credit_loop rt vault (da_deposits answer)
       \<lparr>cl_ledger = ledger b, cl_targets = remaining,
        cl_high_water = deposit_high_water (config b), cl_credited = 0, cl_stranded = 0\<rparr> = Inr s"
    and c: "credit_commit (config b) height block_hash (da_total answer) end s = Inr cfg'"
    and b': "b' = b\<lparr>config := cfg', ledger := cl_ledger s\<rparr>"
  obtain target_of q hash prev h deposits bundles before after where
    data: "data = deposit_answer_data target_of q
       \<lparr>blk_hash = hash, blk_prev_hash = prev, blk_deposits = map deposit_of deposits\<rparr>"
    and len: "length deposits < 2 ^ 32" and ev: "events = before @ Connect hash h deposits bundles # after"
    and h: "ucast h = height"
    and other: "\<forall>e \<in> set (before @ after). case e of Connect _ h' _ _ \<Rightarrow> h' \<noteq> h | Disconnect _ \<Rightarrow> True"
    using assms(3) unfolding credit_of_events_def by blast
  note guard = credit_guards_effect [OF g]
  have answer: "answer = \<lparr>da_height = cq_height q, da_block_hash = hash, da_prev_block_hash = prev,
      da_total = word_of_nat (length deposits), da_first = cq_first q,
      da_deposits = map (answered target_of)
        (take (unat (cq_count q)) (drop (unat (cq_first q)) (map deposit_of deposits)))\<rparr>"
    using guard(2) len unfolding data by (simp add: decode_deposit_answer_data)
  have part: "da_deposits answer = map (answered target_of \<circ> deposit_of)
      (take (unat count) (drop (unat (credit_index (config b))) deposits))"
    using part_of_drop [of "unat (cq_count q)" "unat (cq_first q)" deposit_of deposits "unat count"]
      guard(5-7) by (simp add: answer take_map drop_map)
  have "unat (pegged_lamports cfg') + unat (stranded_lamports cfg') =
      unat (pegged_lamports (config b)) + unat (stranded_lamports (config b)) +
      10 * (\<Sum>d\<leftarrow>take (unat count) (drop (unat (credit_index (config b))) deposits). unat (de_value_sats d))"
    using credit_loop_effect [OF assms(1) l] credit_commit_effect(2,3) [OF c]
    by (simp add: part comp_def answered_def deposit_of_def)
  moreover have "(\<Sum>e\<leftarrow>events. event_value (credited_height (config b)) (credit_index (config b)) e) =
      10 * (\<Sum>d\<leftarrow>take (unat count) (drop (unat (credit_index (config b))) deposits). unat (de_value_sats d)) +
      (\<Sum>e\<leftarrow>events. event_value (credited_height cfg') (credit_index cfg') e)"
  proof (cases "ucast (da_total answer) \<le> end")
    case True
    then have cfg: "credited_height cfg' = height" "credit_index cfg' = 0" using credit_commit_effect(12) [OF c] by auto
    have "length deposits \<le> unat (credit_index (config b)) + unat count"
      using True guard(7,10) len by (simp add: answer word_le_nat_alt unat_widen unat_of_nat)
    then have all: "take (unat count) (drop (unat (credit_index (config b))) deposits) =
        drop (unat (credit_index (config b))) deposits" by simp
    have same: "event_value (credited_height (config b)) (credit_index (config b)) e = event_value height 0 e"
      if "e \<in> set (before @ after)" for e
      using event_value_other(2) [OF _ h guard(1)] other that by blast
    have "(\<Sum>e\<leftarrow>before. event_value (credited_height (config b)) (credit_index (config b)) e) =
        (\<Sum>e\<leftarrow>before. event_value height 0 e)"
      "(\<Sum>e\<leftarrow>after. event_value (credited_height (config b)) (credit_index (config b)) e) =
        (\<Sum>e\<leftarrow>after. event_value height 0 e)"
      using same by (intro arg_cong [where f = sum_list] map_cong; simp)+
    then show ?thesis by (simp add: ev cfg event_value_block [OF h guard(1)] all)
  next
    case False
    then have cfg: "credited_height cfg' = credited_height (config b)" "credit_index cfg' = end"
      using credit_commit_effect(13) [OF c] by auto
    have same: "event_value (credited_height (config b)) (credit_index (config b)) e =
        event_value (credited_height (config b)) end e" if "e \<in> set (before @ after)" for e
      using event_value_other(1) [OF _ h guard(1)] other that by blast
    have "(\<Sum>e\<leftarrow>before. event_value (credited_height (config b)) (credit_index (config b)) e) =
        (\<Sum>e\<leftarrow>before. event_value (credited_height (config b)) end e)"
      "(\<Sum>e\<leftarrow>after. event_value (credited_height (config b)) (credit_index (config b)) e) =
        (\<Sum>e\<leftarrow>after. event_value (credited_height (config b)) end e)"
      using same by (intro arg_cong [where f = sum_list] map_cong; simp)+
    moreover have "(\<Sum>d\<leftarrow>drop (unat (credit_index (config b))) deposits. unat (de_value_sats d)) =
        (\<Sum>d\<leftarrow>take (unat count) (drop (unat (credit_index (config b))) deposits). unat (de_value_sats d)) +
        (\<Sum>d\<leftarrow>drop (unat end) deposits. unat (de_value_sats d))"
      using guard(7,10) append_take_drop_id [of "unat count" "drop (unat (credit_index (config b))) deposits"]
      by (metis (no_types, lifting) add.commute drop_drop map_append sum_list_append)
    ultimately show ?thesis by (simp add: ev cfg event_value_block(1) [OF h guard(1)])
  qed
  ultimately show ?thesis by (simp add: b')
qed

text \<open>The right-hand side of the equation, without a bound.\<close>

definition owed :: "bank \<Rightarrow> BundleStatus \<Rightarrow> PegEvent list \<Rightarrow> nat" where
  "owed b status events =
     unat (pegged_lamports (config b)) + unat (stranded_lamports (config b)) +
     (\<Sum>e\<leftarrow>events. event_value (credited_height (config b)) (credit_index (config b)) e) +
     unpaid b (unpaid_from (config b) status)"

lemma books_closed_iff:
  assumes "bank_inv rt b" "(\<Sum>e\<leftarrow>events. event_value (credited_height (config b)) (credit_index (config b)) e) < 2 ^ 64"
    and "unpaid b (unpaid_from (config b) status) < 2 ^ 64"
  shows "treasury_holds (books_now b vault status events coin) \<longleftrightarrow>
    10 * unat (case coin of None \<Rightarrow> 0 | Some c \<Rightarrow> ct_value_sats c) = owed b status events \<and>
    owed b status events < 2 ^ 64"
proof -
  have "unat (bo_pending (books_now b vault status events coin)) = unpaid b (unpaid_from (config b) status)"
    "unat (bo_awaiting (books_now b vault status events coin)) =
      (\<Sum>e\<leftarrow>events. event_value (credited_height (config b)) (credit_index (config b)) e)"
    using assms(2,3) by (simp_all add: books_now_terms [OF assms(1)])
  then show ?thesis
    by (auto simp: treasury_holds_iff books_now_terms(3-5) [OF assms(1)] owed_def)
qed

lemma unpaid_cong:
  assumes "withdrawal_count (config b') = withdrawal_count (config b)"
    and "\<And>i. start \<le> i \<Longrightarrow> i < unat (withdrawal_count (config b)) \<Longrightarrow>
      records b' (word_of_nat i) = records b (word_of_nat i)"
  shows "unpaid b' start = unpaid b start"
  unfolding unpaid_def assms(1) by (intro arg_cong [where f = sum_list] map_cong refl) (simp add: assms(2))

lemma unpaid_withdraw:
  assumes "records b' = (records b)(withdrawal_count (config b) \<mapsto> r)"
    and "unat (withdrawal_count (config b')) = unat (withdrawal_count (config b)) + 1"
    and "start \<le> unat (withdrawal_count (config b))"
  shows "unpaid b' start = unpaid b start + unat (wr_burned_lamports r)"
proof -
  have "records b' (word_of_nat i) = records b (word_of_nat i)" if "i < unat (withdrawal_count (config b))" for i
    using that index_small [OF that] by (auto simp: assms(1))
  then have "(\<Sum>i\<leftarrow>[start ..< unat (withdrawal_count (config b))].
        unat (wr_burned_lamports (the (records b' (word_of_nat i))))) = unpaid b start"
    unfolding unpaid_def by (intro arg_cong [where f = sum_list] map_cong refl) simp
  then show ?thesis using assms(3) by (simp add: unpaid_def assms(2)) (simp add: assms(1))
qed

lemma owed_kept:
  assumes "runtime_ok rt" "bank_inv rt b" "exec rt i b = Inr b'" "follows_ecash events status status' i"
  shows "owed b' status' events = owed b status events"
proof (cases i)
  case SettleBmm
  with assms show ?thesis
    by (auto simp: exec_dispatch follows_ecash_def owed_def unpaid_def unpaid_from_def live_bundle_def
        elim!: settle_bmm_effect [OF runtime_okD(1) [OF assms(1)]])
next
  case (CreditDeposits data remaining height block_hash first count)
  then have credit: "credit_deposits rt data remaining height block_hash first count b = Inr b'"
    and st: "status' = status" "credit_of_events events data height"
    using assms(3,4) by (simp_all add: exec_dispatch follows_ecash_def)
  have "withdrawal_count (config b') = withdrawal_count (config b)" "paid_through (config b') = paid_through (config b)"
    "bundled_through (config b') = bundled_through (config b)" "records b' = records b"
    using credit by (auto elim!: credit_deposits_inv simp: credit_commit_effect(5-7))
  then have "unpaid b' (unpaid_from (config b') status) = unpaid b (unpaid_from (config b) status)"
    by (simp add: unpaid_def unpaid_from_def live_bundle_def)
  then show ?thesis
    using credit_moves_awaiting [OF runtime_okD(1) [OF assms(1)] credit st(2)] by (simp add: owed_def st(1))
next
  case (Withdraw user lamports fee_sats script)
  then have w: "withdraw rt user lamports fee_sats script b = Inr b'" and st: "status' = status"
    using assms(3,4) by (simp_all add: exec_dispatch follows_ecash_def)
  show ?thesis using w
  proof (rule withdraw_inv)
    fix payout L'
    let ?r = "\<lparr>wr_index = withdrawal_count (config b), wr_owner = meta_key user, wr_burned_lamports = lamports,
      wr_payout_sats = payout, wr_fee_sats = fee_sats, wr_script_pubkey = script,
      wr_bump = snd (record_key rt (withdrawal_count (config b)))\<rparr>"
    assume p: "unat (pegged_lamports (config b)) = unat (pegged_lamports (config b) - lamports) + unat lamports"
      and n: "unat (withdrawal_count (config b) + 1) = unat (withdrawal_count (config b)) + 1"
      and b': "b' = b\<lparr>config := (config b)\<lparr>pegged_lamports := pegged_lamports (config b) - lamports,
                               withdrawal_count := withdrawal_count (config b) + 1\<rparr>,
            records := (records b)(withdrawal_count (config b) \<mapsto> ?r), ledger := L'\<rparr>"
    have "unpaid_from (config b') status = unpaid_from (config b) status"
      by (simp add: b' unpaid_from_def live_bundle_def)
    moreover have "unpaid b' (unpaid_from (config b) status) =
        unpaid b (unpaid_from (config b) status) + unat (wr_burned_lamports ?r)"
      by (rule unpaid_withdraw) (simp_all add: b' n unpaid_from_bounds(2) [OF assms(2)])
    ultimately show ?thesis using p by (simp add: owed_def st) (simp add: b')
  qed
next
  case (SealBundle orc through own)
  then have "seal_bundle rt orc through own b = Inr b'" and st: "\<not> paid_on_ecash status'"
    using assms(3,4) by (simp_all add: exec_dispatch follows_ecash_def)
  note seal = seal_bundle_inv [OF this(1)]
  show ?thesis
    using seal(3) st unfolding seal(7) by (simp add: owed_def unpaid_def unpaid_from_def live_bundle_def)
next
  case (BundlePaid orc data through height block_hash own)
  with assms(3,4) show ?thesis
    by (auto simp: exec_dispatch follows_ecash_def owed_def unpaid_def unpaid_from_def live_bundle_def
        elim!: bundle_paid_inv)
next
  case (CloseRecord owner index)
  then have c: "close_record rt owner index b = Inr b'" and st: "status' = status"
    using assms(3,4) by (simp_all add: exec_dispatch follows_ecash_def)
  show ?thesis using c
  proof (rule close_record_inv)
    fix r L
    assume idx: "index < paid_through (config b)"
      and b': "b' = b\<lparr>records := (records b)(index := None), ledger := L\<rparr>"
    have "unpaid b' (unpaid_from (config b) status) = unpaid b (unpaid_from (config b) status)"
    proof (rule unpaid_cong)
      fix i assume "unpaid_from (config b) status \<le> i" "i < unat (withdrawal_count (config b))"
      then have "unat (word_of_nat i :: u64) \<noteq> unat index"
        using idx unpaid_from_bounds(1) [OF assms(2), of status] by (simp add: index_small word_less_nat_alt)
      then show "records b' (word_of_nat i) = records b (word_of_nat i)" by (auto simp: b')
    qed (simp add: b')
    then show ?thesis by (simp add: owed_def st) (simp add: b')
  qed
qed



text \<open>
  The verdict of the books on open withdrawals is the gate of the program: a withdrawal that the bridge
  program executes finds books whose gifts back the float, so while the books report that the float has
  no backing, no withdrawal passes.
\<close>

theorem withdrawals_open:
  assumes "good_state rt b" "exec rt (Withdraw user lamports fee_sats script) b = Inr b'"
    and "vault_key rt (config b) = Some vault"
    and "unat (acc_lamports (ledger b vault)) + unat (pegged_lamports (config b)) < 2 ^ 64"
  shows "Books_float_backed (books_now b (acc_lamports (ledger b vault)) status events coin)"
proof -
  have ok: "init_ok rt" "addresses_ok rt" using assms(1) by (simp_all add: good_state_def runtime_ok_def)
  have w: "withdraw rt user lamports fee_sats script b = Inr b'"
    and sg: "signatures_ok rt (Withdraw user lamports fee_sats script)"
    using assms(2) by (simp_all add: exec_dispatch)
  show ?thesis using w
  proof (rule withdraw_inv)
    fix v L payout L'
    assume v: "vault_key rt (config b) = Some v" and s: "meta_signer user"
      and init: "rt_init_account rt (meta_key user) (fst (record_key rt (withdrawal_count (config b))))
         WITHDRAWAL_RECORD_SPACE (ledger b) = Some L"
      and gate: "unat (vault_supply (config b)) + unat (float_lamports (config b)) \<le>
         balance L v + unat (pegged_lamports (config b))"
    have "v = vault" using v assms(3) by simp
    moreover have "vault \<noteq> meta_key user"
      using signed_has_key [OF sg s] vault_no_key [OF ok(2) assms(3)] by blast
    moreover have "vault \<noteq> fst (record_key rt (withdrawal_count (config b)))"
      using vault_ne_record [OF ok(2) assms(3)] by metis
    ultimately have enough: "unat (vault_supply (config b)) + unat (float_lamports (config b)) \<le>
        unat (acc_lamports (ledger b vault)) + unat (pegged_lamports (config b))"
      using gate init_effect(3) [OF ok(1) init, of vault] by (simp add: balance_def)
    obtain n where n: "checked_add (acc_lamports (ledger b vault)) (pegged_lamports (config b)) = Some n"
      "unat n = unat (acc_lamports (ledger b vault)) + unat (pegged_lamports (config b))"
      using assms(4) by (cases "checked_add (acc_lamports (ledger b vault)) (pegged_lamports (config b))")
        (auto simp: arith_iff)
    obtain g where g: "checked_sub n (vault_supply (config b)) = Some g"
      using enough n(2) by (cases "checked_sub n (vault_supply (config b))") (auto simp: arith_iff)
    then have "float_lamports (config b) \<le> g"
      using n(2) enough by (simp add: arith_iff word_le_nat_alt)
    then show ?thesis
      by (simp add: Books_float_backed_def gifts_def books_now_def books_of_def case_prod_beta n(1) g)
  qed
qed

lemma withdrawals_open_witness:
  "Books_float_backed (books_now sample_bank1 1004000000 StatusUnknown [] None)"
proof -
  have v: "vault_key sample_runtime (config sample_bank1) = Some 0x1fe746c756176"
    by (rule sample_keys) (simp add: sample_bank1_def sample_config_def)
  have L: "acc_lamports (ledger sample_bank1 0x1fe746c756176) = 1004000000"
    by (simp add: sample_bank1_def system_account_def ALICE_def)
  have w: "exec sample_runtime (Withdraw (sample_meta ALICE) 500000 1000 ([0x00, 0x14] @ replicate 20 0)) sample_bank1 =
      Inr sample_bank2"
    using sample_withdraw_ok by (simp add: sample_withdraw_def)
  show ?thesis
    using withdrawals_open [OF sample_good1 w v, of StatusUnknown "[]" None] unfolding L
    by (simp add: sample_bank1_def)
qed

end
