(* ===== verification/Ordered_Map.thy ===== *)
theory Ordered_Map
  imports Prelude "HOL-Library.List_Lexorder" "HOL-Library.Char_ord"
begin

text \<open>
  The ordered maps of the standard library (\<^verbatim>\<open>BTreeMap\<close>) as association lists in key order, and the JSON
  values of \<^verbatim>\<open>serde_json\<close> with the accessors that the daemon uses.
\<close>

section \<open>Ordered maps\<close>

fun bt_insert :: "'k::linorder \<Rightarrow> 'v \<Rightarrow> ('k \<times> 'v) list \<Rightarrow> ('k \<times> 'v) list" where
  "bt_insert k v [] = [(k, v)]"
| "bt_insert k v ((k', v') # m) =
     (if k < k' then (k, v) # (k', v') # m
      else if k = k' then (k, v) # m
      else (k', v') # bt_insert k v m)"

definition bt_collect :: "('k::linorder \<times> 'v) list \<Rightarrow> ('k \<times> 'v) list" where
  "bt_collect kvs = fold (\<lambda>(k, v). bt_insert k v) kvs []"

definition bt_ok :: "('k::linorder \<times> 'v) list \<Rightarrow> bool" where
  "bt_ok m \<longleftrightarrow> sorted_wrt (<) (map fst m)"

lemma bt_ok_simps [simp]:
  "bt_ok []" "bt_ok ((k, v) # m) \<longleftrightarrow> (\<forall>k' \<in> fst ` set m. k < k') \<and> bt_ok m"
  by (auto simp: bt_ok_def)

lemma map_of_bt_insert: "bt_ok m \<Longrightarrow> map_of (bt_insert k v m) = (map_of m)(k \<mapsto> v)"
  by (induction m rule: bt_insert.induct) (auto simp: fun_eq_iff)

lemma keys_bt_insert: "fst ` set (bt_insert k v m) = insert k (fst ` set m)"
  by (induction k v m rule: bt_insert.induct) auto

lemma bt_ok_insert: "bt_ok m \<Longrightarrow> bt_ok (bt_insert k v m)"
proof (induction k v m rule: bt_insert.induct)
  case (2 k v k' v' m)
  then show ?case by (auto simp: keys_bt_insert)
qed simp

lemma bt_ok_distinct: "bt_ok m \<Longrightarrow> distinct (map fst m)"
  by (induction m) (fastforce simp: image_iff)+

lemma sum_bt_insert:
  "k \<notin> fst ` set m \<Longrightarrow> (\<Sum>kv\<leftarrow>bt_insert k v m. f kv) = f (k, v) + (\<Sum>kv\<leftarrow>m. f kv :: nat)"
  by (induction k v m rule: bt_insert.induct) auto

lemma sum_bt_update:
  assumes "bt_ok m" "map_of m k = Some u"
  shows "(\<Sum>kv\<leftarrow>bt_insert k v m. f kv) + f (k, u) = f (k, v) + (\<Sum>kv\<leftarrow>m. f kv :: nat)"
  using assms
proof (induction k v m rule: bt_insert.induct)
  case (2 k v k' v' m)
  show ?case
  proof (cases "k = k'")
    case False
    then have "map_of m k = Some u" using 2 by simp
    then have "k \<in> fst ` set m" by (metis map_of_eq_None_iff option.distinct(1))
    then show ?thesis using 2 False \<open>map_of m k = Some u\<close> by auto
  qed (use 2 in auto)
qed simp

lemma bt_ok_fold: "bt_ok m \<Longrightarrow> bt_ok (fold (\<lambda>(k, v). bt_insert k v) kvs m)"
  by (induction kvs arbitrary: m) (auto simp: bt_ok_insert)

lemma bt_ok_collect: "bt_ok (bt_collect kvs)"
  by (simp add: bt_collect_def bt_ok_fold)

lemma map_of_bt_fold:
  "bt_ok m \<Longrightarrow> map_of (fold (\<lambda>(k, v). bt_insert k v) kvs m) = map_of m ++ map_of (rev kvs)"
  by (induction kvs arbitrary: m) (auto simp: map_of_bt_insert bt_ok_insert fun_eq_iff map_add_def split: option.splits)

lemma map_of_bt_collect: "map_of (bt_collect kvs) = map_of (rev kvs)"
  by (simp add: bt_collect_def map_of_bt_fold)

lemma sum_bt_collect:
  assumes "distinct (map fst kvs)"
  shows "(\<Sum>kv\<leftarrow>bt_collect kvs. f kv) = (\<Sum>kv\<leftarrow>kvs. f kv :: nat)"
proof -
  have "distinct (map fst kvs) \<Longrightarrow> fst ` set kvs \<inter> fst ` set m = {} \<Longrightarrow>
    (\<Sum>kv\<leftarrow>fold (\<lambda>(k, v). bt_insert k v) kvs m. f kv) = (\<Sum>kv\<leftarrow>kvs. f kv) + (\<Sum>kv\<leftarrow>m. f kv)" for m
  proof (induction kvs arbitrary: m)
    case (Cons kv kvs)
    obtain k v where kv: "kv = (k, v)" by (cases kv)
    have "fst ` set kvs \<inter> fst ` set (bt_insert k v m) = {}" "k \<notin> fst ` set m"
      using Cons.prems by (auto simp: kv keys_bt_insert)
    then show ?case using Cons.IH [of "bt_insert k v m"] Cons.prems(1) by (simp add: kv sum_bt_insert)
  qed simp
  then show ?thesis using assms by (simp add: bt_collect_def)
qed

section \<open>JSON values\<close>

datatype json =
    JNull | JBool bool | JPosInt u64 | JNegInt int | JFloat string | JString string
  | JArray "json list" | JObject "(string \<times> json) list"

text \<open>An index into a value: \<^verbatim>\<open>null\<close> when the value has no such member.\<close>

definition json_get :: "string \<Rightarrow> json \<Rightarrow> json" where
  "json_get k v = (case v of JObject fields \<Rightarrow> (case map_of fields k of Some x \<Rightarrow> x | None \<Rightarrow> JNull) | _ \<Rightarrow> JNull)"

definition json_at :: "nat \<Rightarrow> json \<Rightarrow> json" where
  "json_at i v = (case v of JArray xs \<Rightarrow> if i < length xs then xs ! i else JNull | _ \<Rightarrow> JNull)"

definition as_u64 :: "json \<Rightarrow> u64 option" where
  "as_u64 v = (case v of JPosInt n \<Rightarrow> Some n | _ \<Rightarrow> None)"

definition as_bool :: "json \<Rightarrow> bool option" where
  "as_bool v = (case v of JBool b \<Rightarrow> Some b | _ \<Rightarrow> None)"

definition as_str :: "json \<Rightarrow> string option" where
  "as_str v = (case v of JString s \<Rightarrow> Some s | _ \<Rightarrow> None)"

definition as_array :: "json \<Rightarrow> json list option" where
  "as_array v = (case v of JArray xs \<Rightarrow> Some xs | _ \<Rightarrow> None)"

end
