(* ===== verification/Migrate.thy ===== *)
theory Migrate
  imports Peg Ordered_Map
begin

text \<open>
  The export of a halted chain (\<^verbatim>\<open>daemon/src/migrate.rs\<close>): the walk over the programs, the accounts sorted
  by what happens to them, and the cursor of the bridge. The property says that no lamport stays behind.
\<close>

section \<open>Data\<close>

text \<open>Base58 keys and base64 data are texts of libraries outside the repository.\<close>

record account_codes =
  ac_key_text :: "pubkey \<Rightarrow> string"
  ac_parse_key :: "string \<Rightarrow> pubkey option"
  ac_encode64 :: "bytes \<Rightarrow> string"
  ac_decode64 :: "string \<Rightarrow> bytes option"

definition account_codes_ok :: "account_codes \<Rightarrow> bool" where
  "account_codes_ok ac \<longleftrightarrow>
     (\<forall>k. ac_parse_key ac (ac_key_text ac k) = Some k) \<and> (\<forall>d. ac_decode64 ac (ac_encode64 ac d) = Some d)"

record Cursor =
  cu_pegged_lamports :: u64
  cu_deposit_high_water :: u64
  cu_withdrawal_count :: u64
  cu_bmm_next_height :: u64
  cu_bmm_paid_total :: u64
  cu_credited_height :: u64
  cu_credited_block :: array32
  cu_credit_index :: u64
  cu_credit_part_block :: array32
  cu_stranded_lamports :: u64
  cu_vault_supply :: u64
  cu_float_lamports :: u64
  cu_paid_through :: u64
  cu_bundled_through :: u64
  cu_bundle_sealed_height :: u64
  cu_bundle_m6id :: array32

record CarriedAccount =
  ca_pubkey :: string
  ca_lamports :: u64
  ca_owner :: string
  ca_data :: string
  ca_executable :: bool

record State =
  ms_slot :: u64
  ms_cursor :: Cursor
  ms_balances :: "(string \<times> u64) list"
  ms_accounts :: "CarriedAccount list"
  ms_supply_lamports :: u64
  ms_fixed_lamports :: u64
  ms_ownerless_lamports :: u64
  ms_epoch :: u64

datatype Rule = Carry | StakeToWithdrawer | VoteToWithdrawer | Fixed

definition OWNER_RULES :: "(string \<times> Rule) list" where
  "OWNER_RULES =
     [(''Stake11111111111111111111111111111111111111'', StakeToWithdrawer),
      (''Vote111111111111111111111111111111111111111'', VoteToWithdrawer),
      (''Sysvar1111111111111111111111111111111111111'', Fixed),
      (''NativeLoader1111111111111111111111111111111'', Fixed),
      (''Feature111111111111111111111111111111111111'', Fixed)]"

definition GENESIS_KEYS :: "string list" where
  "GENESIS_KEYS =
     [''StakeConfig11111111111111111111111111111111'',
      ''TokenkegQfeZyiNwAJbNbGKPFXCWuBvf9Ss623VQ5DA'',
      ''ATokenGPvbdGVxr1b2hvZbsiqW5xWH25efTNsLJA8knL'',
      ''MemoSq4gqABAXKb96qnH8TysNcWxMyWCqXgDLGmfcHr'',
      ''CPMMoo8L3F4NbTegBCKVNunggL7H1ZpdTHKxQB5qKP1C'']"

definition ROOT_OWNERS :: "string list" where
  "ROOT_OWNERS =
     [''Stake11111111111111111111111111111111111111'',
      ''Vote111111111111111111111111111111111111111'',
      ''Config1111111111111111111111111111111111111'',
      ''AddressLookupTab1e1111111111111111111111111'',
      ''ZkE1Gama1Proof11111111111111111111111111111'',
      ''NativeLoader1111111111111111111111111111111'',
      ''Sysvar1111111111111111111111111111111111111'',
      ''Feature111111111111111111111111111111111111'',
      ''BPFLoader1111111111111111111111111111111111'',
      ''BPFLoader2111111111111111111111111111111111'',
      ''BPFLoaderUpgradeab1e11111111111111111111111'',
      ''LoaderV411111111111111111111111111111111111'']"

definition BUILTINS :: "string list" where
  "BUILTINS =
     [''11111111111111111111111111111111'',
      ''Stake11111111111111111111111111111111111111'',
      ''Vote111111111111111111111111111111111111111'',
      ''Config1111111111111111111111111111111111111'',
      ''BPFLoader1111111111111111111111111111111111'',
      ''BPFLoader2111111111111111111111111111111111'',
      ''BPFLoaderUpgradeab1e11111111111111111111111'',
      ''LoaderV411111111111111111111111111111111111'',
      ''AddressLookupTab1e1111111111111111111111111'',
      ''ComputeBudget111111111111111111111111111111'',
      ''ZkE1Gama1Proof11111111111111111111111111111'',
      ''Ed25519SigVerify111111111111111111111111111'',
      ''KeccakSecp256k11111111111111111111111111111'',
      ''Secp256r1SigVerify1111111111111111111111111'',
      ''Feature111111111111111111111111111111111111'']"

definition ELF_MAGIC :: bytes where
  "ELF_MAGIC = [0x7f, 0x45, 0x4c, 0x46]"

datatype MigrateError =
    MigrateRpc string RpcError | BadAnswer string | NotHalted u64 u64 | NoConfig
  | MigrateBridge LayoutError | Overcounted u64 u64 | LamportsOverflow | MissingLiveRecord u64
  | MigrateM6 M6Error | OwnerlessLamports u64 "u64 option"

text \<open>One account of a \<^verbatim>\<open>getProgramAccounts\<close> answer.\<close>

record RawAccount =
  rw_pubkey :: pubkey
  rw_lamports :: u64
  rw_data :: bytes
  rw_executable :: bool

section \<open>Programs and rules\<close>

text \<open>Whether an account of a loader holds a real program.\<close>

definition loader_v4_holds :: "bytes \<Rightarrow> bool" where
  "loader_v4_holds data =
     (case map_option (from_le_bytes :: bytes \<Rightarrow> u64) (get_slice 40 48 data) of
        None \<Rightarrow> False
      | Some status \<Rightarrow>
          if status = 2 then True
          else if status = 0 \<or> status = 1 then
            (case get_slice 8 40 data of None \<Rightarrow> False | Some authority \<Rightarrow> \<exists>b \<in> set authority. b \<noteq> 0)
          else False)"

definition holds_program :: "account_codes \<Rightarrow> string \<Rightarrow> pubkey list \<Rightarrow> RawAccount \<Rightarrow> bool" where
  "holds_program ac name program_data account =
     (let tag = get_slice 0 4 (rw_data account) in
      if name = ''NativeLoader1111111111111111111111111111111''
      then rw_executable account \<or> ac_key_text ac (rw_pubkey account) \<in> set BUILTINS
      else if name = ''BPFLoader1111111111111111111111111111111111''
        \<or> name = ''BPFLoader2111111111111111111111111111111111''
      then tag = Some ELF_MAGIC
      else if name = ''LoaderV411111111111111111111111111111111111'' then loader_v4_holds (rw_data account)
      else if name = ''BPFLoaderUpgradeab1e11111111111111111111111''
      then tag = Some (to_le_bytes (2 :: u32)) \<and>
        (case get_slice 4 36 (rw_data account) of
           None \<Rightarrow> False | Some key \<Rightarrow> array_of key \<in> set program_data)
      else rw_executable account)"

definition program_ids :: "account_codes \<Rightarrow> pubkey \<Rightarrow> RawAccount list \<Rightarrow> pubkey list" where
  "program_ids ac owner accounts =
     (let program_data = map rw_pubkey
        (filter (\<lambda>a. get_slice 0 4 (rw_data a) = Some (to_le_bytes (3 :: u32))) accounts)
      in map rw_pubkey (filter (holds_program ac (ac_key_text ac owner) program_data) accounts))"

definition rule_of :: "account_codes \<Rightarrow> pubkey \<Rightarrow> Rule" where
  "rule_of ac owner =
     (case List.find (\<lambda>(name, rule). ac_key_text ac owner = name) OWNER_RULES of
        None \<Rightarrow> Carry
      | Some (name, rule) \<Rightarrow> rule)"

definition stake_withdrawer :: "bytes \<Rightarrow> pubkey option" where
  "stake_withdrawer data =
     (case map_option (from_le_bytes :: bytes \<Rightarrow> u32) (get_slice 0 4 data) of
        None \<Rightarrow> None
      | Some tag \<Rightarrow> if \<not> (1 \<le> tag \<and> tag \<le> 2) then None else map_option array_of (get_slice 44 76 data))"

definition vote_withdrawer :: "bytes \<Rightarrow> pubkey option" where
  "vote_withdrawer data =
     (case map_option (from_le_bytes :: bytes \<Rightarrow> u32) (get_slice 0 4 data) of
        None \<Rightarrow> None
      | Some tag \<Rightarrow> if \<not> (1 \<le> tag \<and> tag \<le> 3) then None else map_option array_of (get_slice 36 68 data))"

section \<open>The accounts by what happens to them\<close>

record Carried =
  cd_balances :: "(pubkey \<times> u64) list"
  cd_accounts :: "CarriedAccount list"
  cd_converted :: "(pubkey \<times> (pubkey \<times> RawAccount) list) list"
  cd_fixed :: u64
  cd_read :: u64
  cd_bridge_program :: "pubkey option"

definition carry :: "account_codes \<Rightarrow> RawAccount \<Rightarrow> pubkey \<Rightarrow> Carried \<Rightarrow> Carried" where
  "carry ac account owner c =
     c\<lparr>cd_read := saturating_add (cd_read c) (rw_lamports account),
       cd_accounts := cd_accounts c @
         [\<lparr>ca_pubkey = ac_key_text ac (rw_pubkey account), ca_lamports = rw_lamports account,
           ca_owner = ac_key_text ac owner, ca_data = ac_encode64 ac (rw_data account),
           ca_executable = rw_executable account\<rparr>]\<rparr>"

definition system :: "account_codes \<Rightarrow> RawAccount \<Rightarrow> Carried \<Rightarrow> Carried" where
  "system ac account c =
     (if rw_data account = [] \<and> \<not> rw_executable account
      then
        let c1 = c\<lparr>cd_read := saturating_add (cd_read c) (rw_lamports account)\<rparr> in
        if 0 < rw_lamports account
        then c1\<lparr>cd_balances := bt_insert (rw_pubkey account) (rw_lamports account) (cd_balances c1)\<rparr>
        else c1
      else carry ac account SYSTEM_PROGRAM_ID c)"

definition withdrawer_of :: "Rule \<Rightarrow> bytes \<Rightarrow> pubkey option" where
  "withdrawer_of rule data = (if rule = StakeToWithdrawer then stake_withdrawer data else vote_withdrawer data)"

definition apply_rule :: "account_codes \<Rightarrow> pubkey \<Rightarrow> Rule \<Rightarrow> RawAccount \<Rightarrow> Carried \<Rightarrow> Carried" where
  "apply_rule ac owner rule account c =
     (let rule = (if ac_key_text ac (rw_pubkey account) \<in> set GENESIS_KEYS
                    \<or> cd_bridge_program c = Some (rw_pubkey account) then Fixed else rule)
      in case rule of
           Carry \<Rightarrow> carry ac account owner c
         | Fixed \<Rightarrow>
             c\<lparr>cd_read := saturating_add (cd_read c) (rw_lamports account),
               cd_fixed := saturating_add (cd_fixed c) (rw_lamports account)\<rparr>
         | _ \<Rightarrow>
             (case withdrawer_of rule (rw_data account) of
                Some withdrawer \<Rightarrow>
                  let sources = (case map_of (cd_converted c) withdrawer of None \<Rightarrow> [] | Some xs \<Rightarrow> xs) in
                  c\<lparr>cd_converted := bt_insert withdrawer (sources @ [(owner, account)]) (cd_converted c)\<rparr>
              | None \<Rightarrow> carry ac account owner c))"

text \<open>The lamports of one stake or vote account go to the balance of its withdrawer.\<close>

definition convert :: "pubkey \<Rightarrow> RawAccount \<Rightarrow> Carried \<Rightarrow> MigrateError + Carried" where
  "convert withdrawer account c =
     (let balance = (case map_of (cd_balances c) withdrawer of None \<Rightarrow> 0 | Some n \<Rightarrow> n) in
      ok_or (checked_add balance (rw_lamports account)) LamportsOverflow (\<lambda>n.
      Inr (c\<lparr>cd_read := saturating_add (cd_read c) (rw_lamports account),
             cd_balances := bt_insert withdrawer n (cd_balances c)\<rparr>)))"

fun convert_all :: "pubkey \<Rightarrow> (pubkey \<times> RawAccount) list \<Rightarrow> Carried \<Rightarrow> MigrateError + Carried" where
  "convert_all withdrawer [] c = Inr c"
| "convert_all withdrawer ((owner, account) # sources) c =
     attempt (convert withdrawer account c) (convert_all withdrawer sources)"

fun finish_converted ::
  "account_codes \<Rightarrow> string list \<Rightarrow> (pubkey \<times> (pubkey \<times> RawAccount) list) list \<Rightarrow> Carried \<Rightarrow>
     MigrateError + Carried" where
  "finish_converted ac not_plain [] c = Inr c"
| "finish_converted ac not_plain ((withdrawer, sources) # rest) c =
     (if ac_key_text ac withdrawer \<in> set not_plain
      then finish_converted ac not_plain rest (fold (\<lambda>(owner, account). carry ac account owner) sources c)
      else attempt (convert_all withdrawer sources c) (finish_converted ac not_plain rest))"

definition finish :: "account_codes \<Rightarrow> u64 \<Rightarrow> Cursor \<Rightarrow> u64 \<Rightarrow> Carried \<Rightarrow> MigrateError + State" where
  "finish ac slot cursor supply_lamports c =
     (let converted = cd_converted c;
          not_plain = map ca_pubkey (cd_accounts c) @
            map (\<lambda>(owner, account). ac_key_text ac (rw_pubkey account)) (concat (map snd converted))
      in attempt (finish_converted ac not_plain converted (c\<lparr>cd_converted := []\<rparr>)) (\<lambda>c.
         ok_or (checked_sub supply_lamports (cd_read c)) (Overcounted supply_lamports (cd_read c)) (\<lambda>ownerless.
         Inr \<lparr>ms_slot = slot, ms_cursor = cursor,
           ms_balances = bt_collect (map (\<lambda>(k, n). (ac_key_text ac k, n)) (cd_balances c)),
           ms_accounts = cd_accounts c, ms_supply_lamports = supply_lamports,
           ms_fixed_lamports = cd_fixed c, ms_ownerless_lamports = ownerless, ms_epoch = 0\<rparr>)))"

definition accept_ownerless_lamports :: "u64 \<Rightarrow> u64 option \<Rightarrow> MigrateError + unit" where
  "accept_ownerless_lamports found accepted =
     (if found = 0 \<or> accepted = Some found then Inr () else Inl (OwnerlessLamports found accepted))"

section \<open>The cursor of the bridge\<close>

fun live_record_list ::
  "tools \<Rightarrow> pubkey \<Rightarrow> (pubkey \<times> RawAccount) list \<Rightarrow> u64 list \<Rightarrow> MigrateError + WithdrawalRecord list" where
  "live_record_list tools program_id by_key [] = Inr []"
| "live_record_list tools program_id by_key (index # rest) =
     ok_or
       (Option.bind (map_of by_key (fst (withdrawal_pda (to_find_pda tools) program_id index))) (\<lambda>account.
        case WithdrawalRecord_decode (to_sha256 tools) (rw_data account) of
          Inl e \<Rightarrow> None
        | Inr r \<Rightarrow> if wr_index r = index then Some r else None))
       (MissingLiveRecord index) (\<lambda>r.
     attempt (live_record_list tools program_id by_key rest) (\<lambda>rs. Inr (r # rs)))"

definition live_m6id ::
  "tools \<Rightarrow> pubkey \<Rightarrow> (u64 \<times> u64) option \<Rightarrow> RawAccount list \<Rightarrow> MigrateError + array32" where
  "live_m6id tools program_id live accounts =
     (case live of
        None \<Rightarrow> Inr 0
      | Some r \<Rightarrow>
          let by_key = bt_collect (map (\<lambda>a. (rw_pubkey a, a)) accounts) in
          attempt (live_record_list tools program_id by_key (indices r)) (\<lambda>rs.
          attempt (map_err MigrateM6 (bundle_of (to_bitcoin tools) rs)) (\<lambda>blinded.
          Inr (m6id (to_bitcoin tools) blinded))))"

definition cursor_of :: "Config \<Rightarrow> array32 \<Rightarrow> Cursor" where
  "cursor_of cfg m6 =
     \<lparr>cu_pegged_lamports = pegged_lamports cfg, cu_deposit_high_water = deposit_high_water cfg,
      cu_withdrawal_count = withdrawal_count cfg, cu_bmm_next_height = bmm_next_height cfg,
      cu_bmm_paid_total = bmm_paid_total cfg, cu_credited_height = credited_height cfg,
      cu_credited_block = credited_block cfg, cu_credit_index = credit_index cfg,
      cu_credit_part_block = credit_part_block cfg, cu_stranded_lamports = stranded_lamports cfg,
      cu_vault_supply = vault_supply cfg, cu_float_lamports = float_lamports cfg,
      cu_paid_through = paid_through cfg, cu_bundled_through = bundled_through cfg,
      cu_bundle_sealed_height = bundle_sealed_height cfg, cu_bundle_m6id = m6\<rparr>"

section \<open>The export\<close>

text \<open>What the export makes of the accounts that it read: the second half of \<^verbatim>\<open>export\<close>, after every read.\<close>

definition carried_all ::
  "account_codes \<Rightarrow> pubkey \<Rightarrow> pubkey \<Rightarrow> u64 \<Rightarrow> RawAccount list \<Rightarrow> RawAccount list \<Rightarrow>
     (pubkey \<times> Rule \<times> RawAccount list) list \<Rightarrow> Carried" where
  "carried_all ac program_id config_k config_lamports bridge_accounts system_accounts owned =
     (let c = \<lparr>cd_balances = [], cd_accounts = [], cd_converted = [], cd_fixed = config_lamports,
               cd_read = config_lamports, cd_bridge_program = Some program_id\<rparr>;
          c = fold (\<lambda>a. carry ac a program_id) (filter (\<lambda>a. rw_pubkey a \<noteq> config_k) bridge_accounts) c;
          c = fold (system ac) system_accounts c
      in fold (\<lambda>(owner, rule, accounts). fold (apply_rule ac owner rule) accounts) owned c)"

definition export_state ::
  "account_codes \<Rightarrow> tools \<Rightarrow> pubkey \<Rightarrow> u64 \<Rightarrow> u64 \<Rightarrow> u64 option \<Rightarrow> RawAccount list \<Rightarrow> RawAccount list \<Rightarrow>
     (pubkey \<times> Rule \<times> RawAccount list) list \<Rightarrow> u64 \<Rightarrow> MigrateError + State" where
  "export_state ac tools program_id first epoch accept bridge_accounts system_accounts owned supply_lamports =
     (let config_k = fst (config_pda (to_find_pda tools) program_id) in
      ok_or (List.find (\<lambda>a. rw_pubkey a = config_k) bridge_accounts) NoConfig (\<lambda>account.
      attempt (map_err MigrateBridge (Config_decode (to_sha256 tools) (rw_data account))) (\<lambda>cfg.
      attempt (live_m6id tools program_id (live_bundle cfg) bridge_accounts) (\<lambda>m6.
      attempt (finish ac first (cursor_of cfg m6) supply_lamports
        (carried_all ac program_id config_k (rw_lamports account) bridge_accounts system_accounts owned)) (\<lambda>state.
      attempt (accept_ownerless_lamports (ms_ownerless_lamports state) accept) (\<lambda>_.
      Inr (state\<lparr>ms_epoch := epoch\<rparr>)))))))"

record 'w halted_node =
  hn_get_slot :: "('w, RpcError, u64) act"
  hn_get_epoch :: "('w, RpcError, u64) act"
  hn_get_supply :: "('w, RpcError, json) act"
  hn_get_program_accounts :: "string \<Rightarrow> ('w, RpcError, json) act"

definition read_slot :: "'w halted_node \<Rightarrow> ('w, MigrateError, u64) act" where
  "read_slot hn = action_err (MigrateRpc ''getSlot'') (hn_get_slot hn)"

definition read_supply :: "'w halted_node \<Rightarrow> ('w, MigrateError, u64 \<times> u64) act" where
  "read_supply hn =
     perform (action_err (MigrateRpc ''getSupply'') (hn_get_supply hn)) (\<lambda>answer.
     pure (ok_or (as_u64 (json_get ''slot'' (json_get ''context'' answer))) (BadAnswer ''getSupply'') (\<lambda>seen.
     ok_or (as_u64 (json_get ''total'' (json_get ''value'' answer))) (BadAnswer ''getSupply'') (\<lambda>n.
     Inr (seen, n)))))"

definition raw_account :: "account_codes \<Rightarrow> json \<Rightarrow> RawAccount option" where
  "raw_account ac item =
     (let account = json_get ''account'' item in
      Option.bind (Option.bind (as_str (json_get ''pubkey'' item)) (ac_parse_key ac)) (\<lambda>pubkey.
      Option.bind (as_u64 (json_get ''lamports'' account)) (\<lambda>lamports.
      Option.bind (as_bool (json_get ''executable'' account)) (\<lambda>executable.
      Option.bind (Option.bind (as_str (json_at 0 (json_get ''data'' account))) (ac_decode64 ac)) (\<lambda>data.
      Some \<lparr>rw_pubkey = pubkey, rw_lamports = lamports, rw_data = data, rw_executable = executable\<rparr>)))))"

definition program_accounts ::
  "account_codes \<Rightarrow> 'w halted_node \<Rightarrow> pubkey \<Rightarrow> ('w, MigrateError, u64 \<times> RawAccount list) act" where
  "program_accounts ac hn program_id =
     perform (action_err (MigrateRpc ''getProgramAccounts'')
       (hn_get_program_accounts hn (ac_key_text ac program_id))) (\<lambda>answer.
     let bad = BadAnswer ''getProgramAccounts'' in
     pure (ok_or (as_u64 (json_get ''slot'' (json_get ''context'' answer))) bad (\<lambda>seen.
     ok_or (as_array (json_get ''value'' answer)) bad (\<lambda>items.
     ok_or (those (map (raw_account ac) items)) bad (\<lambda>accounts.
     Inr (seen, accounts))))))"

text \<open>
  The walk from the loaders to every program. It ends: a turn that reads adds a new key to the seen ones,
  and the keys are finitely many.
\<close>

function walk_owners ::
  "account_codes \<Rightarrow> 'w halted_node \<Rightarrow> pubkey list \<Rightarrow> pubkey list \<Rightarrow> u64 list \<Rightarrow>
     (pubkey \<times> Rule \<times> RawAccount list) list \<Rightarrow>
     ('w, MigrateError, u64 list \<times> (pubkey \<times> Rule \<times> RawAccount list) list) act" where
  "walk_owners ac hn seen queue slots owned w =
     (if queue = [] then (Inr (slots, owned), w)
      else let owner = List.last queue in
        if owner \<in> set seen then walk_owners ac hn seen (butlast queue) slots owned w
        else case program_accounts ac hn owner w of
               (Inl e, w') \<Rightarrow> (Inl e, w')
             | (Inr (at, accounts), w') \<Rightarrow>
                 walk_owners ac hn (owner # seen) (butlast queue @ program_ids ac owner accounts) (slots @ [at])
                   (owned @ [(owner, rule_of ac owner, accounts)]) w')"
  by pat_completeness auto
termination
proof (relation "measures [\<lambda>(ac, hn, seen, queue, slots, owned, w). card (- set seen),
    \<lambda>(ac, hn, seen, queue, slots, owned, w). length queue]")
qed (auto intro!: psubset_card_mono)

declare walk_owners.simps [simp del]

definition export ::
  "account_codes \<Rightarrow> tools \<Rightarrow> 'w halted_node \<Rightarrow> pubkey \<Rightarrow> u64 option \<Rightarrow> ('w, MigrateError, State) act" where
  "export ac tools hn program_id accept =
     perform (read_slot hn) (\<lambda>first.
     perform (action_err (MigrateRpc ''getEpochInfo'') (hn_get_epoch hn)) (\<lambda>epoch.
     perform (program_accounts ac hn program_id) (\<lambda>(seen1, bridge_accounts).
     perform (program_accounts ac hn SYSTEM_PROGRAM_ID) (\<lambda>(seen2, system_accounts).
     perform (pure (ok_or (those (map (ac_parse_key ac) ROOT_OWNERS)) (BadAnswer ''owner'') Inr)) (\<lambda>roots.
     let queue = roots @ map rw_pubkey (filter rw_executable (system_accounts @ bridge_accounts)) in
     perform (walk_owners ac hn [program_id, SYSTEM_PROGRAM_ID] queue [seen1, seen2] []) (\<lambda>(slots, owned).
     perform (read_supply hn) (\<lambda>(seen3, supply_lamports).
     perform (read_slot hn) (\<lambda>seen4.
     let slots = slots @ [seen3, seen4] in
     pure (if \<exists>seen \<in> set slots. seen \<noteq> first then Inl (NotHalted first (Max (set slots)))
           else export_state ac tools program_id first epoch accept bridge_accounts system_accounts owned
             supply_lamports)))))))))"

end
