(* ===== verification/Migrate_Properties.thy ===== *)
theory Migrate_Properties
  imports Migrate Peg_Properties
begin

text \<open>
  Properties of the export: no lamport of the halted chain stays behind, and the walk over the owners
  reads the accounts of every program that it finds.
\<close>

section \<open>The lamports of the export\<close>

definition held :: "Carried \<Rightarrow> nat" where
  "held c = (\<Sum>b\<leftarrow>cd_balances c. unat (snd b)) + (\<Sum>a\<leftarrow>cd_accounts c. unat (ca_lamports a)) + unat (cd_fixed c)"

text \<open>While the count of the read lamports did not saturate, it is the sum of what the export holds.\<close>

definition accounted :: "Carried \<Rightarrow> bool" where
  "accounted c \<longleftrightarrow> bt_ok (cd_balances c) \<and> (unat (cd_read c) < 2 ^ 64 - 1 \<longrightarrow> unat (cd_read c) = held c)"

lemma saturating_below_top:
  "unat (saturating_add a (b :: u64)) < 2 ^ 64 - 1 \<Longrightarrow> unat (saturating_add a b) = unat a + unat b"
  by (auto simp: unat_saturating_add min_def split: if_splits)

lemma accounted_step:
  assumes "accounted c" "bt_ok (cd_balances c')" "cd_read c' = saturating_add (cd_read c) n"
    and "unat (cd_read c) + unat n < 2 ^ 64 - 1 \<Longrightarrow> unat (cd_read c) = held c \<Longrightarrow> held c' = held c + unat n"
  shows "accounted c'"
  unfolding accounted_def
proof (intro conjI impI)
  assume top: "unat (cd_read c') < 2 ^ 64 - 1"
  then have exact: "unat (cd_read c') = unat (cd_read c) + unat n"
    unfolding assms(3) by (rule saturating_below_top)
  then have "unat (cd_read c) = held c" using assms(1) top by (simp add: accounted_def)
  then show "unat (cd_read c') = held c'" using assms(4) top exact by simp
qed (rule assms(2))

lemma accounted_carry: "accounted c \<Longrightarrow> accounted (carry ac account owner c)"
  by (rule accounted_step [of c _ "rw_lamports account"]) (simp_all add: carry_def accounted_def held_def)

lemma carry_fields [simp]:
  "cd_balances (carry ac account owner c) = cd_balances c"
  "cd_converted (carry ac account owner c) = cd_converted c"
  "cd_bridge_program (carry ac account owner c) = cd_bridge_program c"
  by (simp_all add: carry_def)

lemma accounted_system:
  assumes "accounted c" "rw_pubkey account \<notin> fst ` set (cd_balances c)"
  shows "accounted (system ac account c)"
proof (cases "rw_data account = [] \<and> \<not> rw_executable account")
  case True
  note plain = True
  show ?thesis
  proof (cases "rw_lamports account = 0")
    case True
    then have "system ac account c = c\<lparr>cd_read := saturating_add (cd_read c) (rw_lamports account)\<rparr>"
      using plain by (simp add: system_def Let_def)
    moreover have "unat (rw_lamports account) = 0" using True by (simp only: unsigned_0)
    ultimately show ?thesis
      using assms(1) by (intro accounted_step [OF assms(1)]) (simp_all add: accounted_def held_def del: word_eq_unat)
  next
    case False
    then have "system ac account c = c\<lparr>cd_read := saturating_add (cd_read c) (rw_lamports account),
        cd_balances := bt_insert (rw_pubkey account) (rw_lamports account) (cd_balances c)\<rparr>"
      using plain by (simp add: system_def Let_def word_neq_0_conv)
    then show ?thesis
      using assms by (intro accounted_step [OF assms(1)])
        (simp_all add: accounted_def held_def bt_ok_insert sum_bt_insert)
  qed
next
  case False
  then show ?thesis unfolding system_def by (simp only: False if_False accounted_carry [OF assms(1)])
qed

lemma accounted_apply_rule: "accounted c \<Longrightarrow> accounted (apply_rule ac owner rule account c)"
proof -
  assume a: "accounted c"
  have fixed: "accounted (c\<lparr>cd_read := saturating_add (cd_read c) (rw_lamports account),
      cd_fixed := saturating_add (cd_fixed c) (rw_lamports account)\<rparr>)"
  proof (rule accounted_step [OF a])
    assume "unat (cd_read c) + unat (rw_lamports account) < 2 ^ 64 - 1" "unat (cd_read c) = held c"
    then have "unat (cd_fixed c) + unat (rw_lamports account) \<le> 2 ^ 64 - 1" by (simp add: held_def)
    then show "held (c\<lparr>cd_read := saturating_add (cd_read c) (rw_lamports account),
        cd_fixed := saturating_add (cd_fixed c) (rw_lamports account)\<rparr>) = held c + unat (rw_lamports account)"
      by (simp add: held_def unat_saturating_add)
  qed (use a in \<open>simp_all add: accounted_def\<close>)
  have converted: "accounted (c\<lparr>cd_converted := x\<rparr>)" for x using a by (simp add: accounted_def held_def)
  show ?thesis
    using accounted_carry [OF a] fixed converted by (simp add: apply_rule_def Let_def split: Rule.splits option.splits)
qed

lemma accounted_convert:
  assumes "accounted c" "convert withdrawer account c = Inr c'"
  shows "accounted c'"
proof -
  let ?balance = "case map_of (cd_balances c) withdrawer of None \<Rightarrow> 0 | Some n \<Rightarrow> n"
  obtain n where n: "unat n = unat ?balance + unat (rw_lamports account)"
    and c': "c' = c\<lparr>cd_read := saturating_add (cd_read c) (rw_lamports account),
      cd_balances := bt_insert withdrawer n (cd_balances c)\<rparr>"
    using assms(2) by (auto simp: convert_def Let_def result_iff arith_iff)
  have bt: "bt_ok (cd_balances c)" using assms(1) by (simp add: accounted_def)
  have "(\<Sum>b\<leftarrow>bt_insert withdrawer n (cd_balances c). unat (snd b)) =
      (\<Sum>b\<leftarrow>cd_balances c. unat (snd b)) + unat (rw_lamports account)"
  proof (cases "map_of (cd_balances c) withdrawer")
    case None
    then have "withdrawer \<notin> fst ` set (cd_balances c)" by (simp add: map_of_eq_None_iff)
    then show ?thesis using n unfolding None option.case by (simp add: sum_bt_insert unsigned_0)
  next
    case (Some u)
    then show ?thesis using n sum_bt_update [OF bt Some, of "\<lambda>b. unat (snd b)" n] by simp
  qed
  then show ?thesis
    using bt by (intro accounted_step [OF assms(1)]) (simp_all add: c' held_def bt_ok_insert)
qed

lemma accounted_convert_all:
  "accounted c \<Longrightarrow> convert_all withdrawer sources c = Inr c' \<Longrightarrow> accounted c'"
  by (induction withdrawer sources c rule: convert_all.induct) (auto simp: result_iff intro: accounted_convert)

lemma accounted_fold:
  assumes "accounted c" "\<And>x c. accounted c \<Longrightarrow> accounted (f x c)"
  shows "accounted (fold f xs c)"
  using assms(1) by (induction xs arbitrary: c) (auto intro: assms(2))

lemma accounted_finish_converted:
  "accounted c \<Longrightarrow> finish_converted ac not_plain converted c = Inr c' \<Longrightarrow> accounted c'"
proof (induction ac not_plain converted c rule: finish_converted.induct)
  case (2 ac not_plain withdrawer sources rest c)
  show ?case
  proof (cases "ac_key_text ac withdrawer \<in> set not_plain")
    case True
    then show ?thesis
      using 2 by (auto intro!: "2.IH"(1) accounted_fold simp: accounted_carry)
  next
    case False
    then obtain c1 where one: "convert_all withdrawer sources c = Inr c1"
      "finish_converted ac not_plain rest c1 = Inr c'" using "2.prems"(2) by (auto simp: result_iff)
    then show ?thesis using "2.IH"(2) [OF False] accounted_convert_all [OF "2.prems"(1)] by blast
  qed
qed simp

lemma disjoint_insert: "X \<subseteq> insert p Y \<Longrightarrow> p \<notin> Z \<Longrightarrow> Y \<inter> Z = {} \<Longrightarrow> X \<inter> Z = {}"
  by blast

lemma accounted_systems:
  assumes "accounted c" "distinct (map rw_pubkey accounts)"
    "fst ` set (cd_balances c) \<inter> rw_pubkey ` set accounts = {}"
  shows "accounted (fold (system ac) accounts c)"
  using assms
proof (induction accounts arbitrary: c)
  case (Cons a accounts)
  have "fst ` set (cd_balances (system ac a c)) \<subseteq> insert (rw_pubkey a) (fst ` set (cd_balances c))"
    by (auto simp: system_def Let_def keys_bt_insert)
  then have "fst ` set (cd_balances (system ac a c)) \<inter> rw_pubkey ` set accounts = {}"
    by (rule disjoint_insert) (use Cons.prems(2,3) in auto)
  moreover have "accounted (system ac a c)"
    by (rule accounted_system [OF Cons.prems(1)]) (use Cons.prems(3) in auto)
  ultimately show ?case using Cons.IH [of "system ac a c"] Cons.prems(2) by (simp only: fold_simps) simp
qed simp

lemma accounted_carried_all:
  assumes "distinct (map rw_pubkey system_accounts)"
  shows "accounted (carried_all ac program_id config_k n bridge_accounts system_accounts owned)"
proof -
  let ?c = "\<lparr>cd_balances = [], cd_accounts = [], cd_converted = [], cd_fixed = n, cd_read = n,
    cd_bridge_program = Some program_id\<rparr>"
  let ?c1 = "fold (\<lambda>a. carry ac a program_id) (filter (\<lambda>a. rw_pubkey a \<noteq> config_k) bridge_accounts) ?c"
  have "accounted ?c" by (simp add: accounted_def held_def)
  then have "accounted ?c1" by (rule accounted_fold) (rule accounted_carry)
  moreover have "cd_balances (fold (\<lambda>a. carry ac a program_id) as c) = cd_balances c" for as c
    by (induction as arbitrary: c) simp_all
  then have "cd_balances ?c1 = []" by (simp only: Carried.simps)
  ultimately have "accounted (fold (system ac) system_accounts ?c1)"
    by (intro accounted_systems assms) (simp_all only: list.set image_empty Int_empty_left)
  then show ?thesis
    unfolding carried_all_def Let_def
    by (rule accounted_fold) (auto intro!: accounted_fold accounted_apply_rule)
qed

text \<open>
  C18: No lamport of the halted chain stays behind unseen: in every state that the export gives, the
  balances, the carried accounts, the lamports that the new genesis makes again, and the lamports without
  an owner, whose exact number the operator accepted, are together the whole supply.
\<close>

theorem export_leaves_no_lamport:
  assumes "account_codes_ok ac" "distinct (map rw_pubkey system_accounts)" "unat supply_lamports < 2 ^ 64 - 1"
    and "export_state ac tools program_id first epoch accept bridge_accounts system_accounts owned
      supply_lamports = Inr state"
  shows "(\<Sum>b\<leftarrow>ms_balances state. unat (snd b)) + (\<Sum>a\<leftarrow>ms_accounts state. unat (ca_lamports a)) +
      unat (ms_fixed_lamports state) + unat (ms_ownerless_lamports state) = unat supply_lamports \<and>
    (ms_ownerless_lamports state = 0 \<or> accept = Some (ms_ownerless_lamports state))"
proof -
  obtain account :: RawAccount and cfg m6 st where
    fin: "finish ac first (cursor_of cfg m6) supply_lamports
      (carried_all ac program_id (fst (config_pda (to_find_pda tools) program_id)) (rw_lamports account)
        bridge_accounts system_accounts owned) = Inr st"
    and accepted: "\<exists>u. accept_ownerless_lamports (ms_ownerless_lamports st) accept = Inr u"
    and state: "st\<lparr>ms_epoch := epoch\<rparr> = state"
    using assms(4) unfolding export_state_def Let_def result_iff sum.inject by blast
  let ?c = "carried_all ac program_id (fst (config_pda (to_find_pda tools) program_id)) (rw_lamports account)
        bridge_accounts system_accounts owned"
  have "accounted ?c" by (rule accounted_carried_all [OF assms(2)])
  then have start: "accounted (?c\<lparr>cd_converted := []\<rparr>)" by (simp add: accounted_def held_def)
  obtain not_plain c' where conv: "finish_converted ac not_plain (cd_converted ?c) (?c\<lparr>cd_converted := []\<rparr>) = Inr c'"
    and left: "unat supply_lamports = unat (ms_ownerless_lamports st) + unat (cd_read c')"
    and st: "ms_balances st = bt_collect (map (\<lambda>(k, n). (ac_key_text ac k, n)) (cd_balances c'))"
      "ms_accounts st = cd_accounts c'" "ms_fixed_lamports st = cd_fixed c'"
    using fin unfolding finish_def Let_def by (auto simp: result_iff arith_iff)
  have acc: "accounted c'" by (rule accounted_finish_converted [OF start conv])
  then have read: "unat (cd_read c') = held c'" using left assms(3) by (simp add: accounted_def)
  have inj: "inj (ac_key_text ac)"
    using assms(1) by (intro injI) (metis account_codes_ok_def option.inject)
  have "distinct (map fst (cd_balances c'))" using acc bt_ok_distinct by (auto simp: accounted_def)
  moreover have "map fst (map (\<lambda>(k, n). (ac_key_text ac k, n)) (cd_balances c')) =
      map (ac_key_text ac) (map fst (cd_balances c'))"
    by (simp add: case_prod_beta)
  ultimately have "distinct (map fst (map (\<lambda>(k, n). (ac_key_text ac k, n)) (cd_balances c')))"
    using inj by (simp only: distinct_map) (auto simp: inj_on_def inj_def)
  then have "(\<Sum>b\<leftarrow>ms_balances st. unat (snd b)) = (\<Sum>b\<leftarrow>cd_balances c'. unat (snd b))"
    unfolding st by (simp only: sum_bt_collect) (simp add: comp_def case_prod_beta)
  then show ?thesis
    using left read accepted st(2,3)
    by (auto simp: state [symmetric] held_def accept_ownerless_lamports_def split: if_splits)
qed

definition sample_account_codes :: account_codes where
  "sample_account_codes =
     \<lparr>ac_key_text = (\<lambda>k. hex_encode (array_bytes k)),
      ac_parse_key = (\<lambda>s. case decode_hex s '''' of
        Inr bs \<Rightarrow> if length bs = 32 then Some (array_of bs) else None | Inl _ \<Rightarrow> None),
      ac_encode64 = hex_encode,
      ac_decode64 = (\<lambda>s. case decode_hex s '''' of Inr bs \<Rightarrow> Some bs | Inl _ \<Rightarrow> None)\<rparr>"

lemma sample_account_codes_ok: "account_codes_ok sample_account_codes"
  by (simp add: account_codes_ok_def sample_account_codes_def decode_hex_encode)

definition sample_raw :: "pubkey \<Rightarrow> u64 \<Rightarrow> bytes \<Rightarrow> RawAccount" where
  "sample_raw k n data = \<lparr>rw_pubkey = k, rw_lamports = n, rw_data = data, rw_executable = False\<rparr>"

lemma export_leaves_no_lamport_witness:
  "\<exists>state. export_state sample_account_codes sample_tools ID 77 3 (Some 5)
     [sample_raw (fst (config_pda (to_find_pda sample_tools) ID)) 900 (Config_encode (to_sha256 sample_tools) sample_config)]
     [sample_raw ALICE 40000 []] [] 40905 = Inr state \<and>
   (\<Sum>b\<leftarrow>ms_balances state. unat (snd b)) + (\<Sum>a\<leftarrow>ms_accounts state. unat (ca_lamports a)) +
     unat (ms_fixed_lamports state) + unat (ms_ownerless_lamports state) = 40905"
proof -
  let ?out = "export_state sample_account_codes sample_tools ID 77 3 (Some 5)
     [sample_raw (fst (config_pda (to_find_pda sample_tools) ID)) 900 (Config_encode (to_sha256 sample_tools) sample_config)]
     [sample_raw ALICE 40000 []] [] 40905"
  have live: "live_bundle sample_config = None" by (simp add: live_bundle_def sample_config_def)
  obtain state where state: "?out = Inr state"
    by (simp add: export_state_def sample_raw_def Let_def Config_decode_encode live live_m6id_def carried_all_def
        system_def finish_def saturating_add_def checked_sub_def accept_ownerless_lamports_def)
  then show ?thesis
    using export_leaves_no_lamport [OF sample_account_codes_ok _ _ state] by (simp add: sample_raw_def)
qed

section \<open>The walk over the owners\<close>

definition closed_under_programs :: "account_codes \<Rightarrow> pubkey set \<Rightarrow> (pubkey \<times> Rule \<times> RawAccount list) list \<Rightarrow> bool" where
  "closed_under_programs ac ks owned \<longleftrightarrow>
     (\<forall>(owner, rule, accounts) \<in> set owned. set (program_ids ac owner accounts) \<subseteq> ks)"

lemma walk_owners_closed:
  assumes "walk_owners ac hn seen queue slots owned w = (Inr (slots', owned'), w')"
    and "set seen = base \<union> fst ` set owned" "closed_under_programs ac (set seen \<union> set queue) owned"
  shows "set queue \<subseteq> base \<union> fst ` set owned' \<and> fst ` set owned \<subseteq> fst ` set owned' \<and>
    closed_under_programs ac (base \<union> fst ` set owned') owned'"
  using assms
proof (induction ac hn seen queue slots owned w rule: walk_owners.induct)
  case (1 ac hn seen queue slots owned w)
  show ?case
  proof (cases "queue = []")
    case True
    then show ?thesis using "1.prems" by (simp add: walk_owners.simps [of ac hn seen "[]"])
  next
    case False
    let ?owner = "last queue"
    have split: "set queue = insert ?owner (set (butlast queue))"
      using False by (metis append_butlast_last_id list.set(1) list.set(2) set_append sup_bot.right_neutral Un_insert_right)
    show ?thesis
    proof (cases "?owner \<in> set seen")
      case True
      then have "walk_owners ac hn seen (butlast queue) slots owned w = (Inr (slots', owned'), w')"
        using "1.prems"(1) False by (simp add: walk_owners.simps [of ac hn seen queue])
      moreover have same: "set seen \<union> set (butlast queue) = set seen \<union> set queue" using split True by auto
      ultimately have rest: "set (butlast queue) \<subseteq> base \<union> fst ` set owned' \<and> fst ` set owned \<subseteq> fst ` set owned' \<and>
          closed_under_programs ac (base \<union> fst ` set owned') owned'"
        using "1.IH"(1) [OF False refl True _ "1.prems"(2)] "1.prems"(3) unfolding same by blast
      then have "?owner \<in> base \<union> fst ` set owned'" using True "1.prems"(2) by blast
      then show ?thesis using rest unfolding split by blast
    next
      case new: False
      obtain at accounts w1 where read: "program_accounts ac hn ?owner w = (Inr (at, accounts), w1)"
        using "1.prems"(1) False new
        by (auto simp: walk_owners.simps [of ac hn seen queue] Let_def split: prod.splits sum.splits)
      let ?owned = "owned @ [(?owner, rule_of ac ?owner, accounts)]"
      let ?queue = "butlast queue @ program_ids ac ?owner accounts"
      have go: "walk_owners ac hn (?owner # seen) ?queue (slots @ [at]) ?owned w1 = (Inr (slots', owned'), w')"
        using "1.prems"(1) False new read by (simp add: walk_owners.simps [of ac hn seen queue] Let_def)
      have "closed_under_programs ac (set (?owner # seen) \<union> set ?queue) ?owned"
        using "1.prems"(3) split by (fastforce simp: closed_under_programs_def)
      moreover have "set (?owner # seen) = base \<union> fst ` set ?owned" using "1.prems"(2) by simp
      ultimately have "set ?queue \<subseteq> base \<union> fst ` set owned' \<and> fst ` set ?owned \<subseteq> fst ` set owned' \<and>
          closed_under_programs ac (base \<union> fst ` set owned') owned'"
        using "1.IH"(2) [OF False refl new read [symmetric] refl refl] go by blast
      then show ?thesis using split by auto
    qed
  qed
qed


text \<open>A chain whose program 5 owns the executable account 6, which owns nothing.\<close>

definition sample_item :: json where
  "sample_item =
     JObject [(''pubkey'', JString (hex_encode (array_bytes 6))),
       (''account'', JObject [(''lamports'', JPosInt 700), (''executable'', JBool True),
          (''data'', JArray [JString (hex_encode (array_bytes 0)), JString ''base64''])])]"

definition sample_answer :: "json list \<Rightarrow> json" where
  "sample_answer items = JObject [(''context'', JObject [(''slot'', JPosInt 9)]), (''value'', JArray items)]"

definition sample_halted :: "unit halted_node" where
  "sample_halted =
     \<lparr>hn_get_slot = return 9, hn_get_epoch = return 2, hn_get_supply = return JNull,
      hn_get_program_accounts = (\<lambda>text. return
        (sample_answer (if text = hex_encode (array_bytes 5) then [sample_item] else [])))\<rparr>"

lemma hex_key_eq: "hex_encode (array_bytes k) = hex_encode (array_bytes k') \<longleftrightarrow> k = k'"
  by (metis decode_hex_encode array_of_bytes sum.inject(2))

lemma hex_key_ne: "length s \<noteq> 64 \<Longrightarrow> hex_encode (array_bytes k) \<noteq> s"
  by (metis length_hex_encode length_array_bytes mult_2 numeral_Bit0)


end
