(* ===== verification/Genesis.thy ===== *)
theory Genesis
  imports Migrate
begin

text \<open>
  The primordial accounts of a new chain (\<^verbatim>\<open>daemon/src/genesis.rs\<close>): the vault, the treasury, the config and
  the block record of the bridge, the accounts that a migration carries, with their slots and epochs moved
  back to the start, and the accounts of the exchange.
\<close>

section \<open>Data\<close>

record Params =
  pa_program_id :: pubkey
  pa_supply_lamports :: u64
  pa_oracle :: pubkey
  pa_oracle_lamports :: u64
  pa_float_lamports :: u64
  pa_bmm_skip_blocks :: u64
  pa_lamports_per_byte_year :: u64
  pa_ecash_start_height :: u64
  pa_deposit_confirmations :: u64
  pa_deposit_lag :: u64
  pa_bootstrap_keys :: "pubkey option list"

record Account =
  ga_pubkey :: pubkey
  ga_lamports :: u64
  ga_owner :: pubkey
  ga_data :: bytes
  ga_executable :: bool

datatype GenesisError =
    NoConfirmations | RentOverflow nat | NoVault | VaultOpen u64 u64 u64 | NoLiveM6id u64 u64
  | BadPubkey string | BadRecordData string | BadAccountsFile nat | KeyTwice pubkey
  | BootstrapKeyCarried pubkey | FloatOverflow | DexFeesHeld pubkey u64 | BadDexAccount pubkey
  | DexLamportsHeld pubkey u64

definition TOKEN_PROGRAM_ID :: pubkey where
  "TOKEN_PROGRAM_ID = 0x6ddf6e1d765a193d9cbe146ceeb79ac1cb485ed5f5b37913a8cf5857eff00a9"

definition TOKEN_ACCOUNT_LEN :: nat where
  "TOKEN_ACCOUNT_LEN = 165"

section \<open>The exchange accounts\<close>

definition u64_at :: "bytes \<Rightarrow> nat \<Rightarrow> nat \<Rightarrow> u64 option" where
  "u64_at data start end = map_option from_le_bytes (get_slice start end data)"

definition is_token_account :: "Account \<Rightarrow> bool" where
  "is_token_account a \<longleftrightarrow> ga_owner a = TOKEN_PROGRAM_ID \<and> length (ga_data a) = TOKEN_ACCOUNT_LEN"

text \<open>The mint and the owner are the bytes 0 to 64, the amount 64 to 72, the native flag 109 to 113, the reserve 113 to 121.\<close>

definition fresh_over :: "Account \<Rightarrow> Account \<Rightarrow> GenesisError + Account" where
  "fresh_over fresh carried =
     (let out = (\<lambda>data. \<lparr>ga_pubkey = ga_pubkey fresh, ga_lamports = ga_lamports carried, ga_owner = ga_owner fresh,
                        ga_data = data, ga_executable = False\<rparr>)
      in if is_token_account fresh then
           require (is_token_account carried) (BadDexAccount (ga_pubkey carried))
           (if subslice 0 64 (ga_data carried) = subslice 0 64 (ga_data fresh) then Inr carried
            else
              let amount = (case u64_at (ga_data carried) 64 72 of None \<Rightarrow> 0 | Some n \<Rightarrow> n) in
              require (amount = 0) (DexFeesHeld (ga_pubkey carried) amount) (
              ok_or (if subslice 109 113 (ga_data carried) = [1, 0, 0, 0] then u64_at (ga_data carried) 113 121
                     else None) (BadDexAccount (ga_pubkey carried)) (\<lambda>reserve.
              require (ga_lamports carried = reserve)
                (DexLamportsHeld (ga_pubkey carried) (saturating_sub (ga_lamports carried) reserve)) (
              Inr (out (copy_into 113 (to_le_bytes (ga_lamports carried)) (ga_data fresh)))))))
         else Inr (out (ga_data fresh)))"

section \<open>Slots and epochs\<close>

definition UPGRADEABLE_LOADER_ID :: pubkey where
  "UPGRADEABLE_LOADER_ID = 0x2a8f6914e88a1b0e210153ef763ae2b00c2b93d16c124d2c0537a1004800000"

definition LOADER_V4_ID :: pubkey where
  "LOADER_V4_ID = 0x512b4115151e37aad0a8bc5d3882e7b7fda4cf3d2c028c8cf83361800000000"

definition LOOKUP_TABLE_ID :: pubkey where
  "LOOKUP_TABLE_ID = 0x277a6af97339b7ac88d1892c90446f50002309266f62e53c118244982000000"

definition STAKE_ID :: pubkey where
  "STAKE_ID = 0x6a1d8179137542a983437bdfe2a7ab2557f535c8a78722b68a49dc000000000"

definition VOTE_ID :: pubkey where
  "VOTE_ID = 0x761481d357474bb7c4d7624ebd3bdb3d8355e73d11043fc0da3538000000000"

definition TOKEN_2022_ID :: pubkey where
  "TOKEN_2022_ID = 0x6ddf6e1ee758fde18425dbce46ccddab61afc4d83b90d27febdf928d8a18bfc"

text \<open>
  The walk over the extensions of a mint: nothing when the list does not decode to the end, and then the
  mint stays; otherwise where the fee config starts, when there is one.
\<close>

function fee_scan :: "bytes \<Rightarrow> nat \<Rightarrow> nat option \<Rightarrow> nat option option" where
  "fee_scan data at fee =
     (if at < length data then
        if length data - at = 2 then (if drop at data \<noteq> [0, 0] then None else Some fee)
        else case get_slice at (at + 4) data of
               None \<Rightarrow> None
             | Some head \<Rightarrow>
                 let kind = from_le_bytes (take 2 head) :: u16;
                     len = unat (from_le_bytes (drop 2 head) :: u16);
                     value = at + 4
                 in if kind = 0 then (if \<exists>b \<in> set (drop at data). b \<noteq> 0 then None else Some fee)
                    else if length data < value + len then None
                    else if kind = 1 then
                      (if len \<noteq> 108 \<or> fee \<noteq> None then None else fee_scan data (value + len) (Some value))
                    else fee_scan data (value + len) fee
      else Some fee)"
  by pat_completeness auto
termination by (relation "measure (\<lambda>(data, at, fee). length data - at)") (auto simp: arith_iff)

declare fee_scan.simps [simp del]

definition sub_epoch :: "u64 \<Rightarrow> nat \<Rightarrow> bytes \<Rightarrow> bytes" where
  "sub_epoch source_epoch at data =
     copy_into at (to_le_bytes (saturating_sub (from_le_bytes (subslice at (at + 8) data) :: u64) source_epoch)) data"

definition rebase_transfer_fees :: "bytes \<Rightarrow> u64 \<Rightarrow> bytes" where
  "rebase_transfer_fees data source_epoch =
     (if length data = 355 \<or> \<not> 165 < length data \<or> data ! 165 \<noteq> 1 \<or> (\<exists>b \<in> set (subslice 82 165 data). b \<noteq> 0)
      then data
      else case fee_scan data 166 None of
             Some (Some value) \<Rightarrow> sub_epoch source_epoch (value + 90) (sub_epoch source_epoch (value + 72) data)
           | _ \<Rightarrow> data)"

definition set_zero :: "nat \<Rightarrow> nat \<Rightarrow> bool \<Rightarrow> bytes \<Rightarrow> bytes" where
  "set_zero start end keep_max data =
     (case get_slice start end data of
        None \<Rightarrow> data
      | Some old \<Rightarrow>
          if keep_max \<and> (\<forall>b \<in> set old. b = 0xff) then data else copy_into start (to_le_bytes (0 :: u64)) data)"

definition rebase_voters :: "(u64 \<times> bytes) list \<Rightarrow> u64 \<Rightarrow> (u64 \<times> bytes) list option" where
  "rebase_voters voters source_epoch =
     Option.bind
       (case List.find (\<lambda>(epoch, voter). epoch \<le> source_epoch) (rev voters) of
          Some current \<Rightarrow> Some current
        | None \<Rightarrow> (case voters of [] \<Rightarrow> None | v # _ \<Rightarrow> Some v))
       (\<lambda>current. Some ((0, snd current) #
       map (\<lambda>(epoch, voter). (epoch - source_epoch, voter)) (filter (\<lambda>(epoch, voter). source_epoch < epoch) voters)))"

text \<open>The reader of a vote account: its position in the data.\<close>

definition take_at :: "bytes \<Rightarrow> nat \<Rightarrow> nat \<Rightarrow> (bytes \<times> nat) option" where
  "take_at data at len = map_option (\<lambda>out. (out, at + len)) (get_slice at (at + len) data)"

definition u64_from :: "bytes \<Rightarrow> nat \<Rightarrow> (u64 \<times> nat) option" where
  "u64_from data at = map_option (\<lambda>(out, at'). (from_le_bytes out, at')) (take_at data at 8)"

definition u8_from :: "bytes \<Rightarrow> nat \<Rightarrow> (u8 \<times> nat) option" where
  "u8_from data at = map_option (\<lambda>(out, at'). (hd out, at')) (take_at data at 1)"

fun read_voters :: "bytes \<Rightarrow> nat \<Rightarrow> nat \<Rightarrow> ((u64 \<times> bytes) list \<times> nat) option" where
  "read_voters data 0 at = Some ([], at)"
| "read_voters data (Suc n) at =
     Option.bind (u64_from data at) (\<lambda>(epoch, at).
     Option.bind (take_at data at 32) (\<lambda>(voter, at).
     Option.bind (read_voters data n at) (\<lambda>(voters, at). Some ((epoch, voter) # voters, at))))"

text \<open>By the version: where the kept part ends, the length of a vote, and whether prior voters follow.\<close>

definition vote_layout :: "bytes \<Rightarrow> (nat \<times> nat \<times> bool) option" where
  "vote_layout data =
     Option.bind (get_slice 0 4 data) (\<lambda>tag.
     let version = from_le_bytes tag :: u32 in
     if version = 1 then Option.bind (take_at data 4 65) (\<lambda>(_, at). Some (at, 12, True))
     else if version = 2 then Option.bind (take_at data 4 65) (\<lambda>(_, at). Some (at, 13, True))
     else if version = 3 then
       Option.bind (take_at data 4 (32 * 4 + 2 + 2 + 8)) (\<lambda>(_, at).
       Option.bind (u8_from data at) (\<lambda>(has_key, at).
       if has_key = 1 then Option.bind (take_at data at 48) (\<lambda>(_, at). Some (at, 13, False))
       else Some (at, 13, False)))
     else None)"

definition voter_entries :: "(u64 \<times> bytes) list \<Rightarrow> bytes" where
  "voter_entries voters = concat (map (\<lambda>(epoch, voter). to_le_bytes epoch @ voter) voters)"

definition reset_vote :: "bytes \<Rightarrow> u64 \<Rightarrow> bytes option" where
  "reset_vote data source_epoch =
     Option.bind (vote_layout data) (\<lambda>(kept, vote_len, prior).
     Option.bind (u64_from data kept) (\<lambda>(votes, at).
     Option.bind (take_at data at (unat votes * vote_len)) (\<lambda>(_, at).
     Option.bind (u8_from data at) (\<lambda>(has_root, at).
     Option.bind (if has_root = 1 then map_option snd (u64_from data at) else Some at) (\<lambda>at.
     Option.bind (u64_from data at) (\<lambda>(count, at).
     Option.bind (read_voters data (unat count) at) (\<lambda>(voters, at).
     Option.bind (rebase_voters voters source_epoch) (\<lambda>voters.
     let fresh = take kept data @ to_le_bytes (0 :: u64) @ [0] @
           to_le_bytes (word_of_nat (length voters) :: u64) @ voter_entries voters @
           (if prior then replicate (32 * 48) 0 @ to_le_bytes (31 :: u64) @ [1] else []) @
           to_le_bytes (0 :: u64) @ replicate 16 0
     in if length data < length fresh then None
        else Some (fresh @ replicate (length data - length fresh) 0)))))))))"

definition rebase_to_slot_zero :: "pubkey \<Rightarrow> bytes \<Rightarrow> u64 \<Rightarrow> bytes" where
  "rebase_to_slot_zero owner data source_epoch =
     (let tag = map_option (from_le_bytes :: bytes \<Rightarrow> u32) (get_slice 0 4 data) in
      if owner = UPGRADEABLE_LOADER_ID \<and> tag = Some 3 then set_zero 4 12 False data
      else if owner = LOADER_V4_ID then set_zero 0 8 False data
      else if owner = LOOKUP_TABLE_ID \<and> tag = Some 1 then set_zero 12 20 False (set_zero 4 12 True data)
      else if owner = STAKE_ID \<and> (tag = Some 1 \<or> tag = Some 2) then
        let data = (case get_slice 84 92 data of None \<Rightarrow> data | Some _ \<Rightarrow> sub_epoch source_epoch 84 data)
        in if tag = Some 2 then set_zero 172 180 True (set_zero 164 172 True data) else data
      else if owner = TOKEN_2022_ID then rebase_transfer_fees data source_epoch
      else if owner = VOTE_ID \<and> tag \<noteq> None then
        (case reset_vote data source_epoch of None \<Rightarrow> data | Some fresh \<Rightarrow> fresh)
      else data)"

section \<open>The accounts\<close>

type_synonym account_map = "(pubkey \<times> Account) list"

definition put :: "pubkey \<Rightarrow> u64 \<Rightarrow> pubkey \<Rightarrow> bytes \<Rightarrow> account_map \<Rightarrow> account_map" where
  "put k n owner data m =
     bt_insert k \<lparr>ga_pubkey = k, ga_lamports = n, ga_owner = owner, ga_data = data, ga_executable = False\<rparr> m"

definition rent :: "Params \<Rightarrow> nat \<Rightarrow> GenesisError + u64" where
  "rent params len = ok_or (rent_exempt_lamports len (pa_lamports_per_byte_year params)) (RentOverflow len) Inr"

definition new_config :: "find_pda \<Rightarrow> Params \<Rightarrow> GenesisError + Config" where
  "new_config fpa params =
     ok_or (checked_add (pa_float_lamports params) (pa_oracle_lamports params)) FloatOverflow (\<lambda>float.
     Inr \<lparr>oracle_key = pa_oracle params, deposit_high_water = 0, pegged_lamports = 0, withdrawal_count = 0,
       bmm_next_height = pa_ecash_start_height params, bmm_paid_total = 0,
       deposit_confirmations = pa_deposit_confirmations params, deposit_lag = pa_deposit_lag params,
       credited_height = pa_ecash_start_height params, credited_block = 0, credit_index = 0,
       credit_part_block = 0, stranded_lamports = 0, bump = snd (config_pda fpa (pa_program_id params)),
       vault_bump = snd (vault_pda fpa (pa_program_id params)),
       treasury_bump = snd (treasury_pda fpa (pa_program_id params)),
       vault_supply = pa_supply_lamports params, float_lamports = float, paid_through = 0, bundled_through = 0,
       bundle_sealed_height = 0, bmm_skip_blocks = pa_bmm_skip_blocks params, bmm_next_since_slot = 0,
       bundle_m6id = 0\<rparr>)"

definition new_accounts :: "find_pda \<Rightarrow> Params \<Rightarrow> bool \<Rightarrow> GenesisError + account_map" where
  "new_accounts fpa params migrates =
     (let m = (if migrates then [] else put (pa_oracle params) (pa_oracle_lamports params) SYSTEM_PROGRAM_ID [] []);
          m = put (fst (vault_pda fpa (pa_program_id params))) (pa_supply_lamports params) SYSTEM_PROGRAM_ID [] m in
      attempt (rent params 0) (\<lambda>reserve.
      attempt (rent params BLOCK_RECORD_LEN) (\<lambda>record_rent.
      Inr (put BMM_BLOCKS_ID record_rent SYSVAR_OWNER (replicate BLOCK_RECORD_LEN 0)
        (put (fst (treasury_pda fpa (pa_program_id params))) reserve SYSTEM_PROGRAM_ID [] m)))))"

definition carried_config :: "Params \<Rightarrow> Cursor \<Rightarrow> Config \<Rightarrow> GenesisError + Config" where
  "carried_config params cu cfg =
     ok_or (checked_add (cu_float_lamports cu) (pa_float_lamports params)) FloatOverflow (\<lambda>float.
     Inr (cfg\<lparr>deposit_high_water := cu_deposit_high_water cu, pegged_lamports := cu_pegged_lamports cu,
       withdrawal_count := cu_withdrawal_count cu,
       bmm_next_height := max (cu_bmm_next_height cu) (pa_ecash_start_height params),
       bmm_paid_total := cu_bmm_paid_total cu, credited_height := cu_credited_height cu,
       credited_block := cu_credited_block cu, credit_index := cu_credit_index cu,
       credit_part_block := cu_credit_part_block cu, stranded_lamports := cu_stranded_lamports cu,
       vault_supply := cu_vault_supply cu, float_lamports := float, paid_through := cu_paid_through cu,
       bundled_through := cu_bundled_through cu, bundle_sealed_height := cu_bundle_sealed_height cu,
       bundle_m6id := cu_bundle_m6id cu\<rparr>))"

fun carry_balances :: "account_codes \<Rightarrow> (string \<times> u64) list \<Rightarrow> account_map \<Rightarrow> GenesisError + account_map" where
  "carry_balances ac [] m = Inr m"
| "carry_balances ac ((text, n) # rest) m =
     ok_or (ac_parse_key ac text) (BadPubkey text) (\<lambda>k.
     carry_balances ac rest (put k n SYSTEM_PROGRAM_ID [] m))"

fun carry_accounts :: "account_codes \<Rightarrow> State \<Rightarrow> CarriedAccount list \<Rightarrow> account_map \<Rightarrow> GenesisError + account_map" where
  "carry_accounts ac state [] m = Inr m"
| "carry_accounts ac state (a # rest) m =
     ok_or (ac_parse_key ac (ca_pubkey a)) (BadPubkey (ca_pubkey a)) (\<lambda>k.
     require (map_of (ms_balances state) (ca_pubkey a) = None) (KeyTwice k) (
     ok_or (ac_parse_key ac (ca_owner a)) (BadPubkey (ca_owner a)) (\<lambda>owner.
     ok_or (ac_decode64 ac (ca_data a)) (BadRecordData (ca_pubkey a)) (\<lambda>data.
     carry_accounts ac state rest (bt_insert k
       \<lparr>ga_pubkey = k, ga_lamports = ca_lamports a, ga_owner = owner,
        ga_data = rebase_to_slot_zero owner data (ms_epoch state), ga_executable = ca_executable a\<rparr> m)))))"

definition carry_state ::
  "account_codes \<Rightarrow> find_pda \<Rightarrow> Params \<Rightarrow> State \<Rightarrow> Config \<Rightarrow> account_map \<Rightarrow> GenesisError + (Config \<times> account_map)" where
  "carry_state ac fpa params state cfg m =
     (let cu = ms_cursor state in
      require (\<not> (cu_paid_through cu < cu_bundled_through cu \<and> cu_bundle_m6id cu = 0))
        (NoLiveM6id (cu_paid_through cu) (cu_bundled_through cu)) (
      attempt (carried_config params cu cfg) (\<lambda>cfg.
      ok_or (map_of (ms_balances state) (ac_key_text ac (fst (vault_pda fpa (pa_program_id params))))) NoVault (\<lambda>vault.
      require (case checked_add vault (cu_pegged_lamports cu) of
                 None \<Rightarrow> False | Some backed \<Rightarrow> cu_vault_supply cu \<le> backed)
        (VaultOpen vault (cu_pegged_lamports cu) (cu_vault_supply cu)) (
      attempt (carry_balances ac (ms_balances state) m) (\<lambda>m.
      attempt (carry_accounts ac state (ms_accounts state) m) (\<lambda>m.
      Inr (cfg, m))))))))"

fun check_bootstrap :: "account_codes \<Rightarrow> State \<Rightarrow> pubkey option list \<Rightarrow> GenesisError + unit" where
  "check_bootstrap ac state [] = Inr ()"
| "check_bootstrap ac state (None # rest) = check_bootstrap ac state rest"
| "check_bootstrap ac state (Some k # rest) =
     require (map_of (ms_balances state) (ac_key_text ac k) = None \<and>
              \<not> (\<exists>a \<in> set (ms_accounts state). ca_pubkey a = ac_key_text ac k)) (BootstrapKeyCarried k)
     (check_bootstrap ac state rest)"

fun put_extra :: "Account list \<Rightarrow> Config \<Rightarrow> account_map \<Rightarrow> GenesisError + (Config \<times> account_map)" where
  "put_extra [] cfg m = Inr (cfg, m)"
| "put_extra (a # rest) cfg m =
     (case map_of m (ga_pubkey a) of
        Some carried \<Rightarrow>
          attempt (fresh_over a carried) (\<lambda>fresh. put_extra rest cfg (bt_insert (ga_pubkey a) fresh m))
      | None \<Rightarrow>
          attempt (if is_token_account a
                   then ok_or (checked_add (float_lamports cfg) (ga_lamports a)) FloatOverflow (\<lambda>float.
                          Inr (cfg\<lparr>float_lamports := float\<rparr>))
                   else Inr cfg) (\<lambda>cfg.
          put_extra rest cfg (bt_insert (ga_pubkey a) a m)))"

definition genesis_accounts ::
  "account_codes \<Rightarrow> (bytes \<Rightarrow> array32) \<Rightarrow> find_pda \<Rightarrow> Params \<Rightarrow> State option \<Rightarrow> Account list \<Rightarrow>
     GenesisError + Account list" where
  "genesis_accounts ac sha fpa params state extra =
     require (pa_deposit_confirmations params \<noteq> 0) NoConfirmations (
     attempt (new_config fpa params) (\<lambda>cfg.
     attempt (new_accounts fpa params (state \<noteq> None)) (\<lambda>m.
     attempt (case state of None \<Rightarrow> Inr (cfg, m) | Some s \<Rightarrow> carry_state ac fpa params s cfg m) (\<lambda>(cfg, m).
     attempt (case state of None \<Rightarrow> Inr () | Some s \<Rightarrow> check_bootstrap ac s (pa_bootstrap_keys params)) (\<lambda>_.
     attempt (put_extra extra cfg m) (\<lambda>(cfg, m).
     attempt (rent params (length (Config_encode sha cfg))) (\<lambda>config_rent.
     Inr (map snd (put (fst (config_pda fpa (pa_program_id params))) config_rent (pa_program_id params)
       (Config_encode sha cfg) m)))))))))"

end
