(* ===== verification/Genesis_Text.thy ===== *)
theory Genesis_Text
  imports Genesis Migrate_Properties Deposit_Address
begin

text \<open>
  The file of primordial accounts (\<^verbatim>\<open>yaml\<close> and \<^verbatim>\<open>parse_yaml\<close> of \<^verbatim>\<open>daemon/src/genesis.rs\<close>), over ASCII
  text: the parser reads what the printer writes.
\<close>

section \<open>Lines and numbers\<close>

definition LF :: char where "LF = CHR 0x0A"
definition CR :: char where "CR = CHR 0x0D"

definition strip_cr :: "string \<Rightarrow> string" where
  "strip_cr l = (if l \<noteq> [] \<and> List.last l = CR then butlast l else l)"

text \<open>\<^verbatim>\<open>str::lines\<close>: a line ends with a line feed, or with a carriage return before it; the last may have none.\<close>

fun lines_from :: "string \<Rightarrow> string \<Rightarrow> string list" where
  "lines_from acc [] = (if acc = [] then [] else [acc])"
| "lines_from acc (c # cs) = (if c = LF then strip_cr acc # lines_from [] cs else lines_from (acc @ [c]) cs)"

definition is_space :: "char \<Rightarrow> bool" where
  "is_space c \<longleftrightarrow> (9 \<le> (of_char c :: nat) \<and> (of_char c :: nat) \<le> 13) \<or> c = CHR '' ''"

definition numbered_lines :: "string \<Rightarrow> (nat \<times> string) list" where
  "numbered_lines text =
     filter (\<lambda>(at, line). \<exists>c \<in> set line. \<not> is_space c) (List.enumerate 0 (lines_from [] text))"

definition is_digit :: "char \<Rightarrow> bool" where
  "is_digit c \<longleftrightarrow> (48 :: nat) \<le> of_char c \<and> of_char c \<le> (57 :: nat)"

text \<open>\<^verbatim>\<open>str::parse::<u64>\<close>.\<close>

definition parse_u64 :: "string \<Rightarrow> u64 option" where
  "parse_u64 s =
     (let digits = (case s of [] \<Rightarrow> [] | c # cs \<Rightarrow> if c = CHR ''+'' then cs else s) in
      if digits = [] \<or> (\<exists>c \<in> set digits. \<not> is_digit c) then None
      else if digits_value digits < 2 ^ 64 then Some (word_of_nat (digits_value digits)) else None)"

definition strip_prefix :: "string \<Rightarrow> string \<Rightarrow> string option" where
  "strip_prefix p s = (if take (length p) s = p then Some (drop (length p) s) else None)"

definition strip_suffix :: "string \<Rightarrow> string \<Rightarrow> string option" where
  "strip_suffix p s = map_option rev (strip_prefix (rev p) (rev s))"

section \<open>The printer and the parser\<close>

definition yaml_block :: "account_codes \<Rightarrow> Account \<Rightarrow> string" where
  "yaml_block ac a =
     ac_key_text ac (ga_pubkey a) @ '':'' @ [LF] @
     ''  balance: '' @ decimal (unat (ga_lamports a)) @ [LF] @
     ''  owner: '' @ ac_key_text ac (ga_owner a) @ [LF] @
     ''  data: \"'' @ ac_encode64 ac (ga_data a) @ ''\"'' @ [LF] @
     ''  executable: '' @ (if ga_executable a then ''true'' else ''false'') @ [LF]"

definition yaml :: "account_codes \<Rightarrow> Account list \<Rightarrow> string" where
  "yaml ac accounts = concat (map (yaml_block ac) accounts)"

type_synonym text_lines = "(nat \<times> string) list"

definition read_field :: "GenesisError \<Rightarrow> string \<Rightarrow> text_lines \<Rightarrow> GenesisError + (string \<times> text_lines)" where
  "read_field bad name ls =
     (case ls of
        [] \<Rightarrow> Inl bad
      | (at, line) # rest \<Rightarrow>
          ok_or (strip_prefix (''  '' @ name @ '': '') line) (BadAccountsFile (at + 1)) (\<lambda>value. Inr (value, rest)))"

definition parse_block :: "account_codes \<Rightarrow> nat \<Rightarrow> string \<Rightarrow> text_lines \<Rightarrow> GenesisError + (Account \<times> text_lines)" where
  "parse_block ac at line ls =
     (let bad = BadAccountsFile (at + 1) in
      ok_or (Option.bind (strip_suffix '':'' line) (\<lambda>key.
               if take 1 key = '' '' then None else ac_parse_key ac key)) bad (\<lambda>pubkey.
      attempt (read_field bad ''balance'' ls) (\<lambda>(value, ls).
      ok_or (parse_u64 value) bad (\<lambda>lamports.
      attempt (read_field bad ''owner'' ls) (\<lambda>(value, ls).
      ok_or (ac_parse_key ac value) bad (\<lambda>owner.
      attempt (read_field bad ''data'' ls) (\<lambda>(value, ls).
      ok_or (Option.bind (Option.bind (strip_prefix ''\"'' value) (strip_suffix ''\"'')) (ac_decode64 ac)) bad (\<lambda>data.
      attempt (read_field bad ''executable'' ls) (\<lambda>(value, ls).
      ok_or (if value = ''false'' then Some False else if value = ''true'' then Some True else None) bad (\<lambda>executable.
      Inr (\<lparr>ga_pubkey = pubkey, ga_lamports = lamports, ga_owner = owner, ga_data = data,
             ga_executable = executable\<rparr>, ls)))))))))))"

lemma read_field_shorter: "read_field bad name ls = Inr (value, rest) \<Longrightarrow> length rest < length ls"
  by (auto simp: read_field_def result_iff split: list.splits)

lemma parse_block_shorter: "parse_block ac at line ls = Inr (a, rest) \<Longrightarrow> length rest < length ls"
  unfolding parse_block_def Let_def
  by (auto simp: result_iff split: prod.splits dest!: read_field_shorter)

function parse_blocks :: "account_codes \<Rightarrow> text_lines \<Rightarrow> GenesisError + Account list" where
  "parse_blocks ac [] = Inr []"
| "parse_blocks ac ((at, line) # ls) =
     (case parse_block ac at line ls of
        Inl e \<Rightarrow> Inl e
      | Inr (a, rest) \<Rightarrow> attempt (parse_blocks ac rest) (\<lambda>accounts. Inr (a # accounts)))"
  by pat_completeness auto
termination by (relation "measure (length \<circ> snd)") (auto dest: parse_block_shorter)

definition parse_yaml :: "account_codes \<Rightarrow> string \<Rightarrow> GenesisError + Account list" where
  "parse_yaml ac text = parse_blocks ac (numbered_lines text)"

section \<open>Round trip\<close>

text \<open>Base58 text and base64 text have no line breaks, and a key is not empty and does not start with a space.\<close>

definition text_codes_ok :: "account_codes \<Rightarrow> bool" where
  "text_codes_ok ac \<longleftrightarrow>
     account_codes_ok ac \<and>
     (\<forall>k. ac_key_text ac k \<noteq> [] \<and> hd (ac_key_text ac k) \<noteq> CHR '' '' \<and> LF \<notin> set (ac_key_text ac k) \<and>
        CR \<notin> set (ac_key_text ac k)) \<and>
     (\<forall>d. LF \<notin> set (ac_encode64 ac d))"

definition block_lines :: "account_codes \<Rightarrow> Account \<Rightarrow> string list" where
  "block_lines ac a =
     [ac_key_text ac (ga_pubkey a) @ '':'',
      ''  balance: '' @ decimal (unat (ga_lamports a)),
      ''  owner: '' @ ac_key_text ac (ga_owner a),
      ''  data: \"'' @ ac_encode64 ac (ga_data a) @ ''\"'',
      ''  executable: '' @ (if ga_executable a then ''true'' else ''false'')]"

lemma lines_plain:
  "LF \<notin> set l \<Longrightarrow> l = [] \<or> List.last l \<noteq> CR \<Longrightarrow> lines_from [] (l @ LF # rest) = l # lines_from [] rest"
proof -
  have "LF \<notin> set l \<Longrightarrow> lines_from acc (l @ LF # rest) = strip_cr (acc @ l) # lines_from [] rest" for acc
    by (induction l arbitrary: acc) auto
  then show "LF \<notin> set l \<Longrightarrow> l = [] \<or> List.last l \<noteq> CR \<Longrightarrow> lines_from [] (l @ LF # rest) = l # lines_from [] rest"
    by (auto simp: strip_cr_def)
qed

lemma decimal_not_Nil: "decimal n \<noteq> []"
  by (subst decimal.simps) simp

lemma decimal_no_break: "LF \<notin> set (decimal n)" "CR \<notin> set (decimal n)"
  using decimal_digits [of LF n] decimal_digits [of CR n] by (auto simp: LF_def CR_def)

lemma last_append_ne: "ys \<noteq> [] \<Longrightarrow> CR \<notin> set ys \<Longrightarrow> List.last (xs @ ys) \<noteq> CR"
  by (metis last_appendR last_in_set)

lemma block_lines_plain:
  assumes "text_codes_ok ac" "l \<in> set (block_lines ac a)"
  shows "LF \<notin> set l" "List.last l \<noteq> CR" "\<exists>c \<in> set l. \<not> is_space c"
proof -
  have k: "ac_key_text ac k \<noteq> []" "LF \<notin> set (ac_key_text ac k)" "CR \<notin> set (ac_key_text ac k)" for k
    using assms(1) by (simp_all add: text_codes_ok_def)
  have d: "LF \<notin> set (ac_encode64 ac d)" for d using assms(1) by (simp add: text_codes_ok_def)
  show "LF \<notin> set l" "List.last l \<noteq> CR" "\<exists>c \<in> set l. \<not> is_space c"
    using assms(2) k d decimal_no_break decimal_not_Nil last_append_ne
    by (auto simp: block_lines_def LF_def CR_def is_space_def split: if_splits)
qed

lemma lines_append:
  "\<forall>l \<in> set ls. LF \<notin> set l \<and> List.last l \<noteq> CR \<Longrightarrow>
     lines_from [] (concat (map (\<lambda>l. l @ [LF]) ls) @ rest) = ls @ lines_from [] rest"
  by (induction ls) (auto simp: lines_plain)

lemma yaml_block_lines: "yaml_block ac a = concat (map (\<lambda>l. l @ [LF]) (block_lines ac a))"
  by (simp add: yaml_block_def block_lines_def)

lemma yaml_lines:
  assumes "text_codes_ok ac"
  shows "lines_from [] (yaml ac accounts) = concat (map (block_lines ac) accounts)"
proof (induction accounts)
  case (Cons a accounts)
  have "\<forall>l \<in> set (block_lines ac a). LF \<notin> set l \<and> List.last l \<noteq> CR"
    using block_lines_plain [OF assms] by blast
  then show ?case using Cons by (simp add: yaml_def yaml_block_lines lines_append)
qed (simp add: yaml_def)

lemma numbered_yaml:
  assumes "text_codes_ok ac"
  shows "numbered_lines (yaml ac accounts) = List.enumerate 0 (concat (map (block_lines ac) accounts))"
proof -
  have "\<exists>c \<in> set l. \<not> is_space c" if "(n, l) \<in> set (List.enumerate 0 (concat (map (block_lines ac) accounts)))" for n l
  proof -
    have "l \<in> snd ` set (List.enumerate 0 (concat (map (block_lines ac) accounts)))" using that by force
    then have "l \<in> set (concat (map (block_lines ac) accounts))" by (metis list.set_map map_snd_enumerate)
    then show ?thesis using block_lines_plain(3) [OF assms] by auto
  qed
  then show ?thesis by (auto simp: numbered_lines_def yaml_lines [OF assms] filter_id_conv)
qed

lemma parse_u64_decimal: "parse_u64 (decimal (unat n)) = Some n"
proof -
  have digits: "\<forall>c \<in> set (decimal (unat n)). is_digit c" using decimal_digits by (auto simp: is_digit_def)
  have "hd (decimal (unat n)) \<in> set (decimal (unat n))" by (simp add: decimal_not_Nil)
  then have "hd (decimal (unat n)) \<noteq> CHR ''+''" using digits by (auto simp: is_digit_def)
  then have plain: "(case decimal (unat n) of [] \<Rightarrow> [] | c # cs \<Rightarrow> if c = CHR ''+'' then cs else decimal (unat n)) =
      decimal (unat n)" by (cases "decimal (unat n)") simp_all
  have "digits_value (decimal (unat n)) = unat n" by (rule digits_value_decimal)
  then show ?thesis
    unfolding parse_u64_def Let_def plain using digits decimal_not_Nil [of "unat n"] by auto
qed

lemma strip_suffix_append: "strip_suffix p (s @ p) = Some s"
  by (simp add: strip_suffix_def strip_prefix_def)

lemma parse_block_lines:
  assumes "text_codes_ok ac"
  shows "parse_blocks ac (List.enumerate n (block_lines ac a @ ls)) =
    attempt (parse_blocks ac (List.enumerate (n + 5) ls)) (\<lambda>accounts. Inr (a # accounts))"
proof -
  have key: "strip_suffix '':'' (ac_key_text ac (ga_pubkey a) @ '':'') = Some (ac_key_text ac (ga_pubkey a))"
    by (rule strip_suffix_append)
  have space: "take 1 (ac_key_text ac k) \<noteq> '' ''" for k
    using assms by (cases "ac_key_text ac k") (auto simp: text_codes_ok_def dest: spec [of _ k])
  have codes: "ac_parse_key ac (ac_key_text ac k) = Some k" "ac_decode64 ac (ac_encode64 ac d) = Some d" for k d
    using assms by (simp_all add: text_codes_ok_def account_codes_ok_def)
  have quoted: "strip_suffix ''\"'' (ac_encode64 ac (ga_data a) @ ''\"'') = Some (ac_encode64 ac (ga_data a))"
    by (rule strip_suffix_append)
  show ?thesis
    using key space quoted
    by (cases a) (simp add: block_lines_def parse_block_def Let_def read_field_def strip_prefix_def codes parse_u64_decimal
        eval_nat_numeral)
qed

text \<open>
  C21: The file of primordial accounts reads back: the parser gives from the text of the printer exactly
  the printed accounts, in their order.
\<close>

theorem yaml_roundtrip:
  assumes "text_codes_ok ac"
  shows "parse_yaml ac (yaml ac accounts) = Inr accounts"
proof -
  have "parse_blocks ac (List.enumerate n (concat (map (block_lines ac) accounts))) = Inr accounts" for n
  proof (induction accounts arbitrary: n)
    case (Cons a accounts)
    then show ?case using parse_block_lines [OF assms, of n a "concat (map (block_lines ac) accounts)"] by simp
  qed simp
  then show ?thesis by (simp add: parse_yaml_def numbered_yaml [OF assms])
qed

lemma hex_digit_visible: "n < 16 \<Longrightarrow> (32 :: nat) < of_char (hex_digit n)"
proof -
  assume "n < 16"
  then have "n \<in> set [0..<16]" by simp
  moreover have "\<forall>n \<in> set [0..<16]. (32 :: nat) < of_char (hex_digit n)"
    by (simp add: hex_digit_def upt_rec)
  ultimately show ?thesis by blast
qed

lemma hex_visible: "c \<in> set (hex_encode bs) \<Longrightarrow> (32 :: nat) < of_char c"
proof (induction bs)
  case (Cons b bs)
  have "unat b div 16 < 16" "unat b mod 16 < 16" using unat_bound [of b] by simp_all
  then show ?case using Cons hex_digit_visible by (auto simp: hex_byte_def)
qed simp

lemma sample_text_codes_ok: "text_codes_ok sample_account_codes"
proof -
  have hex: "c \<noteq> LF \<and> c \<noteq> CR \<and> c \<noteq> CHR '' ''" if "c \<in> set (hex_encode bs)" for c bs
    using hex_visible [OF that] by (auto simp: LF_def CR_def)
  have "length (hex_encode (array_bytes k)) = 64" for k by simp
  then have ne: "hex_encode (array_bytes k) \<noteq> []" for k by (metis list.size(3) zero_neq_numeral)
  have "hd (hex_encode (array_bytes k)) \<noteq> CHR '' ''" for k using hex [OF hd_in_set [OF ne]] by blast
  then show ?thesis
    unfolding text_codes_ok_def
    using sample_account_codes_ok hex ne by (auto simp: sample_account_codes_def)
qed

lemma yaml_roundtrip_witness:
  "parse_yaml sample_account_codes (yaml sample_account_codes
     [\<lparr>ga_pubkey = 5, ga_lamports = 1200, ga_owner = 0, ga_data = [1, 2, 3], ga_executable = False\<rparr>]) =
   Inr [\<lparr>ga_pubkey = 5, ga_lamports = 1200, ga_owner = 0, ga_data = [1, 2, 3], ga_executable = False\<rparr>]"
  by (rule yaml_roundtrip [OF sample_text_codes_ok])

end
