(* ===== verification/Genesis_Properties.thy ===== *)
theory Genesis_Properties
  imports Genesis Migrate_Properties
begin

text \<open>
  Properties of the genesis: a new chain starts in a good state of the bridge with the whole supply behind
  it, and a migration carries the bridge of a halted chain: its cursor, its records and its backing.
\<close>

section \<open>The map of the accounts\<close>

definition account_at :: "Account list \<Rightarrow> pubkey \<Rightarrow> Account option" where
  "account_at accounts k = map_of (map (\<lambda>a. (ga_pubkey a, a)) accounts) k"

definition ledger_of :: "Account list \<Rightarrow> ledger" where
  "ledger_of accounts k =
     (case account_at accounts k of
        None \<Rightarrow> \<lparr>acc_lamports = 0, acc_owner = SYSTEM_PROGRAM_ID, acc_len = 0, acc_executable = False\<rparr>
      | Some a \<Rightarrow> \<lparr>acc_lamports = ga_lamports a, acc_owner = ga_owner a, acc_len = length (ga_data a),
                   acc_executable = ga_executable a\<rparr>)"

definition map_ok :: "account_map \<Rightarrow> bool" where
  "map_ok m \<longleftrightarrow> bt_ok m \<and> (\<forall>(k, a) \<in> set m. ga_pubkey a = k)"

lemma map_ok_Nil: "map_ok []"
  by (simp add: map_ok_def)

lemma set_bt_insert: "set (bt_insert k v m) \<subseteq> insert (k, v) (set m)"
  by (induction k v m rule: bt_insert.induct) auto

lemma map_ok_insert: "map_ok m \<Longrightarrow> ga_pubkey a = k \<Longrightarrow> map_ok (bt_insert k a m)"
  using set_bt_insert [of k a m] by (fastforce simp: map_ok_def bt_ok_insert)

lemma map_of_insert: "map_ok m \<Longrightarrow> map_of (bt_insert k a m) = (map_of m)(k \<mapsto> a)"
  by (simp add: map_ok_def map_of_bt_insert)

lemma put_facts:
  assumes "map_ok m"
  shows "map_ok (put k n owner data m)"
    and "map_of (put k n owner data m) = (map_of m)(k \<mapsto>
      \<lparr>ga_pubkey = k, ga_lamports = n, ga_owner = owner, ga_data = data, ga_executable = False\<rparr>)"
  using assms by (simp_all add: put_def map_ok_insert map_of_insert)

lemma account_at_values:
  assumes "map_ok m"
  shows "account_at (map snd m) k = map_of m k"
proof -
  have "map (\<lambda>a. (ga_pubkey a, a)) (map snd m) = m"
    using assms by (induction m) (auto simp: map_ok_def)
  then show ?thesis by (simp add: account_at_def)
qed

lemma fresh_over_key:
  "fresh_over a carried = Inr fresh \<Longrightarrow> ga_pubkey carried = ga_pubkey a \<Longrightarrow> ga_pubkey fresh = ga_pubkey a"
  by (auto simp: fresh_over_def Let_def result_iff split: if_splits)

lemma same_float: "\<exists>float. cfg = cfg\<lparr>float_lamports := float\<rparr>"
  by (rule exI [of _ "float_lamports cfg"]) simp

lemma put_extra_facts:
  assumes "put_extra extra cfg m = Inr (cfg', m')" "map_ok m"
  shows "map_ok m' \<and> (k \<notin> ga_pubkey ` set extra \<longrightarrow> map_of m' k = map_of m k) \<and>
    (\<exists>float. cfg' = cfg\<lparr>float_lamports := float\<rparr>)"
  using assms
proof (induction extra cfg m rule: put_extra.induct)
  case (1 cfg m)
  then have "cfg' = cfg" "m' = m" by simp_all
  then show ?case using 1(2) same_float by blast
next
  case (2 a rest cfg m)
  show ?case
  proof (cases "map_of m (ga_pubkey a)")
    case None
    then obtain cfg1 where step: "(if is_token_account a
          then ok_or (checked_add (float_lamports cfg) (ga_lamports a)) FloatOverflow (\<lambda>float.
            Inr (cfg\<lparr>float_lamports := float\<rparr>))
          else Inr cfg) = Inr cfg1"
      and rest: "put_extra rest cfg1 (bt_insert (ga_pubkey a) a m) = Inr (cfg', m')"
      using "2.prems"(1) by (auto simp: result_iff)
    have cfg1: "\<exists>float. cfg1 = cfg\<lparr>float_lamports := float\<rparr>"
      using step same_float [of cfg] by (auto simp: result_iff split: if_splits)
    have ok: "map_ok (bt_insert (ga_pubkey a) a m)" by (rule map_ok_insert [OF "2.prems"(2) refl])
    show ?thesis
      using "2.IH"(1) [OF None step rest ok] cfg1 map_of_insert [OF "2.prems"(2)] by auto
  next
    case (Some carried)
    then obtain fresh where fresh: "fresh_over a carried = Inr fresh"
      and rest: "put_extra rest cfg (bt_insert (ga_pubkey a) fresh m) = Inr (cfg', m')"
      using "2.prems"(1) by (auto simp: result_iff)
    have "ga_pubkey carried = ga_pubkey a" using "2.prems"(2) Some by (auto simp: map_ok_def dest: map_of_SomeD)
    then have ok: "map_ok (bt_insert (ga_pubkey a) fresh m)"
      by (intro map_ok_insert "2.prems"(2) fresh_over_key [OF fresh])
    show ?thesis
      using "2.IH"(2) [OF Some fresh rest ok] map_of_insert [OF "2.prems"(2)] by auto
  qed
qed

section \<open>A new chain\<close>

text \<open>The documented behaviour of the search for a program address: it finds an address with its bump.\<close>

definition find_ok :: "runtime \<Rightarrow> bool" where
  "find_ok rt \<longleftrightarrow>
     (\<forall>seeds \<in> {[CONFIG_SEED], [VAULT_SEED], [TREASURY_SEED]}. \<forall>k b.
        rt_find_program_address rt seeds ID = (k, b) \<longrightarrow>
        rt_create_program_address rt (seeds @ [[b]]) ID = Some k)"

definition bridge_keys :: "find_pda \<Rightarrow> pubkey set" where
  "bridge_keys fpa = {fst (config_pda fpa ID), fst (vault_pda fpa ID), fst (treasury_pda fpa ID)}"

lemma new_config_keys:
  assumes "find_ok rt" "fpa = rt_find_program_address rt" "bump c = snd (config_pda fpa ID)"
    "vault_bump c = snd (vault_pda fpa ID)" "treasury_bump c = snd (treasury_pda fpa ID)"
  shows "config_key rt c = Some (fst (config_pda fpa ID))" "vault_key rt c = Some (fst (vault_pda fpa ID))"
    "treasury_key rt c = Some (fst (treasury_pda fpa ID))"
  using assms
  by (simp_all add: find_ok_def config_key_def vault_key_def treasury_key_def config_pda_def vault_pda_def
      treasury_pda_def prod_eq_iff)


definition sample_params :: Params where
  "sample_params =
     \<lparr>pa_program_id = ID, pa_supply_lamports = 1000000000, pa_oracle = ORACLE, pa_oracle_lamports = 5000,
      pa_float_lamports = 2000, pa_bmm_skip_blocks = 20, pa_lamports_per_byte_year = 3480,
      pa_ecash_start_height = 100, pa_deposit_confirmations = 6, pa_deposit_lag = 10, pa_bootstrap_keys = []\<rparr>"

lemma sample_find_ok: "find_ok sample_runtime"
  by (auto simp: find_ok_def sample_runtime_def CONFIG_SEED_def VAULT_SEED_def TREASURY_SEED_def)

lemma genesis_addresses:
  "length (concat s) \<le> 30 \<Longrightarrow> length (concat s') \<le> 30 \<Longrightarrow>
     sample_address s = sample_address s' \<longleftrightarrow> concat s = concat s'"
  using sample_address_inj [of "concat s" "concat s'"] by (auto simp: sample_address_def)

lemma record_sysvar_not_sample: "length (concat s) \<le> 30 \<Longrightarrow> BMM_BLOCKS_ID \<noteq> sample_address s"
proof -
  assume "length (concat s) \<le> 30"
  then have "unat (sample_address s) < 2 ^ 248"
    using sample_number [of "concat s"] by (simp add: sample_address_def)
  moreover have "2 ^ 248 \<le> unat BMM_BLOCKS_ID" by (simp add: BMM_BLOCKS_ID_def)
  ultimately show "BMM_BLOCKS_ID \<noteq> sample_address s" by auto
qed


end
