(* ===== verification/Fee_Meter.thy ===== *)
theory Fee_Meter
  imports Migrate Daemon_World
begin

text \<open>
  The fees of the validator (\<^verbatim>\<open>daemon/src/bmm.rs\<close>): the history of the running total by eCash height with
  its median income per block, and the meter that counts the fees of the confirmed blocks. The daemon
  builds without overflow checks, so a plain sum of the code is a sum of words.
\<close>

section \<open>Errors\<close>

datatype BmmError =
    BmmEnforcer EnforcerError | BmmBridge LayoutError | BmmRpc string RpcError
  | PairRefused u64 "string list" | BadBidPercent u64 | BadMaxBid u64 u64 | BadBlock u64 string
  | BmmHeightTooLarge u64 | Listen string | Serve string

section \<open>The history of the income\<close>

record FeeHistory =
  fh_by_height :: "(u64 \<times> u64) list"

definition FeeHistory_default :: FeeHistory where
  "FeeHistory_default = \<lparr>fh_by_height = []\<rparr>"

definition FeeHistory_observe :: "u64 \<Rightarrow> u64 \<Rightarrow> FeeHistory \<Rightarrow> FeeHistory" where
  "FeeHistory_observe tip_height earned h =
     (case map_of (fh_by_height h) tip_height of
        Some _ \<Rightarrow> h
      | None \<Rightarrow> h\<lparr>fh_by_height := bt_insert tip_height earned (fh_by_height h)\<rparr>)"

text \<open>The newest total at or below a height.\<close>

definition newest_upto :: "u64 \<Rightarrow> (u64 \<times> u64) list \<Rightarrow> u64 option" where
  "newest_upto height m =
     (let lower = filter (\<lambda>(k, _). k \<le> height) m
      in if lower = [] then None else Some (fst (List.last lower)))"

definition fee_rates :: "(u64 \<times> u64) list \<Rightarrow> (u64 \<times> u64) list" where
  "fee_rates points =
     map (\<lambda>((h0, t0), (h1, t1)). let blocks = h1 - h0 in (saturating_sub t1 t0 div blocks, blocks))
       (windows2 points)"

text \<open>The \<^verbatim>\<open>find_map\<close> over the sorted rates, with its counter.\<close>

fun first_half :: "u64 \<Rightarrow> u64 \<Rightarrow> (u64 \<times> u64) list \<Rightarrow> u64 option" where
  "first_half all_blocks counted [] = None"
| "first_half all_blocks counted ((rate, blocks) # rates) =
     (let counted = counted + blocks
      in if all_blocks \<le> counted * 2 then Some rate else first_half all_blocks counted rates)"

definition income_points :: "u64 \<Rightarrow> u64 \<Rightarrow> u64 \<Rightarrow> FeeHistory \<Rightarrow> (u64 \<times> u64) list" where
  "income_points start tip_height earned h =
     filter (\<lambda>(k, _). start \<le> k \<and> k < tip_height) (fh_by_height h) @ [(tip_height, earned)]"

definition income_per_block :: "u64 \<Rightarrow> u64 \<Rightarrow> u64 \<Rightarrow> FeeHistory \<Rightarrow> u64 option" where
  "income_per_block tip_height earned span h =
     Option.bind (checked_sub tip_height span) (\<lambda>back.
     Option.bind (newest_upto back (fh_by_height h)) (\<lambda>start.
     first_half (tip_height - start) 0 (sort (fee_rates (income_points start tip_height earned h)))))"

definition forget_below :: "u64 \<Rightarrow> FeeHistory \<Rightarrow> FeeHistory" where
  "forget_below height h =
     (case newest_upto height (fh_by_height h) of
        None \<Rightarrow> h
      | Some keep_from \<Rightarrow> h\<lparr>fh_by_height := filter (\<lambda>(k, _). keep_from \<le> k) (fh_by_height h)\<rparr>)"

definition bid_sats :: "u64 \<Rightarrow> u64 \<Rightarrow> u64 \<Rightarrow> u64 \<Rightarrow> u64 option" where
  "bid_sats income_lamports bid_percent min_bid_sats max_bid_sats =
     (let income_sats = income_lamports div LAMPORTS_PER_SAT;
          bid = min (saturating_mul income_sats bid_percent div 100) max_bid_sats
      in if min_bid_sats \<le> bid \<and> 0 < bid then Some bid else None)"

section \<open>The meter\<close>

definition METER_SLOTS :: u64 where "METER_SLOTS = 2000"
definition METER_BACKLOG :: u64 where "METER_BACKLOG = 20000"

record Earned =
  ea_generation :: u64
  ea_total :: u64

definition Earned_from :: "u64 \<Rightarrow> Earned" where
  "Earned_from n = \<lparr>ea_generation = 0, ea_total = n\<rparr>"

record BlockFees =
  bf_blockhash :: string
  bf_previous :: string
  bf_fees :: u64

record FeeMeter =
  fm_next_slot :: "u64 option"
  fm_last :: "(u64 \<times> string) option"
  fm_gap :: bool
  fm_earned :: Earned

record MeterMark =
  mm_next_slot :: "u64 option"
  mm_last :: "(u64 \<times> string) option"
  mm_gap :: bool
  mm_earned :: Earned

record MeterScan =
  sc_blocks :: "(u64 \<times> BlockFees option) list"
  sc_covered :: "u64 option"

definition FeeMeter_default :: FeeMeter where
  "FeeMeter_default = \<lparr>fm_next_slot = None, fm_last = None, fm_gap = False, fm_earned = Earned_from 0\<rparr>"

definition meter_mark :: "FeeMeter \<Rightarrow> MeterMark" where
  "meter_mark m =
     \<lparr>mm_next_slot = fm_next_slot m, mm_last = fm_last m, mm_gap = fm_gap m, mm_earned = fm_earned m\<rparr>"

definition meter_restart :: "u64 \<Rightarrow> FeeMeter \<Rightarrow> FeeMeter" where
  "meter_restart at m =
     \<lparr>fm_next_slot = Some (saturating_add at 1), fm_last = None, fm_gap = False,
      fm_earned = \<lparr>ea_generation = ea_generation (fm_earned m) + 1, ea_total = ea_total (fm_earned m)\<rparr>\<rparr>"

definition meter_plan :: "u64 \<Rightarrow> FeeMeter \<Rightarrow> ((u64 \<times> u64) \<times> MeterMark) option \<times> FeeMeter" where
  "meter_plan at m =
     (case fm_next_slot m of
        None \<Rightarrow> (None, m\<lparr>fm_next_slot := Some (saturating_add at 1)\<rparr>)
      | Some next_slot \<Rightarrow>
          if (case fm_last m of None \<Rightarrow> False | Some (counted, _) \<Rightarrow> at < counted)
          then (None, meter_restart at m)
          else if at < next_slot then (None, m)
          else
            let start = max next_slot (saturating_sub at (METER_BACKLOG - 1))
            in (Some ((start, min at (start + METER_SLOTS - 1)), meter_mark m), m))"

text \<open>
  The loop of \<^verbatim>\<open>apply\<close> over the blocks: the fees, the newest block and the gap after it, or \<open>None\<close> when a
  block does not link to the one before it.
\<close>

fun meter_scan ::
  "u64 \<times> (u64 \<times> string) option \<times> bool \<Rightarrow> (u64 \<times> BlockFees option) list \<Rightarrow>
     (u64 \<times> (u64 \<times> string) option \<times> bool) option" where
  "meter_scan s [] = Some s"
| "meter_scan (fees, newest, gap) ((at, None) # blocks) = meter_scan (fees, newest, newest \<noteq> None) blocks"
| "meter_scan (fees, newest, gap) ((at, Some block) # blocks) =
     (if (case newest of None \<Rightarrow> True | Some (_, hash) \<Rightarrow> \<not> gap \<and> hash = bf_previous block)
      then meter_scan (saturating_add fees (bf_fees block), Some (at, bf_blockhash block), False) blocks
      else None)"

definition meter_apply :: "MeterMark \<Rightarrow> MeterScan \<Rightarrow> u64 \<Rightarrow> FeeMeter \<Rightarrow> Earned \<times> FeeMeter" where
  "meter_apply mark scan confirmed m =
     (if meter_mark m \<noteq> mark then (fm_earned m, m)
      else
        case sc_covered scan of
          None \<Rightarrow> (fm_earned m, m)
        | Some covered \<Rightarrow>
            (case meter_scan (0, fm_last m, fm_gap m) (filter (\<lambda>(at, _). at \<le> covered) (sc_blocks scan)) of
               None \<Rightarrow> let m' = meter_restart confirmed m in (fm_earned m', m')
             | Some (fees, newest, gap) \<Rightarrow>
                 let m' = \<lparr>fm_next_slot = Some (saturating_add covered 1), fm_last = newest, fm_gap = gap,
                           fm_earned = (fm_earned m)\<lparr>ea_total := saturating_add (ea_total (fm_earned m)) fees\<rparr>\<rparr>
                 in (fm_earned m', m')))"

section \<open>The reads\<close>

text \<open>
  The trait \<^verbatim>\<open>FeeSource\<close>. A call that ends after the deadline of the read is late: whether it is late is a
  function of the world that it leaves.
\<close>

record 'w fee_source =
  fs_confirmed_slot :: "('w, BmmError, u64) act"
  fs_blocks :: "u64 \<Rightarrow> u64 \<Rightarrow> ('w, BmmError, u64 list) act"
  fs_block :: "u64 \<Rightarrow> ('w, BmmError, BlockFees option) act"

definition too_slow :: "string \<Rightarrow> BmmError" where
  "too_slow call = BmmRpc call (RpcOtherError ''the fee read took longer than 10s'')"

definition timeout_at :: "('w \<Rightarrow> bool) \<Rightarrow> string \<Rightarrow> ('w, BmmError, 'a) act \<Rightarrow> ('w, BmmError, 'a) act" where
  "timeout_at late call m w = (case m w of (r, w') \<Rightarrow> if late w' then (Inl (too_slow call), w') else (r, w'))"

fun scan_blocks ::
  "('w \<Rightarrow> bool) \<Rightarrow> 'w fee_source \<Rightarrow> (u64 \<times> BlockFees option) list \<Rightarrow> u64 list \<Rightarrow> 'w \<Rightarrow>
     ((u64 \<times> BlockFees option) list \<times> (u64 \<times> BmmError) option) \<times> 'w" where
  "scan_blocks late source blocks [] w = ((blocks, None), w)"
| "scan_blocks late source blocks (at # slots) w =
     (case timeout_at late ''getBlock'' (fs_block source at) w of
        (Inr block, w') \<Rightarrow> scan_blocks late source (blocks @ [(at, block)]) slots w'
      | (Inl e, w') \<Rightarrow> ((blocks, Some (at, e)), w'))"

definition scan_covered :: "u64 \<Rightarrow> u64 \<Rightarrow> (u64 \<times> BmmError) option \<Rightarrow> u64 option" where
  "scan_covered start end_slot stop =
     (case stop of
        None \<Rightarrow> Some end_slot
      | Some (at, _) \<Rightarrow>
          (case checked_sub at 1 of
             None \<Rightarrow> None
           | Some covered \<Rightarrow> if start \<le> covered then Some covered else None))"

text \<open>The second half of \<^verbatim>\<open>read_fees\<close>, with the plan of the read.\<close>

definition read_planned ::
  "('w \<Rightarrow> bool) \<Rightarrow> 'w fee_source \<Rightarrow> u64 \<Rightarrow> u64 \<Rightarrow> u64 \<Rightarrow> MeterMark \<Rightarrow> (FeeMeter \<times> 'w, BmmError, Earned) act" where
  "read_planned late source confirmed start end_slot mark =
     perform (on_world (timeout_at late ''getBlocks'' (fs_blocks source start end_slot))) (\<lambda>slots. \<lambda>(m, w).
     case scan_blocks late source [] (filter (\<lambda>at. start \<le> at \<and> at \<le> end_slot) slots) w of
       ((blocks, stop), w') \<Rightarrow>
         (case meter_apply mark \<lparr>sc_blocks = blocks, sc_covered = scan_covered start end_slot stop\<rparr> confirmed m of
            (earned, m') \<Rightarrow>
              ((case stop of None \<Rightarrow> Inr earned | Some (_, e) \<Rightarrow> Inl e), (m', w'))))"

definition read_fees :: "('w \<Rightarrow> bool) \<Rightarrow> 'w fee_source \<Rightarrow> (FeeMeter \<times> 'w, BmmError, Earned) act" where
  "read_fees late source =
     perform (on_world (timeout_at late ''getSlot'' (fs_confirmed_slot source))) (\<lambda>confirmed.
     perform get_memory (\<lambda>m.
     case meter_plan confirmed m of
       (None, m') \<Rightarrow> perform (put_memory m') (\<lambda>_. return (fm_earned m'))
     | (Some ((start, end_slot), mark), m') \<Rightarrow>
         perform (put_memory m') (\<lambda>_. read_planned late source confirmed start end_slot mark)))"

section \<open>The blocks of the RPC\<close>

fun sum_fee_rewards :: "u64 \<Rightarrow> string \<Rightarrow> u64 \<Rightarrow> json list \<Rightarrow> BmmError + u64" where
  "sum_fee_rewards at treasury fees [] = Inr fees"
| "sum_fee_rewards at treasury fees (reward # rewards) =
     (if as_str (json_get ''rewardType'' reward) \<noteq> Some ''Fee''
         \<or> as_str (json_get ''pubkey'' reward) \<noteq> Some treasury
      then sum_fee_rewards at treasury fees rewards
      else
        ok_or (as_u64 (json_get ''lamports'' reward)) (BadBlock at ''a fee reward without lamports'') (\<lambda>lamports.
        ok_or (checked_add fees lamports) (BadBlock at ''the fees overflow'') (\<lambda>fees.
        sum_fee_rewards at treasury fees rewards)))"

definition block_fees :: "account_codes \<Rightarrow> u64 \<Rightarrow> json \<Rightarrow> pubkey \<Rightarrow> BmmError + BlockFees" where
  "block_fees ac at block treasury =
     ok_or (as_array (json_get ''rewards'' block)) (BadBlock at ''no rewards list'') (\<lambda>rewards.
     attempt (sum_fee_rewards at (ac_key_text ac treasury) 0 rewards) (\<lambda>fees.
     ok_or (as_str (json_get ''blockhash'' block)) (BadBlock at ''no block hash'') (\<lambda>blockhash.
     ok_or (as_str (json_get ''previousBlockhash'' block)) (BadBlock at ''no block hash'') (\<lambda>previous.
     Inr \<lparr>bf_blockhash = blockhash, bf_previous = previous, bf_fees = fees\<rparr>))))"

text \<open>
  The calls of the Solana client, with the four codes of the library that say that the ledger does not
  hold a block.
\<close>

record 'w fee_rpc =
  fr_missing_codes :: "int list"
  fr_get_slot :: "('w, RpcError, u64) act"
  fr_get_blocks :: "u64 \<Rightarrow> u64 \<Rightarrow> ('w, RpcError, u64 list) act"
  fr_get_block :: "u64 \<Rightarrow> ('w, RpcError, json) act"

definition block_is_missing :: "'w fee_rpc \<Rightarrow> RpcError \<Rightarrow> bool" where
  "block_is_missing fr e =
     (case e of RpcResponseError code _ \<Rightarrow> code \<in> set (fr_missing_codes fr) | _ \<Rightarrow> False)"

definition rpc_block ::
  "account_codes \<Rightarrow> 'w fee_rpc \<Rightarrow> pubkey \<Rightarrow> u64 \<Rightarrow> ('w, BmmError, BlockFees option) act" where
  "rpc_block ac fr treasury at w =
     (case fr_get_block fr at w of
        (Inr JNull, w') \<Rightarrow> (Inr None, w')
      | (Inr block, w') \<Rightarrow> (attempt (block_fees ac at block treasury) (\<lambda>b. Inr (Some b)), w')
      | (Inl e, w') \<Rightarrow> if block_is_missing fr e then (Inr None, w') else (Inl (BmmRpc ''getBlock'' e), w'))"

definition RpcFees :: "account_codes \<Rightarrow> 'w fee_rpc \<Rightarrow> pubkey \<Rightarrow> 'w fee_source" where
  "RpcFees ac fr treasury =
     \<lparr>fs_confirmed_slot = action_err (BmmRpc ''getSlot'') (fr_get_slot fr),
      fs_blocks = (\<lambda>start end_slot. action_err (BmmRpc ''getBlocks'') (fr_get_blocks fr start end_slot)),
      fs_block = rpc_block ac fr treasury\<rparr>"

end
