(* ===== verification/Bmm.thy ===== *)
theory Bmm
  imports Fee_Meter Peg
begin

text \<open>
  The pairs, the bids and the templates of the blind merged mining (\<^verbatim>\<open>daemon/src/bmm.rs\<close>): what a bid
  commits to, what the memory of the process keeps, and which block of the record a bid names.
\<close>

section \<open>Pairs\<close>

record Pair =
  pr_height :: u64
  pr_block :: array32
  pr_payee :: pubkey

definition Pair_commitment :: "(bytes \<Rightarrow> array32) \<Rightarrow> Pair \<Rightarrow> array32" where
  "Pair_commitment sha p = daemon_commitment_of sha (pr_block p) (pr_payee p)"

definition pair_for :: "(bytes \<Rightarrow> array32) \<Rightarrow> Pair list \<Rightarrow> u64 \<Rightarrow> array32 \<Rightarrow> Pair option" where
  "pair_for sha pairs height commitment =
     List.find (\<lambda>p. pr_height p = height \<and> Pair_commitment sha p = commitment) pairs"

definition settle_is_ready :: "u64 \<Rightarrow> u64 \<Rightarrow> u64 \<Rightarrow> bool" where
  "settle_is_ready height tip_height confirmations =
     (case Option.bind (checked_add height confirmations) (\<lambda>needed. checked_add needed 2) of
        None \<Rightarrow> False
      | Some needed \<Rightarrow> needed \<le> tip_height)"

record BidRules =
  ru_payee :: pubkey
  ru_confirmations :: u64
  ru_bid_percent :: u64
  ru_min_bid_sats :: u64
  ru_max_bid_sats :: u64

definition rules_check :: "BidRules \<Rightarrow> BmmError + unit" where
  "rules_check rules =
     require (1 \<le> ru_bid_percent rules \<and> ru_bid_percent rules \<le> 100) (BadBidPercent (ru_bid_percent rules)) (
     require (\<not> (ru_max_bid_sats rules = 0 \<or> ru_max_bid_sats rules < ru_min_bid_sats rules))
       (BadMaxBid (ru_max_bid_sats rules) (ru_min_bid_sats rules)) (
     Inr ()))"

definition REMEMBERED_HEIGHTS :: u64 where "REMEMBERED_HEIGHTS = 1000"
definition MAX_PAIRS_PER_HEIGHT :: nat where "MAX_PAIRS_PER_HEIGHT = 64"
definition VALIDATOR_PAIRS_PER_HEIGHT :: nat where "VALIDATOR_PAIRS_PER_HEIGHT = 16"

definition FULL_HEIGHT_REFUSAL :: string where
  "FULL_HEIGHT_REFUSAL = ''refused: too many pairs wait at this height''"

section \<open>The memory\<close>

text \<open>
  The pairs are a \<^verbatim>\<open>HashMap\<close> by commitment; the code sorts what it takes out of it, so an association list
  in the order of the keys gives the same results.
\<close>

record BmmMemory =
  bm_generation :: u64
  bm_history :: FeeHistory
  bm_fees :: "(array32 \<times> u64) option"
  bm_pairs :: "(array32 \<times> u64 \<times> Pair) list"
  bm_remembered :: u64

definition BmmMemory_default :: BmmMemory where
  "BmmMemory_default =
     \<lparr>bm_generation = 0, bm_history = FeeHistory_default, bm_fees = None, bm_pairs = [], bm_remembered = 0\<rparr>"

definition memory_follow :: "Earned \<Rightarrow> BmmMemory \<Rightarrow> BmmMemory" where
  "memory_follow earned m =
     (if ea_generation earned \<noteq> bm_generation m
      then m\<lparr>bm_generation := ea_generation earned, bm_history := FeeHistory_default, bm_fees := None\<rparr>
      else m)"

definition memory_observe :: "u64 \<Rightarrow> Earned \<Rightarrow> BmmMemory \<Rightarrow> BmmMemory" where
  "memory_observe tip_height earned m =
     (let m = memory_follow earned m
      in m\<lparr>bm_history := FeeHistory_observe tip_height (ea_total earned) (bm_history m)\<rparr>)"

definition forget_fees_below :: "u64 \<Rightarrow> BmmMemory \<Rightarrow> BmmMemory" where
  "forget_fees_below height m = m\<lparr>bm_history := forget_below height (bm_history m)\<rparr>"

definition cached_fees :: "array32 \<Rightarrow> BmmMemory \<Rightarrow> u64 option" where
  "cached_fees tip m =
     (case bm_fees m of None \<Rightarrow> None | Some (cached, fees) \<Rightarrow> if cached = tip then Some fees else None)"

definition fees_at :: "tip \<Rightarrow> Earned \<Rightarrow> BidRules \<Rightarrow> BmmMemory \<Rightarrow> u64 \<times> BmmMemory" where
  "fees_at tip earned rules m =
     (let m = memory_follow earned m in
      case cached_fees (fst tip) m of
        Some fees \<Rightarrow> (fees, m)
      | None \<Rightarrow>
          let tip_height = ucast (snd tip);
              history = FeeHistory_observe tip_height (ea_total earned) (bm_history m);
              fees = (case Option.bind
                  (income_per_block tip_height (ea_total earned) (ru_confirmations rules + 1) history)
                  (\<lambda>income. bid_sats income (ru_bid_percent rules) (ru_min_bid_sats rules) (ru_max_bid_sats rules)) of
                None \<Rightarrow> 0 | Some fees \<Rightarrow> fees)
          in (fees, m\<lparr>bm_history := history, bm_fees := Some (fst tip, fees)\<rparr>))"

definition remember :: "(bytes \<Rightarrow> array32) \<Rightarrow> Pair \<Rightarrow> BmmMemory \<Rightarrow> BmmMemory" where
  "remember sha pair m =
     (let order = bm_remembered m + 1;
          pairs = bt_insert (Pair_commitment sha pair) (order, pair) (bm_pairs m);
          at_height = sort (map (\<lambda>(commitment, order, _). (order, commitment))
            (filter (\<lambda>(_, _, other). pr_height other = pr_height pair) pairs));
          excess = length at_height - MAX_PAIRS_PER_HEIGHT;
          old = map snd (take excess at_height)
      in m\<lparr>bm_remembered := order, bm_pairs := filter (\<lambda>(commitment, _). commitment \<notin> set old) pairs\<rparr>)"

definition memory_pair :: "array32 \<Rightarrow> BmmMemory \<Rightarrow> Pair option" where
  "memory_pair commitment m = map_option snd (map_of (bm_pairs m) commitment)"

text \<open>The last filter of \<^verbatim>\<open>pairs_to_publish\<close>, with its counter.\<close>

fun newest_unchecked :: "u64 \<Rightarrow> u64 \<times> nat \<Rightarrow> Pair list \<Rightarrow> Pair list" where
  "newest_unchecked tip_height sent [] = []"
| "newest_unchecked tip_height sent (pair # pairs) =
     (if pr_height pair \<le> tip_height then pair # newest_unchecked tip_height sent pairs
      else
        let sent = (if fst sent \<noteq> pr_height pair then (pr_height pair, 0) else sent);
            sent = (fst sent, snd sent + 1)
        in if snd sent \<le> VALIDATOR_PAIRS_PER_HEIGHT then pair # newest_unchecked tip_height sent pairs
           else newest_unchecked tip_height sent pairs)"

definition pairs_to_publish :: "u64 \<Rightarrow> u64 \<Rightarrow> u64 \<Rightarrow> BmmMemory \<Rightarrow> Pair list \<times> BmmMemory" where
  "pairs_to_publish next_height tip_height confirmations m =
     (let kept = filter (\<lambda>(_, _, pair). tip_height \<le> saturating_add (pr_height pair) REMEMBERED_HEIGHTS) (bm_pairs m);
          pairs = filter (\<lambda>(_, pair). next_height \<le> pr_height pair \<and>
            tip_height \<le> pr_height pair + confirmations + 2) (map snd kept);
          pairs = sort_key (\<lambda>(order, pair). (pr_height pair, Reverse order)) pairs
      in (newest_unchecked tip_height (0, 0) (map snd pairs), m\<lparr>bm_pairs := kept\<rparr>))"

section \<open>The pairs of the active blocks\<close>

type_synonym ActiveBlock = "array32 \<times> array32 option"

text \<open>The loop of \<^verbatim>\<open>pairs_for_blocks\<close>: \<open>kept\<close>, \<open>first_error\<close> and \<open>block\<close> are its variables.\<close>

fun pairs_for_blocks ::
  "(bytes \<Rightarrow> array32) \<Rightarrow> u64 \<Rightarrow> (u64 \<Rightarrow> ('s, BmmError, ActiveBlock option) act) \<Rightarrow>
     Pair list \<times> BmmError option \<times> (u64 \<times> ActiveBlock option option) option \<Rightarrow> Pair list \<Rightarrow> 's \<Rightarrow>
     (Pair list \<times> BmmError option) \<times> 's" where
  "pairs_for_blocks sha tip_height read_block (kept, err, block) [] s = ((kept, err), s)"
| "pairs_for_blocks sha tip_height read_block (kept, err, block) (pair # pairs) s =
     (if tip_height < pr_height pair
      then pairs_for_blocks sha tip_height read_block (kept @ [pair], err, block) pairs s
      else
        case (if map_option fst block = Some (pr_height pair) then ((err, block), s)
              else case read_block (pr_height pair) s of
                     (Inr found, s') \<Rightarrow> ((err, Some (pr_height pair, Some found)), s')
                   | (Inl e, s') \<Rightarrow>
                       ((case err of None \<Rightarrow> Some e | Some _ \<Rightarrow> err, Some (pr_height pair, None)), s')) of
          ((err, block), s') \<Rightarrow>
            let keep = (case Option.bind block snd of
                          None \<Rightarrow> False
                        | Some None \<Rightarrow> True
                        | Some (Some (_, commitment)) \<Rightarrow> commitment = Some (Pair_commitment sha pair))
            in pairs_for_blocks sha tip_height read_block (if keep then kept @ [pair] else kept, err, block) pairs s')"

section \<open>The chain behind a template\<close>

text \<open>The trait \<^verbatim>\<open>Chain\<close>.\<close>

record 's bmm_chain =
  ch_tip :: "('s, BmmError, tip) act"
  ch_slot_is_active :: "('s, BmmError, bool) act"
  ch_config :: "('s, BmmError, Config) act"
  ch_earned_fees :: "('s, BmmError, Earned) act"
  ch_recorded_blocks :: "('s, BmmError, RecordedBlock list) act"
  ch_block_hash_at :: "tip \<Rightarrow> u64 \<Rightarrow> ('s, BmmError, array32 option) act"
  ch_active_block :: "tip \<Rightarrow> u64 \<Rightarrow> ('s, BmmError, ActiveBlock option) act"
  ch_publish :: "Pair list \<Rightarrow> ('s, BmmError, string list) act"

definition MAX_WALK :: u64 where "MAX_WALK = 2016"

definition within_walk :: "u64 \<Rightarrow> u64 \<Rightarrow> bool" where
  "within_walk tip_height height =
     (case checked_sub tip_height height of None \<Rightarrow> False | Some depth \<Rightarrow> depth \<le> MAX_WALK)"

definition height_u32 :: "u64 \<Rightarrow> BmmError + u32" where
  "height_u32 height = ok_or (try_from height) (BmmHeightTooLarge height) Inr"

definition passes_rule_3 :: "RecordedBlock \<Rightarrow> u64 \<Rightarrow> u64 \<Rightarrow> (u64 \<Rightarrow> array32 option) \<Rightarrow> bool" where
  "passes_rule_3 block height lag active_hash =
     (let next_height = saturating_add (rb_credited_height block) 1
      in height \<le> saturating_add (rb_credited_height block) lag \<and>
         list_all (\<lambda>(at, hash). hash = 0 \<or> active_hash at = Some hash)
           [(rb_credited_height block, rb_credited_block block), (next_height, rb_part_block block)])"

fun read_active ::
  "'s bmm_chain \<Rightarrow> tip \<Rightarrow> (u64 \<times> array32) list \<Rightarrow> (u64 \<Rightarrow> array32 option option) \<Rightarrow>
     ('s, BmmError, u64 \<Rightarrow> array32 option option) act" where
  "read_active ch tip [] active = return active"
| "read_active ch tip ((at, hash) # asked) active =
     (if hash \<noteq> 0 \<and> active at = None
      then perform (ch_block_hash_at ch tip at) (\<lambda>found. read_active ch tip asked (active(at \<mapsto> found)))
      else read_active ch tip asked active)"

definition passes_rule_3_on ::
  "'s bmm_chain \<Rightarrow> tip \<Rightarrow> RecordedBlock \<Rightarrow> u64 \<Rightarrow> u64 \<Rightarrow> (u64 \<Rightarrow> array32 option option) \<Rightarrow>
     ('s, BmmError, bool \<times> (u64 \<Rightarrow> array32 option option)) act" where
  "passes_rule_3_on ch tip block height lag active =
     (if saturating_add (rb_credited_height block) lag < height then return (False, active)
      else
        let next_height = saturating_add (rb_credited_height block) 1 in
        perform (read_active ch tip
          [(rb_credited_height block, rb_credited_block block), (next_height, rb_part_block block)] active)
          (\<lambda>active. return
            (passes_rule_3 block height lag (\<lambda>at. case active at of None \<Rightarrow> None | Some found \<Rightarrow> found), active)))"

fun first_passing ::
  "'s bmm_chain \<Rightarrow> tip \<Rightarrow> u64 \<Rightarrow> u64 \<Rightarrow> (u64 \<Rightarrow> array32 option option) \<Rightarrow> RecordedBlock list \<Rightarrow>
     ('s, BmmError, RecordedBlock option) act" where
  "first_passing ch tip height lag active [] = return None"
| "first_passing ch tip height lag active (block # blocks) =
     perform (passes_rule_3_on ch tip block height lag active) (\<lambda>(passes, active).
     if passes then return (Some block) else first_passing ch tip height lag active blocks)"

definition bid_block ::
  "'s bmm_chain \<Rightarrow> tip \<Rightarrow> u64 \<Rightarrow> u64 \<Rightarrow> ('s, BmmError, RecordedBlock option) act" where
  "bid_block ch tip height lag =
     perform (ch_recorded_blocks ch) (first_passing ch tip height lag Map.empty)"

section \<open>The process\<close>

text \<open>
  What the tasks of one process share: the memory, the fee meter, the headers of the settles, the flag of
  the wallet scan, and the tip of the last bid, which is a variable of \<^verbatim>\<open>rounds\<close>.
\<close>

record BmmProcess =
  pc_memory :: BmmMemory
  pc_meter :: FeeMeter
  pc_headers :: "Header list"
  pc_scan_runs :: bool
  pc_last_bid_tip :: "array32 option"

type_synonym 'w bmm_state = "BmmProcess \<times> 'w"

definition on_memory :: "(BmmMemory \<Rightarrow> 'a \<times> BmmMemory) \<Rightarrow> ('w bmm_state, 'e, 'a) act" where
  "on_memory f s = (case f (pc_memory (fst s)) of (x, m) \<Rightarrow> (Inr x, ((fst s)\<lparr>pc_memory := m\<rparr>, snd s)))"

definition update_memory :: "(BmmMemory \<Rightarrow> BmmMemory) \<Rightarrow> ('w bmm_state, 'e, unit) act" where
  "update_memory f = on_memory (\<lambda>m. ((), f m))"

text \<open>The result of an action as a value: the callers that only log an error.\<close>

definition result_of :: "('s, 'e, 'a) act \<Rightarrow> ('s, 'f, 'e + 'a) act" where
  "result_of m s = (case m s of (r, s') \<Rightarrow> (Inr r, s'))"

lemma on_memory_iff [result_iff]:
  "on_memory f s = (Inr x, s') \<longleftrightarrow>
     f (pc_memory (fst s)) = (x, pc_memory (fst s')) \<and> s' = ((fst s)\<lparr>pc_memory := pc_memory (fst s')\<rparr>, snd s)"
  by (cases s, cases s') (auto simp: on_memory_def split: prod.splits)

lemma result_of_iff [result_iff]: "result_of m s = (Inr r, s') \<longleftrightarrow> m s = (r, s')"
  by (auto simp: result_of_def split: prod.splits)

section \<open>Templates\<close>

record Template =
  te_tip :: tip
  te_pair :: Pair
  te_slot :: u64
  te_fees_sats :: u64

datatype NoTemplate = SlotInactive | SettledAlready u64 | NoBlock u64 | ChainError BmmError

definition template_fees ::
  "'w bmm_state bmm_chain \<Rightarrow> BidRules \<Rightarrow> tip \<Rightarrow> ('w bmm_state, NoTemplate, u64) act" where
  "template_fees ch rules tip =
     perform (on_memory (\<lambda>m. (cached_fees (fst tip) m, m))) (\<lambda>cached.
     case cached of
       Some fees \<Rightarrow> return fees
     | None \<Rightarrow>
         perform (action_err ChainError (ch_earned_fees ch)) (\<lambda>earned.
         on_memory (fees_at tip earned rules)))"

definition template ::
  "'w bmm_state bmm_chain \<Rightarrow> BidRules \<Rightarrow> tip \<Rightarrow> ('w bmm_state, NoTemplate, Template) act" where
  "template ch rules tip =
     perform (action_err ChainError (ch_slot_is_active ch)) (\<lambda>active.
     if \<not> active then pure (Inl SlotInactive)
     else
       perform (action_err ChainError (ch_config ch)) (\<lambda>cfg.
       let height = ucast (snd tip) + 1 in
       if height < bmm_next_height cfg then pure (Inl (SettledAlready height))
       else
         perform (template_fees ch rules tip) (\<lambda>fees_sats.
         perform (action_err ChainError (bid_block ch tip height (deposit_lag cfg))) (\<lambda>found.
         perform (pure (ok_or found (NoBlock height) Inr)) (\<lambda>block.
         return \<lparr>te_tip = tip,
           te_pair = \<lparr>pr_height = height, pr_block = rb_bank_hash block, pr_payee = ru_payee rules\<rparr>,
           te_slot = rb_slot block, te_fees_sats = fees_sats\<rparr>)))))"

definition held :: "u64 \<Rightarrow> string list \<Rightarrow> BmmError + unit" where
  "held height answers =
     (if answers = [''new''] \<or> answers = [''known''] then Inr () else Inl (PairRefused height answers))"

definition publish_one :: "'s bmm_chain \<Rightarrow> Pair \<Rightarrow> ('s, BmmError, unit) act" where
  "publish_one ch pair =
     perform (ch_publish ch [pair]) (\<lambda>answers. pure (held (pr_height pair) answers))"

end
