(* ===== verification/Bmm_Loop.thy ===== *)
theory Bmm_Loop
  imports Bmm
begin

text \<open>
  The loop of the blind merged mining (\<^verbatim>\<open>daemon/src/bmm.rs\<close>): the chain behind the local nodes, the bid, the
  settles in the order of the heights, and the rounds. The log lines are left out.
\<close>

section \<open>The nodes\<close>

text \<open>
  The calls of the local enforcer and the local validator that only this loop makes.
\<close>

record 'w bmm_node =
  bn_node :: "'w node"
  bn_fees :: "'w fee_rpc"
  bn_late :: "'w \<Rightarrow> bool"
  bn_get_slot :: "('w, RpcError, u64) act"
  bn_sidechains :: "('w, EnforcerError, SlotInfo list) act"
  bn_publish_pairs :: "(u64 \<times> string \<times> string) list \<Rightarrow> ('w, RpcError, string list) act"
  bn_get_pairs :: "u64 \<Rightarrow> ('w, RpcError, (u64 \<times> string \<times> string) list) act"

record BmmSettings =
  bs_sidechain_id :: u8
  bs_program_id :: pubkey
  bs_confirmations :: u64
  bs_bid_percent :: u64
  bs_min_bid_sats :: u64
  bs_max_bid_sats :: u64
  bs_no_bid :: bool

definition publish_pairs ::
  "account_codes \<Rightarrow> 'w bmm_node \<Rightarrow> Pair list \<Rightarrow> ('w, BmmError, string list) act" where
  "publish_pairs ac bn pairs =
     (if pairs = [] then return []
      else action_err (BmmRpc ''bmmPublishPairs'') (bn_publish_pairs bn
        (map (\<lambda>p. (pr_height p, ac_key_text ac (pr_block p), ac_key_text ac (pr_payee p))) pairs)))"

definition parse_pair :: "account_codes \<Rightarrow> u64 \<times> string \<times> string \<Rightarrow> Pair option" where
  "parse_pair ac entry =
     (case entry of (height, block, payee) \<Rightarrow>
       Option.bind (ac_parse_key ac block) (\<lambda>block.
       Option.bind (ac_parse_key ac payee) (\<lambda>payee.
       Some \<lparr>pr_height = height, pr_block = block, pr_payee = payee\<rparr>)))"

definition parse_pairs :: "account_codes \<Rightarrow> (u64 \<times> string \<times> string) list \<Rightarrow> Pair list" where
  "parse_pairs ac entries = List.map_filter (parse_pair ac) entries"

definition fetch_pairs :: "account_codes \<Rightarrow> 'w bmm_node \<Rightarrow> u64 \<Rightarrow> ('w, BmmError, Pair list) act" where
  "fetch_pairs ac bn from_height =
     perform (action_err (BmmRpc ''bmmGetPairs'') (bn_get_pairs bn from_height)) (\<lambda>entries.
     return (parse_pairs ac entries))"

definition bmm_read_config :: "tools \<Rightarrow> 'w bmm_node \<Rightarrow> pubkey \<Rightarrow> ('w, BmmError, Config) act" where
  "bmm_read_config tools bn program_id =
     perform (action_err (BmmRpc ''getAccountInfo'')
       (nd_get_account_data (bn_node bn) Confirmed (fst (config_pda (to_find_pda tools) program_id)))) (\<lambda>data.
     pure (map_err BmmBridge (Config_decode (to_sha256 tools) data)))"

definition read_recorded_blocks :: "'w bmm_node \<Rightarrow> ('w, BmmError, RecordedBlock list) act" where
  "read_recorded_blocks bn =
     perform (action_err (BmmRpc ''getAccountInfo(block record)'')
       (nd_get_account (bn_node bn) Processed BMM_BLOCKS_ID)) (\<lambda>account.
     return (case account of None \<Rightarrow> [] | Some a \<Rightarrow> recorded_blocks (ra_data a)))"

section \<open>The chain behind the nodes\<close>

text \<open>The action of the fee meter of the process.\<close>

definition on_meter :: "(FeeMeter \<times> 'w, 'e, 'a) act \<Rightarrow> ('w bmm_state, 'e, 'a) act" where
  "on_meter m s = (case m (pc_meter (fst s), snd s) of (r, (meter, w)) \<Rightarrow> (r, ((fst s)\<lparr>pc_meter := meter\<rparr>, w)))"

definition live_slot_is_active :: "'w bmm_node \<Rightarrow> u8 \<Rightarrow> ('w, BmmError, bool) act" where
  "live_slot_is_active bn sidechain_id =
     perform (action_err BmmEnforcer (bn_sidechains bn)) (\<lambda>slots.
     return (\<exists>s \<in> set slots. sl_sidechain_number s = ucast sidechain_id \<and> sl_activation_height s \<noteq> None))"

text \<open>A height without an active block is \<open>None\<close>; every other error of the enforcer stays.\<close>

definition or_no_block :: "('w, EnforcerError, 'a) act \<Rightarrow> ('w, BmmError, 'a option) act" where
  "or_no_block m w =
     (case m w of
        (Inr x, w') \<Rightarrow> (Inr (Some x), w')
      | (Inl (NoBlockAtHeight _), w') \<Rightarrow> (Inr None, w')
      | (Inl e, w') \<Rightarrow> (Inl (BmmEnforcer e), w'))"

definition live_block_hash_at :: "'w bmm_node \<Rightarrow> tip \<Rightarrow> u64 \<Rightarrow> ('w, BmmError, array32 option) act" where
  "live_block_hash_at bn tip height =
     (if \<not> within_walk (ucast (snd tip)) height then return None
      else
        perform (pure (height_u32 height)) (\<lambda>at.
        perform (or_no_block (look (\<lambda>w. block_at (nd_headers (bn_node bn) w) tip at))) (\<lambda>found.
        return (map_option fst found))))"

definition live_active_block :: "'w bmm_node \<Rightarrow> tip \<Rightarrow> u64 \<Rightarrow> ('w, BmmError, ActiveBlock option) act" where
  "live_active_block bn tip height =
     (if \<not> within_walk (ucast (snd tip)) height then return None
      else
        perform (pure (height_u32 height)) (\<lambda>at.
        or_no_block (
          perform (look (\<lambda>w. header_at (nd_headers (bn_node bn) w) tip at)) (\<lambda>header.
          perform (nd_commitment_at (bn_node bn) (hd_hash header)) (\<lambda>commitment.
          return (hd_hash header, commitment))))))"

definition Live ::
  "tools \<Rightarrow> account_codes \<Rightarrow> 'w bmm_node \<Rightarrow> BmmSettings \<Rightarrow> 'w bmm_state bmm_chain" where
  "Live tools ac bn opts =
     \<lparr>ch_tip = on_world (action_err BmmEnforcer (nd_tip (bn_node bn))),
      ch_slot_is_active = on_world (live_slot_is_active bn (bs_sidechain_id opts)),
      ch_config = on_world (bmm_read_config tools bn (bs_program_id opts)),
      ch_earned_fees = on_meter (read_fees (bn_late bn)
        (RpcFees ac (bn_fees bn) (fst (treasury_pda (to_find_pda tools) (bs_program_id opts))))),
      ch_recorded_blocks = on_world (read_recorded_blocks bn),
      ch_block_hash_at = (\<lambda>tip height. on_world (live_block_hash_at bn tip height)),
      ch_active_block = (\<lambda>tip height. on_world (live_active_block bn tip height)),
      ch_publish = (\<lambda>pairs. on_world (publish_pairs ac bn pairs))\<rparr>"

section \<open>The bid\<close>

datatype Bid = BidSent Pair | BidDeclined | BidNoBlock | BidRejected | BidUnknown | BidBusy

definition tip_moved :: "EnforcerError \<Rightarrow> bool" where
  "tip_moved e =
     (case e of
        Call call source \<Rightarrow> st_code source = InvalidArgument \<and> contains ''prev_bytes'' (st_message source)
      | _ \<Rightarrow> False)"

definition bids_for :: "bool \<Rightarrow> array32 option \<Rightarrow> array32 \<Rightarrow> bool" where
  "bids_for no_bid last_bid_tip tip \<longleftrightarrow> \<not> no_bid \<and> last_bid_tip \<noteq> Some tip"

fun bids_again :: "BmmError + Bid \<Rightarrow> bool" where
  "bids_again (Inr BidNoBlock) = True"
| "bids_again (Inr BidRejected) = True"
| "bids_again (Inr BidBusy) = True"
| "bids_again (Inr _) = False"
| "bids_again (Inl _) = True"

definition round_error_is_fatal :: "BmmError \<Rightarrow> bool" where
  "round_error_is_fatal e =
     (case e of BmmEnforcer _ \<Rightarrow> False | BmmRpc _ _ \<Rightarrow> False | BadBlock _ _ \<Rightarrow> False | _ \<Rightarrow> True)"

definition keep_pair ::
  "tools \<Rightarrow> account_codes \<Rightarrow> 'w bmm_node \<Rightarrow> Pair \<Rightarrow> ('w bmm_state, BmmError, unit) act" where
  "keep_pair tools ac bn pair =
     perform (update_memory (remember (to_sha256 tools) pair)) (\<lambda>_.
     perform (result_of (on_world (publish_pairs ac bn [pair]))) (\<lambda>_. return ()))"

definition scan_runs :: "('w bmm_state, 'e, bool) act" where
  "scan_runs = look (\<lambda>s. Inr (pc_scan_runs (fst s)))"

text \<open>The scan itself runs beside the loop; \<open>rounds\<close> says when it ends.\<close>

definition start_scan :: "('w bmm_state, 'e, bool) act" where
  "start_scan s = (Inr (\<not> pc_scan_runs (fst s)), ((fst s)\<lparr>pc_scan_runs := True\<rparr>, snd s))"

definition finish_scan :: "'w bmm_state \<Rightarrow> 'w bmm_state" where
  "finish_scan s = ((fst s)\<lparr>pc_scan_runs := False\<rparr>, snd s)"

text \<open>What the answer to the request of the bid means.\<close>

definition bid_answer :: "Pair \<Rightarrow> EnforcerError + array32 \<Rightarrow> Bid" where
  "bid_answer pair answer =
     (case answer of
        Inr txid \<Rightarrow> BidSent pair
      | Inl e \<Rightarrow> if tip_moved e then BidDeclined else if bid_rejected e then BidRejected else BidUnknown)"

definition send_bid ::
  "tools \<Rightarrow> account_codes \<Rightarrow> 'w bmm_node \<Rightarrow> tip \<Rightarrow> Template \<Rightarrow> ('w bmm_state, BmmError, Bid) act" where
  "send_bid tools ac bn tip te =
     (if te_fees_sats te = 0 then return BidDeclined
      else
        perform scan_runs (\<lambda>running.
        if running then return BidBusy
        else
          perform (keep_pair tools ac bn (te_pair te)) (\<lambda>_.
          perform (result_of (on_world (nd_create_bmm_request (bn_node bn) (te_fees_sats te) tip
            (Pair_commitment (to_sha256 tools) (te_pair te))))) (\<lambda>answer.
          let outcome = bid_answer (te_pair te) answer in
          if outcome = BidRejected then perform start_scan (\<lambda>_. return outcome) else return outcome))))"

definition bid ::
  "tools \<Rightarrow> account_codes \<Rightarrow> 'w bmm_node \<Rightarrow> BmmSettings \<Rightarrow> BidRules \<Rightarrow> tip \<Rightarrow> ('w bmm_state, BmmError, Bid) act" where
  "bid tools ac bn opts rules tip =
     perform (result_of (template (Live tools ac bn opts) rules tip)) (\<lambda>found.
     case found of
       Inr te \<Rightarrow> send_bid tools ac bn tip te
     | Inl (ChainError e) \<Rightarrow> pure (Inl e)
     | Inl (NoBlock _) \<Rightarrow> return BidNoBlock
     | Inl _ \<Rightarrow> return BidDeclined)"

section \<open>The settles\<close>

definition SETTLE_STEPS :: u64 where "SETTLE_STEPS = 16"
definition SETTLE_WALK_PAGES :: nat where "SETTLE_WALK_PAGES = 8"

datatype SettleStep = Wait | Send array32 array32 pubkey

definition next_settle ::
  "(bytes \<Rightarrow> array32) \<Rightarrow> u64 \<Rightarrow> u64 \<Rightarrow> u64 \<Rightarrow> ActiveBlock option \<Rightarrow> Pair list \<Rightarrow> bool \<Rightarrow> pubkey \<Rightarrow> SettleStep" where
  "next_settle sha height tip_height confirmations block pairs skip_ready sender =
     (if \<not> settle_is_ready height tip_height confirmations then Wait
      else
        case block of
          None \<Rightarrow> Wait
        | Some (block_hash, None) \<Rightarrow> Send block_hash 0 sender
        | Some (block_hash, Some commitment) \<Rightarrow>
            (case pair_for sha pairs height commitment of
               Some pair \<Rightarrow> Send block_hash (pr_block pair) (pr_payee pair)
             | None \<Rightarrow> if skip_ready then Send block_hash 0 sender else Wait))"

record SettleView =
  sv_next :: u64
  sv_tip_height :: u64
  sv_confirmations :: u64
  sv_pairs :: "Pair list"
  sv_skip_blocks :: u64
  sv_credited_height :: u64
  sv_grace_passed :: bool
  sv_sender :: pubkey

fun plan_heights ::
  "(bytes \<Rightarrow> array32) \<Rightarrow> SettleView \<Rightarrow> (u64 \<Rightarrow> ('s, BmmError, ActiveBlock option) act) \<Rightarrow>
     (u64 \<times> SettleStep) list \<Rightarrow> u64 list \<Rightarrow> ('s, BmmError, (u64 \<times> SettleStep) list) act" where
  "plan_heights sha v read_block plan [] = return plan"
| "plan_heights sha v read_block plan (height # heights) =
     (if \<not> settle_is_ready height (sv_tip_height v) (sv_confirmations v) then return plan
      else
        perform (read_block height) (\<lambda>block.
        let step = next_settle sha height (sv_tip_height v) (sv_confirmations v) block (sv_pairs v)
          (saturating_add height (sv_skip_blocks v) \<le> sv_credited_height v \<and> sv_grace_passed v \<and>
           height = sv_next v) (sv_sender v)
        in if step = Wait then return plan
           else plan_heights sha v read_block (plan @ [(height, step)]) heights))"

definition plan_settles ::
  "(bytes \<Rightarrow> array32) \<Rightarrow> SettleView \<Rightarrow> (u64 \<Rightarrow> ('s, BmmError, ActiveBlock option) act) \<Rightarrow>
     ('s, BmmError, (u64 \<times> SettleStep) list) act" where
  "plan_settles sha v read_block =
     plan_heights sha v read_block [] (indices (sv_next v, saturating_add (sv_next v) SETTLE_STEPS))"

definition bmm_send ::
  "'w bmm_node \<Rightarrow> pubkey \<Rightarrow> Instruction \<Rightarrow> string \<Rightarrow> ('w, BmmError, unit) act" where
  "bmm_send bn payer instruction call =
     perform (action_err (BmmRpc ''getLatestBlockhash'') (nd_get_latest_blockhash (bn_node bn))) (\<lambda>blockhash.
     action_err (BmmRpc call) (nd_send_and_confirm (bn_node bn)
       \<lparr>st_instructions = [instruction], st_payer = payer, st_blockhash = blockhash\<rparr>))"

text \<open>A settle that does not land ends the round of settles, and the next round reads again.\<close>

fun send_settles ::
  "tools \<Rightarrow> 'w bmm_node \<Rightarrow> BmmSettings \<Rightarrow> pubkey \<Rightarrow> (u64 \<times> SettleStep) list \<Rightarrow> ('w, BmmError, unit) act" where
  "send_settles tools bn opts payer [] = return ()"
| "send_settles tools bn opts payer ((height, Wait) # plan) = return ()"
| "send_settles tools bn opts payer ((height, Send block_hash solana_block payee) # plan) = (\<lambda>w.
     case bmm_send bn payer (settle_bmm_ix (to_sha256 tools) (to_find_pda tools) (bs_program_id opts) height
            block_hash solana_block payee) ''settle_bmm'' w of
       (Inl e, w') \<Rightarrow> (Inr (), w')
     | (Inr _, w') \<Rightarrow>
         perform (bmm_read_config tools bn (bs_program_id opts)) (\<lambda>cfg.
         send_settles tools bn opts payer plan) w')"

text \<open>The headers of the process follow the tip down to the cursor.\<close>

definition follow_headers ::
  "'w bmm_node \<Rightarrow> tip \<Rightarrow> u32 \<Rightarrow> ('w bmm_state, BmmError, unit) act" where
  "follow_headers bn tip lowest s =
     (case follow (nd_headers (bn_node bn) (snd s)) tip lowest SETTLE_WALK_PAGES (pc_headers (fst s)) of
        (r, headers) \<Rightarrow> (map_err BmmEnforcer r, ((fst s)\<lparr>pc_headers := headers\<rparr>, snd s)))"

definition settle_block ::
  "'w bmm_node \<Rightarrow> Header list \<Rightarrow> u64 \<Rightarrow> ('w, BmmError, ActiveBlock option) act" where
  "settle_block bn headers height =
     (case Option.bind (try_from height) (\<lambda>at. active_get at headers) of
        None \<Rightarrow> return None
      | Some header \<Rightarrow>
          perform (action_err BmmEnforcer (nd_commitment_at (bn_node bn) (hd_hash header))) (\<lambda>commitment.
          return (Some (hd_hash header, commitment))))"

definition settle ::
  "tools \<Rightarrow> account_codes \<Rightarrow> 'w bmm_node \<Rightarrow> BmmSettings \<Rightarrow> pubkey \<Rightarrow> tip \<Rightarrow> ('w bmm_state, BmmError, unit) act" where
  "settle tools ac bn opts identity tip =
     perform (on_world (bmm_read_config tools bn (bs_program_id opts))) (\<lambda>cfg.
     if \<not> settle_is_ready (bmm_next_height cfg) (ucast (snd tip)) (bs_confirmations opts) then return ()
     else
       perform (on_world (fetch_pairs ac bn (bmm_next_height cfg))) (\<lambda>pairs.
       perform (pure (height_u32 (bmm_next_height cfg))) (\<lambda>lowest.
       perform (follow_headers bn tip lowest) (\<lambda>_.
       perform (on_world (action_err (BmmRpc ''getSlot'') (bn_get_slot bn))) (\<lambda>at.
       perform (look (\<lambda>s. Inr (pc_headers (fst s)))) (\<lambda>headers.
       perform (on_world (plan_settles (to_sha256 tools)
         \<lparr>sv_next = bmm_next_height cfg, sv_tip_height = ucast (snd tip),
          sv_confirmations = bs_confirmations opts, sv_pairs = pairs, sv_skip_blocks = bmm_skip_blocks cfg,
          sv_credited_height = credited_height cfg,
          sv_grace_passed = (saturating_add (bmm_next_since_slot cfg) SKIP_GRACE_SLOTS \<le> at),
          sv_sender = identity\<rparr> (settle_block bn headers))) (\<lambda>plan.
       on_world (send_settles tools bn opts identity plan))))))))"

section \<open>The rounds\<close>

text \<open>The pairs that no settle passed go out again; after the eCash block only the won pair does.\<close>

definition publish_again ::
  "tools \<Rightarrow> account_codes \<Rightarrow> 'w bmm_node \<Rightarrow> tip \<Rightarrow> Pair list \<Rightarrow> ('w, BmmError, unit) act" where
  "publish_again tools ac bn tip pairs w =
     (case pairs_for_blocks (to_sha256 tools) (ucast (snd tip)) (live_active_block bn tip)
             ([], None, None) pairs w of
        ((kept, read), w') \<Rightarrow>
          perform (publish_pairs ac bn kept) (\<lambda>_. pure (case read of None \<Rightarrow> Inr () | Some e \<Rightarrow> Inl e)) w')"

definition bid_round ::
  "tools \<Rightarrow> account_codes \<Rightarrow> 'w bmm_node \<Rightarrow> BmmSettings \<Rightarrow> BidRules \<Rightarrow> tip \<Rightarrow> ('w bmm_state, BmmError, unit) act" where
  "bid_round tools ac bn opts rules tip =
     perform (look (\<lambda>s. Inr (pc_last_bid_tip (fst s)))) (\<lambda>last_bid_tip.
     if \<not> bids_for (bs_no_bid opts) last_bid_tip (fst tip) then return ()
     else
       perform (result_of (bid tools ac bn opts rules tip)) (\<lambda>result.
       case result of
         Inl e \<Rightarrow> if round_error_is_fatal e then pure (Inl e) else return ()
       | Inr outcome \<Rightarrow>
           if bids_again result then return ()
           else (\<lambda>s. (Inr (), ((fst s)\<lparr>pc_last_bid_tip := Some (fst tip)\<rparr>, snd s)))))"

definition bmm_round ::
  "tools \<Rightarrow> account_codes \<Rightarrow> 'w bmm_node \<Rightarrow> BmmSettings \<Rightarrow> BidRules \<Rightarrow> pubkey \<Rightarrow> ('w bmm_state, BmmError, unit) act" where
  "bmm_round tools ac bn opts rules identity =
     perform (on_world (action_err BmmEnforcer (nd_tip (bn_node bn)))) (\<lambda>tip.
     let tip_height = ucast (snd tip) in
     perform (on_world (bmm_read_config tools bn (bs_program_id opts))) (\<lambda>cfg.
     perform (result_of (ch_earned_fees (Live tools ac bn opts))) (\<lambda>earned.
     perform (case earned of Inl _ \<Rightarrow> return () | Inr e \<Rightarrow> update_memory (memory_observe tip_height e)) (\<lambda>_.
     perform (on_memory (pairs_to_publish (bmm_next_height cfg) tip_height (bs_confirmations opts))) (\<lambda>pairs.
     perform (result_of (on_world (publish_again tools ac bn tip pairs))) (\<lambda>_.
     perform (update_memory (forget_fees_below (saturating_sub tip_height (bs_confirmations opts + 1)))) (\<lambda>_.
     perform (result_of (settle tools ac bn opts identity tip)) (\<lambda>settled.
     perform (on_world (action_err BmmEnforcer (nd_tip (bn_node bn)))) (\<lambda>tip.
     perform (bid_round tools ac bn opts rules tip) (\<lambda>_.
     pure settled))))))))))"

text \<open>
  The loop over a schedule: before each round it says whether a running scan has ended. The code sleeps
  between the rounds, and it stops only at a fatal error.
\<close>

fun rounds ::
  "tools \<Rightarrow> account_codes \<Rightarrow> 'w bmm_node \<Rightarrow> BmmSettings \<Rightarrow> BidRules \<Rightarrow> pubkey \<Rightarrow> bool list \<Rightarrow> 'w bmm_state \<Rightarrow>
     BmmError option \<times> 'w bmm_state" where
  "rounds tools ac bn opts rules identity [] s = (None, s)"
| "rounds tools ac bn opts rules identity (finished # schedule) s =
     (case bmm_round tools ac bn opts rules identity (if finished then finish_scan s else s) of
        (Inl e, s') \<Rightarrow>
          if round_error_is_fatal e then (Some e, s')
          else rounds tools ac bn opts rules identity schedule s'
      | (Inr _, s') \<Rightarrow> rounds tools ac bn opts rules identity schedule s')"

definition settings_rules :: "BmmSettings \<Rightarrow> pubkey \<Rightarrow> BidRules" where
  "settings_rules opts identity =
     \<lparr>ru_payee = identity, ru_confirmations = bs_confirmations opts, ru_bid_percent = bs_bid_percent opts,
      ru_min_bid_sats = bs_min_bid_sats opts, ru_max_bid_sats = bs_max_bid_sats opts\<rparr>"

definition BmmProcess_new :: BmmProcess where
  "BmmProcess_new =
     \<lparr>pc_memory = BmmMemory_default, pc_meter = FeeMeter_default, pc_headers = [], pc_scan_runs = False,
      pc_last_bid_tip = None\<rparr>"

definition run_bmm ::
  "tools \<Rightarrow> account_codes \<Rightarrow> 'w bmm_node \<Rightarrow> BmmSettings \<Rightarrow> pubkey \<Rightarrow> EnforcerError + unit \<Rightarrow> bool list \<Rightarrow> 'w \<Rightarrow>
     BmmError option \<times> 'w" where
  "run_bmm tools ac bn opts identity network_check schedule w =
     (case attempt (rules_check (settings_rules opts identity)) (\<lambda>_. map_err BmmEnforcer network_check) of
        Inl e \<Rightarrow> (Some e, w)
      | Inr _ \<Rightarrow>
          (case rounds tools ac bn opts (settings_rules opts identity) identity schedule (BmmProcess_new, w) of
             (r, s') \<Rightarrow> (r, snd s')))"

end
