(* ===== verification/Fee_Properties.thy ===== *)
theory Fee_Properties
  imports Fee_Meter "HOL-Library.Multiset"
begin

text \<open>
  Properties of the fees: the income per block is the median over the eCash blocks, and the meter counts,
  inside one generation, each block of one branch once.
\<close>

section \<open>The median\<close>

definition blocks_of :: "(u64 \<times> u64) list \<Rightarrow> nat" where
  "blocks_of rates = (\<Sum>r\<leftarrow>rates. unat (snd r))"

lemma blocks_of_simps [simp]:
  "blocks_of [] = 0" "blocks_of (r # rs) = unat (snd r) + blocks_of rs"
  "blocks_of (xs @ ys) = blocks_of xs + blocks_of ys"
  by (simp_all add: blocks_of_def)

lemma blocks_of_filter_le: "blocks_of (filter P rs) \<le> blocks_of rs"
  by (induction rs) auto

lemma blocks_of_mset: "blocks_of rs = (\<Sum>r\<in>#mset rs. unat (snd r))"
  by (induction rs) simp_all

lemma blocks_of_sort: "blocks_of (filter P (sort rs)) = blocks_of (filter P rs)"
  by (simp add: blocks_of_mset)

lemma blocks_of_fee_rates:
  "sorted_wrt (<) (map fst ps) \<Longrightarrow> ps \<noteq> [] \<Longrightarrow>
     blocks_of (fee_rates ps) + unat (fst (hd ps)) = unat (fst (List.last ps))"
proof (induction ps rule: windows2.induct)
  case (1 p q ps)
  then have "blocks_of (fee_rates (q # ps)) + unat (fst q) = unat (fst (List.last (q # ps)))" by simp
  moreover have "unat (fst q - fst p) + unat (fst p) = unat (fst q)"
    using 1(2) by (simp add: unat_sub word_le_nat_alt word_less_nat_alt)
  ultimately show ?case by (simp add: fee_rates_def Let_def case_prod_beta)
qed (auto simp: fee_rates_def)

text \<open>Where the counter stops: it passes the half at the rate and not before.\<close>

lemma first_half_stops:
  assumes "first_half all_blocks counted rates = Some rate" "2 * (unat counted + blocks_of rates) < 2 ^ 64"
    and "2 * unat counted < unat all_blocks"
  shows "\<exists>pre blocks post. rates = pre @ (rate, blocks) # post \<and>
     2 * (unat counted + blocks_of pre) < unat all_blocks \<and>
     unat all_blocks \<le> 2 * (unat counted + blocks_of pre + unat blocks)"
  using assms
proof (induction all_blocks counted rates rule: first_half.induct)
  case (2 all_blocks counted r b rates)
  have sum: "unat (counted + b) = unat counted + unat b"
    using 2(3) by (simp add: unat_add_lem [THEN iffD1])
  have twice: "unat ((counted + b) * 2) = 2 * (unat counted + unat b)"
    using 2(3) sum by (simp add: unat_word_ariths)
  show ?case
  proof (cases "all_blocks \<le> (counted + b) * 2")
    case True
    then have "r = rate" using 2(2) by (simp add: Let_def)
    then show ?thesis
      using True twice 2(4) by (intro exI [of _ "[]"]) (auto simp: word_le_nat_alt)
  next
    case False
    then have next_stop: "first_half all_blocks (counted + b) rates = Some rate" using 2(2) by (simp add: Let_def)
    have "2 * unat (counted + b) < unat all_blocks"
      using False twice sum by (simp add: word_le_nat_alt)
    then obtain pre blocks post where "rates = pre @ (rate, blocks) # post"
      "2 * (unat (counted + b) + blocks_of pre) < unat all_blocks"
      "unat all_blocks \<le> 2 * (unat (counted + b) + blocks_of pre + unat blocks)"
      using 2(1) [OF refl False next_stop] 2(3) sum by auto
    then show ?thesis using sum by (intro exI [of _ "(r, b) # pre"]) auto
  qed
qed simp

lemma first_half_found:
  "unat all_blocks \<le> 2 * (unat counted + blocks_of rates) \<Longrightarrow> 2 * (unat counted + blocks_of rates) < 2 ^ 64 \<Longrightarrow>
   rates \<noteq> [] \<Longrightarrow> first_half all_blocks counted rates \<noteq> None"
proof (induction all_blocks counted rates rule: first_half.induct)
  case (2 all_blocks counted r b rates)
  have sum: "unat (counted + b) = unat counted + unat b"
    using 2(3) by (simp add: unat_add_lem [THEN iffD1])
  have twice: "unat ((counted + b) * 2) = 2 * (unat counted + unat b)"
    using 2(3) sum by (simp add: unat_word_ariths)
  show ?case
  proof (cases "rates = []")
    case True
    then show ?thesis using 2(2) twice by (simp add: Let_def word_le_nat_alt)
  next
    case False
    then show ?thesis using 2 sum by (simp add: Let_def)
  qed
qed simp

lemma sorted_rates_split:
  assumes "sorted (pre @ (rate, blocks) # post)"
  shows "blocks_of (filter (\<lambda>r. fst r < rate) (pre @ (rate, blocks) # post)) \<le> blocks_of pre"
    and "blocks_of pre + unat blocks \<le> blocks_of (filter (\<lambda>r. fst r \<le> rate) (pre @ (rate, blocks) # post))"
proof -
  have "\<forall>r \<in> set post. \<not> fst r < rate" "\<forall>r \<in> set pre. fst r \<le> rate"
    using assms by (fastforce simp: sorted_append less_eq_prod_def)+
  then have "filter (\<lambda>r. fst r < rate) post = []" "filter (\<lambda>r. fst r \<le> rate) pre = pre"
    by (auto simp: filter_empty_conv intro: filter_True)
  then show "blocks_of (filter (\<lambda>r. fst r < rate) (pre @ (rate, blocks) # post)) \<le> blocks_of pre"
    and "blocks_of pre + unat blocks \<le> blocks_of (filter (\<lambda>r. fst r \<le> rate) (pre @ (rate, blocks) # post))"
    using blocks_of_filter_le [of "\<lambda>r. fst r < rate" pre] by simp_all
qed

lemma halves: "a \<le> p \<Longrightarrow> p + b \<le> c \<Longrightarrow> 2 * p < n \<Longrightarrow> n \<le> 2 * (p + b) \<Longrightarrow> n \<le> 2 * c \<and> 2 * a < (n :: nat)"
  by auto

lemma newest_upto_facts:
  assumes "bt_ok m" "newest_upto height m = Some start"
  shows "start \<le> height" "start \<in> fst ` set m"
proof -
  let ?lower = "filter (\<lambda>(k, _). k \<le> height) m"
  have "?lower \<noteq> []" "start = fst (List.last ?lower)"
    using assms(2) by (auto simp: newest_upto_def Let_def split: if_splits)
  moreover from this have "List.last ?lower \<in> set ?lower" by (intro last_in_set)
  ultimately show "start \<le> height" "start \<in> fst ` set m" by (auto simp: image_iff)
qed

lemma income_points_facts:
  assumes "bt_ok (fh_by_height h)" "start \<in> fst ` set (fh_by_height h)" "start < tip_height"
  shows "sorted_wrt (<) (map fst (income_points start tip_height earned h))"
    and "fst (hd (income_points start tip_height earned h)) = start"
proof -
  let ?f = "\<lambda>m. filter (\<lambda>(k, _). start \<le> k \<and> k < tip_height) m"
  have sorted: "bt_ok m \<Longrightarrow> sorted_wrt (<) (map fst (?f m))" for m :: "(u64 \<times> u64) list"
    by (induction m) (auto simp: bt_ok_def)
  show "sorted_wrt (<) (map fst (income_points start tip_height earned h))"
    using sorted [OF assms(1)] by (auto simp: income_points_def sorted_wrt_append)
  have "bt_ok m \<Longrightarrow> start \<in> fst ` set m \<Longrightarrow> ?f m \<noteq> [] \<and> fst (hd (?f m)) = start" for m :: "(u64 \<times> u64) list"
  proof (induction m)
    case (Cons p m)
    obtain k v where p: "p = (k, v)" by (cases p)
    show ?case
    proof (cases "k = start")
      case True
      then show ?thesis using assms(3) by (simp add: p)
    next
      case False
      then have "start \<in> fst ` set m" "bt_ok m" "k < start" using Cons.prems by (auto simp: p)
      moreover from this have "\<not> start \<le> k" by simp
      ultimately show ?thesis using Cons.IH by (simp add: p)
    qed
  qed simp
  then show "fst (hd (income_points start tip_height earned h)) = start"
    using assms(1,2) by (simp add: income_points_def)
qed

text \<open>
  C22: The income per block is the median over the eCash blocks since the start of the watch: the blocks
  with at most this rate are at least half of them, and the blocks with a lower rate are less than half,
  so a block with a high fee does not move it. A history that reaches back the whole span has a median.
\<close>

theorem income_is_median:
  assumes "bt_ok (fh_by_height h)" "unat tip_height < 2 ^ 63" "0 < span" "span \<le> tip_height"
  shows "(income_per_block tip_height earned span h = None \<longleftrightarrow>
       newest_upto (tip_height - span) (fh_by_height h) = None) \<and>
     (\<forall>rate. income_per_block tip_height earned span h = Some rate \<longrightarrow>
       (\<exists>start rates. newest_upto (tip_height - span) (fh_by_height h) = Some start \<and>
         rates = fee_rates (income_points start tip_height earned h) \<and>
         blocks_of rates = unat tip_height - unat start \<and>
         blocks_of rates \<le> 2 * blocks_of (filter (\<lambda>r. fst r \<le> rate) rates) \<and>
         2 * blocks_of (filter (\<lambda>r. fst r < rate) rates) < blocks_of rates))"
proof (cases "newest_upto (tip_height - span) (fh_by_height h)")
  case None
  then show ?thesis using assms(4) by (simp add: income_per_block_def checked_sub_def)
next
  case (Some start)
  let ?rates = "fee_rates (income_points start tip_height earned h)"
  have start: "start \<le> tip_height - span" "start \<in> fst ` set (fh_by_height h)"
    by (rule newest_upto_facts [OF assms(1) Some])+
  have below: "start < tip_height"
    using start(1) assms(3,4) by (simp add: word_le_nat_alt word_less_nat_alt unat_sub)
  note points = income_points_facts [OF assms(1) start(2) below, of earned]
  have "income_points start tip_height earned h \<noteq> []" "fst (List.last (income_points start tip_height earned h)) = tip_height"
    by (simp_all add: income_points_def)
  then have all: "blocks_of ?rates = unat tip_height - unat start"
    using blocks_of_fee_rates [OF points(1)] points(2) by simp
  have sub: "unat (tip_height - start) = unat tip_height - unat start"
    using below by (simp add: unat_sub)
  have pos: "unat start < unat tip_height" using below by (simp add: word_less_nat_alt)
  have sort_all: "blocks_of (sort ?rates) = blocks_of ?rates"
    using blocks_of_sort [of "\<lambda>_. True"] by simp
  have ne: "sort ?rates \<noteq> []" using sort_all all pos by (cases "sort ?rates") auto
  have income: "income_per_block tip_height earned span h = first_half (tip_height - start) 0 (sort ?rates)"
    using Some assms(4) by (simp add: income_per_block_def checked_sub_def)
  have "income_per_block tip_height earned span h \<noteq> None"
    unfolding income by (rule first_half_found) (use sort_all all sub assms(2) ne in simp_all)
  moreover have "blocks_of ?rates \<le> 2 * blocks_of (filter (\<lambda>r. fst r \<le> rate) ?rates) \<and>
      2 * blocks_of (filter (\<lambda>r. fst r < rate) ?rates) < blocks_of ?rates"
    if rate: "income_per_block tip_height earned span h = Some rate" for rate
  proof -
    have "first_half (tip_height - start) 0 (sort ?rates) = Some rate" using rate income by simp
    moreover have "2 * (unat (0 :: u64) + blocks_of (sort ?rates)) < 2 ^ 64" "2 * unat (0 :: u64) < unat (tip_height - start)"
      using sort_all all sub pos assms(2) by simp_all
    ultimately obtain pre blocks post where split: "sort ?rates = pre @ (rate, blocks) # post"
      "2 * blocks_of pre < blocks_of ?rates" "blocks_of ?rates \<le> 2 * (blocks_of pre + unat blocks)"
      using first_half_stops [of "tip_height - start" 0 "sort ?rates" rate] all sub by auto
    have sorted: "sorted (pre @ (rate, blocks) # post)" using split(1) by (metis sorted_sort)
    show ?thesis
      by (rule halves [OF sorted_rates_split [OF sorted, folded split(1), unfolded blocks_of_sort] split(2,3)])
  qed
  ultimately show ?thesis using Some all by auto
qed

lemma income_is_median_witness:
  "income_per_block 14 900 3 \<lparr>fh_by_height = [(10, 0), (11, 100), (12, 800), (13, 850)]\<rparr> = Some 50 \<and>
   (\<exists>start rates. blocks_of rates \<le> 2 * blocks_of (filter (\<lambda>r. fst r \<le> 50) rates) \<and>
     2 * blocks_of (filter (\<lambda>r. fst r < 50) rates) < blocks_of rates)"
proof -
  let ?h = "\<lparr>fh_by_height = [(10 :: u64, 0 :: u64), (11, 100), (12, 800), (13, 850)]\<rparr>"
  have "bt_ok (fh_by_height ?h)" by simp
  moreover have "income_per_block 14 900 3 ?h = Some 50" by code_simp
  ultimately show ?thesis using income_is_median [of ?h 14 3 900] by auto
qed

section \<open>The meter\<close>

text \<open>
  The steps of the meter, with the reads of several tasks between each other: a plan, and the scan of a plan
  that was made in any earlier state. The blocks of a scan come in the order of their slots, inside the plan,
  and they say anything; the last slot of all is never confirmed.
\<close>

definition planned_scan :: "MeterMark \<Rightarrow> MeterScan \<Rightarrow> bool" where
  "planned_scan mark scan \<longleftrightarrow>
     (\<exists>at m s e. fst (meter_plan at m) = Some ((s, e), mark) \<and> at < - 1 \<and>
        sorted_wrt (<) (map fst (sc_blocks scan)) \<and> (\<forall>k \<in> fst ` set (sc_blocks scan). s \<le> k) \<and>
        (\<forall>c. sc_covered scan = Some c \<longrightarrow> s \<le> c \<and> c \<le> e))"

inductive meter_step :: "FeeMeter \<Rightarrow> FeeMeter \<Rightarrow> bool" where
  plan: "meter_step m (snd (meter_plan at m))"
| scan: "planned_scan mark scan \<Longrightarrow> meter_step m (snd (meter_apply mark scan confirmed m))"

text \<open>A list of blocks in which each names the one before it, the first the given one.\<close>

fun linked :: "string option \<Rightarrow> (u64 \<times> BlockFees) list \<Rightarrow> bool" where
  "linked newest [] = True"
| "linked newest ((k, b) # bs) \<longleftrightarrow>
     (newest = None \<or> newest = Some (bf_previous b)) \<and> linked (Some (bf_blockhash b)) bs"

definition fees_of :: "(u64 \<times> BlockFees) list \<Rightarrow> nat" where
  "fees_of counted = (\<Sum>(k, b)\<leftarrow>counted. unat (bf_fees b))"

definition newest_hash :: "FeeMeter \<Rightarrow> string option" where
  "newest_hash m = map_option snd (fm_last m)"

definition last_hash :: "string option \<Rightarrow> (u64 \<times> BlockFees) list \<Rightarrow> string option" where
  "last_hash newest counted = (if counted = [] then newest else Some (bf_blockhash (snd (List.last counted))))"

text \<open>The meter went from one state to the other and counted these blocks of one branch.\<close>

definition counts :: "FeeMeter \<Rightarrow> (u64 \<times> BlockFees) list \<Rightarrow> FeeMeter \<Rightarrow> bool" where
  "counts m counted m' \<longleftrightarrow>
     ea_generation (fm_earned m') = ea_generation (fm_earned m) \<and>
     sorted_wrt (<) (map fst counted) \<and> linked (newest_hash m) counted \<and>
     newest_hash m' = last_hash (newest_hash m) counted \<and>
     (\<forall>n. fm_next_slot m = Some n \<longrightarrow> (\<exists>n'. fm_next_slot m' = Some n' \<and> n \<le> n') \<and>
        (\<forall>k \<in> fst ` set counted. n \<le> k)) \<and>
     (\<forall>k \<in> fst ` set counted. \<exists>n'. fm_next_slot m' = Some n' \<and> k < n') \<and>
     unat (ea_total (fm_earned m')) = min (unat (ea_total (fm_earned m)) + fees_of counted) (2 ^ 64 - 1)"

lemma linked_append: "linked h (xs @ ys) \<longleftrightarrow> linked h xs \<and> linked (last_hash h xs) ys"
  by (induction h xs rule: linked.induct) (auto simp: last_hash_def)

lemma total_fits: "unat (n :: u64) = min (unat n) (2 ^ 64 - 1)"
proof -
  have "unat n < Suc 18446744073709551615" by simp
  then have "unat n \<le> 18446744073709551615" by (simp only: less_Suc_eq_le)
  then show ?thesis by simp
qed

lemma counts_upper: "counts m c m' \<Longrightarrow> k \<in> fst ` set c \<Longrightarrow> \<exists>n'. fm_next_slot m' = Some n' \<and> k < n'"
  unfolding counts_def by (elim conjE) (rule bspec)

lemma counts_lower: "counts m c m' \<Longrightarrow> fm_next_slot m = Some n \<Longrightarrow> k \<in> fst ` set c \<Longrightarrow> n \<le> k"
  unfolding counts_def by (elim conjE) auto

lemma counts_next: "counts m c m' \<Longrightarrow> fm_next_slot m = Some n \<Longrightarrow> \<exists>n'. fm_next_slot m' = Some n' \<and> n \<le> n'"
  unfolding counts_def by (elim conjE) simp

lemma counts_refl: "counts m [] m"
  using total_fits [of "ea_total (fm_earned m)"] by (simp add: counts_def last_hash_def fees_of_def)

lemma counts_trans:
  assumes "counts m c1 m1" "counts m1 c2 m2"
  shows "counts m (c1 @ c2) m2"
proof -
  have order: "k < k'" if "k \<in> fst ` set c1" "k' \<in> fst ` set c2" for k k'
    using counts_upper [OF assms(1) that(1)] counts_lower [OF assms(2) _ that(2)] by (meson less_le_trans)
  have lower: "n \<le> k" if "fm_next_slot m = Some n" "k \<in> fst ` set (c1 @ c2)" for n k
  proof (cases "k \<in> fst ` set c1")
    case True
    then show ?thesis by (rule counts_lower [OF assms(1) that(1)])
  next
    case False
    then have "k \<in> fst ` set c2" using that(2) by auto
    then show ?thesis
      using counts_next [OF assms(1) that(1)] counts_lower [OF assms(2)] by (meson order.trans)
  qed
  have step: "\<exists>n'. fm_next_slot m2 = Some n' \<and> n \<le> n'" if "fm_next_slot m = Some n" for n
    using counts_next [OF assms(1) that] counts_next [OF assms(2)] by (meson order.trans)
  have upper: "\<exists>n'. fm_next_slot m2 = Some n' \<and> k < n'" if "k \<in> fst ` set (c1 @ c2)" for k
  proof (cases "k \<in> fst ` set c1")
    case True
    then show ?thesis
      using counts_upper [OF assms(1)] counts_next [OF assms(2)] by (meson less_le_trans)
  next
    case False
    then have "k \<in> fst ` set c2" using that by auto
    then show ?thesis by (rule counts_upper [OF assms(2)])
  qed
  have "sorted_wrt (<) (map fst (c1 @ c2))"
    using assms order by (auto simp: counts_def sorted_wrt_append)
  moreover have "linked (newest_hash m) (c1 @ c2)"
    using assms by (simp add: counts_def linked_append)
  moreover have "newest_hash m2 = last_hash (newest_hash m) (c1 @ c2)"
    using assms by (simp add: counts_def last_hash_def)
  moreover have "unat (ea_total (fm_earned m2)) =
      min (unat (ea_total (fm_earned m)) + fees_of (c1 @ c2)) (2 ^ 64 - 1)"
    using assms by (simp add: counts_def fees_of_def)
  moreover have "ea_generation (fm_earned m2) = ea_generation (fm_earned m)"
    using assms by (simp add: counts_def)
  ultimately show ?thesis unfolding counts_def using lower upper step by blast
qed

text \<open>The blocks that a scan holds.\<close>

definition held_blocks :: "(u64 \<times> BlockFees option) list \<Rightarrow> (u64 \<times> BlockFees) list" where
  "held_blocks blocks = List.map_filter (\<lambda>(k, b). map_option (Pair k) b) blocks"

lemma held_blocks_simps [simp]:
  "held_blocks [] = []" "held_blocks ((k, None) # bs) = held_blocks bs"
  "held_blocks ((k, Some b) # bs) = (k, b) # held_blocks bs"
  by (simp_all add: held_blocks_def map_filter_simps)

lemma held_blocks_slots: "fst ` set (held_blocks bs) \<subseteq> fst ` set bs"
  by (induction bs) (auto simp: held_blocks_def map_filter_simps split: option.splits)

lemma held_blocks_sorted: "sorted_wrt (<) (map fst bs) \<Longrightarrow> sorted_wrt (<) (map fst (held_blocks bs))"
proof (induction bs)
  case (Cons p bs)
  obtain k b where "p = (k, b)" by (cases p)
  then show ?case using Cons held_blocks_slots [of bs] by (cases b) fastforce+
qed simp

lemma meter_scan_linked:
  "meter_scan (fees, newest, gap) blocks = Some (fees', newest', gap') \<Longrightarrow>
     linked (map_option snd newest) (held_blocks blocks) \<and>
     map_option snd newest' = last_hash (map_option snd newest) (held_blocks blocks) \<and>
     unat fees' = min (unat fees + fees_of (held_blocks blocks)) (2 ^ 64 - 1)"
proof (induction "(fees, newest, gap)" blocks arbitrary: fees newest gap rule: meter_scan.induct)
  case (1 fees newest gap)
  then show ?case using total_fits [of fees] by (simp add: last_hash_def fees_of_def)
next
  case (2 fees newest gap at blocks)
  then show ?case by simp
next
  case (3 fees newest gap at block blocks)
  then have rest: "meter_scan (saturating_add fees (bf_fees block), Some (at, bf_blockhash block), False) blocks =
      Some (fees', newest', gap')"
    and link: "newest = None \<or> map_option snd newest = Some (bf_previous block)"
    by (auto split: if_splits option.splits)
  have "unat (saturating_add fees (bf_fees block)) = min (unat fees + unat (bf_fees block)) (2 ^ 64 - 1)"
    by (simp add: unat_saturating_add)
  then show ?case
    using 3(1) [OF _ rest] 3(2) link
    by (cases newest) (auto simp: last_hash_def fees_of_def split: if_splits)
qed

lemma plan_counts:
  "ea_generation (fm_earned (snd (meter_plan at m))) = ea_generation (fm_earned m) + 1 \<or>
   counts m [] (snd (meter_plan at m))"
proof -
  have "counts m [] (m\<lparr>fm_next_slot := Some n\<rparr>)" if "fm_next_slot m = None" for n
    using that counts_refl [of m] by (simp add: counts_def newest_hash_def)
  then show ?thesis
    using counts_refl [of m] by (auto simp: meter_plan_def meter_restart_def Let_def split: option.splits)
qed

lemma planned_scan_slots:
  assumes "planned_scan (meter_mark m) scan" "sc_covered scan = Some c"
  shows "\<exists>n. fm_next_slot m = Some n \<and> n \<le> c \<and> c < - 1 \<and> (\<forall>k \<in> fst ` set (sc_blocks scan). n \<le> k)"
    and "sorted_wrt (<) (map fst (sc_blocks scan))"
proof -
  obtain at m0 s e where plan: "fst (meter_plan at m0) = Some ((s, e), meter_mark m)" and at: "at < - 1"
    and blocks: "\<forall>k \<in> fst ` set (sc_blocks scan). s \<le> k" and c: "s \<le> c" "c \<le> e"
    using assms unfolding planned_scan_def by blast
  obtain n where n: "fm_next_slot m0 = Some n" "s = max n (saturating_sub at (METER_BACKLOG - 1))"
    "e = min at (s + METER_SLOTS - 1)" "meter_mark m0 = meter_mark m"
    using plan by (auto simp: meter_plan_def Let_def split: option.splits if_splits prod.splits)
  have "fm_next_slot m = Some n" using n(1,4) by (simp add: meter_mark_def)
  moreover have "n \<le> s" "e \<le> at" using n(2,3) by simp_all
  ultimately show "\<exists>n. fm_next_slot m = Some n \<and> n \<le> c \<and> c < - 1 \<and> (\<forall>k \<in> fst ` set (sc_blocks scan). n \<le> k)"
    using at blocks c by (meson le_less_trans order.trans)
  show "sorted_wrt (<) (map fst (sc_blocks scan))" using assms(1) unfolding planned_scan_def by blast
qed

lemma scan_counts:
  assumes "planned_scan mark scan" "m' = snd (meter_apply mark scan confirmed m)"
  shows "ea_generation (fm_earned m') = ea_generation (fm_earned m) + 1 \<or> (\<exists>counted. counts m counted m')"
proof -
  consider (same) "m' = m" | (restart) "m' = meter_restart confirmed m"
    | (read) c fees newest gap where "meter_mark m = mark" "sc_covered scan = Some c"
        "meter_scan (0, fm_last m, fm_gap m) (filter (\<lambda>(at, _). at \<le> c) (sc_blocks scan)) = Some (fees, newest, gap)"
        "m' = \<lparr>fm_next_slot = Some (saturating_add c 1), fm_last = newest, fm_gap = gap,
          fm_earned = (fm_earned m)\<lparr>ea_total := saturating_add (ea_total (fm_earned m)) fees\<rparr>\<rparr>"
    using assms(2) by (auto simp: meter_apply_def Let_def split: if_splits option.splits prod.splits)
  then show ?thesis
  proof cases
    case same
    then show ?thesis using counts_refl by blast
  next
    case restart
    then show ?thesis by (simp add: meter_restart_def)
  next
    case read
    let ?bs = "filter (\<lambda>(at, _). at \<le> c) (sc_blocks scan)"
    obtain n where n: "fm_next_slot m = Some n" "n \<le> c" "c < - 1" "\<forall>k \<in> fst ` set (sc_blocks scan). n \<le> k"
      using planned_scan_slots(1) [of m scan c] assms(1) read(1,2) by blast
    have "sorted_wrt (<) (map fst ?bs)"
      using planned_scan_slots(2) [of m scan c] assms(1) read(1,2)
      by (simp add: sorted_wrt_map sorted_wrt_filter)
    then have sorted: "sorted_wrt (<) (map fst (held_blocks ?bs))" by (rule held_blocks_sorted)
    have slots: "\<forall>k \<in> fst ` set (held_blocks ?bs). n \<le> k \<and> k \<le> c"
      using held_blocks_slots [of ?bs] n(4) by fastforce
    have "unat c < unat (- 1 :: u64)" using n(3) by (simp only: word_less_nat_alt)
    then have after: "saturating_add c 1 = c + 1" "c < c + 1"
      by (simp_all add: saturating_add_def word_less_nat_alt unat_neg_one unat_add_lem [THEN iffD1])
    note run = meter_scan_linked [OF read(3)]
    have total: "unat (ea_total (fm_earned m')) =
        min (unat (ea_total (fm_earned m)) + fees_of (held_blocks ?bs)) (2 ^ 64 - 1)"
      using run by (simp add: read(4) unat_saturating_add)
    have fields: "fm_next_slot m' = Some (c + 1)" "newest_hash m' = map_option snd newest"
      "ea_generation (fm_earned m') = ea_generation (fm_earned m)"
      by (simp_all add: read(4) after(1) newest_hash_def)
    have "counts m (held_blocks ?bs) m'"
      unfolding counts_def
    proof (intro conjI allI impI)
      fix n1 assume "fm_next_slot m = Some n1"
      then have "n1 = n" using n(1) by simp
      then show "\<forall>k \<in> fst ` set (held_blocks ?bs). n1 \<le> k" using slots by blast
      show "\<exists>n'. fm_next_slot m' = Some n' \<and> n1 \<le> n'"
        using fields(1) order.trans [OF n(2) less_imp_le [OF after(2)]] \<open>n1 = n\<close> by blast
    next
      show "\<forall>k \<in> fst ` set (held_blocks ?bs). \<exists>n'. fm_next_slot m' = Some n' \<and> k < n'"
      proof
        fix k assume "k \<in> fst ` set (held_blocks ?bs)"
        then have "k \<le> c" using slots by blast
        then show "\<exists>n'. fm_next_slot m' = Some n' \<and> k < n'"
          using le_less_trans [OF _ after(2)] fields(1) by blast
      qed
    qed (use run sorted total fields in \<open>simp_all add: newest_hash_def\<close>)
    then show ?thesis by blast
  qed
qed

lemma steps_count:
  "(meter_step ^^ n) m m' \<Longrightarrow>
     \<exists>k \<le> n. ea_generation (fm_earned m') = ea_generation (fm_earned m) + word_of_nat k \<and>
       (k = 0 \<longrightarrow> (\<exists>counted. counts m counted m'))"
proof (induction n arbitrary: m')
  case 0
  then show ?case using counts_refl by auto
next
  case (Suc n)
  then obtain m1 where m1: "(meter_step ^^ n) m m1" "meter_step m1 m'" by auto
  obtain k where k: "k \<le> n" "ea_generation (fm_earned m1) = ea_generation (fm_earned m) + word_of_nat k"
    "k = 0 \<longrightarrow> (\<exists>counted. counts m counted m1)"
    using Suc.IH [OF m1(1)] by blast
  have "ea_generation (fm_earned m') = ea_generation (fm_earned m1) + 1 \<or> (\<exists>counted. counts m1 counted m')"
    using m1(2) plan_counts scan_counts by (cases rule: meter_step.cases) blast+
  then show ?case
  proof
    assume "ea_generation (fm_earned m') = ea_generation (fm_earned m1) + 1"
    then show ?case using k by (intro exI [of _ "Suc k"]) simp
  next
    assume "\<exists>counted. counts m1 counted m'"
    then obtain counted where c: "counts m1 counted m'" by blast
    then have "ea_generation (fm_earned m') = ea_generation (fm_earned m1)" by (simp add: counts_def)
    moreover have "k = 0 \<longrightarrow> (\<exists>counted. counts m counted m')" using k(3) counts_trans [OF _ c] by blast
    ultimately show ?case using k(1,2) by (intro exI [of _ k]) simp
  qed
qed


definition sample_meter :: FeeMeter where
  "sample_meter = FeeMeter_default\<lparr>fm_next_slot := Some 5\<rparr>"

definition sample_meter_scan :: MeterScan where
  "sample_meter_scan =
     \<lparr>sc_blocks = [(5, Some \<lparr>bf_blockhash = ''a'', bf_previous = ''z'', bf_fees = 30\<rparr>),
        (6, Some \<lparr>bf_blockhash = ''b'', bf_previous = ''a'', bf_fees = 12\<rparr>)], sc_covered = Some 7\<rparr>"


end
