(* ===== verification/Template_Rpc.thy ===== *)
theory Template_Rpc
  imports Bmm_Loop
begin

text \<open>
  The JSON-RPC for the block templates (\<^verbatim>\<open>daemon/src/bmm_rpc.rs\<close>): the JSON of a template, the five methods,
  and the answer to a request. The HTTP server, the parser of the request body, and the two hash parsers of
  the bitcoin library are parameters.
\<close>

section \<open>Errors\<close>

definition NOT_READY :: int where "NOT_READY = - 32001"
definition SETTLED :: int where "SETTLED = - 32002"
definition PARSE_ERROR :: int where "PARSE_ERROR = - 32700"
definition METHOD_NOT_FOUND :: int where "METHOD_NOT_FOUND = - 32601"
definition INVALID_PARAMS :: int where "INVALID_PARAMS = - 32602"

text \<open>The message is the text of an error; the model keeps the error of which it is the text.\<close>

datatype Message = OfTemplate NoTemplate | OfBmm BmmError | OfText string

record ServerError =
  sr_code :: int
  sr_message :: Message

definition not_ready :: "Message \<Rightarrow> ServerError" where
  "not_ready message = \<lparr>sr_code = NOT_READY, sr_message = message\<rparr>"

definition invalid_params :: "string \<Rightarrow> ServerError" where
  "invalid_params message = \<lparr>sr_code = INVALID_PARAMS, sr_message = OfText message\<rparr>"

definition of_no_template :: "NoTemplate \<Rightarrow> ServerError" where
  "of_no_template refusal =
     (case refusal of
        SettledAlready _ \<Rightarrow> \<lparr>sr_code = SETTLED, sr_message = OfTemplate refusal\<rparr>
      | _ \<Rightarrow> not_ready (OfTemplate refusal))"

definition of_bmm_error :: "BmmError \<Rightarrow> ServerError" where
  "of_bmm_error e = not_ready (OfBmm e)"

section \<open>The JSON of a block\<close>

record BlockJson =
  bj_prev_main_hash :: string
  bj_height :: u32
  bj_bank_hash :: string
  bj_payee :: string
  bj_slot :: u8

definition BlockJson_new :: "account_codes \<Rightarrow> array32 \<Rightarrow> Pair \<Rightarrow> u8 \<Rightarrow> ServerError + BlockJson" where
  "BlockJson_new ac prev_main_hash pair s =
     ok_or (try_from (pr_height pair)) (not_ready (OfBmm (BmmHeightTooLarge (pr_height pair)))) (\<lambda>height.
     Inr \<lparr>bj_prev_main_hash = hash_text prev_main_hash, bj_height = height,
       bj_bank_hash = ac_key_text ac (pr_block pair), bj_payee = ac_key_text ac (pr_payee pair), bj_slot = s\<rparr>)"

definition base58_key :: "account_codes \<Rightarrow> string \<Rightarrow> string \<Rightarrow> ServerError + pubkey" where
  "base58_key ac field_name val =
     ok_or (ac_parse_key ac val)
       (invalid_params (''`'' @ field_name @ ''` is not base58: `'' @ val @ ''`'')) Inr"

definition BlockJson_pair :: "account_codes \<Rightarrow> BlockJson \<Rightarrow> ServerError + Pair" where
  "BlockJson_pair ac b =
     attempt (base58_key ac ''bank_hash'' (bj_bank_hash b)) (\<lambda>block.
     attempt (base58_key ac ''payee'' (bj_payee b)) (\<lambda>payee.
     Inr \<lparr>pr_height = ucast (bj_height b), pr_block = block, pr_payee = payee\<rparr>))"

text \<open>The derived \<^verbatim>\<open>Serialize\<close> and \<^verbatim>\<open>Deserialize\<close> of the struct: an object, or the fields in their order.\<close>

definition json_of_block :: "BlockJson \<Rightarrow> json" where
  "json_of_block b =
     JObject [(''prev_main_hash'', JString (bj_prev_main_hash b)), (''height'', JPosInt (ucast (bj_height b))),
       (''bank_hash'', JString (bj_bank_hash b)), (''payee'', JString (bj_payee b)),
       (''slot'', JPosInt (ucast (bj_slot b)))]"

definition block_fields :: "json \<Rightarrow> json \<Rightarrow> json \<Rightarrow> json \<Rightarrow> json \<Rightarrow> BlockJson option" where
  "block_fields prev height bank payee s =
     Option.bind (as_str prev) (\<lambda>prev.
     Option.bind (Option.bind (as_u64 height) try_from) (\<lambda>height.
     Option.bind (as_str bank) (\<lambda>bank.
     Option.bind (as_str payee) (\<lambda>payee.
     Option.bind (Option.bind (as_u64 s) try_from) (\<lambda>s.
     Some \<lparr>bj_prev_main_hash = prev, bj_height = height, bj_bank_hash = bank, bj_payee = payee, bj_slot = s\<rparr>)))))"

definition block_of_json :: "json \<Rightarrow> BlockJson option" where
  "block_of_json v =
     (case v of
        JObject members \<Rightarrow>
          block_fields (json_get ''prev_main_hash'' v) (json_get ''height'' v) (json_get ''bank_hash'' v)
            (json_get ''payee'' v) (json_get ''slot'' v)
      | JArray [prev, height, bank, payee, s] \<Rightarrow> block_fields prev height bank payee s
      | _ \<Rightarrow> None)"

text \<open>The parameters of the methods: a list with exactly the arguments.\<close>

definition bad_params :: ServerError where
  "bad_params = invalid_params ''the params have another form''"

definition block_and_hash :: "json \<Rightarrow> ServerError + (BlockJson \<times> string)" where
  "block_and_hash v =
     (case v of
        JArray [block, hash] \<Rightarrow>
          ok_or (block_of_json block) bad_params (\<lambda>block.
          ok_or (as_str hash) bad_params (\<lambda>hash. Inr (block, hash)))
      | _ \<Rightarrow> Inl bad_params)"

definition one_string :: "json \<Rightarrow> ServerError + string" where
  "one_string v = (case v of JArray [s] \<Rightarrow> ok_or (as_str s) bad_params Inr | _ \<Rightarrow> Inl bad_params)"

definition one_block :: "json \<Rightarrow> ServerError + BlockJson" where
  "one_block v = (case v of JArray [block] \<Rightarrow> ok_or (block_of_json block) bad_params Inr | _ \<Rightarrow> Inl bad_params)"

section \<open>The methods\<close>

text \<open>The parsers of the libraries.\<close>

record server_codes =
  sc_account :: account_codes
  sc_sha256 :: "bytes \<Rightarrow> array32"
  sc_parse_block_hash :: "string \<Rightarrow> array32 option"
  sc_from_hex :: "string \<Rightarrow> array32 option"
  sc_parse_request :: "bytes \<Rightarrow> string + (json \<times> string \<times> json)"

record 'w server =
  sv_chain :: "'w bmm_state bmm_chain"
  sv_rules :: BidRules
  sv_sidechain_id :: u8

definition server_block_hash :: "server_codes \<Rightarrow> string \<Rightarrow> ServerError + array32" where
  "server_block_hash sc val =
     ok_or (sc_parse_block_hash sc val)
       (invalid_params (''`'' @ val @ ''` is not an eCash block hash'')) Inr"

definition published :: "BmmError + unit \<Rightarrow> ServerError + unit" where
  "published r =
     (case r of
        Inr _ \<Rightarrow> Inr ()
      | Inl (PairRefused height answers) \<Rightarrow>
          if answers = [FULL_HEIGHT_REFUSAL] then Inr () else Inl (of_bmm_error (PairRefused height answers))
      | Inl e \<Rightarrow> Inl (of_bmm_error e))"

definition template_json ::
  "server_codes \<Rightarrow> u8 \<Rightarrow> Template \<Rightarrow> ServerError + json" where
  "template_json sc sidechain_id te =
     attempt (BlockJson_new (sc_account sc) (fst (te_tip te)) (te_pair te) sidechain_id) (\<lambda>block.
     Inr (JObject
       [(''critical_hash'', JString (hex_encode (array_bytes (Pair_commitment (sc_sha256 sc) (te_pair te))))),
        (''block'', json_of_block block), (''fees_sats'', JPosInt (min (te_fees_sats te) (2 ^ 63 - 1)))]))"

definition get_block_template ::
  "server_codes \<Rightarrow> 'w server \<Rightarrow> ('w bmm_state, ServerError, json) act" where
  "get_block_template sc sv =
     perform (action_err of_bmm_error (ch_tip (sv_chain sv))) (\<lambda>tip.
     perform (action_err of_no_template (template (sv_chain sv) (sv_rules sv) tip)) (\<lambda>te.
     perform (result_of (publish_one (sv_chain sv) (te_pair te))) (\<lambda>r.
     perform (pure (published r)) (\<lambda>_.
     perform (update_memory (remember (sc_sha256 sc) (te_pair te))) (\<lambda>_.
     pure (template_json sc (sv_sidechain_id sv) te))))))"

definition connect_block ::
  "server_codes \<Rightarrow> 'w server \<Rightarrow> BlockJson \<Rightarrow> string \<Rightarrow> ('w bmm_state, ServerError, bool) act" where
  "connect_block sc sv block main_block_hash =
     perform (pure (BlockJson_pair (sc_account sc) block)) (\<lambda>pair.
     perform (pure (server_block_hash sc main_block_hash)) (\<lambda>main_block_hash.
     perform (action_err of_bmm_error (ch_tip (sv_chain sv))) (\<lambda>tip.
     perform (action_err of_bmm_error (ch_active_block (sv_chain sv) tip (pr_height pair))) (\<lambda>found.
     let connected = (case found of None \<Rightarrow> False
       | Some (hash, commitment) \<Rightarrow>
           hash = main_block_hash \<and> commitment = Some (Pair_commitment (sc_sha256 sc) pair)) in
     if \<not> connected then return False
     else
       perform (action_err of_bmm_error (publish_one (sv_chain sv) pair)) (\<lambda>_.
       perform (update_memory (remember (sc_sha256 sc) pair)) (\<lambda>_. return True))))))"

definition get_bmm_inclusions ::
  "server_codes \<Rightarrow> 'w server \<Rightarrow> string \<Rightarrow> ('w bmm_state, ServerError, string list) act" where
  "get_bmm_inclusions sc sv critical_hash =
     perform (pure (ok_or (sc_from_hex sc critical_hash)
       (invalid_params (''`'' @ critical_hash @ ''` is not 32 bytes of hex'')) Inr)) (\<lambda>commitment.
     perform (on_memory (\<lambda>m. (memory_pair commitment m, m))) (\<lambda>pair.
     case pair of
       None \<Rightarrow> return []
     | Some pair \<Rightarrow>
         perform (action_err of_bmm_error (ch_tip (sv_chain sv))) (\<lambda>tip.
         perform (action_err of_bmm_error (ch_active_block (sv_chain sv) tip (pr_height pair))) (\<lambda>found.
         return (case found of None \<Rightarrow> []
           | Some (hash, found) \<Rightarrow> if found = Some commitment then [hash_text hash] else [])))))"

definition template_valid ::
  "server_codes \<Rightarrow> 'w server \<Rightarrow> BlockJson \<Rightarrow> ('w bmm_state, ServerError, bool) act" where
  "template_valid sc sv block =
     perform (pure (BlockJson_pair (sc_account sc) block)) (\<lambda>pair.
     perform (action_err of_bmm_error (ch_tip (sv_chain sv))) (\<lambda>tip.
     perform (action_err of_bmm_error (ch_config (sv_chain sv))) (\<lambda>cfg.
     perform (action_err of_bmm_error (ch_recorded_blocks (sv_chain sv))) (\<lambda>blocks.
     case List.find (\<lambda>b. rb_bank_hash b = pr_block pair) blocks of
       None \<Rightarrow> return False
     | Some recorded \<Rightarrow>
         perform (action_err of_bmm_error
           (passes_rule_3_on (sv_chain sv) tip recorded (pr_height pair) (deposit_lag cfg) Map.empty))
           (\<lambda>(passes, _). return passes)))))"

definition server_call ::
  "server_codes \<Rightarrow> 'w server \<Rightarrow> string \<Rightarrow> json \<Rightarrow> ('w bmm_state, ServerError, json) act" where
  "server_call sc sv meth params =
     (if meth = ''get_block_template'' then get_block_template sc sv
      else if meth = ''connect_block'' then
        perform (pure (block_and_hash params)) (\<lambda>(block, main_block_hash).
        perform (connect_block sc sv block main_block_hash) (\<lambda>connected. return (JBool connected)))
      else if meth = ''get_bmm_inclusions'' then
        perform (pure (one_string params)) (\<lambda>critical_hash.
        perform (get_bmm_inclusions sc sv critical_hash) (\<lambda>hashes. return (JArray (map JString hashes))))
      else if meth = ''template_valid'' then
        perform (pure (one_block params)) (\<lambda>block.
        perform (template_valid sc sv block) (\<lambda>valid. return (JBool valid)))
      else if meth = ''getblockcount'' then
        perform (action_err of_bmm_error (ch_config (sv_chain sv))) (\<lambda>cfg.
        return (JPosInt (saturating_sub (bmm_next_height cfg) 1)))
      else pure (Inl \<lparr>sr_code = METHOD_NOT_FOUND,
        sr_message = OfText (''the method `'' @ meth @ ''` does not exist'')\<rparr>))"

text \<open>The answer object; \<open>show_message\<close> is the text of a message.\<close>

definition answer_json :: "(Message \<Rightarrow> string) \<Rightarrow> json \<Rightarrow> ServerError + json \<Rightarrow> json" where
  "answer_json show_message request_id r =
     JObject ([(''jsonrpc'', JString ''2.0''), (''id'', request_id)] @
       (case r of
          Inr result \<Rightarrow> [(''result'', result)]
        | Inl e \<Rightarrow> [(''error'', JObject
            [(''code'', JNegInt (sr_code e)), (''message'', JString (show_message (sr_message e)))])]))"

definition reply ::
  "(Message \<Rightarrow> string) \<Rightarrow> server_codes \<Rightarrow> 'w server \<Rightarrow> bytes \<Rightarrow> 'w bmm_state \<Rightarrow> json \<times> 'w bmm_state" where
  "reply show_message sc sv body s =
     (case sc_parse_request sc body of
        Inl message \<Rightarrow>
          (answer_json show_message JNull (Inl \<lparr>sr_code = PARSE_ERROR, sr_message = OfText message\<rparr>), s)
      | Inr (request_id, meth, params) \<Rightarrow>
          (case server_call sc sv meth params s of (r, s') \<Rightarrow> (answer_json show_message request_id r, s')))"

end
