(* ===== verification/Bmm_Memory.thy ===== *)
theory Bmm_Memory
  imports Bmm
begin

text \<open>
  Properties of the memory of the blind merged mining: it keeps the newest pairs of each height, the bid of
  a tip stays inside its bounds, and after the eCash block only the pair that won goes out again.
\<close>

section \<open>The pairs\<close>

definition at_height :: "u64 \<Rightarrow> (array32 \<times> u64 \<times> Pair) list \<Rightarrow> (array32 \<times> u64 \<times> Pair) list" where
  "at_height h pairs = filter (\<lambda>(_, _, p). pr_height p = h) pairs"

definition memory_ok :: "(bytes \<Rightarrow> array32) \<Rightarrow> BmmMemory \<Rightarrow> bool" where
  "memory_ok sha m \<longleftrightarrow>
     bt_ok (bm_pairs m) \<and>
     (\<forall>(c, n, p) \<in> set (bm_pairs m). c = Pair_commitment sha p \<and> n \<le> bm_remembered m) \<and>
     distinct (map (fst \<circ> snd) (bm_pairs m)) \<and>
     (\<forall>h. length (at_height h (bm_pairs m)) \<le> MAX_PAIRS_PER_HEIGHT)"

lemma bt_ok_filter: "bt_ok m \<Longrightarrow> bt_ok (filter P m)"
  by (simp add: bt_ok_def sorted_wrt_map sorted_wrt_filter)

lemma in_bt_insert: "bt_ok m \<Longrightarrow> e \<in> set (bt_insert k v m) \<longleftrightarrow> e = (k, v) \<or> (e \<in> set m \<and> fst e \<noteq> k)"
  by (induction k v m rule: bt_insert.induct) auto

lemma map_of_filter_key:
  "map_of (filter (\<lambda>(c, _). c \<notin> X) m) k = (if k \<in> X then None else map_of m k)"
  by (induction m) auto

lemma mem_map_of: "bt_ok m \<Longrightarrow> map_of m k = Some v \<longleftrightarrow> (k, v) \<in> set m"
  using bt_ok_distinct by (metis map_of_eq_Some_iff)

lemma distinct_insert_order:
  "bt_ok m \<Longrightarrow> distinct (map (fst \<circ> snd) m) \<Longrightarrow> n \<notin> (fst \<circ> snd) ` set m \<Longrightarrow>
     distinct (map (fst \<circ> snd) (bt_insert k (n, p) m))"
proof (induction k "(n, p)" m rule: bt_insert.induct)
  case (2 k k' v' m)
  have "(fst \<circ> snd) ` set (bt_insert k (n, p) m) \<subseteq> insert n ((fst \<circ> snd) ` set m)"
    using 2(2) by (auto simp: in_bt_insert)
  then show ?case using 2 by (auto simp: image_iff)
qed simp

lemma distinct_map_filter_order: "distinct (map f m) \<Longrightarrow> distinct (map f (filter P m))"
  by (induction m) auto

lemma length_bt_insert: "length (bt_insert k v m) \<le> Suc (length m)"
  by (induction k v m rule: bt_insert.induct) auto

lemma filter_bt_insert_other:
  "\<not> P (k, v) \<Longrightarrow> length (filter P (bt_insert k v m)) \<le> length (filter P m)"
  by (induction k v m rule: bt_insert.induct) auto

lemma filter_bt_insert: "length (filter P (bt_insert k v m)) \<le> Suc (length (filter P m))"
  by (induction k v m rule: bt_insert.induct) auto

text \<open>The smallest elements of a list, taken out of it.\<close>

lemma take_sort_below:
  assumes "distinct xs" "x \<in> set (take n (sort xs))" "y \<in> set xs" "y \<notin> set (take n (sort xs))"
  shows "x < (y :: 'a::linorder)"
proof -
  have "y \<in> set (drop n (sort xs))"
    using assms(3,4) set_sort append_take_drop_id [of n "sort xs"] by (metis Un_iff set_append)
  moreover have "sorted (take n (sort xs) @ drop n (sort xs))" by simp
  ultimately have "x \<le> y" using assms(2) unfolding sorted_append by blast
  then show ?thesis using assms(2,4) by (metis order.not_eq_order_implies_strict)
qed

lemma MAX_pos: "0 < MAX_PAIRS_PER_HEIGHT"
  by (simp add: MAX_PAIRS_PER_HEIGHT_def)

text \<open>One call of \<open>remember\<close>: the entries with the new one, and the (order, key) of those at the height.\<close>

definition can_remember :: "(bytes \<Rightarrow> array32) \<Rightarrow> BmmMemory \<Rightarrow> bool" where
  "can_remember sha m \<longleftrightarrow> memory_ok sha m \<and> unat (bm_remembered m) + 1 < 2 ^ 64"

definition entries :: "(bytes \<Rightarrow> array32) \<Rightarrow> Pair \<Rightarrow> BmmMemory \<Rightarrow> (array32 \<times> u64 \<times> Pair) list" where
  "entries sha p m = bt_insert (Pair_commitment sha p) (bm_remembered m + 1, p) (bm_pairs m)"

definition orders :: "(bytes \<Rightarrow> array32) \<Rightarrow> Pair \<Rightarrow> BmmMemory \<Rightarrow> (u64 \<times> array32) list" where
  "orders sha p m = map (\<lambda>(k, n, _). (n, k)) (at_height (pr_height p) (entries sha p m))"

definition dropped :: "(bytes \<Rightarrow> array32) \<Rightarrow> Pair \<Rightarrow> BmmMemory \<Rightarrow> (u64 \<times> array32) set" where
  "dropped sha p m = set (take (length (orders sha p m) - MAX_PAIRS_PER_HEIGHT) (sort (orders sha p m)))"

lemma remembered_pairs:
  "bm_pairs (remember sha p m) = filter (\<lambda>(k, _). k \<notin> snd ` dropped sha p m) (entries sha p m)"
  "bm_remembered (remember sha p m) = bm_remembered m + 1"
  by (simp_all add: remember_def dropped_def orders_def entries_def at_height_def Let_def)

lemma can_rememberD:
  assumes "can_remember sha m"
  shows "bt_ok (bm_pairs m)" "distinct (map (fst \<circ> snd) (bm_pairs m))"
    and "length (at_height h (bm_pairs m)) \<le> MAX_PAIRS_PER_HEIGHT"
    and "(k, n, q) \<in> set (bm_pairs m) \<Longrightarrow> k = Pair_commitment sha q \<and> n < bm_remembered m + 1"
proof -
  have "unat (bm_remembered m + 1) = unat (bm_remembered m) + 1"
    using assms by (simp add: can_remember_def unat_add_lem [THEN iffD1])
  then have "n \<le> bm_remembered m \<Longrightarrow> n < bm_remembered m + 1"
    by (simp add: word_le_nat_alt word_less_nat_alt)
  then show "(k, n, q) \<in> set (bm_pairs m) \<Longrightarrow> k = Pair_commitment sha q \<and> n < bm_remembered m + 1"
    using assms by (auto simp: can_remember_def memory_ok_def)
qed (use assms in \<open>simp_all add: can_remember_def memory_ok_def\<close>)

lemma entries_ok: "can_remember sha m \<Longrightarrow> bt_ok (entries sha p m)"
  by (simp add: entries_def bt_ok_insert can_rememberD(1))

lemma in_entries:
  "can_remember sha m \<Longrightarrow> e \<in> set (entries sha p m) \<longleftrightarrow>
     e = (Pair_commitment sha p, bm_remembered m + 1, p) \<or> (e \<in> set (bm_pairs m) \<and> fst e \<noteq> Pair_commitment sha p)"
  by (simp add: entries_def in_bt_insert can_rememberD(1))

lemma entry:
  "can_remember sha m \<Longrightarrow> (k, n, q) \<in> set (entries sha p m) \<Longrightarrow>
     k = Pair_commitment sha q \<and> n \<le> bm_remembered m + 1"
  using can_rememberD(4) by (fastforce simp: in_entries)

lemma entry_orders: "can_remember sha m \<Longrightarrow> distinct (map (fst \<circ> snd) (entries sha p m))"
  unfolding entries_def
  by (rule distinct_insert_order [OF can_rememberD(1,2)]) (auto dest!: can_rememberD(4))

lemma distinct_orders: "can_remember sha m \<Longrightarrow> distinct (orders sha p m)"
proof -
  assume "can_remember sha m"
  then have "distinct (map (fst \<circ> snd) (at_height (pr_height p) (entries sha p m)))"
    unfolding at_height_def by (rule distinct_map_filter_order [OF entry_orders])
  moreover have "map fst (orders sha p m) = map (fst \<circ> snd) (at_height (pr_height p) (entries sha p m))"
    by (auto simp: orders_def)
  ultimately show ?thesis using distinct_map by metis
qed

lemma in_orders:
  "(n, k) \<in> set (orders sha p m) \<longleftrightarrow> (\<exists>q. (k, n, q) \<in> set (entries sha p m) \<and> pr_height q = pr_height p)"
  by (force simp: orders_def at_height_def)

lemma dropped_orders: "dropped sha p m \<subseteq> set (orders sha p m)"
  unfolding dropped_def using set_take_subset by fastforce

lemma entry_unique:
  "can_remember sha m \<Longrightarrow> (k, v) \<in> set (entries sha p m) \<Longrightarrow> (k, v') \<in> set (entries sha p m) \<Longrightarrow> v = v'"
  using mem_map_of [OF entries_ok] by (metis option.inject)

lemma dropped_key:
  assumes "can_remember sha m" "(k, n, q) \<in> set (entries sha p m)"
  shows "k \<in> snd ` dropped sha p m \<longleftrightarrow> (n, k) \<in> dropped sha p m"
    and "(n, k) \<in> dropped sha p m \<Longrightarrow> pr_height q = pr_height p"
proof -
  have at: "n' = n \<and> pr_height q = pr_height p" if "(n', k) \<in> dropped sha p m" for n'
  proof -
    have "(n', k) \<in> set (orders sha p m)" using that dropped_orders [of sha p m] by blast
    then obtain q' where "(k, n', q') \<in> set (entries sha p m)" "pr_height q' = pr_height p"
      unfolding in_orders by blast
    then show ?thesis using entry_unique [OF assms] by fastforce
  qed
  then show "k \<in> snd ` dropped sha p m \<longleftrightarrow> (n, k) \<in> dropped sha p m" by force
  show "(n, k) \<in> dropped sha p m \<Longrightarrow> pr_height q = pr_height p" using at by blast
qed

lemma kept_count:
  assumes "can_remember sha m"
  shows "card (set (orders sha p m) - dropped sha p m) = min (length (orders sha p m)) MAX_PAIRS_PER_HEIGHT"
proof -
  have "card (dropped sha p m) = length (orders sha p m) - MAX_PAIRS_PER_HEIGHT"
    unfolding dropped_def using distinct_orders [OF assms] by (simp add: distinct_card)
  moreover have "finite (dropped sha p m)" by (simp add: dropped_def)
  ultimately show ?thesis
    using dropped_orders distinct_orders [OF assms] by (simp add: card_Diff_subset distinct_card min_def)
qed

lemma dropped_below:
  assumes "can_remember sha m" "x \<in> dropped sha p m" "y \<in> set (orders sha p m)" "y \<notin> dropped sha p m"
  shows "x < y"
  using take_sort_below [OF distinct_orders [OF assms(1)]] assms(2-4) unfolding dropped_def by blast

lemma new_kept:
  assumes "can_remember sha m"
  shows "(bm_remembered m + 1, Pair_commitment sha p) \<notin> dropped sha p m"
proof
  let ?new = "(bm_remembered m + 1, Pair_commitment sha p)"
  assume new: "?new \<in> dropped sha p m"
  have "?new \<in> set (orders sha p m)" using in_entries [OF assms] in_orders by blast
  then have "0 < card (set (orders sha p m) - dropped sha p m)"
    unfolding kept_count [OF assms] using MAX_pos by (cases "orders sha p m") auto
  then obtain n k where y: "(n, k) \<in> set (orders sha p m)" "(n, k) \<notin> dropped sha p m"
    by (auto simp: card_gt_0_iff)
  then have lt: "?new < (n, k)" using dropped_below [OF assms new] by blast
  obtain q where q: "(k, n, q) \<in> set (entries sha p m)" using y(1) in_orders by blast
  then have "n = bm_remembered m + 1" using lt entry [OF assms q] by (auto simp: less_prod_def)
  then have "k = Pair_commitment sha p" using q can_rememberD(4) [OF assms] by (fastforce simp: in_entries [OF assms])
  then show False using lt \<open>n = bm_remembered m + 1\<close> by simp
qed

lemma count_at:
  assumes "can_remember sha m"
  shows "length (at_height (pr_height p) (bm_pairs (remember sha p m))) =
    min (length (orders sha p m)) MAX_PAIRS_PER_HEIGHT"
proof -
  have "at_height (pr_height p) (bm_pairs (remember sha p m)) =
      filter (\<lambda>(k, n, _). (n, k) \<notin> dropped sha p m) (at_height (pr_height p) (entries sha p m))"
    unfolding remembered_pairs at_height_def filter_filter
    by (rule filter_cong [OF refl]) (clarsimp simp del: image_iff; metis dropped_key(1) [OF assms])
  also have "length \<dots> = length (filter (\<lambda>x. x \<notin> dropped sha p m) (orders sha p m))"
    by (simp add: orders_def filter_map comp_def case_prod_beta split_def)
  also have "\<dots> = card (set (orders sha p m) - dropped sha p m)"
    using distinct_orders [OF assms] distinct_card [of "filter (\<lambda>x. x \<notin> dropped sha p m) (orders sha p m)"]
    by (simp add: set_diff_eq)
  finally show ?thesis by (simp add: kept_count [OF assms])
qed

lemma count_other:
  assumes "can_remember sha m" "h \<noteq> pr_height p"
  shows "length (at_height h (bm_pairs (remember sha p m))) \<le> MAX_PAIRS_PER_HEIGHT"
proof -
  have "length (at_height h (entries sha p m)) \<le> length (at_height h (bm_pairs m))"
    unfolding at_height_def entries_def by (intro filter_bt_insert_other) (use assms(2) in simp)
  moreover have "length (at_height h (filter P xs)) \<le> length (at_height h xs)" for P and xs :: "(array32 \<times> u64 \<times> Pair) list"
    by (induction xs) (auto simp: at_height_def)
  ultimately show ?thesis
    using can_rememberD(3) [OF assms(1), of h] le_trans unfolding remembered_pairs by (metis (no_types))
qed

lemma memory_ok_remember:
  assumes "can_remember sha m"
  shows "memory_ok sha (remember sha p m)"
  unfolding memory_ok_def
proof (intro conjI allI)
  show "bt_ok (bm_pairs (remember sha p m))" by (simp add: remembered_pairs bt_ok_filter entries_ok [OF assms])
  show "\<forall>(k, n, q) \<in> set (bm_pairs (remember sha p m)). k = Pair_commitment sha q \<and> n \<le> bm_remembered (remember sha p m)"
    using entry [OF assms] by (auto simp: remembered_pairs)
  show "distinct (map (fst \<circ> snd) (bm_pairs (remember sha p m)))"
    unfolding remembered_pairs by (rule distinct_map_filter_order [OF entry_orders [OF assms]])
  show "length (at_height h (bm_pairs (remember sha p m))) \<le> MAX_PAIRS_PER_HEIGHT" for h
    using count_at [OF assms] count_other [OF assms] by (cases "h = pr_height p") auto
qed

lemma found_entry:
  assumes "can_remember sha m" "(k, n, q) \<in> set (entries sha p m)"
  shows "map_of (bm_pairs (remember sha p m)) k = (if (n, k) \<in> dropped sha p m then None else Some (n, q))"
  using assms dropped_key(1) [OF assms] mem_map_of [OF entries_ok [OF assms(1)]]
  by (auto simp: remembered_pairs map_of_filter_key)

lemma other_found:
  assumes ok: "can_remember sha m" and "map_of (bm_pairs m) k = Some (n, q)" "k \<noteq> Pair_commitment sha p"
  shows "map_of (bm_pairs (remember sha p m)) k = Some (n, q) \<or>
    (map_of (bm_pairs (remember sha p m)) k = None \<and> pr_height q = pr_height p \<and>
     length (at_height (pr_height p) (bm_pairs (remember sha p m))) = MAX_PAIRS_PER_HEIGHT \<and>
     (\<forall>(k', n', q') \<in> set (at_height (pr_height p) (bm_pairs (remember sha p m))). n < n'))"
proof -
  have e: "(k, n, q) \<in> set (entries sha p m)"
    using assms mem_map_of [OF can_rememberD(1) [OF ok]] by (simp add: in_entries [OF ok])
  show ?thesis
  proof (cases "(n, k) \<in> dropped sha p m")
    case True
    then have "length (orders sha p m) - MAX_PAIRS_PER_HEIGHT \<noteq> 0" unfolding dropped_def by auto
    then have full: "length (at_height (pr_height p) (bm_pairs (remember sha p m))) = MAX_PAIRS_PER_HEIGHT"
      by (simp add: count_at [OF ok])
    have "n < n'" if "(k', n', q') \<in> set (at_height (pr_height p) (bm_pairs (remember sha p m)))" for k' n' q'
    proof -
      have e': "(k', n', q') \<in> set (entries sha p m)" "pr_height q' = pr_height p" "k' \<notin> snd ` dropped sha p m"
        using that by (auto simp: at_height_def remembered_pairs)
      then have "(n', k') \<in> set (orders sha p m)" "(n', k') \<notin> dropped sha p m"
        using in_orders dropped_key(1) [OF ok] by blast+
      then have lt: "(n, k) < (n', k')" using dropped_below [OF ok True] by blast
      have "n \<noteq> n'"
        using entry_orders [OF ok, of p] e e'(1) lt unfolding distinct_map inj_on_def by fastforce
      then show ?thesis using lt by (auto simp: less_prod_def)
    qed
    then show ?thesis using True full dropped_key(2) [OF ok e] found_entry [OF ok e] by auto
  qed (use found_entry [OF ok e] in simp)
qed


lemma pair_found: "memory_pair k m = Some q \<longleftrightarrow> (\<exists>n. map_of (bm_pairs m) k = Some (n, q))"
  by (auto simp: memory_pair_def)

lemma remember_found:
  assumes "can_remember sha m"
  shows "map_of (bm_pairs (remember sha p m)) (Pair_commitment sha p) = Some (bm_remembered m + 1, p)"
    and "memory_pair (Pair_commitment sha p) (remember sha p m) = Some p"
proof -
  have "(Pair_commitment sha p, bm_remembered m + 1, p) \<in> set (entries sha p m)"
    by (simp add: in_entries [OF assms])
  then show "map_of (bm_pairs (remember sha p m)) (Pair_commitment sha p) = Some (bm_remembered m + 1, p)"
    by (simp add: found_entry [OF assms] new_kept [OF assms])
  then show "memory_pair (Pair_commitment sha p) (remember sha p m) = Some p" by (simp add: pair_found)
qed

text \<open>C25: The memory of the own pairs is bounded and forgets the oldest first. \<open>remember\<close> keeps the map well
formed: every pair is under its own commitment, no two pairs have the same order, and no eCash height has
more than \<open>MAX_PAIRS_PER_HEIGHT\<close> pairs. The new pair is always found, also at a full height; every other
pair stays, unless it is at the height of the new pair, the height is full, and all pairs that the height
keeps were remembered after it.\<close>

theorem remember_keeps_newest:
  assumes "memory_ok sha m" "unat (bm_remembered m) + 1 < 2 ^ 64"
  shows "memory_ok sha (remember sha p m) \<and>
     memory_pair (Pair_commitment sha p) (remember sha p m) = Some p \<and>
     (\<forall>k n q. map_of (bm_pairs m) k = Some (n, q) \<and> k \<noteq> Pair_commitment sha p \<longrightarrow>
        map_of (bm_pairs (remember sha p m)) k = Some (n, q) \<or>
        (map_of (bm_pairs (remember sha p m)) k = None \<and> pr_height q = pr_height p \<and>
         length (at_height (pr_height p) (bm_pairs (remember sha p m))) = MAX_PAIRS_PER_HEIGHT \<and>
         (\<forall>(k', n', q') \<in> set (at_height (pr_height p) (bm_pairs (remember sha p m))). n < n')))"
proof (intro conjI allI impI)
  have ok: "can_remember sha m" using assms by (simp add: can_remember_def)
  show "memory_ok sha (remember sha p m)" by (rule memory_ok_remember [OF ok])
  show "memory_pair (Pair_commitment sha p) (remember sha p m) = Some p" by (rule remember_found(2) [OF ok])
  fix k n q assume "map_of (bm_pairs m) k = Some (n, q) \<and> k \<noteq> Pair_commitment sha p"
  then show "map_of (bm_pairs (remember sha p m)) k = Some (n, q) \<or>
      (map_of (bm_pairs (remember sha p m)) k = None \<and> pr_height q = pr_height p \<and>
       length (at_height (pr_height p) (bm_pairs (remember sha p m))) = MAX_PAIRS_PER_HEIGHT \<and>
       (\<forall>(k', n', q') \<in> set (at_height (pr_height p) (bm_pairs (remember sha p m))). n < n'))"
    by (intro other_found [OF ok]) simp_all
qed

lemma memory_ok_default: "memory_ok sha BmmMemory_default"
  by (simp add: memory_ok_def BmmMemory_default_def at_height_def)

definition sum_sha :: "bytes \<Rightarrow> array32" where "sum_sha text = sum_list (map ucast text)"

definition one_pair :: Pair where "one_pair = \<lparr>pr_height = 12, pr_block = 3, pr_payee = 7\<rparr>"

lemma remember_keeps_newest_witness:
  "memory_ok sum_sha (remember sum_sha one_pair BmmMemory_default) \<and>
   memory_pair (Pair_commitment sum_sha one_pair) (remember sum_sha one_pair BmmMemory_default) = Some one_pair"
  using remember_keeps_newest [OF memory_ok_default, of sum_sha one_pair]
  by (simp add: BmmMemory_default_def)

text \<open>A pair is found by its commitment, which has the block and the payee and not the height. So a
bid with the same block and the same payee at another height takes the place of the earlier pair: the
memory has the later height only, and the pair of the earlier height does not go out again.\<close>

theorem same_block_forgets_height:
  assumes "memory_ok sha m" "unat (bm_remembered m) + 1 < 2 ^ 64"
    and "pr_block q = pr_block p" "pr_payee q = pr_payee p" "pr_height q \<noteq> pr_height p"
  shows "memory_pair (Pair_commitment sha q) (remember sha p m) = Some p \<and>
     q \<notin> set (fst (pairs_to_publish next_height tip_height confirmations (remember sha p m)))"
proof -
  have ok: "can_remember sha m" using assms by (simp add: can_remember_def)
  have same: "Pair_commitment sha q = Pair_commitment sha p" using assms(3,4) by (simp add: Pair_commitment_def)
  have out: "x \<in> set (newest_unchecked t sent pairs) \<Longrightarrow> x \<in> set pairs" for x t sent pairs
    by (induction pairs arbitrary: sent) (auto simp: Let_def split: if_splits)
  have "(k, n, q) \<notin> set (bm_pairs (remember sha p m))" for k n
  proof
    assume "(k, n, q) \<in> set (bm_pairs (remember sha p m))"
    then have e: "(k, n, q) \<in> set (entries sha p m)" by (auto simp: remembered_pairs)
    then have "k = Pair_commitment sha p" using entry [OF ok e] same by simp
    then have "q = p" using e entry_unique [OF ok e] by (auto simp: in_entries [OF ok])
    then show False using assms(5) by simp
  qed
  then have "q \<notin> set (fst (pairs_to_publish next_height tip_height confirmations (remember sha p m)))"
    by (auto simp: pairs_to_publish_def Let_def dest!: out)
  then show ?thesis using remember_found(2) [OF ok] same by simp
qed

lemma same_block_forgets_height_witness:
  "memory_pair (Pair_commitment sum_sha one_pair)
     (remember sum_sha (one_pair\<lparr>pr_height := 13\<rparr>) (remember sum_sha one_pair BmmMemory_default)) =
   Some (one_pair\<lparr>pr_height := 13\<rparr>)"
proof -
  have "memory_ok sum_sha (remember sum_sha one_pair BmmMemory_default)"
    using memory_ok_remember [of sum_sha BmmMemory_default] memory_ok_default
    by (simp add: can_remember_def BmmMemory_default_def)
  then show ?thesis
    using same_block_forgets_height [of sum_sha _ one_pair "one_pair\<lparr>pr_height := 13\<rparr>"]
    by (simp add: one_pair_def remembered_pairs BmmMemory_default_def)
qed

section \<open>The pairs that go out again\<close>

definition goes_again ::
  "(bytes \<Rightarrow> array32) \<Rightarrow> u64 \<Rightarrow> (u64 \<Rightarrow> BmmError + ActiveBlock option) \<Rightarrow> Pair \<Rightarrow> bool" where
  "goes_again sha tip_height read p \<longleftrightarrow>
     tip_height < pr_height p \<or>
     (case read (pr_height p) of
        Inl e \<Rightarrow> False
      | Inr None \<Rightarrow> True
      | Inr (Some (hash, commitment)) \<Rightarrow> commitment = Some (Pair_commitment sha p))"

definition read_heights :: "u64 \<Rightarrow> Pair list \<Rightarrow> u64 list" where
  "read_heights tip_height pairs = filter (\<lambda>h. h \<le> tip_height) (map pr_height pairs)"

definition read_error :: "(u64 \<Rightarrow> 'e + 'a) \<Rightarrow> u64 \<Rightarrow> 'e option" where
  "read_error read h = (case read h of Inl e \<Rightarrow> Some e | Inr _ \<Rightarrow> None)"

fun first_some :: "'a option list \<Rightarrow> 'a option" where
  "first_some [] = None"
| "first_some (None # xs) = first_some xs"
| "first_some (Some x # xs) = Some x"

definition or_else :: "'a option \<Rightarrow> 'a option \<Rightarrow> 'a option" where
  "or_else x y = (case x of None \<Rightarrow> y | Some _ \<Rightarrow> x)"

definition read_value :: "(u64 \<Rightarrow> 'e + 'a) \<Rightarrow> u64 \<Rightarrow> u64 \<times> 'a option" where
  "read_value read h = (h, case read h of Inl e \<Rightarrow> None | Inr x \<Rightarrow> Some x)"

lemma or_else_simps [simp]:
  "or_else None y = y" "or_else (Some v) y = Some v" "or_else x None = x" "or_else (or_else x y) z = or_else x (or_else y z)"
  by (simp_all add: or_else_def split: option.splits)

lemma first_some_cons [simp]: "first_some (x # xs) = or_else x (first_some xs)"
  by (cases x) simp_all

lemma tl_remdups_adj:
  "remdups_adj (x # xs) = x # tl (remdups_adj (x # xs))"
  "tl (remdups_adj (x # y # xs)) = (if x = y then tl (remdups_adj (y # xs)) else remdups_adj (y # xs))"
  by (simp_all add: remdups_adj_Cons')

lemma fold_tl_remdups_adj:
  "fold f (tl (remdups_adj (x # xs))) (f x s) = fold f (remdups_adj (x # xs)) s"
proof -
  have "fold f (remdups_adj (x # xs)) s = fold f (x # tl (remdups_adj (x # xs))) s"
    by (rule arg_cong [OF tl_remdups_adj(1)])
  then show ?thesis unfolding fold_simps(2) by (rule sym)
qed

text \<open>One step of the loop: above the tip, at the height of the cached block, and at another height.\<close>

lemma pairs_for_step:
  fixes f :: "u64 \<Rightarrow> 's \<Rightarrow> 's" and read :: "u64 \<Rightarrow> BmmError + ActiveBlock option"
    and sha :: "bytes \<Rightarrow> array32" and tip_height :: u64
  defines "go \<equiv> pairs_for_blocks sha tip_height (\<lambda>h s. (read h, f h s))"
  shows "tip_height < pr_height p \<Longrightarrow> go (kept, err, block) (p # pairs) s = go (kept @ [p], err, block) pairs s"
    and "\<not> tip_height < pr_height p \<Longrightarrow>
      go (kept, err, Some (read_value read (pr_height p))) (p # pairs) s =
      go (kept @ filter (goes_again sha tip_height read) [p], err, Some (read_value read (pr_height p))) pairs s"
    and "\<not> tip_height < pr_height p \<Longrightarrow> map_option fst block \<noteq> Some (pr_height p) \<Longrightarrow>
      go (kept, err, block) (p # pairs) s =
      go (kept @ filter (goes_again sha tip_height read) [p], or_else err (read_error read (pr_height p)),
        Some (read_value read (pr_height p))) pairs (f (pr_height p) s)"
proof -
  show "tip_height < pr_height p \<Longrightarrow> go (kept, err, block) (p # pairs) s = go (kept @ [p], err, block) pairs s"
    by (simp add: go_def)
  assume below: "\<not> tip_height < pr_height p"
  have keep: "(case snd (read_value read (pr_height p)) of
        None \<Rightarrow> False
      | Some None \<Rightarrow> True
      | Some (Some (_, commitment)) \<Rightarrow> commitment = Some (Pair_commitment sha p)) = goes_again sha tip_height read p"
    using below by (simp add: goes_again_def read_value_def split: sum.splits option.splits)
  show "go (kept, err, Some (read_value read (pr_height p))) (p # pairs) s =
      go (kept @ filter (goes_again sha tip_height read) [p], err, Some (read_value read (pr_height p))) pairs s"
    using below keep by (simp add: go_def read_value_def)
  assume "map_option fst block \<noteq> Some (pr_height p)"
  then show "go (kept, err, block) (p # pairs) s =
      go (kept @ filter (goes_again sha tip_height read) [p], or_else err (read_error read (pr_height p)),
        Some (read_value read (pr_height p))) pairs (f (pr_height p) s)"
    using below keep
    by (cases "read (pr_height p)"; cases err) (simp_all add: go_def read_value_def read_error_def or_else_def)
qed

lemma read_heights_simps [simp]:
  "read_heights tip_height [] = []"
  "read_heights tip_height (p # pairs) =
     (if pr_height p \<le> tip_height then pr_height p # read_heights tip_height pairs else read_heights tip_height pairs)"
  by (simp_all add: read_heights_def)

lemma fst_read_value [simp]: "fst (read_value read h) = h"
  by (simp add: read_value_def)

text \<open>The loop with a block in its cache, whose error it has counted.\<close>

lemma pairs_for_cached:
  "or_else err (read_error read h) = err \<Longrightarrow>
   pairs_for_blocks sha tip_height (\<lambda>h s. (read h, f h s)) (kept, err, Some (read_value read h)) pairs s =
     ((kept @ filter (goes_again sha tip_height read) pairs,
       or_else err (first_some (map (read_error read) (read_heights tip_height pairs)))),
      fold f (tl (remdups_adj (h # read_heights tip_height pairs))) s)"
proof (induction pairs arbitrary: kept err h s)
  case (Cons p pairs)
  consider "tip_height < pr_height p" "\<not> pr_height p \<le> tip_height"
    | "h = pr_height p" "\<not> tip_height < pr_height p" "pr_height p \<le> tip_height"
    | "h \<noteq> pr_height p" "\<not> tip_height < pr_height p" "pr_height p \<le> tip_height" by force
  then show ?case
  proof cases
    case 1
    have "goes_again sha tip_height read p" using 1 by (simp add: goes_again_def)
    then show ?thesis using 1 Cons by (simp add: pairs_for_step(1))
  next
    case 2
    have "or_else err (or_else (read_error read h) y) = or_else err y" for y
      using Cons.prems by (metis or_else_simps(4))
    then show ?thesis using 2 Cons by (simp add: pairs_for_step(2) tl_remdups_adj(2) del: pairs_for_blocks.simps)
  next
    case 3
    have "or_else (or_else err (read_error read (pr_height p))) (read_error read (pr_height p)) =
        or_else err (read_error read (pr_height p))"
      by (simp add: or_else_def split: option.splits)
    then show ?thesis
      using 3 Cons.IH [of "or_else err (read_error read (pr_height p))" "pr_height p"]
      by (simp add: pairs_for_step(3) tl_remdups_adj(2) fold_tl_remdups_adj
          del: pairs_for_blocks.simps remdups_adj.simps)
  qed
qed simp

lemma pairs_for_uncached:
  "pairs_for_blocks sha tip_height (\<lambda>h s. (read h, f h s)) (kept, None, None) pairs s =
     ((kept @ filter (goes_again sha tip_height read) pairs,
       first_some (map (read_error read) (read_heights tip_height pairs))),
      fold f (remdups_adj (read_heights tip_height pairs)) s)"
proof (induction pairs arbitrary: kept s)
  case (Cons p pairs)
  show ?case
  proof (cases "tip_height < pr_height p")
    case True
    then have "\<not> pr_height p \<le> tip_height" "goes_again sha tip_height read p" by (simp_all add: goes_again_def)
    then show ?thesis using True Cons by (simp add: pairs_for_step(1))
  next
    case False
    have "or_else (read_error read (pr_height p)) (read_error read (pr_height p)) = read_error read (pr_height p)"
      by (simp add: or_else_def split: option.splits)
    then show ?thesis
      using False linorder_not_less [of tip_height "pr_height p"] pairs_for_cached [of "read_error read (pr_height p)" read "pr_height p" sha tip_height f _ pairs]
      by (simp add: pairs_for_step(3) fold_tl_remdups_adj del: pairs_for_blocks.simps remdups_adj.simps)
  qed
qed simp

text \<open>C26: What goes out again to the validator is a filter of the pairs: a pair above the tip, a pair whose
height has no active block, and at a height with a block only the pair that the block commits to; a height
whose read fails gives none. The result has the error of the first failing read, and the loop reads each
height once for a run of pairs of that height. \<open>read\<close> is the answer of the nodes for each height, and \<open>f\<close>
what a read does to their state.\<close>

theorem only_won_pairs_go_again:
  "pairs_for_blocks sha tip_height (\<lambda>h s. (read h, f h s)) ([], None, None) pairs s =
     ((filter (goes_again sha tip_height read) pairs,
       first_some (map (read_error read) (read_heights tip_height pairs))),
      fold f (remdups_adj (read_heights tip_height pairs)) s)"
  using pairs_for_uncached [of _ _ _ _ "[]"] by simp

section \<open>The fees of a bid\<close>

definition in_bounds :: "BidRules \<Rightarrow> u64 \<Rightarrow> bool" where
  "in_bounds rules fees \<longleftrightarrow> fees = 0 \<or> (ru_min_bid_sats rules \<le> fees \<and> fees \<le> ru_max_bid_sats rules)"

definition fees_ok :: "BidRules \<Rightarrow> BmmMemory \<Rightarrow> bool" where
  "fees_ok rules m \<longleftrightarrow> (\<forall>tip fees. bm_fees m = Some (tip, fees) \<longrightarrow> in_bounds rules fees)"

lemma bid_sats_bounds:
  assumes "bid_sats income percent mini maxi = Some bid"
  shows "mini \<le> bid" "bid \<le> maxi" "0 < bid" "unat bid * 1000 \<le> unat income * unat percent"
proof -
  let ?product = "saturating_mul (income div LAMPORTS_PER_SAT) percent"
  have bid: "bid = min (?product div 100) maxi" "mini \<le> bid" "0 < bid"
    using assms by (auto simp: bid_sats_def Let_def split: if_splits)
  then show "mini \<le> bid" "bid \<le> maxi" "0 < bid" by simp_all
  have "unat bid \<le> unat (?product div 100)" using bid(1) by (simp add: word_le_nat_alt [symmetric])
  also have "\<dots> = unat ?product div 100" by (simp add: unat_div)
  finally have "unat bid * 100 \<le> unat ?product" by (simp add: less_eq_div_iff_mult_less_eq)
  also have "\<dots> \<le> unat income div 10 * unat percent"
    by (simp add: unat_saturating_mul LAMPORTS_PER_SAT_def unat_div)
  finally have "unat bid * 1000 \<le> unat income div 10 * 10 * unat percent" by (simp add: mult_ac)
  also have "\<dots> \<le> unat income * unat percent" by (intro mult_right_mono) simp_all
  finally show "unat bid * 1000 \<le> unat income * unat percent" .
qed

definition income_at :: "tip \<Rightarrow> Earned \<Rightarrow> BidRules \<Rightarrow> FeeHistory \<Rightarrow> u64 option" where
  "income_at tip earned rules h =
     income_per_block (ucast (snd tip)) (ea_total earned) (ru_confirmations rules + 1) h"

lemma fees_at_facts:
  assumes "fees_ok rules m" and "fees_at tip earned rules m = (fees, m')"
  shows "in_bounds rules fees" "fees_ok rules m'"
    and "bm_generation m' = ea_generation earned" "cached_fees (fst tip) m' = Some fees"
    and "bm_pairs m' = bm_pairs m" "bm_remembered m' = bm_remembered m"
    and "fees \<noteq> 0 \<Longrightarrow> cached_fees (fst tip) (memory_follow earned m) = None \<Longrightarrow>
      \<exists>income. income_at tip earned rules (bm_history m') = Some income \<and>
        unat fees * 1000 \<le> unat income * unat (ru_bid_percent rules)"
proof -
  let ?m = "memory_follow earned m"
  have followed: "fees_ok rules ?m" "bm_generation ?m = ea_generation earned" "bm_pairs ?m = bm_pairs m"
    "bm_remembered ?m = bm_remembered m"
    using assms(1) by (simp_all add: fees_ok_def memory_follow_def)
  have "in_bounds rules fees \<and> fees_ok rules m' \<and> bm_generation m' = ea_generation earned \<and>
      cached_fees (fst tip) m' = Some fees \<and> bm_pairs m' = bm_pairs m \<and> bm_remembered m' = bm_remembered m \<and>
      (fees \<noteq> 0 \<and> cached_fees (fst tip) ?m = None \<longrightarrow>
        (\<exists>income. income_at tip earned rules (bm_history m') = Some income \<and>
          unat fees * 1000 \<le> unat income * unat (ru_bid_percent rules)))"
  proof (cases "cached_fees (fst tip) ?m")
    case None
    let ?history = "FeeHistory_observe (ucast (snd tip)) (ea_total earned) (bm_history ?m)"
    let ?bid = "Option.bind (income_at tip earned rules ?history) (\<lambda>income.
      bid_sats income (ru_bid_percent rules) (ru_min_bid_sats rules) (ru_max_bid_sats rules))"
    have out: "fees = (case ?bid of None \<Rightarrow> 0 | Some fees \<Rightarrow> fees)"
      "m' = ?m\<lparr>bm_history := ?history, bm_fees := Some (fst tip, fees)\<rparr>"
      using assms(2) None by (auto simp: fees_at_def income_at_def Let_def)
    have "in_bounds rules fees" and "fees \<noteq> 0 \<Longrightarrow>
        \<exists>income. income_at tip earned rules ?history = Some income \<and>
          unat fees * 1000 \<le> unat income * unat (ru_bid_percent rules)"
      using bid_sats_bounds by (cases ?bid; force simp: out(1) in_bounds_def bind_eq_Some_conv)+
    then show ?thesis using followed by (simp add: out(2) fees_ok_def cached_fees_def)
  next
    case (Some cached)
    then have out: "fees = cached" "m' = ?m" using assms(2) by (auto simp: fees_at_def)
    have "in_bounds rules fees"
      using followed(1) Some by (auto simp: out fees_ok_def cached_fees_def split: option.splits if_splits)
    then show ?thesis using followed Some by (simp add: out)
  qed
  then show "in_bounds rules fees" "fees_ok rules m'"
    and "bm_generation m' = ea_generation earned" "cached_fees (fst tip) m' = Some fees"
    and "bm_pairs m' = bm_pairs m" "bm_remembered m' = bm_remembered m"
    and "fees \<noteq> 0 \<Longrightarrow> cached_fees (fst tip) ?m = None \<Longrightarrow>
      \<exists>income. income_at tip earned rules (bm_history m') = Some income \<and>
        unat fees * 1000 \<le> unat income * unat (ru_bid_percent rules)"
    by blast+
qed

text \<open>C24: The fees that a template offers stay inside the rules. They are zero (no bid) or between the
smallest and the largest bid; a fresh bid is at most the percent of the rules of the median income per
block, in sats of ten lamports, and zero without an income. The memory keeps the bid: for the same tip and
the same generation of the meter, every later call gives the same fees, whatever was earned since.\<close>

theorem bid_inside_rules:
  assumes "fees_ok rules m" and "fees_at tip earned rules m = (fees, m')"
  shows "in_bounds rules fees \<and> fees_ok rules m' \<and>
     (fees \<noteq> 0 \<and> cached_fees (fst tip) (memory_follow earned m) = None \<longrightarrow>
       (\<exists>income. income_at tip earned rules (bm_history m') = Some income \<and>
          unat fees * 1000 \<le> unat income * unat (ru_bid_percent rules))) \<and>
     (\<forall>later. ea_generation later = ea_generation earned \<longrightarrow> fees_at tip later rules m' = (fees, m'))"
  using fees_at_facts [OF assms] by (simp add: fees_at_def memory_follow_def)

lemma bid_inside_rules_witness:
  "fst (fees_at (9, 14) \<lparr>ea_generation = 0, ea_total = 900000\<rparr>
      \<lparr>ru_payee = 7, ru_confirmations = 2, ru_bid_percent = 80, ru_min_bid_sats = 546, ru_max_bid_sats = 10000\<rparr>
      (BmmMemory_default\<lparr>bm_history :=
        \<lparr>fh_by_height = [(10, 0), (11, 100000), (12, 800000), (13, 850000)]\<rparr>\<rparr>)) = 4000 \<and>
   in_bounds \<lparr>ru_payee = 7, ru_confirmations = 2, ru_bid_percent = 80, ru_min_bid_sats = 546, ru_max_bid_sats = 10000\<rparr> 4000"
proof -
  let ?rules = "\<lparr>ru_payee = 7, ru_confirmations = 2, ru_bid_percent = 80, ru_min_bid_sats = 546, ru_max_bid_sats = 10000\<rparr>"
  let ?m = "BmmMemory_default\<lparr>bm_history :=
    \<lparr>fh_by_height = [(10, 0), (11, 100000), (12, 800000), (13, 850000)]\<rparr>\<rparr>"
  have ok: "fees_ok ?rules ?m" by (simp add: fees_ok_def BmmMemory_default_def)
  let ?h = "\<lparr>fh_by_height = [(10, 0), (11, 100000), (12, 800000), (13, 850000)]\<rparr>"
  have "income_per_block 14 900000 3 (FeeHistory_observe 14 900000 ?h) = Some 50000" by code_simp
  then have "fst (fees_at (9, 14) \<lparr>ea_generation = 0, ea_total = 900000\<rparr> ?rules ?m) = 4000"
    by (simp add: fees_at_def memory_follow_def cached_fees_def BmmMemory_default_def bid_sats_def
        saturating_mul_def LAMPORTS_PER_SAT_def)
  moreover have "in_bounds ?rules (fst (fees_at (9, 14) \<lparr>ea_generation = 0, ea_total = 900000\<rparr> ?rules ?m))"
    by (rule conjunct1 [OF bid_inside_rules [OF ok surjective_pairing]])
  ultimately show ?thesis by (metis (no_types))
qed

end
