(* ===== verification/Bid_Properties.thy ===== *)
theory Bid_Properties
  imports Bmm_Loop Bmm_Memory Peg_Properties Genesis_Text
begin

text \<open>
  Properties of the bid: it names the newest recorded block that passes rule 3, it is kept before its request
  goes out, and one tip gets at most one request that can be open.
\<close>

section \<open>The block of a bid\<close>

text \<open>What the cache of the reads has.\<close>

definition right_reads :: "(u64 \<Rightarrow> 'a) \<Rightarrow> (u64 \<Rightarrow> 'a option) \<Rightarrow> bool" where
  "right_reads hash active \<longleftrightarrow> (\<forall>at x. active at = Some x \<longrightarrow> x = hash at)"

definition has_reads :: "(u64 \<times> array32) list \<Rightarrow> (u64 \<Rightarrow> 'a option) \<Rightarrow> bool" where
  "has_reads asked active \<longleftrightarrow> (\<forall>(at, h) \<in> set asked. h \<noteq> 0 \<longrightarrow> active at \<noteq> None)"

lemma right_reads_simps [simp]:
  "right_reads hash Map.empty" "right_reads hash active \<Longrightarrow> right_reads hash (active(at \<mapsto> hash at))"
  by (auto simp: right_reads_def)

lemma right_read:
  "right_reads hash active \<Longrightarrow> active at \<noteq> None \<Longrightarrow>
     (case active at of None \<Rightarrow> None | Some found \<Rightarrow> found) = hash at"
  by (auto simp: right_reads_def)

lemma passes_rule_3_reads:
  assumes "right_reads hash active"
    and "has_reads [(rb_credited_height block, rb_credited_block block),
      (saturating_add (rb_credited_height block) 1, rb_part_block block)] active"
  shows "passes_rule_3 block height lag (\<lambda>at. case active at of None \<Rightarrow> None | Some found \<Rightarrow> found) =
    passes_rule_3 block height lag hash"
proof -
  have same: "h = 0 \<or> (case active at of None \<Rightarrow> None | Some found \<Rightarrow> found) = Some h \<longleftrightarrow>
      h = 0 \<or> hash at = Some h" if "has_reads [(at, h)] active" for at h
    using that right_read [OF assms(1), of at] unfolding has_reads_def by (cases "h = 0") simp_all
  have "has_reads [(rb_credited_height block, rb_credited_block block)] active"
    "has_reads [(saturating_add (rb_credited_height block) 1, rb_part_block block)] active"
    using assms(2) by (simp_all add: has_reads_def)
  note this [THEN same]
  then show ?thesis unfolding passes_rule_3_def Let_def by (simp only: list.pred_inject case_prod_conv)
qed

text \<open>The reads of one tip: they leave the state, and each height has one answer.\<close>

locale tip_reads =
  fixes ch :: "'s bmm_chain" and tip :: tip and read :: "u64 \<Rightarrow> BmmError + array32 option"
  assumes read_at: "ch_block_hash_at ch tip at s = (read at, s)"
begin

lemma read_active_gives:
  assumes "\<And>at. read at = Inr (hash at)" "right_reads hash active"
  shows "\<exists>active'. read_active ch tip asked active s = (Inr active', s) \<and> right_reads hash active' \<and>
     has_reads asked active' \<and> dom active \<subseteq> dom active'"
  using assms(2)
proof (induction asked arbitrary: active)
  case (Cons a asked)
  obtain at h where a: "a = (at, h)" by (cases a)
  let ?active = "if h \<noteq> 0 \<and> active at = None then active(at \<mapsto> hash at) else active"
  have "right_reads hash ?active" using Cons.prems by simp
  from Cons.IH [OF this] obtain active' where step: "read_active ch tip asked ?active s = (Inr active', s)"
    "right_reads hash active'" "has_reads asked active'" "dom ?active \<subseteq> dom active'" by blast
  have "read_active ch tip (a # asked) active s = read_active ch tip asked ?active s"
    by (simp add: a perform_def read_at assms(1))
  moreover have "has_reads (a # asked) active'"
    using step(3,4) by (auto simp: a has_reads_def split: if_splits)
  moreover have "dom active \<subseteq> dom active'" using step(4) by (auto split: if_splits)
  ultimately show ?case using step(1,2) by (intro exI [of _ active']) simp
qed (simp add: return_def has_reads_def)

lemma passes_on:
  assumes "\<And>at. read at = Inr (hash at)" "right_reads hash active"
  shows "\<exists>active'. passes_rule_3_on ch tip block height lag active s =
      (Inr (passes_rule_3 block height lag hash, active'), s) \<and> right_reads hash active'"
proof (cases "saturating_add (rb_credited_height block) lag < height")
  case True
  then show ?thesis using assms(2) by (auto simp: passes_rule_3_on_def return_def passes_rule_3_def Let_def)
next
  case False
  let ?asked = "[(rb_credited_height block, rb_credited_block block),
    (saturating_add (rb_credited_height block) 1, rb_part_block block)]"
  obtain active' where reads: "read_active ch tip ?asked active s = (Inr active', s)"
    and right: "right_reads hash active'" and "has_reads ?asked active'"
    using read_active_gives [OF assms] by blast
  note passes_rule_3_reads [OF this(2,3)]
  then show ?thesis using False reads right
    by (simp add: passes_rule_3_on_def perform_def return_def Let_def del: read_active.simps)
qed

lemma first_passing_find:
  assumes "\<And>at. read at = Inr (hash at)" "right_reads hash active"
  shows "first_passing ch tip height lag active blocks s =
    (Inr (List.find (\<lambda>b. passes_rule_3 b height lag hash) blocks), s)"
  using assms(2)
proof (induction blocks arbitrary: active)
  case (Cons b blocks)
  obtain active' where "passes_rule_3_on ch tip b height lag active s =
      (Inr (passes_rule_3 b height lag hash, active'), s)" "right_reads hash active'"
    using passes_on [OF assms(1) Cons.prems] by blast
  then show ?case using Cons.IH by (simp add: perform_def return_def)
qed (simp add: return_def)

lemma bid_block_find:
  assumes "\<And>at. read at = Inr (hash at)" "ch_recorded_blocks ch s = (Inr blocks, s')"
  shows "bid_block ch tip height lag s = (Inr (List.find (\<lambda>b. passes_rule_3 b height lag hash) blocks), s')"
  using first_passing_find [of hash Map.empty] assms by (simp add: bid_block_def perform_def)

end

text \<open>The reads of the local enforcer, while its headers stay the same.\<close>

definition with_headers :: "read_headers \<Rightarrow> 'w bmm_node \<Rightarrow> 'w bmm_node" where
  "with_headers headers bn = bn\<lparr>bn_node := (bn_node bn)\<lparr>nd_headers := \<lambda>_. headers\<rparr>\<rparr>"

definition live_read :: "read_headers \<Rightarrow> tip \<Rightarrow> u64 \<Rightarrow> BmmError + array32 option" where
  "live_read headers tip height =
     (if \<not> within_walk (ucast (snd tip)) height then Inr None
      else attempt (height_u32 height) (\<lambda>at.
        case block_at headers tip at of
          Inr (hash, prev) \<Rightarrow> Inr (Some hash)
        | Inl (NoBlockAtHeight _) \<Rightarrow> Inr None
        | Inl e \<Rightarrow> Inl (BmmEnforcer e)))"

lemma live_read_at:
  "ch_block_hash_at (Live tools ac (with_headers headers bn) opts) tip at s = (live_read headers tip at, s)"
  by (auto simp: Live_def on_world_def live_block_hash_at_def live_read_def with_headers_def return_def perform_def
      pure_def or_no_block_def look_def split: sum.splits EnforcerError.splits)

interpretation live: tip_reads "Live tools ac (with_headers headers bn) opts" tip "live_read headers tip"
  by unfold_locales (rule live_read_at)


definition hash_below :: "(nat \<Rightarrow> Header) \<Rightarrow> nat \<Rightarrow> u64 \<Rightarrow> array32 option" where
  "hash_below chain n at =
     (if unat at \<le> n \<and> n - unat at \<le> 2016 then Some (hd_hash (chain (unat at))) else None)"

lemma live_read_chain:
  assumes "enforcer_service get_block_header_info get_two_way_peg_data deserialize chain blocks_at events_at
      tip_height" "n \<le> tip_height"
  shows "live_read (Enforcer_headers get_block_header_info) (tip_of chain n) at = Inr (hash_below chain n at)"
proof -
  have n: "n < 2 ^ 32" using assms enforcer_service.service_fits by fastforce
  have tip: "unat (ucast (snd (tip_of chain n)) :: u64) = n"
    using n enforcer_service.service_height [OF assms] by (simp add: tip_of_def unat_of_nat)
  have walk: "within_walk (ucast (snd (tip_of chain n))) at \<longleftrightarrow> unat at \<le> n \<and> n - unat at \<le> 2016"
    using tip by (auto simp: within_walk_def checked_sub_def MAX_WALK_def word_le_nat_alt unat_sub)
  show ?thesis
  proof (cases "unat at \<le> n \<and> n - unat at \<le> 2016")
    case True
    then have "try_from at = Some (word_of_nat (unat at) :: u32)" using n by (simp add: try_from_def)
    moreover have "block_at (Enforcer_headers get_block_header_info) (tip_of chain n) (word_of_nat (unat at)) =
        Inr (hd_hash (chain (unat at)), hd_prev (chain (unat at)))"
      using enforcer_service.active_header [OF assms(1) _ assms(2), of "unat at"] True by (simp add: block_at_def)
    ultimately show ?thesis using True walk by (simp add: live_read_def height_u32_def hash_below_def)
  qed (use walk in \<open>simp add: live_read_def hash_below_def\<close>)
qed

text \<open>C27: The block of a bid is the first block of the record, that is the newest one, that passes rule 3 on
the active chain: the reads of the enforcer, each made once and kept, give exactly the search with the hashes
of the active chain at most 2016 blocks below the tip. So the bid finds a block whenever one passes.\<close>

theorem bid_names_rule_3_block:
  assumes "enforcer_service get_block_header_info get_two_way_peg_data deserialize chain blocks_at events_at
      tip_height" "n \<le> tip_height"
    and "\<And>w. nd_headers (bn_node bn) w = Enforcer_headers get_block_header_info"
    and "ch_recorded_blocks (Live tools ac bn opts) s = (Inr blocks, s')"
  shows "bid_block (Live tools ac bn opts) (tip_of chain n) height lag s =
    (Inr (List.find (\<lambda>b. passes_rule_3 b height lag (hash_below chain n)) blocks), s')"
proof -
  have "with_headers (Enforcer_headers get_block_header_info) bn = bn"
    using assms(3) by (simp add: with_headers_def ext)
  then show ?thesis
    using live.bid_block_find [OF live_read_chain [OF assms(1,2)],
        of tools ac bn opts s blocks s' height lag] assms(4) by simp
qed


section \<open>A sent bid\<close>

lemma on_meter_iff [result_iff]:
  "on_meter m s = (Inr x, s') \<longleftrightarrow>
     (\<exists>meter w. m (pc_meter (fst s), snd s) = (Inr x, (meter, w)) \<and> s' = ((fst s)\<lparr>pc_meter := meter\<rparr>, w))"
  by (auto simp: on_meter_def split: prod.splits)

lemma update_memory_iff [result_iff]:
  "update_memory f s = (Inr u, s') \<longleftrightarrow> s' = ((fst s)\<lparr>pc_memory := f (pc_memory (fst s))\<rparr>, snd s)"
  by (auto simp: update_memory_def on_memory_def)

lemma on_memory_read: "on_memory (\<lambda>m. (f m, m)) s = (Inr (f (pc_memory (fst s))), s)"
  by (simp add: on_memory_def)

text \<open>The memory of the pairs between two states of the process.\<close>

definition same_pairs :: "'w bmm_state \<Rightarrow> 'w bmm_state \<Rightarrow> bool" where
  "same_pairs s s' \<longleftrightarrow>
     bm_pairs (pc_memory (fst s')) = bm_pairs (pc_memory (fst s)) \<and>
     bm_remembered (pc_memory (fst s')) = bm_remembered (pc_memory (fst s))"

lemma memory_ok_same: "same_pairs s s' \<Longrightarrow> memory_ok sha (pc_memory (fst s')) \<longleftrightarrow> memory_ok sha (pc_memory (fst s))"
  by (simp add: same_pairs_def memory_ok_def)

lemma template_fees_sent:
  assumes "template_fees (Live tools ac bn opts) rules tip s = (Inr fees, s')" "fees_ok rules (pc_memory (fst s))"
  shows "in_bounds rules fees" "same_pairs s s'"
proof -
  have "in_bounds rules fees \<and> same_pairs s s'"
  proof (cases "cached_fees (fst tip) (pc_memory (fst s))")
    case None
    with assms(1) obtain earned s1 where
      "ch_earned_fees (Live tools ac bn opts) s = (Inr earned, s1)"
      "fees_at tip earned rules (pc_memory (fst s1)) = (fees, pc_memory (fst s'))"
      by (auto simp: template_fees_def perform_iff action_err_iff on_memory_read on_memory_iff)
    then show ?thesis
      using fees_at_facts [of rules "pc_memory (fst s1)" tip earned fees "pc_memory (fst s')"] assms(2)
      by (auto simp: Live_def result_iff same_pairs_def)
  next
    case (Some cached)
    then show ?thesis
      using assms by (auto simp: template_fees_def perform_iff on_memory_read return_iff same_pairs_def
          fees_ok_def cached_fees_def split: option.splits if_splits)
  qed
  then show "in_bounds rules fees" "same_pairs s s'" by simp_all
qed

text \<open>A template that comes out: the block of the bid and the fees.\<close>

definition template_block ::
  "'w bmm_node \<Rightarrow> tools \<Rightarrow> pubkey \<Rightarrow> (u64 \<Rightarrow> array32 option) \<Rightarrow> Pair \<Rightarrow> bool" where
  "template_block bn tools program_id active_hash p \<longleftrightarrow>
     (\<exists>cfg w w1 blocks v v1 b.
        bmm_read_config tools bn program_id w = (Inr cfg, w1) \<and> bmm_next_height cfg \<le> pr_height p \<and>
        read_recorded_blocks bn v = (Inr blocks, v1) \<and>
        List.find (\<lambda>b. passes_rule_3 b (pr_height p) (deposit_lag cfg) active_hash) blocks = Some b \<and>
        pr_block p = rb_bank_hash b)"

lemma template_blockI:
  "bmm_read_config tools bn program_id w = (Inr cfg, w1) \<Longrightarrow> bmm_next_height cfg \<le> pr_height p \<Longrightarrow>
   read_recorded_blocks bn v = (Inr blocks, v1) \<Longrightarrow>
   List.find (\<lambda>b. passes_rule_3 b (pr_height p) (deposit_lag cfg) active_hash) blocks = Some b \<Longrightarrow>
   pr_block p = rb_bank_hash b \<Longrightarrow> template_block bn tools program_id active_hash p"
  unfolding template_block_def by blast

lemma template_sent:
  assumes "template (Live tools ac bn opts) rules tip s = (Inr te, s')" "fees_ok rules (pc_memory (fst s))"
    and find: "\<And>lag s blocks s'. ch_recorded_blocks (Live tools ac bn opts) s = (Inr blocks, s') \<Longrightarrow>
      bid_block (Live tools ac bn opts) tip (ucast (snd tip) + 1) lag s =
        (Inr (List.find (\<lambda>b. passes_rule_3 b (ucast (snd tip) + 1) lag active_hash) blocks), s')"
  shows "te_tip te = tip" "pr_height (te_pair te) = ucast (snd tip) + 1" "pr_payee (te_pair te) = ru_payee rules"
    and "in_bounds rules (te_fees_sats te)" "same_pairs s s'"
    and "template_block bn tools (bs_program_id opts) active_hash (te_pair te)"
proof -
  let ?ch = "Live tools ac bn opts" and ?height = "ucast (snd tip) + 1 :: u64"
  obtain active s1 cfg s2 fees s3 found block where
    a: "ch_slot_is_active ?ch s = (Inr active, s1)" and c: "ch_config ?ch s1 = (Inr cfg, s2)"
    and next_height: "\<not> ?height < bmm_next_height cfg"
    and fees: "template_fees ?ch rules tip s2 = (Inr fees, s3)"
    and b: "bid_block ?ch tip ?height (deposit_lag cfg) s3 = (Inr found, s')" and "found = Some block"
    and te: "te = \<lparr>te_tip = tip, te_pair = \<lparr>pr_height = ?height, pr_block = rb_bank_hash block, pr_payee = ru_payee rules\<rparr>,
      te_slot = rb_slot block, te_fees_sats = fees\<rparr>"
    using assms(1) unfolding template_def
    by (auto simp: perform_iff action_err_iff pure_iff return_iff Let_def split: if_splits)
      (auto simp: ok_or_def split: option.splits)
  have "fst s2 = fst s" using a c by (auto simp: Live_def result_iff)
  then have fees_in: "in_bounds rules fees" and pairs: "same_pairs s s3"
    using template_fees_sent [OF fees] assms(2) by (auto simp: same_pairs_def)
  obtain blocks s4 where blocks: "ch_recorded_blocks ?ch s3 = (Inr blocks, s4)"
    using b by (auto simp: bid_block_def perform_iff)
  then have "s4 = s'" and found: "List.find (\<lambda>b. passes_rule_3 b ?height (deposit_lag cfg) active_hash) blocks = Some block"
    using find [OF blocks, of "deposit_lag cfg"] b \<open>found = Some block\<close> by auto
  then have same: "same_pairs s s'" using pairs blocks by (auto simp: Live_def result_iff same_pairs_def)
  have "bmm_read_config tools bn (bs_program_id opts) (snd s1) = (Inr cfg, snd s2)"
    "read_recorded_blocks bn (snd s3) = (Inr blocks, snd s4)"
    using c blocks by (auto simp: Live_def result_iff)
  then show "template_block bn tools (bs_program_id opts) active_hash (te_pair te)"
    using next_height found by (intro template_blockI) (auto simp: te)
  show "te_tip te = tip" "pr_height (te_pair te) = ?height" "pr_payee (te_pair te) = ru_payee rules"
    "in_bounds rules (te_fees_sats te)" "same_pairs s s'"
    using fees_in same by (simp_all add: te)
qed

lemma bid_sent:
  assumes "bid tools ac bn opts rules tip s = (Inr (BidSent pair), s')"
  shows "\<exists>te s1 w txid. template (Live tools ac bn opts) rules tip s = (Inr te, s1) \<and> te_pair te = pair \<and>
    te_fees_sats te \<noteq> 0 \<and> \<not> pc_scan_runs (fst s1) \<and>
    pc_memory (fst s') = remember (to_sha256 tools) pair (pc_memory (fst s1)) \<and>
    nd_create_bmm_request (bn_node bn) (te_fees_sats te) tip (Pair_commitment (to_sha256 tools) pair) w =
      (Inr txid, snd s')"
proof -
  obtain found s1 where found: "template (Live tools ac bn opts) rules tip s = (found, s1)"
    by (cases "template (Live tools ac bn opts) rules tip s")
  then obtain te where te: "found = Inr te" and send: "send_bid tools ac bn tip te s1 = (Inr (BidSent pair), s')"
    using assms by (cases found) (auto simp: bid_def perform_iff result_of_iff pure_iff return_iff split: NoTemplate.splits)
  have fees: "te_fees_sats te \<noteq> 0" and runs: "\<not> pc_scan_runs (fst s1)"
    using send by (auto simp: send_bid_def perform_iff return_iff scan_runs_def look_iff split: if_splits)
  obtain s2 answer s3 where keep: "keep_pair tools ac bn (te_pair te) s1 = (Inr (), s2)"
    and answer: "on_world (nd_create_bmm_request (bn_node bn) (te_fees_sats te) tip
      (Pair_commitment (to_sha256 tools) (te_pair te))) s2 = (answer, s3)"
    and sent: "bid_answer (te_pair te) answer = BidSent pair" "s' = s3"
    using send fees runs
    by (auto simp: send_bid_def perform_iff scan_runs_def look_iff result_of_iff return_iff Let_def split: if_splits)
  then obtain txid where txid: "answer = Inr txid" "te_pair te = pair"
    by (auto simp: bid_answer_def split: sum.splits if_splits)
  obtain w where "pc_memory (fst s2) = remember (to_sha256 tools) pair (pc_memory (fst s1))"
    using keep txid(2) by (auto simp: keep_pair_def perform_iff update_memory_iff result_of_iff return_iff on_world_def
        split: prod.splits)
  moreover have "pc_memory (fst s3) = pc_memory (fst s2)"
    and "nd_create_bmm_request (bn_node bn) (te_fees_sats te) tip (Pair_commitment (to_sha256 tools) pair) (snd s2) =
      (Inr txid, snd s3)"
    using answer txid by (auto simp: on_world_def split: prod.splits)
  ultimately show ?thesis using found te txid fees runs sent(2)
    by (intro exI [of _ te] exI [of _ s1] exI [of _ "snd s2"] exI [of _ txid]) simp
qed

text \<open>C28: A bid that went out is good. Its pair is for the block after the tip, pays the payee of the rules
and names the newest recorded block that passes rule 3 on the active chain, at a height that is not settled;
the request offered fees inside the rules, more than zero, for exactly the commitment of the pair; and the
memory has the pair under this commitment, so that the loop publishes it again and the settle finds it.\<close>

theorem sent_bid_is_good:
  assumes "enforcer_service get_block_header_info get_two_way_peg_data deserialize chain blocks_at events_at
      tip_height" "n \<le> tip_height"
    and "\<And>w. nd_headers (bn_node bn) w = Enforcer_headers get_block_header_info"
    and "memory_ok (to_sha256 tools) (pc_memory (fst s))" "unat (bm_remembered (pc_memory (fst s))) + 1 < 2 ^ 64"
    and "fees_ok rules (pc_memory (fst s))"
    and "bid tools ac bn opts rules (tip_of chain n) s = (Inr (BidSent pair), s')"
  shows "pr_height pair = of_nat (n + 1) \<and> pr_payee pair = ru_payee rules \<and>
     template_block bn tools (bs_program_id opts) (hash_below chain n) pair \<and>
     (\<exists>fees w txid. fees \<noteq> 0 \<and> in_bounds rules fees \<and>
        nd_create_bmm_request (bn_node bn) fees (tip_of chain n) (Pair_commitment (to_sha256 tools) pair) w =
          (Inr txid, snd s')) \<and>
     memory_pair (Pair_commitment (to_sha256 tools) pair) (pc_memory (fst s')) = Some pair"
proof -
  have headers: "with_headers (Enforcer_headers get_block_header_info) bn = bn"
    using assms(3) by (simp add: with_headers_def ext)
  obtain te s1 w txid where te: "template (Live tools ac bn opts) rules (tip_of chain n) s = (Inr te, s1)"
    "te_pair te = pair" "te_fees_sats te \<noteq> 0"
    and kept: "pc_memory (fst s') = remember (to_sha256 tools) pair (pc_memory (fst s1))"
    and request: "nd_create_bmm_request (bn_node bn) (te_fees_sats te) (tip_of chain n)
      (Pair_commitment (to_sha256 tools) pair) w = (Inr txid, snd s')"
    using bid_sent [OF assms(7)] by blast
  note good = template_sent [OF te(1) assms(6)
      live.bid_block_find [OF live_read_chain [OF assms(1,2)], of tools ac bn opts, unfolded headers]]
  have "n < 2 ^ 32" using assms(2) enforcer_service.service_fits [OF assms(1)] by simp
  then have "unat (ucast (snd (tip_of chain n)) :: u64) = n" by (simp add: tip_of_def unat_of_nat)
  then have height: "ucast (snd (tip_of chain n)) + 1 = (of_nat (n + 1) :: u64)"
    by (subst word_arith_nat_add) (simp only: unat_1)
  have "can_remember (to_sha256 tools) (pc_memory (fst s1))"
    using assms(4,5) memory_ok_same [OF good(5)] good(5) unfolding can_remember_def same_pairs_def by metis
  then have "memory_pair (Pair_commitment (to_sha256 tools) pair) (pc_memory (fst s')) = Some pair"
    unfolding kept by (rule remember_found(2))
  moreover have "pr_height pair = of_nat (n + 1)" using good(2) te(2) height by (simp only:)
  moreover have "pr_payee pair = ru_payee rules" using good(3) te(2) by (simp only:)
  moreover have "template_block bn tools (bs_program_id opts) (hash_below chain n) pair"
    using good(6) te(2) by (simp only:)
  ultimately show ?thesis using te(3) good(4) request by blast
qed


text \<open>A node that knows one block, and whose eCash chain is the one of the tests.\<close>

definition sample_recorded :: RecordedBlock where
  "sample_recorded =
     \<lparr>rb_slot = 70, rb_bank_hash = 3, rb_credited_height = 195, rb_credited_block = fake_hash 195, rb_part_block = 0\<rparr>"

definition sample_bmm_node :: "unit bmm_node" where
  "sample_bmm_node =
     \<lparr>bn_node = sample_node
        \<lparr>nd_get_account_data := \<lambda>c k w. (Inr (Config_encode (to_sha256 sample_tools) sample_config), w),
         nd_get_account := \<lambda>c k w. (Inr (Some \<lparr>ra_lamports = 1, ra_owner = 0,
           ra_data = record_block sample_recorded (replicate BLOCK_RECORD_LEN 0)\<rparr>), w)\<rparr>,
      bn_fees = \<lparr>fr_missing_codes = [], fr_get_slot = \<lambda>w. (Inr 100, w), fr_get_blocks = \<lambda>a b w. (Inr [], w),
        fr_get_block = \<lambda>a w. (Inr JNull, w)\<rparr>,
      bn_late = \<lambda>w. False, bn_get_slot = \<lambda>w. (Inr 100, w),
      bn_sidechains = \<lambda>w. (Inr [\<lparr>sl_sidechain_number = 2, sl_vote_count = 0, sl_proposal_height = 90,
        sl_activation_height = Some 100, sl_title = None, sl_hash_id_1 = None, sl_hash_id_2 = None\<rparr>], w),
      bn_publish_pairs = \<lambda>ps w. (Inr (map (\<lambda>_. ''new'') ps), w), bn_get_pairs = \<lambda>h w. (Inr [], w)\<rparr>"

definition sample_bmm_settings :: BmmSettings where
  "sample_bmm_settings =
     \<lparr>bs_sidechain_id = 2, bs_program_id = ID, bs_confirmations = 6, bs_bid_percent = 80, bs_min_bid_sats = 546,
      bs_max_bid_sats = 10000, bs_no_bid = False\<rparr>"

definition sample_process :: BmmProcess where
  "sample_process = BmmProcess_new\<lparr>pc_memory := BmmMemory_default\<lparr>bm_fees := Some (fake_hash 200, 4000)\<rparr>\<rparr>"

lemma chunks_exact_replicate: "0 < n \<Longrightarrow> chunks_exact n (replicate (n * k) x) = replicate k (replicate n x)"
proof (induction k)
  case (Suc k)
  have "replicate (n * Suc k) x = replicate n x @ replicate (n * k) x" by (simp add: replicate_add)
  then show ?case using Suc chunks_exact_append [of "replicate n x" n "replicate (n * k) x"] by simp
qed simp

lemma set_list_update: "i < length xs \<Longrightarrow> set (xs[i := x]) \<subseteq> insert x (set xs)"
  by (rule set_update_subset_insert)

lemma recorded_only:
  assumes "rb_bank_hash b \<noteq> 0"
  shows "set (recorded_blocks (record_block b (replicate BLOCK_RECORD_LEN 0))) = {b}"
proof -
  let ?zeros = "replicate BLOCK_RECORD_LEN (0 :: byte)"
  have chunks: "chunks_exact BLOCK_RECORD_ENTRY_LEN ?zeros = replicate 2048 (replicate BLOCK_RECORD_ENTRY_LEN 0)"
    using chunks_exact_replicate [of BLOCK_RECORD_ENTRY_LEN 2048 "0 :: byte"]
    by (simp add: BLOCK_RECORD_LEN_def BLOCK_RECORD_ENTRY_LEN_def)
  have none: "recorded_entry (replicate BLOCK_RECORD_ENTRY_LEN 0) = None" by code_simp
  have "b' = b" if listed: "b' \<in> set (recorded_blocks (record_block b ?zeros))" for b'
  proof -
    obtain e where "e \<in> set ((chunks_exact BLOCK_RECORD_ENTRY_LEN ?zeros)[stride_index (rb_slot b) := record_entry b])"
      "recorded_entry e = Some b'"
      using listed record_block_chunks [of ?zeros b] by (auto simp: recorded_blocks_def set_map_filter)
    then have "e = record_entry b"
      using none set_update_subset_insert unfolding chunks by fastforce
    then show ?thesis using \<open>recorded_entry e = Some b'\<close> assms by (simp add: recorded_entry_record)
  qed
  then show ?thesis using recorded_after_record [OF _ assms, of ?zeros] by auto
qed

lemma find_only: "set xs = {x} \<Longrightarrow> P x \<Longrightarrow> List.find P xs = Some x"
  by (metis find_None_iff find_Some_iff insertI1 nth_mem option.exhaust singletonD)

definition sample_rules :: BidRules where
  "sample_rules = settings_rules sample_bmm_settings 7"

lemma sample_headers: "nd_headers (bn_node sample_bmm_node) w = Enforcer_headers fake_headers"
  by (simp add: sample_bmm_node_def sample_node_def)

abbreviation sample_live :: "unit bmm_state bmm_chain" where
  "sample_live \<equiv> Live sample_tools sample_account_codes sample_bmm_node sample_bmm_settings"

lemma sample_reads:
  "ch_slot_is_active sample_live s = (Inr True, s)" "ch_config sample_live s = (Inr sample_config, s)"
  "ch_recorded_blocks sample_live s =
     (Inr (recorded_blocks (record_block sample_recorded (replicate BLOCK_RECORD_LEN 0))), s)"
  by (cases s; simp add: Live_def on_world_def live_slot_is_active_def sample_bmm_node_def sample_bmm_settings_def
      action_err_def perform_def return_def pure_def bmm_read_config_def Config_decode_encode read_recorded_blocks_def)+

lemma sample_bid_block:
  "bid_block sample_live (tip_of fake_chain 200) 201 10 s = (Inr (Some sample_recorded), s)"
proof -
  have "with_headers (Enforcer_headers fake_headers) sample_bmm_node = sample_bmm_node"
    using sample_headers by (simp add: with_headers_def ext)
  moreover have "passes_rule_3 sample_recorded 201 10 (hash_below fake_chain 200)"
    by (simp add: passes_rule_3_def sample_recorded_def saturating_add_def hash_below_def fake_chain_def)
  moreover have "rb_bank_hash sample_recorded \<noteq> 0" by (simp add: sample_recorded_def)
  ultimately show ?thesis
    using live.bid_block_find [OF live_read_chain [OF fake.enforcer_service_axioms], of 200 sample_tools
      sample_account_codes sample_bmm_node sample_bmm_settings] sample_reads(3) find_only [OF recorded_only]
    by simp
qed

lemma sample_template:
  "template sample_live sample_rules (tip_of fake_chain 200) (sample_process, ()) =
     (Inr \<lparr>te_tip = tip_of fake_chain 200, te_pair = \<lparr>pr_height = 201, pr_block = 3, pr_payee = 7\<rparr>,
       te_slot = 70, te_fees_sats = 4000\<rparr>, (sample_process, ()))"
proof -
  have cached: "template_fees sample_live sample_rules (tip_of fake_chain 200) (sample_process, ()) =
      (Inr 4000, (sample_process, ()))"
    by (simp add: template_fees_def perform_def on_memory_read return_def cached_fees_def sample_process_def tip_of_def
        fake_chain_def)
  have tip: "ucast (snd (tip_of fake_chain 200)) + 1 = (201 :: u64)" by (simp add: tip_of_def)
  have payee: "ru_payee sample_rules = 7" by (simp add: sample_rules_def settings_rules_def)
  have c: "bmm_next_height sample_config = 105" "deposit_lag sample_config = 10" by (simp_all add: sample_config_def)
  show ?thesis
    unfolding template_def
    by (simp add: perform_def action_err_def sample_reads cached tip c sample_bid_block pure_def ok_or_def return_def
        sample_recorded_def payee Let_def)
qed

lemma sample_bid:
  "\<exists>s'. bid sample_tools sample_account_codes sample_bmm_node sample_bmm_settings sample_rules
     (tip_of fake_chain 200) (sample_process, ()) =
   (Inr (BidSent \<lparr>pr_height = 201, pr_block = 3, pr_payee = 7\<rparr>), s')"
  by (simp add: bid_def perform_def result_of_def sample_template send_bid_def scan_runs_def look_def keep_pair_def
      update_memory_def on_memory_def on_world_def publish_pairs_def action_err_def return_def Let_def)
    (simp add: sample_process_def BmmProcess_new_def sample_bmm_node_def sample_node_def bid_answer_def return_def
      perform_def result_of_def on_world_def)

lemma sent_bid_is_good_witness:
  "\<exists>s'. bid sample_tools sample_account_codes sample_bmm_node sample_bmm_settings sample_rules
      (tip_of fake_chain 200) (sample_process, ()) = (Inr (BidSent \<lparr>pr_height = 201, pr_block = 3, pr_payee = 7\<rparr>), s') \<and>
     memory_pair (Pair_commitment (to_sha256 sample_tools) \<lparr>pr_height = 201, pr_block = 3, pr_payee = 7\<rparr>)
     (pc_memory (fst s')) = Some \<lparr>pr_height = 201, pr_block = 3, pr_payee = 7\<rparr>"
proof -
  obtain s' where s': "bid sample_tools sample_account_codes sample_bmm_node sample_bmm_settings sample_rules
      (tip_of fake_chain 200) (sample_process, ()) = (Inr (BidSent \<lparr>pr_height = 201, pr_block = 3, pr_payee = 7\<rparr>), s')"
    using sample_bid by blast
  have "memory_ok sha (pc_memory (fst (sample_process, ())))" for sha
    using memory_ok_default by (simp add: sample_process_def memory_ok_def BmmMemory_default_def)
  moreover have "unat (bm_remembered (pc_memory (fst (sample_process, ())))) + 1 < 2 ^ 64"
    by (simp add: sample_process_def BmmMemory_default_def)
  moreover have "fees_ok sample_rules (pc_memory (fst (sample_process, ())))"
    by (simp add: sample_process_def fees_ok_def in_bounds_def sample_rules_def settings_rules_def sample_bmm_settings_def)
  ultimately show ?thesis
    using sent_bid_is_good [OF fake.enforcer_service_axioms _ sample_headers _ _ _ s'] s'
    by (intro exI [of _ s']) simp
qed

lemma bid_names_rule_3_block_witness:
  "bid_block sample_live (tip_of fake_chain 200) 201 10 (sample_process, ()) =
     (Inr (Some sample_recorded), (sample_process, ()))"
proof -
  have "passes_rule_3 sample_recorded 201 10 (hash_below fake_chain 200)"
    by (simp add: passes_rule_3_def sample_recorded_def saturating_add_def hash_below_def fake_chain_def)
  moreover have "rb_bank_hash sample_recorded \<noteq> 0" by (simp add: sample_recorded_def)
  ultimately show ?thesis
    using bid_names_rule_3_block [OF fake.enforcer_service_axioms _ sample_headers sample_reads(3), of 200]
      find_only [OF recorded_only] by simp
qed

section \<open>One open request per tip\<close>

text \<open>An action that keeps a property of the state, whatever its result.\<close>

definition keeps :: "('s \<Rightarrow> bool) \<Rightarrow> ('s, 'e, 'a) act \<Rightarrow> bool" where
  "keeps P m \<longleftrightarrow> (\<forall>s. P s \<longrightarrow> P (snd (m s)))"

named_theorems keeps_intro

lemma keepsI: "(\<And>s r s'. P s \<Longrightarrow> m s = (r, s') \<Longrightarrow> P s') \<Longrightarrow> keeps P m"
  by (metis keeps_def prod.collapse)

lemma keepsD: "keeps P m \<Longrightarrow> P s \<Longrightarrow> m s = (r, s') \<Longrightarrow> P s'"
  by (metis keeps_def snd_conv)

lemma keeps_basic [keeps_intro]:
  "keeps P (return x)" "keeps P (pure r)" "keeps P (look f)"
  by (simp_all add: keeps_def return_def pure_def look_def)

lemma keeps_perform [keeps_intro]:
  assumes "keeps P m" "\<And>x. keeps P (k x)"
  shows "keeps P (perform m k)"
proof (rule keepsI)
  fix s r s' assume P: "P s" and step: "perform m k s = (r, s')"
  obtain x s1 where m: "m s = (x, s1)" by (cases "m s")
  then have "P s1" using keepsD [OF assms(1) P] by blast
  then show "P s'" using step m keepsD [OF assms(2)] by (cases x) (auto simp: perform_def)
qed

lemma keeps_wrap [keeps_intro]:
  "keeps P m \<Longrightarrow> keeps P (action_err f m)" "keeps P m \<Longrightarrow> keeps P (result_of m)"
  by (auto simp: keeps_def action_err_def result_of_def split: prod.splits)

lemma keeps_cases [keeps_intro]:
  "keeps P m \<Longrightarrow> keeps P m' \<Longrightarrow> keeps P (if b then m else m')"
  "(\<And>e. keeps P (f e)) \<Longrightarrow> (\<And>x. keeps P (g x)) \<Longrightarrow> keeps P (case r of Inl e \<Rightarrow> f e | Inr x \<Rightarrow> g x)"
  by (auto simp: keeps_def split: sum.splits)

text \<open>The tip of the last bid, which only a round of the bid sets.\<close>

definition last_bid :: "array32 \<Rightarrow> 'w bmm_state \<Rightarrow> bool" where
  "last_bid t s \<longleftrightarrow> pc_last_bid_tip (fst s) = Some t"

lemma keeps_last_bid [keeps_intro]:
  "keeps (last_bid t) (on_world m)" "keeps (last_bid t) (update_memory f)" "keeps (last_bid t) (on_memory g)"
  "keeps (last_bid t) (on_meter n)" "keeps (last_bid t) (follow_headers bn tip lowest)"
  by (auto simp: keeps_def last_bid_def on_world_def update_memory_def on_memory_def on_meter_def follow_headers_def
      split: prod.splits)

lemma keeps_earned [keeps_intro]: "keeps (last_bid t) (ch_earned_fees (Live tools ac bn opts))"
  by (simp add: Live_def keeps_intro)

lemma keeps_settle [keeps_intro]: "keeps (last_bid t) (settle tools ac bn opts identity tip)"
  unfolding settle_def by (intro keeps_intro)

lemma perform_cong_keeps:
  "keeps P m \<Longrightarrow> P s \<Longrightarrow> (\<And>x s'. P s' \<Longrightarrow> k x s' = k' x s') \<Longrightarrow> perform m k s = perform m k' s"
  using keepsD by (fastforce simp: perform_def split: prod.splits sum.splits)

abbreviation without_bids :: "BmmSettings \<Rightarrow> BmmSettings" where
  "without_bids opts \<equiv> opts\<lparr>bs_no_bid := True\<rparr>"

lemma send_settles_without_bids:
  "send_settles tools bn (without_bids opts) payer plan = send_settles tools bn opts payer plan"
proof (induction plan)
  case (Cons step plan)
  then show ?case by (cases step; cases "snd step") (simp_all cong del: prod.case_cong_weak sum.case_cong_weak)
qed simp

lemma without_bids_same:
  "Live tools ac bn (without_bids opts) = Live tools ac bn opts"
  "settle tools ac bn (without_bids opts) identity tip = settle tools ac bn opts identity tip"
  by (simp_all add: Live_def settle_def send_settles_without_bids cong del: if_weak_cong)

lemma perform_here: "m s = (Inr x, s') \<Longrightarrow> perform m k s = k x s'"
  by (simp add: perform_def)

lemma without_bids_fields:
  "bs_program_id (without_bids opts) = bs_program_id opts" "bs_confirmations (without_bids opts) = bs_confirmations opts"
  by simp_all

lemma bid_round_shut:
  "last_bid (fst tip) s \<Longrightarrow> bid_round tools ac bn opts rules tip s = (Inr (), s)"
  "bid_round tools ac bn (without_bids opts) rules tip s = (Inr (), s)"
  by (simp_all add: bid_round_def perform_def look_def bids_for_def last_bid_def return_def)

lemma shut_then:
  "last_bid (fst tip) s \<Longrightarrow> perform (bid_round tools ac bn opts rules tip) k s = k () s"
  "perform (bid_round tools ac bn (without_bids opts) rules tip) k s = k () s"
  by (rule perform_here, erule bid_round_shut(1)) (rule perform_here [OF bid_round_shut(2)])

lemma keeps_bid_round [keeps_intro]: "keeps (last_bid (fst tip)) (bid_round tools ac bn opts rules tip)"
  by (simp add: keeps_def bid_round_shut(1))

definition tip_stays :: "'w bmm_node \<Rightarrow> tip \<Rightarrow> bool" where
  "tip_stays bn tip \<longleftrightarrow> (\<forall>w. fst (nd_tip (bn_node bn) w) = Inr tip)"

lemma on_tip:
  assumes "tip_stays bn tip"
  shows "perform (on_world (action_err BmmEnforcer (nd_tip (bn_node bn)))) k s =
    k tip (fst s, snd (nd_tip (bn_node bn) (snd s)))"
  using assms by (cases "nd_tip (bn_node bn) (snd s)")
    (auto simp: tip_stays_def perform_def on_world_def action_err_def dest: spec [of _ "snd s"])

lemma last_bid_world: "last_bid t s \<Longrightarrow> last_bid t (fst s, w)"
  by (simp add: last_bid_def)

lemma round_without_bids:
  assumes "tip_stays bn tip" "last_bid (fst tip) s"
  shows "bmm_round tools ac bn opts rules identity s = bmm_round tools ac bn (without_bids opts) rules identity s"
proof -
  have last: "last_bid (fst tip) (fst s, w)" for w by (rule last_bid_world [OF assms(2)])
  show ?thesis
    unfolding bmm_round_def on_tip [OF assms(1)] without_bids_same Let_def without_bids_fields
    by (intro perform_cong_keeps [where P = "last_bid (fst tip)"] last keeps_intro)
      (simp_all only: shut_then last_bid_world)
qed

lemma keeps_on_tip:
  assumes "tip_stays bn tip" "keeps (last_bid t) (k tip)"
  shows "keeps (last_bid t) (perform (on_world (action_err BmmEnforcer (nd_tip (bn_node bn)))) k)"
  unfolding keeps_def on_tip [OF assms(1)] using assms(2) by (simp add: keeps_def last_bid_def)

lemma keeps_round:
  assumes "tip_stays bn tip"
  shows "keeps (last_bid (fst tip)) (bmm_round tools ac bn opts rules identity)"
  unfolding bmm_round_def Let_def by (intro keeps_on_tip [OF assms] keeps_intro)

lemma rounds_without_bids:
  assumes "tip_stays bn tip"
  shows "last_bid (fst tip) s \<Longrightarrow> rounds tools ac bn opts rules identity schedule s =
    rounds tools ac bn (without_bids opts) rules identity schedule s"
proof (induction schedule arbitrary: s)
  case (Cons finished schedule)
  define s0 where s0: "s0 = (if finished then finish_scan s else s)"
  have here: "last_bid (fst tip) s0" using Cons.prems by (simp add: s0 last_bid_def finish_scan_def)
  obtain r s' where step: "bmm_round tools ac bn opts rules identity s0 = (r, s')"
    by (cases "bmm_round tools ac bn opts rules identity s0")
  then have last: "last_bid (fst tip) s'" by (rule keepsD [OF keeps_round [OF assms] here])
  have step': "bmm_round tools ac bn (without_bids opts) rules identity s0 = (r, s')"
    using step round_without_bids [OF assms here] by metis
  show ?case
    unfolding rounds.simps s0 [symmetric] step step' prod.case Cons.IH [OF last] by (rule refl)
qed simp

text \<open>C29: At most one bid of a tip can be open. After a bid whose request went out, or whose answer left open
whether it did, the loop keeps the tip; while the enforcer names this tip, every later round runs exactly as
if the process had been started without bids, and such a process never bids.\<close>

theorem one_open_request_per_tip:
  assumes "tip_stays bn tip"
    and "bids_for (bs_no_bid opts) (pc_last_bid_tip (fst s)) (fst tip)"
    and "bid tools ac bn opts rules tip s = (Inr outcome, s1)" "outcome = BidSent p \<or> outcome = BidUnknown"
  shows "\<exists>s'. bid_round tools ac bn opts rules tip s = (Inr (), s') \<and> snd s' = snd s1 \<and>
     rounds tools ac bn opts rules identity schedule s' =
       rounds tools ac bn (without_bids opts) rules identity schedule s' \<and>
     (\<forall>t s. bid_round tools ac bn (without_bids opts) rules t s = (Inr (), s))"
proof -
  let ?s' = "((fst s1)\<lparr>pc_last_bid_tip := Some (fst tip)\<rparr>, snd s1)"
  have "\<not> bids_again (Inr outcome)" using assms(4) by auto
  then have "bid_round tools ac bn opts rules tip s = (Inr (), ?s')"
    using assms(2,3) by (simp add: bid_round_def perform_def look_def result_of_def)
  moreover have "last_bid (fst tip) ?s'" by (simp add: last_bid_def)
  ultimately show ?thesis
    by (intro exI [of _ ?s'] conjI allI bid_round_shut(2) rounds_without_bids [OF assms(1)]) simp_all
qed

lemma one_open_request_per_tip_witness:
  "\<exists>s'. bid_round sample_tools sample_account_codes sample_bmm_node sample_bmm_settings sample_rules
      (tip_of fake_chain 200) (sample_process, ()) = (Inr (), s') \<and>
     rounds sample_tools sample_account_codes sample_bmm_node sample_bmm_settings sample_rules 7 [True, False] s' =
       rounds sample_tools sample_account_codes sample_bmm_node (without_bids sample_bmm_settings) sample_rules 7
         [True, False] s'"
proof -
  have "tip_stays sample_bmm_node (tip_of fake_chain 200)"
    by (simp add: tip_stays_def sample_bmm_node_def sample_node_def tip_of_def fake_chain_def)
  moreover have "bids_for (bs_no_bid sample_bmm_settings) (pc_last_bid_tip (fst (sample_process, ())))
      (fst (tip_of fake_chain 200))"
    by (simp add: bids_for_def sample_bmm_settings_def sample_process_def BmmProcess_new_def)
  moreover obtain s1 where sent: "bid sample_tools sample_account_codes sample_bmm_node sample_bmm_settings sample_rules
      (tip_of fake_chain 200) (sample_process, ()) = (Inr (BidSent \<lparr>pr_height = 201, pr_block = 3, pr_payee = 7\<rparr>), s1)"
    using sample_bid by blast
  ultimately show ?thesis using one_open_request_per_tip [OF _ _ sent disjI1 [OF refl]] by blast
qed

end
