(* ===== verification/Settle_Properties.thy ===== *)
theory Settle_Properties
  imports Bmm_Loop Bridge_Properties
begin

text \<open>
  The settles of the daemon against the bridge program: every height that the daemon plans passes, in its
  order, with the answers of the validator.
\<close>

section \<open>The treasury over several settles\<close>

definition settle_ready :: "runtime \<Rightarrow> bank \<Rightarrow> bool" where
  "settle_ready rt b \<longleftrightarrow>
     config_key rt (config b) \<noteq> None \<and> vault_key rt (config b) \<noteq> None \<and>
     (\<exists>t. treasury_key rt (config b) = Some t \<and>
        acc_owner (ledger b t) = SYSTEM_PROGRAM_ID \<and> acc_len (ledger b t) = 0 \<and>
        unat (bmm_paid_total (config b)) + balance (ledger b) t < 2 ^ 64)"

lemma settle_keeps_ready:
  assumes "transfer_ok rt" "settle_ready rt b"
    and "settle_bmm rt slot data payee height block_hash solana_block b = Inr b'"
  shows "settle_ready rt b'"
proof -
  obtain t where t: "treasury_key rt (config b) = Some t" "acc_owner (ledger b t) = SYSTEM_PROGRAM_ID"
    "acc_len (ledger b t) = 0" "unat (bmm_paid_total (config b)) + balance (ledger b) t < 2 ^ 64"
    using assms(2) by (auto simp: settle_ready_def)
  note keys = config_key_def vault_key_def treasury_key_def
  show ?thesis
    using assms(1,3)
  proof (rule settle_bmm_effect)
    fix tot assume "config b' = (config b)\<lparr>bmm_paid_total := tot, bmm_next_height := height + 1, bmm_next_since_slot := slot\<rparr>"
      "tot = bmm_paid_total (config b)" "ledger b' = ledger b"
    then show ?thesis using assms(2) by (simp add: settle_ready_def keys)
  next
    fix tot config_k vault treasury payout
    assume c: "config b' = (config b)\<lparr>bmm_paid_total := tot, bmm_next_height := height + 1, bmm_next_since_slot := slot\<rparr>"
      and k: "treasury_key rt (config b) = Some treasury"
      and tot: "unat tot = unat (bmm_paid_total (config b)) + unat payout"
      and payout: "payout = saturating_sub (acc_lamports (ledger b treasury)) (rt_minimum_balance rt 0)"
      and ne: "meta_key payee \<notin> {treasury, config_k, vault}"
      and m: "moved treasury (meta_key payee) payout (ledger b) (ledger b')"
    have tt: "treasury = t" using k t(1) by simp
    have "unat payout \<le> balance (ledger b) t" by (simp add: payout tt balance_def arith_iff)
    then have "unat tot + balance (ledger b') t < 2 ^ 64"
      using balance_moved_src [OF m] ne t(4) tot by (auto simp: tt)
    moreover have "acc_owner (ledger b' t) = SYSTEM_PROGRAM_ID" "acc_len (ledger b' t) = 0"
      using moved_shape [OF m] t(2,3) by (simp_all add: tt)
    ultimately show ?thesis using assms(2) t(1) by (auto simp: settle_ready_def c keys)
  qed
qed

section \<open>The plan of the daemon\<close>

definition step_at ::
  "(bytes \<Rightarrow> array32) \<Rightarrow> SettleView \<Rightarrow> (u64 \<Rightarrow> ActiveBlock option) \<Rightarrow> u64 \<Rightarrow> SettleStep" where
  "step_at sha v read h =
     next_settle sha h (sv_tip_height v) (sv_confirmations v) (read h) (sv_pairs v)
       (saturating_add h (sv_skip_blocks v) \<le> sv_credited_height v \<and> sv_grace_passed v \<and> h = sv_next v) (sv_sender v)"

lemma step_at_ready: "step_at sha v read h \<noteq> Wait \<Longrightarrow> settle_is_ready h (sv_tip_height v) (sv_confirmations v)"
  by (auto simp: step_at_def next_settle_def split: if_splits)

text \<open>The plan is the steps of the heights up to the first one that waits.\<close>

lemma plan_heights_steps:
  assumes reads: "\<And>h s. fst (read_block h s) = Inr (read h)"
  shows "fst (plan_heights sha v read_block plan heights s) =
    Inr (plan @ map (\<lambda>h. (h, step_at sha v read h)) (takeWhile (\<lambda>h. step_at sha v read h \<noteq> Wait) heights))"
proof (induction heights arbitrary: plan s)
  case (Cons h heights)
  obtain s' where s': "read_block h s = (Inr (read h), s')" using reads by (metis prod.collapse)
  show ?case
  proof (cases "settle_is_ready h (sv_tip_height v) (sv_confirmations v)")
    case True
    have "plan_heights sha v read_block plan (h # heights) s =
        (if step_at sha v read h = Wait then return plan
         else plan_heights sha v read_block (plan @ [(h, step_at sha v read h)]) heights) s'"
      using True s' by (simp add: perform_def step_at_def Let_def)
    then show ?thesis using Cons.IH by (simp add: return_def)
  next
    case False
    then show ?thesis using step_at_ready [of sha v read h] by (auto simp: return_def)
  qed
qed (simp add: return_def)

section \<open>The answers of the validator\<close>

text \<open>
  The answer of the patched validator as the leader (\<^verbatim>\<open>settle_answer\<close> in the patch): it answers for a block of
  the active chain with N + 2 blocks on top, with the commitment of the block and with what it knows of the
  recorded Solana block.
\<close>

definition leader_answer ::
  "(u64 \<Rightarrow> ActiveBlock option) \<Rightarrow> u64 \<Rightarrow> u64 \<Rightarrow> RecordAnswer option \<Rightarrow> Question \<Rightarrow> bytes option" where
  "leader_answer read tip_height confirmations r q =
     (case read (q_height q) of
        None \<Rightarrow> None
      | Some (hash, commitment) \<Rightarrow>
          if hash = q_block_hash q \<and> settle_is_ready (q_height q) tip_height confirmations
          then Some (answer_data q commitment r) else None)"

abbreviation leader ::
  "SettleView \<Rightarrow> (u64 \<Rightarrow> ActiveBlock option) \<Rightarrow> Question \<Rightarrow> RecordAnswer option \<Rightarrow> bytes option" where
  "leader v read \<equiv> (\<lambda>q r. leader_answer read (sv_tip_height v) (sv_confirmations v) r q)"

text \<open>The settles of a plan on the bank, each in its slot, with what the leader knows of its Solana block.\<close>

fun land ::
  "runtime \<Rightarrow> (bytes \<Rightarrow> array32) \<Rightarrow> find_pda \<Rightarrow> (Question \<Rightarrow> RecordAnswer option \<Rightarrow> bytes option) \<Rightarrow>
     (u64 \<times> RecordAnswer option) list \<Rightarrow> (u64 \<times> SettleStep) list \<Rightarrow> bank \<Rightarrow> tx_error + bank" where
  "land rt sha fpa answer slots [] b = Inr b"
| "land rt sha fpa answer ((slot, r) # slots) ((height, Send block_hash solana_block payee) # plan) b =
     (let ix = settle_bmm_ix sha fpa ID height block_hash solana_block payee in
      ok_or (settle_bmm_question ID (ix_data ix)) (Bridge NoAnswer) (\<lambda>q.
      ok_or (answer q r) (Bridge NoAnswer) (\<lambda>data.
      attempt (settle_bmm rt slot data (ix_accounts ix ! 2) height block_hash solana_block b)
        (land rt sha fpa answer slots plan))))"
| "land rt sha fpa answer slots plan b = Inl (Bridge NoAnswer)"

lemma pays_own_pair:
  "c = None \<or> c = Some (commitment_of rt solana_block k) \<Longrightarrow>
   \<exists>pays. settle_pays rt cfg slot h solana_block k (answer_of q c r) = Inr pays"
  by (auto simp: settle_pays_def answer_of_def)

lemma pays_skipped:
  assumes "saturating_add h (bmm_skip_blocks cfg) \<le> credited_height cfg"
    and "saturating_add (bmm_next_since_slot cfg) SKIP_GRACE_SLOTS \<le> slot"
  shows "\<exists>pays. settle_pays rt cfg slot h solana_block k (answer_of q c r) = Inr pays"
  using assms by (auto simp: settle_pays_def answer_of_def split: option.splits)

text \<open>A step that the bridge takes at its height, whatever the leader knows of the Solana block.\<close>

definition step_lands :: "runtime \<Rightarrow> SettleView \<Rightarrow> (u64 \<Rightarrow> ActiveBlock option) \<Rightarrow> Config \<Rightarrow> u64 \<Rightarrow> u64 \<Rightarrow> SettleStep \<Rightarrow> bool" where
  "step_lands rt v read cfg slot h step \<longleftrightarrow>
     (\<exists>block_hash c solana_block payee. step = Send block_hash solana_block payee \<and> read h = Some (block_hash, c) \<and>
        settle_is_ready h (sv_tip_height v) (sv_confirmations v) \<and>
        (\<forall>q r. \<exists>pays. settle_pays rt cfg slot h solana_block payee (answer_of q c r) = Inr pays))"

lemma step_at_lands:
  assumes "step_at sha v read h \<noteq> Wait"
    and sha: "\<And>block payee. daemon_commitment_of sha block payee = commitment_of rt block payee"
    and skip: "h = sv_next v \<Longrightarrow> sv_grace_passed v \<Longrightarrow> saturating_add h (sv_skip_blocks v) \<le> sv_credited_height v \<Longrightarrow>
      saturating_add h (bmm_skip_blocks cfg) \<le> credited_height cfg \<and>
      saturating_add (bmm_next_since_slot cfg) SKIP_GRACE_SLOTS \<le> slot"
  shows "step_lands rt v read cfg slot h (step_at sha v read h)"
proof -
  have ready: "settle_is_ready h (sv_tip_height v) (sv_confirmations v)" by (rule step_at_ready [OF assms(1)])
  then obtain block_hash c where block: "read h = Some (block_hash, c)"
    using assms(1) by (auto simp: step_at_def next_settle_def split: option.splits)
  show ?thesis
  proof (cases c)
    case None
    then show ?thesis
      using ready block pays_own_pair [of None]
      by (auto simp: step_lands_def step_at_def next_settle_def)
  next
    case (Some commitment)
    show ?thesis
    proof (cases "pair_for sha (sv_pairs v) h commitment")
      case None
      then have "saturating_add h (sv_skip_blocks v) \<le> sv_credited_height v" "sv_grace_passed v" "h = sv_next v"
        and send: "step_at sha v read h = Send block_hash 0 (sv_sender v)"
        using assms(1) ready block Some by (auto simp: step_at_def next_settle_def split: if_splits)
      then have "\<exists>pays. settle_pays rt cfg slot h 0 (sv_sender v) (answer_of q c r) = Inr pays" for q r
        using pays_skipped skip by blast
      then show ?thesis using ready block send by (auto simp: step_lands_def)
    next
      case (Some pair)
      then have "Pair_commitment sha pair = commitment" by (auto simp: pair_for_def find_Some_iff)
      then have "commitment = commitment_of rt (pr_block pair) (pr_payee pair)" by (simp add: Pair_commitment_def sha)
      moreover have "step_at sha v read h = Send block_hash (pr_block pair) (pr_payee pair)"
        using Some \<open>c = Some commitment\<close> ready block by (simp add: step_at_def next_settle_def)
      ultimately show ?thesis
        using ready block \<open>c = Some commitment\<close> pays_own_pair [of c] by (auto simp: step_lands_def)
    qed
  qed
qed


lemma settle_ready_keys:
  assumes "settle_ready rt b"
  obtains config_k t vault where
    "config_key rt (config b) = Some config_k" "treasury_key rt (config b) = Some t"
    "vault_key rt (config b) = Some vault" "acc_owner (ledger b t) = SYSTEM_PROGRAM_ID" "acc_len (ledger b t) = 0"
    "unat (bmm_paid_total (config b)) + balance (ledger b) t < 2 ^ 64"
  using assms by (auto simp: settle_ready_def)

lemma land_step:
  assumes "runtime_ok rt" "discriminators_ok sha" "settle_ready rt b"
    and "bmm_next_height (config b) = h" "unat h + 1 < 2 ^ 64"
    and "step_lands rt v read (config b) slot h step"
  shows "\<exists>b'. (\<forall>slots plan. land rt sha fpa (leader v read) ((slot, r) # slots) ((h, step) # plan) b =
      land rt sha fpa (leader v read) slots plan b') \<and>
    settle_ready rt b' \<and> bmm_next_height (config b') = h + 1"
proof -
  obtain block_hash c solana_block payee where step: "step = Send block_hash solana_block payee"
    and block: "read h = Some (block_hash, c)" "settle_is_ready h (sv_tip_height v) (sv_confirmations v)"
    and pays: "\<And>q r. \<exists>pays. settle_pays rt (config b) slot h solana_block payee (answer_of q c r) = Inr pays"
    using assms(6) unfolding step_lands_def by blast
  let ?q = "\<lparr>q_height = h, q_block_hash = block_hash, q_solana_block = solana_block\<rparr>"
  let ?meta = "writable_meta payee False"
  obtain config_k t vault where keys: "config_key rt (config b) = Some config_k" "treasury_key rt (config b) = Some t"
    "vault_key rt (config b) = Some vault" "acc_owner (ledger b t) = SYSTEM_PROGRAM_ID" "acc_len (ledger b t) = 0"
    "unat (bmm_paid_total (config b)) + balance (ledger b) t < 2 ^ 64"
    by (rule settle_ready_keys [OF assms(3)])
  obtain p where p: "settle_pays rt (config b) slot h solana_block payee (answer_of ?q c r) = Inr p"
    using pays by blast
  have "\<exists>b'. settle_bmm rt slot (answer_data ?q c r) ?meta (bmm_next_height (config b)) (q_block_hash ?q)
      (q_solana_block ?q) b = Inr b' \<and> bmm_next_height (config b') = bmm_next_height (config b) + 1"
    by (rule settle_passes [OF runtime_okD(1) [OF assms(1)] keys(1-5) _ keys(6)])
      (use assms(4,5) p in \<open>simp_all add: writable_meta_def\<close>)
  then obtain b' where b': "settle_bmm rt slot (answer_data ?q c r) ?meta h block_hash solana_block b = Inr b'"
    "bmm_next_height (config b') = h + 1" by (auto simp: assms(4))
  have "settle_ready rt b'" by (rule settle_keeps_ready [OF runtime_okD(1) [OF assms(1)] assms(3) b'(1)])
  moreover have "settle_bmm_question ID (ix_data (settle_bmm_ix sha fpa ID h block_hash solana_block payee)) = Some ?q"
    by (rule read_questions(1) [OF assms(2)])
  moreover have "ix_accounts (settle_bmm_ix sha fpa ID h block_hash solana_block payee) ! 2 = ?meta"
    by (simp add: settle_bmm_ix_def)
  ultimately show ?thesis using b' block by (intro exI [of _ b']) (simp add: step leader_answer_def Let_def)
qed

text \<open>Heights that follow each other from \<open>n\<close>.\<close>

lemma land_all:
  assumes "runtime_ok rt" "discriminators_ok sha"
  shows "settle_ready rt b \<Longrightarrow> bmm_next_height (config b) = word_of_nat n \<Longrightarrow> n + k < 2 ^ 64 \<Longrightarrow> length slots = k \<Longrightarrow>
    (\<forall>cfg slot. \<forall>i \<in> {n ..< n + k}. step_lands rt v read cfg slot (word_of_nat i) (f (word_of_nat i))) \<Longrightarrow>
    \<exists>b'. land rt sha fpa (leader v read) slots
        (map (\<lambda>i. (word_of_nat i, f (word_of_nat i))) [n ..< n + k]) b = Inr b' \<and>
      bmm_next_height (config b') = word_of_nat (n + k)"
proof (induction k arbitrary: n b slots)
  case (Suc k)
  obtain slot r slots' where slots: "slots = (slot, r) # slots'" using Suc.prems(4) by (cases slots) auto
  have small: "unat (word_of_nat n :: u64) + 1 < 2 ^ 64" using Suc.prems(3) by (simp add: unat_of_nat)
  have "step_lands rt v read (config b) slot (word_of_nat n) (f (word_of_nat n))" using Suc.prems(5) by simp
  from land_step [OF assms Suc.prems(1,2) small this] obtain b1 where
    "\<And>slots plan. land rt sha fpa (leader v read) ((slot, r) # slots) ((word_of_nat n, f (word_of_nat n)) # plan) b =
      land rt sha fpa (leader v read) slots plan b1"
    and ready: "settle_ready rt b1" and at: "bmm_next_height (config b1) = word_of_nat n + 1" by blast
  moreover have "\<exists>b'. land rt sha fpa (leader v read) slots'
      (map (\<lambda>i. (word_of_nat i, f (word_of_nat i))) [Suc n ..< Suc n + k]) b1 = Inr b' \<and>
    bmm_next_height (config b') = word_of_nat (Suc n + k)"
    by (rule Suc.IH [OF ready]) (use at Suc.prems(3-5) slots in \<open>simp_all add: add.commute\<close>)
  moreover have "[n ..< n + Suc k] = n # [Suc n ..< Suc n + k]" by (simp add: upt_conv_Cons)
  ultimately show ?case by (simp add: slots del: upt_Suc)
qed simp

lemma plan_settles_steps:
  assumes "\<And>h s. fst (read_block h s) = Inr (read h)" "plan_settles sha v read_block s = (Inr plan, s')"
  shows "\<exists>k. length plan = k \<and> unat (sv_next v) + k < 2 ^ 64 \<and>
    plan = map (\<lambda>i. (word_of_nat i, step_at sha v read (word_of_nat i))) [unat (sv_next v) ..< unat (sv_next v) + k] \<and>
    (\<forall>i \<in> {unat (sv_next v) ..< unat (sv_next v) + k}. step_at sha v read (word_of_nat i) \<noteq> Wait) \<and>
    (k = 0 \<longrightarrow> unat (sv_next v) + 1 < 2 ^ 64 \<longrightarrow> step_at sha v read (sv_next v) = Wait)"
proof -
  let ?n = "unat (sv_next v)" and ?m = "unat (saturating_add (sv_next v) SETTLE_STEPS)"
  let ?sends = "\<lambda>i. step_at sha v read (word_of_nat i) \<noteq> Wait"
  define k where "k = length (takeWhile ?sends [?n ..< ?m])"
  have plan: "plan = map (\<lambda>i. (word_of_nat i, step_at sha v read (word_of_nat i))) (takeWhile ?sends [?n ..< ?m])"
    using plan_heights_steps [where read_block = read_block and read = read and sha = sha and v = v and
        plan = "[]" and s = s and heights = "map word_of_nat [?n ..< ?m]", OF assms(1)] assms(2)
    by (simp add: plan_settles_def indices_def takeWhile_map comp_def)
  have k: "k \<le> ?m - ?n" unfolding k_def using length_takeWhile_le [of ?sends "[?n ..< ?m]"] by simp
  have m: "?m = min (?n + 16) (2 ^ 64 - 1)" by (simp add: SETTLE_STEPS_def unat_saturating_add)
  have prefix: "takeWhile ?sends [?n ..< ?m] = [?n ..< ?n + k]"
    using takeWhile_eq_take [of ?sends "[?n ..< ?m]"] k unfolding k_def [symmetric] by (cases "k = 0") simp_all
  moreover have "length plan = k" by (simp add: plan k_def)
  moreover have "?n + k < 2 ^ 64"
  proof -
    have "Suc ?n \<le> 2 ^ 64" using unat_bound [of "sv_next v"] by (simp add: Suc_le_eq)
    then show ?thesis using k m by (cases "k = 0") simp_all
  qed
  moreover have "\<forall>i \<in> {?n ..< ?n + k}. ?sends i"
    using set_takeWhileD [of _ ?sends "[?n ..< ?m]"] unfolding prefix by auto
  moreover have "k = 0 \<longrightarrow> ?n + 1 < 2 ^ 64 \<longrightarrow> step_at sha v read (sv_next v) = Wait"
    using k m by (auto simp: k_def upt_conv_Cons split: if_splits)
  ultimately show ?thesis using plan by (intro exI [of _ k]) simp
qed

text \<open>The view of the daemon, from the config of the bridge and the slot \<open>at\<close> that it read.\<close>

definition view_of :: "SettleView \<Rightarrow> Config \<Rightarrow> u64 \<Rightarrow> bool" where
  "view_of v cfg at \<longleftrightarrow>
     sv_next v = bmm_next_height cfg \<and> sv_skip_blocks v = bmm_skip_blocks cfg \<and>
     sv_credited_height v = credited_height cfg \<and>
     sv_grace_passed v = (saturating_add (bmm_next_since_slot cfg) SKIP_GRACE_SLOTS \<le> at)"



text \<open>
  The sample bank of the bridge, with the hash of the daemon, with an eCash block that commits to nothing and
  one that has a pair.
\<close>

definition hashed_runtime :: runtime where
  "hashed_runtime = sample_runtime\<lparr>rt_hashv := sample_sha\<rparr>"

lemma hashed_runtime_ok: "runtime_ok hashed_runtime"
proof -
  have same: "rt_transfer hashed_runtime = rt_transfer sample_runtime"
    "rt_init_account hashed_runtime = rt_init_account sample_runtime"
    "rt_close_account hashed_runtime = rt_close_account sample_runtime"
    "rt_create_program_address hashed_runtime = rt_create_program_address sample_runtime"
    "rt_find_program_address hashed_runtime = rt_find_program_address sample_runtime"
    "rt_has_key hashed_runtime = rt_has_key sample_runtime"
    "rt_minimum_balance hashed_runtime = rt_minimum_balance sample_runtime"
    "rt_is_exempt hashed_runtime = rt_is_exempt sample_runtime"
    by (simp_all add: hashed_runtime_def)
  show ?thesis
    using sample_runtime_ok
    unfolding runtime_ok_def transfer_ok_def init_ok_def close_ok_def addresses_ok_def rent_ok_def record_key_def same .
qed

definition sample_eCash :: "u64 \<Rightarrow> ActiveBlock option" where
  "sample_eCash h =
     (if h = 105 then Some (50, None)
      else if h = 106 then Some (51, Some (daemon_commitment_of sample_sha 12 ALICE)) else None)"

definition sample_view :: SettleView where
  "sample_view =
     \<lparr>sv_next = 105, sv_tip_height = 120, sv_confirmations = 6,
      sv_pairs = [\<lparr>pr_height = 106, pr_block = 12, pr_payee = ALICE\<rparr>], sv_skip_blocks = 20,
      sv_credited_height = 100, sv_grace_passed = True, sv_sender = ALICE\<rparr>"

lemma sample_settle_ready: "settle_ready hashed_runtime sample_bank"
proof -
  have keys: "config_key sample_runtime (config sample_bank) = Some 0x1ff6769666e6f63"
    "treasury_key sample_runtime (config sample_bank) = Some 0x1fd7972757361657274"
    "vault_key sample_runtime (config sample_bank) = Some 0x1fe746c756176"
    by (rule sample_keys, simp add: sample_bank_def sample_config_def)+
  have same: "config_key hashed_runtime c = config_key sample_runtime c"
    "treasury_key hashed_runtime c = treasury_key sample_runtime c" "vault_key hashed_runtime c = vault_key sample_runtime c"
    for c by (simp_all add: config_key_def treasury_key_def vault_key_def hashed_runtime_def)
  have "ledger sample_bank 0x1fd7972757361657274 = system_account 2000000" "bmm_paid_total (config sample_bank) = 0"
    by (simp_all add: sample_bank_def sample_ledger_def sample_addresses sample_config_def)
  then show ?thesis by (simp add: settle_ready_def same keys balance_def)
qed


end
