(* ===== verification/Server_Properties.thy ===== *)
theory Server_Properties
  imports Template_Rpc Bid_Properties
begin

text \<open>
  Properties of the JSON-RPC for the block templates: a template connects once eCash commits to it, and each
  error code says what the caller can do.
\<close>

section \<open>The JSON of a block\<close>

lemma narrow_back:
  "try_from (ucast (x :: u32) :: u64) = Some x" "try_from (ucast (y :: u8) :: u64) = Some y"
proof -
  have "unat (ucast x :: u64) = unat x" "unat (ucast y :: u64) = unat y" by (simp_all add: unat_widen)
  moreover have "ucast (ucast x :: u64) = x" "ucast (ucast y :: u64) = y"
    using mod_less [OF unat_bound [of x]] mod_less [OF unat_bound [of y]]
    by (simp_all add: word_unat_eq_iff unat_ucast_mod)
  ultimately show "try_from (ucast x :: u64) = Some x" "try_from (ucast y :: u64) = Some y"
    using unat_bound [of x] unat_bound [of y] by (simp_all only: try_from_def if_True)
qed

lemma block_json_roundtrip: "block_of_json (json_of_block b) = Some b"
  by (cases b) (simp add: block_of_json_def json_of_block_def block_fields_def json_get_def as_str_def as_u64_def
      narrow_back)

lemma block_json_pair:
  assumes "account_codes_ok ac" "BlockJson_new ac prev pair s = Inr b"
  shows "BlockJson_pair ac b = Inr pair"
proof -
  obtain height :: u32 where "try_from (pr_height pair) = Some height"
    and b: "b = \<lparr>bj_prev_main_hash = hash_text prev, bj_height = height,
       bj_bank_hash = ac_key_text ac (pr_block pair), bj_payee = ac_key_text ac (pr_payee pair), bj_slot = s\<rparr>"
    using assms(2) by (auto simp: BlockJson_new_def result_iff)
  moreover from this have "(ucast height :: u64) = pr_height pair"
    by (auto simp: try_from_def word_unat_eq_iff unat_ucast_mod split: if_splits)
  ultimately show ?thesis
    using assms(1) by (simp add: BlockJson_pair_def base58_key_def account_codes_ok_def)
qed

section \<open>A template\<close>

lemma published_iff [result_iff]: "perform (pure (published r)) k s = (Inr v, s') \<longleftrightarrow> published r = Inr () \<and> k () s = (Inr v, s')"
  by (cases "published r") (auto simp: pure_def)

lemma get_block_template_inv:
  assumes "get_block_template sc sv s = (Inr v, s')"
  shows "\<exists>tip s1 te s2 r s3. ch_tip (sv_chain sv) s = (Inr tip, s1) \<and>
    template (sv_chain sv) (sv_rules sv) tip s1 = (Inr te, s2) \<and>
    publish_one (sv_chain sv) (te_pair te) s2 = (r, s3) \<and> published r = Inr () \<and>
    template_json sc (sv_sidechain_id sv) te = Inr v \<and>
    s' = ((fst s3)\<lparr>pc_memory := remember (sc_sha256 sc) (te_pair te) (pc_memory (fst s3))\<rparr>, snd s3)"
  using assms unfolding get_block_template_def
  by (auto simp: perform_iff action_err_iff result_of_iff update_memory_iff pure_iff published_iff)

text \<open>The reads of a template leave the process but for the fees.\<close>

definition process_is :: "BmmProcess \<Rightarrow> 'w bmm_state \<Rightarrow> bool" where
  "process_is p s \<longleftrightarrow> fst s = p"

lemma keeps_process [keeps_intro]:
  "keeps (process_is p) (on_world m)"
  "keeps (process_is p) (ch_block_hash_at (Live tools ac bn opts) tip at)"
  "keeps (process_is p) (ch_recorded_blocks (Live tools ac bn opts))"
  "keeps (process_is p) (ch_publish (Live tools ac bn opts) pairs)"
  by (auto simp: keeps_def process_is_def on_world_def Live_def split: prod.splits)

lemma keeps_read_active [keeps_intro]:
  "keeps (process_is p) (read_active (Live tools ac bn opts) tip asked active)"
proof (induction asked arbitrary: active)
  case (Cons a asked)
  then show ?case by (cases a) (auto intro!: keeps_intro)
qed (simp add: keeps_intro)

lemma keeps_first_passing [keeps_intro]:
  "keeps (process_is p) (first_passing (Live tools ac bn opts) tip height lag active blocks)"
proof (induction blocks arbitrary: active)
  case (Cons b blocks)
  have "keeps (process_is p) (passes_rule_3_on (Live tools ac bn opts) tip b height lag active)"
    unfolding passes_rule_3_on_def Let_def by (intro keeps_intro)
  then show ?case using Cons by (auto intro!: keeps_intro split: prod.splits)
qed (simp add: keeps_intro)

lemma keeps_bid_block [keeps_intro]: "keeps (process_is p) (bid_block (Live tools ac bn opts) tip height lag)"
  unfolding bid_block_def by (intro keeps_intro)

lemma keeps_publish_one [keeps_intro]: "keeps (process_is p) (publish_one (Live tools ac bn opts) pair)"
  unfolding publish_one_def by (intro keeps_intro)

lemma same_process: "keeps (process_is (fst s)) m \<Longrightarrow> m s = (r, s') \<Longrightarrow> fst s' = fst s"
  using keepsD [of "process_is (fst s)" m s r s'] by (simp add: process_is_def)

lemma template_pairs:
  assumes "template (Live tools ac bn opts) rules tip s = (Inr te, s')" "fees_ok rules (pc_memory (fst s))"
  shows "same_pairs s s'" "te_tip te = tip" "pr_payee (te_pair te) = ru_payee rules"
proof -
  let ?ch = "Live tools ac bn opts" and ?height = "ucast (snd tip) + 1 :: u64"
  obtain active s1 cfg s2 fees s3 found where
    a: "ch_slot_is_active ?ch s = (Inr active, s1)" and c: "ch_config ?ch s1 = (Inr cfg, s2)"
    and fees: "template_fees ?ch rules tip s2 = (Inr fees, s3)"
    and b: "bid_block ?ch tip ?height (deposit_lag cfg) s3 = (Inr found, s')"
    and te: "te_tip te = tip" "pr_payee (te_pair te) = ru_payee rules"
    using assms(1) unfolding template_def
    by (auto simp: perform_iff action_err_iff pure_iff return_iff Let_def split: if_splits)
  have "fst s2 = fst s" using a c by (auto simp: Live_def result_iff)
  then have "same_pairs s s3" using template_fees_sent [OF fees] assms(2) by (auto simp: same_pairs_def)
  moreover have "fst s' = fst s3" by (rule same_process [OF keeps_bid_block b])
  ultimately show "same_pairs s s'" "te_tip te = tip" "pr_payee (te_pair te) = ru_payee rules"
    using te by (simp_all add: same_pairs_def)
qed

section \<open>A template connects\<close>

text \<open>The answer of \<open>connect_block\<close>, when the reads and the publish succeed.\<close>

lemma connect_block_answer:
  assumes "BlockJson_pair (sc_account sc) b = Inr pair" "sc_parse_block_hash sc text = Some main"
    and "ch_tip (sv_chain sv) s = (Inr tip, s1)"
    and "ch_active_block (sv_chain sv) tip (pr_height pair) s1 = (Inr found, s2)"
    and "found = Some (main, Some (Pair_commitment (sc_sha256 sc) pair)) \<Longrightarrow>
      publish_one (sv_chain sv) pair s2 = (Inr (), s3)"
  shows "\<exists>s4. connect_block sc sv b text s =
    (Inr (found = Some (main, Some (Pair_commitment (sc_sha256 sc) pair))), s4)"
proof (cases "found = Some (main, Some (Pair_commitment (sc_sha256 sc) pair))")
  case True
  then show ?thesis
    using assms by (simp add: connect_block_def server_block_hash_def perform_def action_err_def update_memory_def
        on_memory_def return_def)
next
  case False
  then have "(case found of None \<Rightarrow> False | Some (hash, commitment) \<Rightarrow>
      hash = main \<and> commitment = Some (Pair_commitment (sc_sha256 sc) pair)) = False"
    by (auto split: option.splits)
  then show ?thesis
    using False assms(1-4)
    by (simp add: connect_block_def server_block_hash_def perform_def action_err_def return_def)
qed

text \<open>C31: A template is good for the block that carries it. The block of the answer reads back, from the text of
the JSON, as the pair of the bid; the critical hash is the commitment of this pair, the payee is the one of the
rules, and the memory has the pair. And whatever happens until then: a later \<open>connect_block\<close> with this block
and an eCash block says yes exactly when the block is the active one at the height of the template and commits
to the pair, as long as the nodes answer.\<close>

theorem template_connects:
  assumes "sv_chain sv = Live tools (sc_account sc) bn opts" "account_codes_ok (sc_account sc)"
    and "memory_ok (sc_sha256 sc) (pc_memory (fst s))" "unat (bm_remembered (pc_memory (fst s))) + 1 < 2 ^ 64"
    and "fees_ok (sv_rules sv) (pc_memory (fst s))"
    and "get_block_template sc sv s = (Inr v, s')"
  shows "\<exists>b pair. block_of_json (json_get ''block'' v) = Some b \<and> BlockJson_pair (sc_account sc) b = Inr pair \<and>
     json_get ''critical_hash'' v = JString (hex_encode (array_bytes (Pair_commitment (sc_sha256 sc) pair))) \<and>
     pr_payee pair = ru_payee (sv_rules sv) \<and>
     memory_pair (Pair_commitment (sc_sha256 sc) pair) (pc_memory (fst s')) = Some pair \<and>
     (\<forall>text main t tip t1 found t2 t3. sc_parse_block_hash sc text = Some main \<and>
        ch_tip (sv_chain sv) t = (Inr tip, t1) \<and>
        ch_active_block (sv_chain sv) tip (pr_height pair) t1 = (Inr found, t2) \<and>
        publish_one (sv_chain sv) pair t2 = (Inr (), t3) \<longrightarrow>
        (\<exists>t4. connect_block sc sv b text t =
          (Inr (found = Some (main, Some (Pair_commitment (sc_sha256 sc) pair))), t4)))"
proof -
  obtain tip s1 te s2 r s3 where tip: "ch_tip (sv_chain sv) s = (Inr tip, s1)"
    and te: "template (sv_chain sv) (sv_rules sv) tip s1 = (Inr te, s2)"
    and pub: "publish_one (sv_chain sv) (te_pair te) s2 = (r, s3)"
    and v: "template_json sc (sv_sidechain_id sv) te = Inr v"
    and s': "s' = ((fst s3)\<lparr>pc_memory := remember (sc_sha256 sc) (te_pair te) (pc_memory (fst s3))\<rparr>, snd s3)"
    using get_block_template_inv [OF assms(6)] by blast
  have "fst s1 = fst s" using tip by (auto simp: assms(1) Live_def result_iff)
  then have "same_pairs s s2" and payee: "pr_payee (te_pair te) = ru_payee (sv_rules sv)"
    using template_pairs [OF te [unfolded assms(1)]] assms(5) by (simp_all add: same_pairs_def)
  moreover have "fst s3 = fst s2" using pub unfolding assms(1) by (rule same_process [OF keeps_publish_one])
  ultimately have "same_pairs s s3" by (simp add: same_pairs_def)
  then have "can_remember (sc_sha256 sc) (pc_memory (fst s3))"
    using assms(3,4) memory_ok_same unfolding can_remember_def same_pairs_def by metis
  then have kept: "memory_pair (Pair_commitment (sc_sha256 sc) (te_pair te)) (pc_memory (fst s')) = Some (te_pair te)"
    by (simp add: s' remember_found(2))
  obtain b where b: "BlockJson_new (sc_account sc) (fst (te_tip te)) (te_pair te) (sv_sidechain_id sv) = Inr b"
    and out: "v = JObject [(''critical_hash'', JString (hex_encode (array_bytes (Pair_commitment (sc_sha256 sc) (te_pair te))))),
        (''block'', json_of_block b), (''fees_sats'', JPosInt (min (te_fees_sats te) (2 ^ 63 - 1)))]"
    using v by (auto simp: template_json_def result_iff)
  have pair: "BlockJson_pair (sc_account sc) b = Inr (te_pair te)" by (rule block_json_pair [OF assms(2) b])
  have fields: "json_get ''block'' v = json_of_block b"
    "json_get ''critical_hash'' v = JString (hex_encode (array_bytes (Pair_commitment (sc_sha256 sc) (te_pair te))))"
    by (simp_all add: out json_get_def)
  show ?thesis
    using fields block_json_roundtrip pair payee kept connect_block_answer [OF pair]
    by (intro exI [of _ b] exI [of _ "te_pair te"]) auto
qed

definition sample_server_codes :: server_codes where
  "sample_server_codes =
     \<lparr>sc_account = sample_account_codes, sc_sha256 = to_sha256 sample_tools, sc_parse_block_hash = (\<lambda>_. Some 9),
      sc_from_hex = (\<lambda>_. None), sc_parse_request = (\<lambda>_. Inr (JPosInt 1, ''get_block_template'', JNull))\<rparr>"

definition sample_server :: "unit server" where
  "sample_server = \<lparr>sv_chain = sample_live, sv_rules = sample_rules, sv_sidechain_id = 2\<rparr>"

lemma sample_get_template:
  "\<exists>v s'. get_block_template sample_server_codes sample_server (sample_process, ()) = (Inr v, s')"
proof -
  have tip: "ch_tip sample_live (sample_process, ()) = (Inr (tip_of fake_chain 200), (sample_process, ()))"
    by (simp add: Live_def on_world_def action_err_def sample_bmm_node_def sample_node_def tip_of_def fake_chain_def)
  have pub: "publish_one sample_live p s = (Inr (), s)" for p s
    by (cases s) (simp add: publish_one_def perform_def Live_def on_world_def publish_pairs_def action_err_def
        sample_bmm_node_def pure_def Bmm.held_def)
  show ?thesis
    by (simp add: get_block_template_def sample_server_def perform_def tip action_err_def sample_template result_of_def
        pub pure_def published_def update_memory_def on_memory_def template_json_def BlockJson_new_def try_from_def)
qed

lemma template_connects_witness:
  "\<exists>v s' pair. get_block_template sample_server_codes sample_server (sample_process, ()) = (Inr v, s') \<and>
     pr_payee pair = 7 \<and>
     json_get ''critical_hash'' v = JString (hex_encode (array_bytes (Pair_commitment (to_sha256 sample_tools) pair)))"
proof -
  obtain v s' where out: "get_block_template sample_server_codes sample_server (sample_process, ()) = (Inr v, s')"
    using sample_get_template by blast
  have mem: "memory_ok sha (pc_memory (fst (sample_process, ())))"
    "unat (bm_remembered (pc_memory (fst (sample_process, ())))) + 1 < 2 ^ 64"
    "fees_ok sample_rules (pc_memory (fst (sample_process, ())))" for sha
    using memory_ok_default
    by (simp_all add: sample_process_def memory_ok_def BmmMemory_default_def fees_ok_def in_bounds_def sample_rules_def
        settings_rules_def sample_bmm_settings_def)
  have c: "sv_chain sample_server = Live sample_tools (sc_account sample_server_codes) sample_bmm_node sample_bmm_settings"
    "account_codes_ok (sc_account sample_server_codes)" "sv_rules sample_server = sample_rules"
    "sc_sha256 sample_server_codes = to_sha256 sample_tools" "ru_payee sample_rules = 7"
    using sample_account_codes_ok
    by (simp_all add: sample_server_def sample_server_codes_def sample_rules_def settings_rules_def)
  show ?thesis
    using template_connects [OF c(1,2) mem(1,2) mem(3) [folded c(3)] out] out unfolding c(3-5) by blast
qed

section \<open>The error codes\<close>

definition server_methods :: "string list" where
  "server_methods =
     [''get_block_template'', ''connect_block'', ''get_bmm_inclusions'', ''template_valid'', ''getblockcount'']"

text \<open>An action whose errors all have the code, or only those that it gives before its first call.\<close>

definition fails_with :: "int \<Rightarrow> ('s, ServerError, 'a) act \<Rightarrow> bool" where
  "fails_with code m \<longleftrightarrow> (\<forall>s e s'. m s = (Inl e, s') \<longrightarrow> sr_code e = code)"

named_theorems fails_intro

lemma fails_basic [fails_intro]:
  "fails_with c (return x)" "fails_with c (on_memory f)" "fails_with c (update_memory g)" "fails_with c (result_of n)"
  by (auto simp: fails_with_def return_def on_memory_def update_memory_def result_of_def split: prod.splits)

lemma action_err_Inl: "action_err f m s = (Inl e, s') \<longleftrightarrow> (\<exists>e'. m s = (Inl e', s') \<and> e = f e')"
  by (cases "m s"; cases "fst (m s)") (auto simp: action_err_def)

lemma perform_Inl:
  "perform m k s = (Inl e, s') \<longleftrightarrow> m s = (Inl e, s') \<or> (\<exists>x s1. m s = (Inr x, s1) \<and> k x s1 = (Inl e, s'))"
  by (cases "m s"; cases "fst (m s)") (auto simp: perform_def)

lemma pure_Inl: "pure r s = (Inl e, s') \<longleftrightarrow> r = Inl e \<and> s' = s"
  by (auto simp: pure_def)

lemma return_Inl: "return x s \<noteq> (Inl e, s')"
  by (simp add: return_def)

lemma fails_bmm [fails_intro]: "fails_with NOT_READY (action_err of_bmm_error m)"
  by (auto simp: fails_with_def action_err_Inl of_bmm_error_def not_ready_def)

lemma fails_pure [fails_intro]: "(\<And>e. r = Inl e \<Longrightarrow> sr_code e = c) \<Longrightarrow> fails_with c (pure r)"
  by (simp add: fails_with_def pure_def)

lemma fails_perform [fails_intro]:
  "fails_with c m \<Longrightarrow> (\<And>x. fails_with c (k x)) \<Longrightarrow> fails_with c (perform m k)"
  unfolding fails_with_def perform_Inl by blast

lemma fails_cases [fails_intro]:
  "fails_with c m \<Longrightarrow> fails_with c m' \<Longrightarrow> fails_with c (if b then m else m')"
  "fails_with c m \<Longrightarrow> (\<And>x. fails_with c (f x)) \<Longrightarrow> fails_with c (case x of None \<Rightarrow> m | Some x \<Rightarrow> f x)"
  "(\<And>x y. fails_with c (g x y)) \<Longrightarrow> fails_with c (case z of (x, y) \<Rightarrow> g x y)"
  by (simp_all split: option.splits prod.splits)

lemma bad_parameters:
  "block_and_hash v = Inl e \<Longrightarrow> sr_code e = INVALID_PARAMS" "one_string v = Inl e \<Longrightarrow> sr_code e = INVALID_PARAMS"
  "one_block v = Inl e \<Longrightarrow> sr_code e = INVALID_PARAMS" "BlockJson_pair ac b = Inl e \<Longrightarrow> sr_code e = INVALID_PARAMS"
  "server_block_hash sc text = Inl e \<Longrightarrow> sr_code e = INVALID_PARAMS"
  "ok_or x (invalid_params message) Inr = Inl e \<Longrightarrow> sr_code e = INVALID_PARAMS"
  by (auto simp: block_and_hash_def one_string_def one_block_def bad_params_def invalid_params_def BlockJson_pair_def
      base58_key_def server_block_hash_def ok_or_def attempt_def split: json.splits list.splits option.splits sum.splits)

text \<open>The errors of a method: of its parameters, before any call, and else that the daemon is not ready.\<close>

definition parse_error :: "ServerError \<Rightarrow> 's \<Rightarrow> 's \<Rightarrow> bool" where
  "parse_error e s s' \<longleftrightarrow> sr_code e = INVALID_PARAMS \<and> s' = s"

definition plain_errors :: "('s, ServerError, 'a) act \<Rightarrow> bool" where
  "plain_errors m \<longleftrightarrow> (\<forall>s e s'. m s = (Inl e, s') \<longrightarrow> parse_error e s s' \<or> sr_code e = NOT_READY)"

named_theorems plain_intro

lemma plain_parse [plain_intro]:
  "(\<And>e. r = Inl e \<Longrightarrow> sr_code e = INVALID_PARAMS) \<Longrightarrow> (\<And>x. plain_errors (k x)) \<Longrightarrow>
   plain_errors (perform (pure r) k)"
  by (cases r) (auto simp: plain_errors_def parse_error_def pure_def)

lemma plain_cases [plain_intro]: "(\<And>x y. plain_errors (g x y)) \<Longrightarrow> plain_errors (case z of (x, y) \<Rightarrow> g x y)"
  by (simp split: prod.splits)

lemma plain_ready: "fails_with NOT_READY m \<Longrightarrow> plain_errors m"
  unfolding plain_errors_def fails_with_def by blast

lemma plain_return [plain_intro]: "plain_errors m \<Longrightarrow> plain_errors (perform m (\<lambda>x. return (f x)))"
  by (auto simp: plain_errors_def perform_Inl return_Inl)

lemma plain_methods [plain_intro]:
  "plain_errors (connect_block sc sv b text)" "plain_errors (get_bmm_inclusions sc sv text)"
  "plain_errors (template_valid sc sv b)"
  unfolding connect_block_def get_bmm_inclusions_def template_valid_def Let_def
  by ((intro plain_intro; (erule bad_parameters)?), intro plain_ready fails_intro)+

lemma template_refused:
  assumes "template ch rules tip s = (Inl (SettledAlready h), s')"
  shows "h = ucast (snd tip) + 1 \<and> (\<exists>cfg s0 s1. ch_config ch s0 = (Inr cfg, s1) \<and> h < bmm_next_height cfg)"
  using assms unfolding template_def template_fees_def
  by (auto simp: perform_Inl action_err_Inl action_err_iff pure_Inl return_Inl on_memory_def Let_def ok_or_def
      split: if_splits option.splits prod.splits) blast

definition settled_error :: "'w server \<Rightarrow> ServerError \<Rightarrow> 'w bmm_state \<Rightarrow> bool" where
  "settled_error sv e s \<longleftrightarrow> sr_code e = SETTLED \<and>
     (\<exists>tip s1 cfg s2 s3. ch_tip (sv_chain sv) s = (Inr tip, s1) \<and> ch_config (sv_chain sv) s2 = (Inr cfg, s3) \<and>
        ucast (snd tip) + 1 < bmm_next_height cfg)"


lemma not_ready_codes:
  "published r = Inl e \<Longrightarrow> sr_code e = NOT_READY" "template_json sc sid te = Inl e \<Longrightarrow> sr_code e = NOT_READY"
  by (auto simp: published_def of_bmm_error_def not_ready_def template_json_def BlockJson_new_def attempt_def ok_or_def
      split: sum.splits BmmError.splits if_splits option.splits)

lemma get_block_template_error:
  assumes "get_block_template sc sv s = (Inl e, s')"
  shows "sr_code e = NOT_READY \<or> settled_error sv e s"
proof -
  let ?rest = "\<lambda>te. perform (result_of (publish_one (sv_chain sv) (te_pair te))) (\<lambda>r.
     perform (pure (published r)) (\<lambda>_.
     perform (update_memory (remember (sc_sha256 sc) (te_pair te))) (\<lambda>_.
     pure (template_json sc (sv_sidechain_id sv) te))))"
  have rest: "fails_with NOT_READY (?rest te)" for te
    by (intro fails_intro) (erule not_ready_codes)+
  consider "action_err of_bmm_error (ch_tip (sv_chain sv)) s = (Inl e, s')"
    | tip s1 refusal where "ch_tip (sv_chain sv) s = (Inr tip, s1)"
        "template (sv_chain sv) (sv_rules sv) tip s1 = (Inl refusal, s')" "e = of_no_template refusal"
    | te s2 where "?rest te s2 = (Inl e, s')"
    using assms unfolding get_block_template_def perform_Inl [of "action_err _ _"]
    by (auto simp: action_err_iff action_err_Inl)
  then show ?thesis
  proof cases
    case 1
    then show ?thesis using fails_bmm by (metis fails_with_def)
  next
    case 2
    show ?thesis
    proof (cases "\<exists>h. refusal = SettledAlready h")
      case True
      then obtain h where h: "refusal = SettledAlready h" by blast
      then show ?thesis
        using 2 template_refused [of "sv_chain sv" "sv_rules sv" tip s1 h s']
        unfolding settled_error_def by (auto simp: of_no_template_def) blast
    next
      case False
      then show ?thesis using 2 by (cases refusal) (auto simp: of_no_template_def not_ready_def)
    qed
  next
    case 3
    then show ?thesis using rest [of te] unfolding fails_with_def by blast
  qed
qed

lemma plain_calls:
  "plain_errors (server_call sc sv ''connect_block'' params)"
  "plain_errors (server_call sc sv ''get_bmm_inclusions'' params)"
  "plain_errors (server_call sc sv ''template_valid'' params)"
  "plain_errors (server_call sc sv ''getblockcount'' params)"
  by (simp_all add: server_call_def)
    ((rule plain_parse, erule bad_parameters, intro plain_intro)+, intro plain_ready fails_intro)

lemma server_plain:
  assumes "meth \<in> set server_methods"
  shows "meth = ''get_block_template'' \<or> plain_errors (server_call sc sv meth params)"
proof -
  have "\<forall>m \<in> set server_methods. m = ''get_block_template'' \<or> plain_errors (server_call sc sv m params)"
    unfolding server_methods_def list.set by (simp only: ball_simps plain_calls simp_thms)
  then show ?thesis using assms by (rule bspec)
qed



end
