(* ===== verification/Command_Args.thy ===== *)
theory Command_Args
  imports Bmm_Loop Books Migrate Genesis_Text Deposit_Address
begin

text \<open>
  What the commands of the daemon read from their arguments (\<^verbatim>\<open>daemon/src/main.rs\<close>): keys, hashes, the
  declaration and the request that a miner gets, with the errors of a command, and the seed phrases
  (\<^verbatim>\<open>daemon/src/seed.rs\<close>). A text is its UTF-8 bytes.
\<close>

section \<open>Errors\<close>

datatype SeedError = BadMnemonic | Derive | AccountTooLarge u32

datatype CliError =
    CliNotAPubkey string | CliWrongHashLength string nat nat | CliNotHex string string
  | CliBitcoinAddress NetworkAddressError | CliNoOracleKey path | CliNoIdentityKey path
  | CliRead path io_error | CliSeed SeedError | CliWrite path io_error
  | CliEmptyBlockRecord | CliNoCommitment | CliEnforcer EnforcerError | CliRpc string RpcError
  | CliBridge LayoutError | CliVaultTooLarge u64 | CliPeg PegError | CliBmm BmmError
  | CliCredit CreditError | CliGenesis GenesisError | CliMigrate MigrateError | CliBooks BooksError
  | CliBooksOpen | CliFeeBelowQuote u64 u64 | CliVaultShort | CliBadState path | CliNoProgramId
  | CliNoSlot | CliNoBidBlock u64 u64

section \<open>Hashes in the arguments\<close>

text \<open>\<^verbatim>\<open>u8::from_str_radix(text, 16)\<close>: one sign may come first, and only a plus for an unsigned number.\<close>

fun radix16_digits :: "u8 \<Rightarrow> string \<Rightarrow> u8 option" where
  "radix16_digits n [] = Some n"
| "radix16_digits n (c # cs) =
     (case to_digit16 c of
        None \<Rightarrow> None
      | Some d \<Rightarrow>
          (case checked_mul n 16 of
             None \<Rightarrow> None
           | Some m \<Rightarrow> (case checked_add m (word_of_nat d) of None \<Rightarrow> None | Some k \<Rightarrow> radix16_digits k cs)))"

definition from_str_radix16 :: "string \<Rightarrow> u8 option" where
  "from_str_radix16 text =
     (case text of
        [] \<Rightarrow> None
      | [c] \<Rightarrow> if c = CHR ''+'' \<or> c = CHR ''-'' then None else radix16_digits 0 text
      | c # rest \<Rightarrow> radix16_digits 0 (if c = CHR ''+'' then rest else text))"

text \<open>The loop over the pairs of characters, which writes each byte at its index.\<close>

fun hash_pairs :: "string \<Rightarrow> string \<Rightarrow> nat \<Rightarrow> bytes \<Rightarrow> string list \<Rightarrow> CliError + bytes" where
  "hash_pairs val field_name index out [] = Inr out"
| "hash_pairs val field_name index out (pair # pairs) =
     ok_or (from_utf8 (text_bytes pair)) (CliNotHex field_name val) (\<lambda>text.
     ok_or (from_str_radix16 text) (CliNotHex field_name val) (\<lambda>b.
     hash_pairs val field_name (Suc index) (out[index := b]) pairs))"

definition fixed_hash :: "nat \<Rightarrow> string \<Rightarrow> string \<Rightarrow> CliError + bytes" where
  "fixed_hash n val field_name =
     (if val = [] then Inr (replicate n 0)
      else if length val \<noteq> n * 2 then Inl (CliWrongHashLength field_name (n * 2) (length val))
      else hash_pairs val field_name 0 (replicate n 0) (chunks 2 val))"

definition parse_pubkey :: "account_codes \<Rightarrow> string \<Rightarrow> CliError + pubkey" where
  "parse_pubkey ac text = ok_or (ac_parse_key ac text) (CliNotAPubkey text) Inr"

section \<open>The declaration of the arguments\<close>

record DeclarationArgs =
  da_title :: string
  da_description :: string
  da_hashid1 :: string
  da_hashid2 :: string

definition args_declaration :: "DeclarationArgs \<Rightarrow> CliError + Declaration" where
  "args_declaration a =
     attempt (fixed_hash 32 (da_hashid1 a) ''hashid1'') (\<lambda>hash_id_1.
     attempt (fixed_hash 20 (da_hashid2 a) ''hashid2'') (\<lambda>hash_id_2.
     map_err CliEnforcer
       (with_hashes (text_bytes (da_title a)) (text_bytes (da_description a)) hash_id_1 hash_id_2)))"

text \<open>The text of a field of the declaration.\<close>

definition text_of :: "bytes \<Rightarrow> string" where
  "text_of bs = map (\<lambda>b. char_of (unat b)) bs"

definition activation_request :: "(bytes \<Rightarrow> array32) \<Rightarrow> u8 \<Rightarrow> Declaration \<Rightarrow> json" where
  "activation_request sha256d slot d =
     (let hash = JString (proposal_hash sha256d d);
          declaration = JString (hex_encode (declaration_bytes d));
          title = JString (text_of (dl_title d));
          description = JString (text_of (dl_description d));
          hashid1 = JString (hex_encode (dl_hash_id_1 d));
          hashid2 = JString (hex_encode (dl_hash_id_2 d));
          number = JPosInt (ucast slot)
      in JObject
        [(''sidechain'', JObject
           [(''slot'', number), (''title'', title), (''description'', description), (''version'', JPosInt 0),
            (''hashid1'', hashid1), (''hashid2'', hashid2), (''declaration_hex'', declaration),
            (''proposal_hash'', hash)]),
         (''bitwindow'', JObject
           [(''method'', JString ''drivechain.v1.DrivechainService/ProposeSidechain''),
            (''request'', JObject
              [(''slot'', number), (''title'', title), (''description'', description), (''version'', JPosInt 0),
               (''hashid1'', hashid1), (''hashid2'', hashid2)])]),
         (''enforcer'', JObject
           [(''propose'', JObject
              [(''method'', JString ''cusf.mainchain.v1.BlockProducerService/CreateSidechainProposal''),
               (''request'', JObject
                 [(''sidechain_id'', number),
                  (''declaration'', JObject [(''v0'', JObject
                    [(''title'', title), (''description'', description),
                     (''hash_id_1'', JObject [(''hex'', hashid1)]),
                     (''hash_id_2'', JObject [(''hex'', hashid2)])])])])]),
            (''ack'', JObject
              [(''method'', JString ''cusf.mainchain.v1.BlockProducerService/SetSidechainAck''),
               (''request'', JObject
                 [(''sidechain_number'', number), (''description_sha256d_hash'', JObject [(''hex'', hash)]),
                  (''ack'', JBool True)])])]),
         (''coinbase'', JObject
           [(''m1_propose_script_hex'', JString (m1_script slot d)),
            (''m2_ack_script_hex'', JString (m2_script sha256d slot d))])])"

section \<open>Seed phrases\<close>

text \<open>
  BIP39 and the derivation are libraries outside the repository: a phrase parses to a mnemonic, a mnemonic
  and a passphrase give a seed, and a key derives along a path of child numbers.
\<close>

record ('m, 'c, 'k) seed_codes =
  sd_parse :: "string \<Rightarrow> 'm option"
  sd_to_seed :: "'m \<Rightarrow> string \<Rightarrow> bytes"
  sd_hardened :: "u32 \<Rightarrow> 'c option"
  sd_from_seed :: "bytes \<Rightarrow> 'k option"
  sd_derive :: "'k \<Rightarrow> 'c list \<Rightarrow> 'k option"
  sd_secret :: "'k \<Rightarrow> array32"
  sd_public :: "array32 \<Rightarrow> pubkey"

definition SOLANA_COIN_TYPE :: u32 where "SOLANA_COIN_TYPE = 501"

text \<open>\<^verbatim>\<open>str::trim\<close>: the UTF-8 forms of the white space of Unicode.\<close>

definition white_space :: "bytes list" where
  "white_space =
     [[9], [10], [11], [12], [13], [32], [0xc2, 0x85], [0xc2, 0xa0], [0xe1, 0x9a, 0x80],
      [0xe2, 0x80, 0x80], [0xe2, 0x80, 0x81], [0xe2, 0x80, 0x82], [0xe2, 0x80, 0x83], [0xe2, 0x80, 0x84],
      [0xe2, 0x80, 0x85], [0xe2, 0x80, 0x86], [0xe2, 0x80, 0x87], [0xe2, 0x80, 0x88], [0xe2, 0x80, 0x89],
      [0xe2, 0x80, 0x8a], [0xe2, 0x80, 0xa8], [0xe2, 0x80, 0xa9], [0xe2, 0x80, 0xaf], [0xe2, 0x81, 0x9f],
      [0xe3, 0x80, 0x80]]"

definition starts_with :: "bytes \<Rightarrow> bytes \<Rightarrow> bool" where
  "starts_with prefix bs \<longleftrightarrow> take (length prefix) bs = prefix"

function strip_front :: "bytes list \<Rightarrow> bytes \<Rightarrow> bytes" where
  "strip_front marks bs =
     (case List.find (\<lambda>m. m \<noteq> [] \<and> starts_with m bs) marks of
        None \<Rightarrow> bs
      | Some m \<Rightarrow> strip_front marks (drop (length m) bs))"
  by pat_completeness auto

termination strip_front
proof (relation "measure (\<lambda>(marks, bs). length bs)")
  fix marks bs m
  assume "List.find (\<lambda>m. m \<noteq> [] \<and> starts_with m bs) marks = Some m"
  then have m: "m \<noteq> []" "take (length m) bs = m" by (auto simp: find_Some_iff starts_with_def)
  then have "bs \<noteq> []" by auto
  then show "((marks, drop (length m) bs), (marks, bs)) \<in> measure (\<lambda>(marks, bs). length bs)"
    using m(1) by (simp add: length_greater_0_conv)
qed simp

declare strip_front.simps [simp del]

definition trim :: "string \<Rightarrow> string" where
  "trim text =
     text_of (rev (strip_front (map rev white_space) (rev (strip_front white_space (text_bytes text)))))"

definition derivation_path :: "('m, 'c, 'k) seed_codes \<Rightarrow> u32 \<Rightarrow> SeedError + 'c list" where
  "derivation_path sd account =
     (let hardened = (\<lambda>index. ok_or (sd_hardened sd index) (AccountTooLarge index) Inr) in
      attempt (hardened 44) (\<lambda>purpose.
      attempt (hardened SOLANA_COIN_TYPE) (\<lambda>coin.
      attempt (hardened account) (\<lambda>number.
      attempt (hardened 0) (\<lambda>change. Inr [purpose, coin, number, change])))))"

definition keypair_from_seed :: "('m, 'c, 'k) seed_codes \<Rightarrow> bytes \<Rightarrow> u32 \<Rightarrow> SeedError + array32" where
  "keypair_from_seed sd seed account =
     ok_or (sd_from_seed sd seed) Derive (\<lambda>master.
     attempt (derivation_path sd account) (\<lambda>steps.
     ok_or (sd_derive sd master steps) Derive (\<lambda>derived. Inr (sd_secret sd derived))))"

definition keypair_from_mnemonic ::
  "('m, 'c, 'k) seed_codes \<Rightarrow> string \<Rightarrow> string \<Rightarrow> u32 \<Rightarrow> SeedError + array32" where
  "keypair_from_mnemonic sd phrase passphrase account =
     ok_or (sd_parse sd (trim phrase)) BadMnemonic (\<lambda>mnemonic.
     keypair_from_seed sd (sd_to_seed sd mnemonic passphrase) account)"

definition pubkey_from_mnemonic ::
  "('m, 'c, 'k) seed_codes \<Rightarrow> string \<Rightarrow> string \<Rightarrow> u32 \<Rightarrow> SeedError + pubkey" where
  "pubkey_from_mnemonic sd phrase passphrase account =
     attempt (keypair_from_mnemonic sd phrase passphrase account) (\<lambda>secret. Inr (sd_public sd secret))"

text \<open>The 64 bytes of a keypair file: the secret, then the public key.\<close>

definition keypair_file_bytes :: "('m, 'c, 'k) seed_codes \<Rightarrow> array32 \<Rightarrow> bytes" where
  "keypair_file_bytes sd secret = array_bytes secret @ array_bytes (sd_public sd secret)"

end
