(* ===== verification/Commands.thy ===== *)
theory Commands
  imports Command_Args
begin

text \<open>
  The commands of the daemon (\<^verbatim>\<open>daemon/src/main.rs\<close>), each as one action on the lines that it printed and on
  the world. The parser of the arguments is a library outside the repository: a command starts from its
  parsed arguments. Lines on the error stream are left out.
\<close>

section \<open>The machine\<close>

text \<open>The value that a miner takes for its votes; its number is in the generated protocol.\<close>

datatype AckPolicy = AckNone | AckNewSlots

text \<open>The files. A keypair file gives the pubkey of its signer.\<close>

record 'w disk =
  dk_read_to_string :: "path \<Rightarrow> ('w, io_error, string) act"
  dk_write :: "path \<Rightarrow> string \<Rightarrow> ('w, io_error, unit) act"
  dk_create_new :: "path \<Rightarrow> nat \<Rightarrow> ('w, io_error, unit) act"
  dk_set_permissions :: "path \<Rightarrow> nat \<Rightarrow> ('w, io_error, unit) act"
  dk_write_all :: "path \<Rightarrow> bytes \<Rightarrow> ('w, io_error, unit) act"
  dk_sync_all :: "path \<Rightarrow> ('w, io_error, unit) act"
  dk_read_keypair_file :: "path \<Rightarrow> ('w, unit, pubkey) act"

text \<open>
  The calls of the enforcer that only a command makes; \<open>cm_from_shared\<close> is the URL parser of the transport,
  and \<open>cm_sleep\<close> is one second of the world.
\<close>

record 'w machine =
  cm_bmm :: "'w bmm_node"
  cm_halted :: "'w halted_node"
  cm_disk :: "'w disk"
  cm_get_balance :: "CommitmentConfig \<Rightarrow> pubkey \<Rightarrow> ('w, RpcError, u64) act"
  cm_from_shared :: "string \<Rightarrow> unit option"
  cm_check_network :: "PegNetwork \<Rightarrow> ('w, EnforcerError, unit) act"
  cm_submit_sidechain_proposal :: "u32 \<Rightarrow> Declaration \<Rightarrow> ('w, EnforcerError, unit) act"
  cm_sidechain_proposals :: "('w, EnforcerError, ProposalInfo list) act"
  cm_set_sidechain_ack :: "u32 \<Rightarrow> string \<Rightarrow> bool \<Rightarrow> ('w, EnforcerError, unit) act"
  cm_set_ack_all_proposals :: "AckPolicy \<Rightarrow> ('w, EnforcerError, unit) act"
  cm_generate_to_address :: "u32 \<Rightarrow> string \<Rightarrow> ('w, EnforcerError, array32 list) act"
  cm_new_wallet_address :: "('w, EnforcerError, string) act"
  cm_wallet_balance :: "('w, EnforcerError, u64 \<times> u64) act"
  cm_create_deposit :: "u32 \<Rightarrow> string \<Rightarrow> u64 \<Rightarrow> u64 \<Rightarrow> ('w, EnforcerError, array32) act"
  cm_ctip :: "u32 \<Rightarrow> ('w, EnforcerError, Ctip option) act"
  cm_headers_and_commitments :: "array32 \<Rightarrow> u32 \<Rightarrow> ('w, EnforcerError, nat \<times> nat) act"
  cm_sleep :: "'w \<Rightarrow> 'w"

abbreviation cm_node :: "'w machine \<Rightarrow> 'w node" where
  "cm_node cm \<equiv> bn_node (cm_bmm cm)"

text \<open>The codes: the ones of the daemon, base58 and base64, the JSON of a state file, and the addresses.\<close>

record cli_codes =
  cc_tools :: tools
  cc_accounts :: account_codes
  cc_address :: codes
  cc_sha256d :: "bytes \<Rightarrow> array32"
  cc_parse_address :: "string \<Rightarrow> (bytes \<times> (BitcoinNetwork \<Rightarrow> bool)) option"
  cc_state_to_json :: "State \<Rightarrow> string option"
  cc_state_of_json :: "string \<Rightarrow> State option"
  cc_json_text :: "json \<Rightarrow> string"

abbreviation cc_find_pda :: "cli_codes \<Rightarrow> find_pda" where
  "cc_find_pda cc \<equiv> to_find_pda (cc_tools cc)"

abbreviation cc_sha256 :: "cli_codes \<Rightarrow> bytes \<Rightarrow> array32" where
  "cc_sha256 cc \<equiv> to_sha256 (cc_tools cc)"

abbreviation key_text :: "cli_codes \<Rightarrow> pubkey \<Rightarrow> string" where
  "key_text cc \<equiv> ac_key_text (cc_accounts cc)"

abbreviation arg_key :: "cli_codes \<Rightarrow> string \<Rightarrow> CliError + pubkey" where
  "arg_key cc \<equiv> parse_pubkey (cc_accounts cc)"

text \<open>A command runs on the lines on its standard output and on the world.\<close>

type_synonym ('w, 'a) command = "(string list \<times> 'w, CliError, 'a) act"

definition say :: "string \<Rightarrow> ('w, unit) command" where
  "say line s = (Inr (), (fst s @ [line], snd s))"

fun say_all :: "string list \<Rightarrow> ('w, unit) command" where
  "say_all [] = return ()"
| "say_all (line # lines) = perform (say line) (\<lambda>_. say_all lines)"

abbreviation call :: "('e \<Rightarrow> CliError) \<Rightarrow> ('w, 'e, 'a) act \<Rightarrow> ('w, 'a) command" where
  "call f m \<equiv> on_world (action_err f m)"

lemma say_iff [result_iff]: "say line s = (Inr x, s') \<longleftrightarrow> s' = (fst s @ [line], snd s)"
  by (auto simp: say_def)

lemma say_all_lines: "say_all lines s = (Inr (), (fst s @ lines, snd s))"
  by (induction lines arbitrary: s) (simp_all add: return_def perform_def say_def)

definition path_text :: "path \<Rightarrow> string" where
  "path_text p =
     (if pt_dir p = [] then [] else pt_dir p @ ''/'') @ pt_stem p @
     (case pt_extension p of None \<Rightarrow> [] | Some e \<Rightarrow> ''.'' @ e)"

definition read_keypair :: "'w machine \<Rightarrow> CliError \<Rightarrow> path \<Rightarrow> ('w, pubkey) command" where
  "read_keypair cm e p = call (\<lambda>_. e) (dk_read_keypair_file (cm_disk cm) p)"

definition send_one ::
  "'w machine \<Rightarrow> pubkey \<Rightarrow> Instruction \<Rightarrow> string \<Rightarrow> ('w, unit) command" where
  "send_one cm payer instruction name =
     perform (call (CliRpc ''getLatestBlockhash'') (nd_get_latest_blockhash (cm_node cm))) (\<lambda>blockhash.
     call (CliRpc name) (nd_send_and_confirm (cm_node cm)
       \<lparr>st_instructions = [instruction], st_payer = payer, st_blockhash = blockhash\<rparr>))"

section \<open>The enforcer of a command\<close>

record EnforcerArgs =
  ea_network :: PegNetwork
  ea_enforcer_url :: string
  ea_slot :: u8

definition open_enforcer :: "'w machine \<Rightarrow> EnforcerArgs \<Rightarrow> ('w, unit) command" where
  "open_enforcer cm a =
     perform (pure (map_err CliEnforcer
       (Enforcer_connect (cm_from_shared cm) (ea_enforcer_url a) (ucast (ea_slot a))))) (\<lambda>_.
     call CliEnforcer (cm_check_network cm (ea_network a)))"

abbreviation slot_number :: "EnforcerArgs \<Rightarrow> string" where
  "slot_number a \<equiv> decimal (unat (ea_slot a))"

definition propose_slot :: "cli_codes \<Rightarrow> 'w machine \<Rightarrow> EnforcerArgs \<Rightarrow> DeclarationArgs \<Rightarrow> ('w, unit) command" where
  "propose_slot cc cm a declared =
     perform (pure (args_declaration declared)) (\<lambda>declared.
     perform (open_enforcer cm a) (\<lambda>_.
     perform (call CliEnforcer (cm_submit_sidechain_proposal cm (ucast (ea_slot a)) declared)) (\<lambda>_.
     let hash = proposal_hash (cc_sha256d cc) declared in
     say_all
       [''the proposal for slot '' @ slot_number a @ '' waits for the next block'',
        ''proposal '' @ hash,
        ''run `ack-slot --slot '' @ slot_number a @ ''` after that block, to start the vote''])))"

definition ack_slot ::
  "cli_codes \<Rightarrow> 'w machine \<Rightarrow> EnforcerArgs \<Rightarrow> DeclarationArgs \<Rightarrow> bool \<Rightarrow> bool \<Rightarrow> ('w, unit) command" where
  "ack_slot cc cm a declared stop any =
     perform (pure (args_declaration declared)) (\<lambda>declared.
     perform (open_enforcer cm a) (\<lambda>_.
     perform (call CliEnforcer (cm_sidechain_proposals cm)) (\<lambda>proposals.
     case List.find (\<lambda>p. pi_sidechain_number p = ucast (ea_slot a)) proposals of
       None \<Rightarrow> say (''no block carries a proposal for slot '' @ slot_number a @ '' yet'')
     | Some p \<Rightarrow>
         let mine = proposal_hash (cc_sha256d cc) declared in
         if pi_description_hash p \<noteq> mine \<and> \<not> any
         then say_all
           [''slot '' @ slot_number a @ '' carries proposal '' @ pi_description_hash p,
            ''this title and this description give '' @ mine,
            ''that proposal belongs to somebody else. Pass --any to vote anyway.'']
         else
           perform (call CliEnforcer
             (cm_set_sidechain_ack cm (ucast (ea_slot a)) (pi_description_hash p) (\<not> stop))) (\<lambda>_.
           say_all
             [''the miner '' @ (if stop then ''stops'' else ''starts'') @ '' the vote for slot '' @ slot_number a @
                '', proposal '' @ pi_description_hash p,
              ''it holds '' @ decimal (unat (pi_vote_count p)) @ '' votes today'']))))"

definition mine_command :: "'w machine \<Rightarrow> EnforcerArgs \<Rightarrow> u32 \<Rightarrow> string \<Rightarrow> bool \<Rightarrow> ('w, unit) command" where
  "mine_command cm a blocks address ack_new_slots =
     perform (open_enforcer cm a) (\<lambda>_.
     perform (call CliEnforcer
       (cm_set_ack_all_proposals cm (if ack_new_slots then AckNewSlots else AckNone))) (\<lambda>_.
     perform (call CliEnforcer (cm_generate_to_address cm blocks address)) (\<lambda>hashes.
     say_all (map hash_text hashes))))"

definition wallet_address :: "'w machine \<Rightarrow> EnforcerArgs \<Rightarrow> ('w, unit) command" where
  "wallet_address cm a =
     perform (open_enforcer cm a) (\<lambda>_.
     perform (call CliEnforcer (cm_wallet_balance cm)) (\<lambda>balance.
     perform (call CliEnforcer (cm_new_wallet_address cm)) say))"

definition deposit_command ::
  "cli_codes \<Rightarrow> 'w machine \<Rightarrow> EnforcerArgs \<Rightarrow> string \<Rightarrow> u64 \<Rightarrow> u64 \<Rightarrow> ('w, unit) command" where
  "deposit_command cc cm a key sats fee_sats =
     perform (pure (arg_key cc key)) (\<lambda>key.
     perform (open_enforcer cm a) (\<lambda>_.
     let recipient = key_text cc key in
     perform (call CliEnforcer (cm_create_deposit cm (ucast (ea_slot a)) recipient sats fee_sats)) (\<lambda>txid.
     say_all [''txid '' @ hash_text txid, ''the mainchain carries '' @ recipient])))"

definition ecash_walk :: "'w machine \<Rightarrow> EnforcerArgs \<Rightarrow> u32 \<Rightarrow> ('w, unit) command" where
  "ecash_walk cm a max_ancestors =
     perform (open_enforcer cm a) (\<lambda>_.
     perform (call CliEnforcer (nd_tip (cm_node cm))) (\<lambda>(hash, height).
     perform (call CliEnforcer (cm_headers_and_commitments cm hash max_ancestors)) (\<lambda>(headers, commitments).
     say_all
       [''tip height '' @ decimal (unat height), ''headers    '' @ decimal headers,
        ''commitments '' @ decimal commitments])))"

definition show_balance :: "'w machine \<Rightarrow> EnforcerArgs \<Rightarrow> ('w, unit) command" where
  "show_balance cm a =
     perform (open_enforcer cm a) (\<lambda>_.
     perform (call CliEnforcer (cm_wallet_balance cm)) (\<lambda>(confirmed, pending).
     say_all [''confirmed '' @ number confirmed, ''pending   '' @ number pending]))"

definition ecash_tip :: "'w machine \<Rightarrow> EnforcerArgs \<Rightarrow> ('w, unit) command" where
  "ecash_tip cm a =
     perform (open_enforcer cm a) (\<lambda>_.
     perform (call CliEnforcer (nd_tip (cm_node cm))) (\<lambda>(hash, height).
     say (decimal (unat height) @ '' '' @ hash_text hash)))"

section \<open>Commands on the bridge\<close>

record WithdrawArgs =
  wa_program_id :: string
  wa_user :: path
  wa_sats :: u64
  wa_fee_sats :: "u64 option"
  wa_address :: string
  wa_network :: PegNetwork

text \<open>The daemon has its own copy of the lowest fee; theory \<open>Bridge_State\<close> has the one of the program.\<close>

definition withdraw_fee :: "u64 option \<Rightarrow> CliError + u64" where
  "withdraw_fee fee_sats =
     (let quote = MIN_FEE_SATS; fee_sats = (case fee_sats of None \<Rightarrow> quote | Some fee \<Rightarrow> fee) in
      require (\<not> fee_sats < quote) (CliFeeBelowQuote fee_sats quote) (Inr fee_sats))"

definition withdraw_command :: "cli_codes \<Rightarrow> 'w machine \<Rightarrow> WithdrawArgs \<Rightarrow> ('w, unit) command" where
  "withdraw_command cc cm a =
     perform (pure (arg_key cc (wa_program_id a))) (\<lambda>program_id.
     perform (read_keypair cm (CliNoOracleKey (wa_user a)) (wa_user a)) (\<lambda>user.
     perform (pure (map_err CliBitcoinAddress
       (script_pubkey_of (cc_parse_address cc) (wa_address a) (wa_network a)))) (\<lambda>script.
     perform (call (CliRpc ''getAccountInfo(config)'')
       (nd_get_account_data (cm_node cm) Confirmed (fst (config_pda (cc_find_pda cc) program_id)))) (\<lambda>data.
     perform (pure (map_err CliBridge (Config_decode (cc_sha256 cc) data))) (\<lambda>cfg.
     perform (pure (withdraw_fee (wa_fee_sats a))) (\<lambda>fee_sats.
     perform (pure (ok_or (checked_mul (wa_sats a) LAMPORTS_PER_SAT) (CliVaultTooLarge (wa_sats a)) Inr)) (\<lambda>lamports.
     perform (send_one cm user
       (withdraw_ix (cc_sha256 cc) (cc_find_pda cc) program_id user (withdrawal_count cfg) lamports fee_sats script)
       ''withdraw'') (\<lambda>_.
     say (''withdrawal '' @ number (withdrawal_count cfg) @ '' burns '' @ number lamports @ '' lamports, pays '' @
       number (wa_sats a - fee_sats) @ '' sats to '' @ wa_address a)))))))))"

definition float_shortfall :: "Config \<Rightarrow> u64 \<Rightarrow> u64 option" where
  "float_shortfall cfg vault =
     (case vault_surplus cfg vault of
        None \<Rightarrow> None
      | Some given \<Rightarrow> Some (saturating_sub (float_lamports cfg) given))"

definition back_float :: "cli_codes \<Rightarrow> 'w machine \<Rightarrow> string \<Rightarrow> path \<Rightarrow> ('w, unit) command" where
  "back_float cc cm program payer =
     perform (pure (arg_key cc program)) (\<lambda>program_id.
     perform (read_keypair cm (CliNoIdentityKey payer) payer) (\<lambda>payer_key.
     let vault_key = fst (vault_pda (cc_find_pda cc) program_id) in
     perform (call CliPeg (config_and_vault (cc_tools cc) (cm_node cm) program_id Processed)) (\<lambda>(cfg, vault).
     perform (pure (ok_or (float_shortfall cfg vault) CliVaultShort Inr)) (\<lambda>gift.
     if gift = 0 then say ''the float is backed, and withdrawals are open''
     else
       perform (send_one cm payer_key (transfer_ix payer_key vault_key gift) ''transfer'') (\<lambda>_.
       say (''sent '' @ number gift @ '' lamports to the vault, and withdrawals are open''))))))"

text \<open>The lines of the bridge config, the vault and the treasury.\<close>

definition state_lines :: "cli_codes \<Rightarrow> Config \<Rightarrow> u64 \<Rightarrow> u64 \<Rightarrow> string list" where
  "state_lines cc cfg vault treasury =
     [''oracle            '' @ key_text cc (oracle_key cfg),
      ''deposit high water '' @ number (deposit_high_water cfg),
      ''pegged lamports   '' @ number (pegged_lamports cfg),
      ''withdrawals       '' @ number (withdrawal_count cfg),
      ''vault lamports    '' @ number vault,
      ''treasury lamports '' @ number treasury,
      ''bmm next height   '' @ number (bmm_next_height cfg),
      ''bmm paid total    '' @ number (bmm_paid_total cfg),
      ''credited height   '' @ number (credited_height cfg),
      ''credited block    '' @ hash_text (credited_block cfg),
      ''credit index      '' @ number (credit_index cfg),
      ''credit part block '' @ hash_text (credit_part_block cfg),
      ''stranded lamports '' @ number (stranded_lamports cfg),
      ''deposit confirmations '' @ number (deposit_confirmations cfg),
      ''deposit lag       '' @ number (deposit_lag cfg),
      ''vault supply      '' @ number (vault_supply cfg),
      ''float lamports    '' @ number (float_lamports cfg),
      ''float backed      '' @ (if float_backed cfg vault then ''yes'' else ''no''),
      ''paid through      '' @ number (paid_through cfg),
      ''bundled through   '' @ number (bundled_through cfg),
      ''bundle sealed at  '' @ number (bundle_sealed_height cfg),
      ''withdrawal fee    '' @ number MIN_FEE_SATS @ '' sats'']"

record BridgeStateArgs =
  sta_program_id :: string
  sta_processed :: bool
  sta_books :: bool
  sta_network :: "PegNetwork option"
  sta_enforcer_url :: string
  sta_slot :: "u8 option"

text \<open>\<^verbatim>\<open>print!\<close> of the report, which ends its lines itself.\<close>

definition show_books ::
  "cli_codes \<Rightarrow> 'w machine \<Rightarrow> BridgeStateArgs \<Rightarrow> pubkey \<Rightarrow> CommitmentConfig \<Rightarrow> ('w, unit) command" where
  "show_books cc cm a program_id commitment =
     perform (pure (ok_or (sta_slot a) CliNoSlot Inr)) (\<lambda>slot.
     perform (pure (map_err CliEnforcer
       (Enforcer_connect (cm_from_shared cm) (sta_enforcer_url a) (ucast slot)))) (\<lambda>_.
     perform (case sta_network a of
         None \<Rightarrow> return ()
       | Some network \<Rightarrow> call CliEnforcer (cm_check_network cm network)) (\<lambda>_.
     perform (call CliBooks (read_books (cc_tools cc) (cm_node cm) (cm_ctip cm (ucast slot)) program_id commitment)) (\<lambda>books.
     perform (say (report books)) (\<lambda>_.
     if hold books then return () else pure (Inl CliBooksOpen))))))"

definition bridge_state :: "cli_codes \<Rightarrow> 'w machine \<Rightarrow> BridgeStateArgs \<Rightarrow> ('w, unit) command" where
  "bridge_state cc cm a =
     perform (pure (arg_key cc (sta_program_id a))) (\<lambda>program_id.
     let commitment = (if sta_processed a then Processed else Confirmed) in
     perform (call (CliRpc ''getAccountInfo(config)'')
       (nd_get_account_data (cm_node cm) commitment (fst (config_pda (cc_find_pda cc) program_id)))) (\<lambda>data.
     perform (pure (map_err CliBridge (Config_decode (cc_sha256 cc) data))) (\<lambda>cfg.
     perform (call (CliRpc ''getBalance(vault)'')
       (cm_get_balance cm commitment (fst (vault_pda (cc_find_pda cc) program_id)))) (\<lambda>vault.
     perform (call (CliRpc ''getBalance(treasury)'')
       (cm_get_balance cm commitment (fst (treasury_pda (cc_find_pda cc) program_id)))) (\<lambda>treasury.
     perform (say_all (state_lines cc cfg vault treasury)) (\<lambda>_.
     if \<not> sta_books a then return () else show_books cc cm a program_id commitment))))))"

definition credit_command ::
  "cli_codes \<Rightarrow> 'w machine \<Rightarrow> nat \<Rightarrow> EnforcerArgs \<Rightarrow> string \<Rightarrow> path \<Rightarrow> ('w, unit) command" where
  "credit_command cc cm turns a program payer =
     perform (pure (arg_key cc program)) (\<lambda>program_id.
     perform (read_keypair cm (CliNoIdentityKey payer) payer) (\<lambda>payer_key.
     perform (open_enforcer cm a) (\<lambda>_.
     call CliCredit (run_credit (cc_address cc) (cc_tools cc) (cm_node cm) (cm_sleep cm) program_id payer_key
       (ea_slot a) turns))))"

definition derive_command :: "cli_codes \<Rightarrow> string \<Rightarrow> ('w, unit) command" where
  "derive_command cc program =
     perform (pure (arg_key cc program)) (\<lambda>program_id.
     say_all
       [''program  '' @ key_text cc program_id,
        ''config   '' @ key_text cc (fst (config_pda (cc_find_pda cc) program_id)),
        ''vault    '' @ key_text cc (fst (vault_pda (cc_find_pda cc) program_id)),
        ''treasury '' @ key_text cc (fst (treasury_pda (cc_find_pda cc) program_id)),
        ''bmm answer '' @ key_text cc BMM_ANSWER_ID,
        ''block record '' @ key_text cc BMM_BLOCKS_ID])"

definition address_command :: "cli_codes \<Rightarrow> u8 \<Rightarrow> string \<Rightarrow> ('w, unit) command" where
  "address_command cc slot key =
     perform (pure (arg_key cc key)) (\<lambda>key. say (format_deposit_address (cc_address cc) slot key))"

definition activation_command :: "cli_codes \<Rightarrow> u8 \<Rightarrow> DeclarationArgs \<Rightarrow> ('w, unit) command" where
  "activation_command cc slot declared =
     perform (pure (args_declaration declared)) (\<lambda>declared.
     say (cc_json_text cc (activation_request (cc_sha256d cc) slot declared)))"

section \<open>Files\<close>

definition read_state :: "cli_codes \<Rightarrow> 'w machine \<Rightarrow> path \<Rightarrow> ('w, State) command" where
  "read_state cc cm p =
     perform (call (CliRead p) (dk_read_to_string (cm_disk cm) p)) (\<lambda>text.
     pure (ok_or (cc_state_of_json cc text) (CliBadState p) Inr))"

definition copied_lamports :: "State \<Rightarrow> u64" where
  "copied_lamports st =
     foldl saturating_add 0 (map snd (ms_balances st) @ map ca_lamports (ms_accounts st))"

definition migrate_lines :: "State \<Rightarrow> path \<Rightarrow> string list" where
  "migrate_lines st out =
     (let c = ms_cursor st in
      [''slot              '' @ number (ms_slot st),
       ''pegged lamports   '' @ number (cu_pegged_lamports c),
       ''credited height   '' @ number (cu_credited_height c),
       ''credited block    '' @ hash_text (cu_credited_block c),
       ''credit index      '' @ number (cu_credit_index c),
       ''deposit high water '' @ number (cu_deposit_high_water c),
       ''withdrawals       '' @ number (cu_withdrawal_count c),
       ''open withdrawals  '' @ number (saturating_sub (cu_withdrawal_count c) (cu_paid_through c)),
       ''carried accounts  '' @ decimal (length (ms_accounts st)),
       ''system accounts   '' @ decimal (length (ms_balances st)),
       ''copied lamports   '' @ number (copied_lamports st) @ '', and '' @ number (ms_fixed_lamports st) @
         '' in programs and sysvars that the genesis makes again, of a supply of '' @ number (ms_supply_lamports st),
       ''ownerless lamports '' @ number (ms_ownerless_lamports st) @ '', which no program can spend'',
       ''the state is in '' @ path_text out])"

definition migrate_state ::
  "cli_codes \<Rightarrow> 'w machine \<Rightarrow> string \<Rightarrow> path \<Rightarrow> u64 option \<Rightarrow> ('w, unit) command" where
  "migrate_state cc cm program out accept =
     perform (pure (arg_key cc program)) (\<lambda>program_id.
     perform (call CliMigrate (export (cc_accounts cc) (cc_tools cc) (cm_halted cm) program_id accept)) (\<lambda>st.
     perform (pure (ok_or (cc_state_to_json cc st) (CliBadState out) Inr)) (\<lambda>body.
     perform (call (CliWrite out) (dk_write (cm_disk cm) out body)) (\<lambda>_.
     say_all (migrate_lines st out)))))"

definition state_lamports :: "cli_codes \<Rightarrow> 'w machine \<Rightarrow> path \<Rightarrow> string \<Rightarrow> ('w, unit) command" where
  "state_lamports cc cm state_file key =
     perform (read_state cc cm state_file) (\<lambda>st.
     perform (pure (arg_key cc key)) (\<lambda>key.
     say (number (case map_of (ms_balances st) (key_text cc key) of None \<Rightarrow> 0 | Some n \<Rightarrow> n))))"

text \<open>A secret file is new, and only its owner reads it before the first byte is in it.\<close>

definition SECRET_MODE :: nat where "SECRET_MODE = 384"

definition write_secret :: "'w disk \<Rightarrow> path \<Rightarrow> bytes \<Rightarrow> ('w, io_error, unit) act" where
  "write_secret dk p body =
     perform (dk_create_new dk p SECRET_MODE) (\<lambda>_.
     perform (dk_set_permissions dk p SECRET_MODE) (\<lambda>_.
     perform (dk_write_all dk p body) (\<lambda>_.
     dk_sync_all dk p)))"

definition read_mnemonic :: "'w machine \<Rightarrow> path \<Rightarrow> ('w, string) command" where
  "read_mnemonic cm p =
     perform (call (CliRead p) (dk_read_to_string (cm_disk cm) p)) (\<lambda>text. return (trim text))"

fun seed_lines ::
  "cli_codes \<Rightarrow> ('m, 'c, 'k) seed_codes \<Rightarrow> string \<Rightarrow> u32 list \<Rightarrow> ('w, unit) command" where
  "seed_lines cc sd phrase [] = return ()"
| "seed_lines cc sd phrase (index # rest) =
     perform (pure (map_err CliSeed (pubkey_from_mnemonic sd phrase [] index))) (\<lambda>key.
     perform (say (''m/44'' @ [CHR 0x27] @ ''/501'' @ [CHR 0x27] @ ''/'' @ decimal (unat index) @ [CHR 0x27] @
       ''/0'' @ [CHR 0x27] @ ''  '' @ key_text cc key)) (\<lambda>_.
     seed_lines cc sd phrase rest))"

definition seed_pubkey ::
  "cli_codes \<Rightarrow> 'w machine \<Rightarrow> ('m, 'c, 'k) seed_codes \<Rightarrow> path \<Rightarrow> u32 \<Rightarrow> u32 \<Rightarrow> ('w, unit) command" where
  "seed_pubkey cc cm sd file account count =
     perform (read_mnemonic cm file) (\<lambda>phrase.
     seed_lines cc sd phrase
       (map word_of_nat [unat account ..< unat (saturating_add account (max count 1))]))"

definition seed_keypair ::
  "cli_codes \<Rightarrow> 'w machine \<Rightarrow> ('m, 'c, 'k) seed_codes \<Rightarrow> path \<Rightarrow> u32 \<Rightarrow> path \<Rightarrow> ('w, unit) command" where
  "seed_keypair cc cm sd file account out =
     perform (read_mnemonic cm file) (\<lambda>phrase.
     perform (pure (map_err CliSeed (keypair_from_mnemonic sd phrase [] account))) (\<lambda>secret.
     let body = cc_json_text cc
       (JArray (map (\<lambda>b. JPosInt (ucast b)) (keypair_file_bytes sd secret))) in
     perform (call (CliWrite out) (write_secret (cm_disk cm) out (text_bytes body))) (\<lambda>_.
     say_all
       [''account '' @ decimal (unat account) @ '' is '' @ key_text cc (sd_public sd secret),
        ''the keypair is in '' @ path_text out])))"

section \<open>The genesis\<close>

definition LAMPORTS_PER_SOL :: u64 where "LAMPORTS_PER_SOL = 1000000000"

record GenesisArgs =
  gn_program_id :: string
  gn_vault_sol :: u64
  gn_oracle :: string
  gn_oracle_lamports :: u64
  gn_float_lamports :: u64
  gn_bmm_skip_blocks :: u64
  gn_dex_accounts :: "path option"
  gn_bootstrap_vote :: "string option"
  gn_bootstrap_stake :: "string option"
  gn_lamports_per_byte_year :: u64
  gn_ecash_start_height :: u64
  gn_deposit_confirmations :: u64
  gn_deposit_lag :: u64
  gn_state :: "path option"
  gn_out :: path

definition optional_key :: "cli_codes \<Rightarrow> string option \<Rightarrow> CliError + pubkey option" where
  "optional_key cc text =
     (case text of None \<Rightarrow> Inr None | Some t \<Rightarrow> attempt (arg_key cc t) (\<lambda>k. Inr (Some k)))"

definition genesis_params :: "cli_codes \<Rightarrow> GenesisArgs \<Rightarrow> CliError + Params" where
  "genesis_params cc a =
     attempt (arg_key cc (gn_program_id a)) (\<lambda>program_id.
     ok_or (checked_mul (gn_vault_sol a) LAMPORTS_PER_SOL) (CliVaultTooLarge (gn_vault_sol a)) (\<lambda>supply.
     attempt (arg_key cc (gn_oracle a)) (\<lambda>orc.
     attempt (optional_key cc (gn_bootstrap_vote a)) (\<lambda>vote.
     attempt (optional_key cc (gn_bootstrap_stake a)) (\<lambda>stake.
     Inr \<lparr>pa_program_id = program_id, pa_supply_lamports = supply, pa_oracle = orc,
       pa_oracle_lamports = gn_oracle_lamports a, pa_float_lamports = gn_float_lamports a,
       pa_bmm_skip_blocks = gn_bmm_skip_blocks a, pa_lamports_per_byte_year = gn_lamports_per_byte_year a,
       pa_ecash_start_height = gn_ecash_start_height a,
       pa_deposit_confirmations = gn_deposit_confirmations a, pa_deposit_lag = gn_deposit_lag a,
       pa_bootstrap_keys = [vote, stake]\<rparr>)))))"

definition account_name :: "cli_codes \<Rightarrow> Params \<Rightarrow> pubkey \<Rightarrow> string option" where
  "account_name cc params key =
     (if key = fst (vault_pda (cc_find_pda cc) (pa_program_id params)) then Some ''vault''
      else if key = fst (treasury_pda (cc_find_pda cc) (pa_program_id params)) then Some ''treasury''
      else if key = fst (config_pda (cc_find_pda cc) (pa_program_id params)) then Some ''config''
      else if key = BMM_BLOCKS_ID then Some ''block record''
      else if key = pa_oracle params then Some ''oracle'' else None)"

definition genesis_lines :: "cli_codes \<Rightarrow> GenesisArgs \<Rightarrow> Params \<Rightarrow> State option \<Rightarrow> Account list \<Rightarrow> string list" where
  "genesis_lines cc a params st accounts =
     List.map_filter (\<lambda>account.
       map_option (\<lambda>name. name @ '' '' @ key_text cc (ga_pubkey account) @ '' holds '' @
           number (ga_lamports account) @ '' lamports'')
         (account_name cc params (ga_pubkey account))) accounts @
     (case st of
        None \<Rightarrow> []
      | Some s \<Rightarrow>
          [''the state of slot '' @ number (ms_slot s) @ '' adds '' @ decimal (length (ms_balances s)) @
           '' balances and '' @ decimal (length (ms_accounts s)) @ '' carried accounts'']) @
     [''D is '' @ number (gn_deposit_confirmations a) @ '', the lag is '' @ number (gn_deposit_lag a) @
      '', and BMM settles from eCash height '' @
      number (max (gn_ecash_start_height a)
        (case st of None \<Rightarrow> 0 | Some s \<Rightarrow> cu_bmm_next_height (ms_cursor s))),
      decimal (length accounts) @ '' accounts are in '' @ path_text (gn_out a)]"

definition genesis_command :: "cli_codes \<Rightarrow> 'w machine \<Rightarrow> GenesisArgs \<Rightarrow> ('w, unit) command" where
  "genesis_command cc cm a =
     perform (pure (genesis_params cc a)) (\<lambda>params.
     perform (case gn_state a of
         None \<Rightarrow> return None
       | Some p \<Rightarrow> perform (read_state cc cm p) (\<lambda>st. return (Some st))) (\<lambda>st.
     perform (case gn_dex_accounts a of
         None \<Rightarrow> return []
       | Some p \<Rightarrow>
           perform (call (CliRead p) (dk_read_to_string (cm_disk cm) p)) (\<lambda>text.
           pure (map_err CliGenesis (parse_yaml (cc_accounts cc) text)))) (\<lambda>extra.
     perform (pure (map_err CliGenesis
       (genesis_accounts (cc_accounts cc) (cc_sha256 cc) (cc_find_pda cc) params st extra))) (\<lambda>accounts.
     perform (call (CliWrite (gn_out a)) (dk_write (cm_disk cm) (gn_out a) (yaml (cc_accounts cc) accounts))) (\<lambda>_.
     say_all (genesis_lines cc a params st accounts))))))"

end
