(* ===== verification/Bmm_Commands.thy ===== *)
theory Bmm_Commands
  imports Commands
begin

text \<open>
  The commands of the blind merged mining (\<^verbatim>\<open>daemon/src/main.rs\<close>): the bid, the pair and the settle by hand,
  and the settings that the commands \<^verbatim>\<open>bmm\<close> and \<^verbatim>\<open>run\<close> give to their loops.
\<close>

section \<open>Blind merged mining by hand\<close>

definition publish_before_bid ::
  "Pair option \<Rightarrow> bool \<Rightarrow> (Pair \<Rightarrow> ('w, string list) command) \<Rightarrow> ('w, 'a) command \<Rightarrow> ('w, 'a) command" where
  "publish_before_bid pair withhold publish request =
     perform (case if withhold then None else pair of
         None \<Rightarrow> return ()
       | Some pair \<Rightarrow>
           perform (publish pair) (\<lambda>answers. pure (map_err CliBmm (Bmm.held (pr_height pair) answers)))) (\<lambda>_.
     request)"

text \<open>
  The chain behind the nodes holds the state of a BMM process, which a command starts afresh. It reads only
  the slot and the program of the settings.
\<close>

definition fresh_process :: "('w bmm_state, 'e, 'a) act \<Rightarrow> ('w, 'e, 'a) act" where
  "fresh_process m w = (case m (BmmProcess_new, w) of (r, s') \<Rightarrow> (r, snd s'))"

definition command_chain :: "cli_codes \<Rightarrow> 'w machine \<Rightarrow> pubkey \<Rightarrow> u8 \<Rightarrow> 'w bmm_state bmm_chain" where
  "command_chain cc cm program_id slot =
     Live (cc_tools cc) (cc_accounts cc) (cm_bmm cm)
       \<lparr>bs_sidechain_id = slot, bs_program_id = program_id, bs_confirmations = 0, bs_bid_percent = 0,
        bs_min_bid_sats = 0, bs_max_bid_sats = 0, bs_no_bid = False\<rparr>"

text \<open>The rounds of the wait, one second each; \<open>height\<close> is the one of the last round.\<close>

fun wait_rounds ::
  "cli_codes \<Rightarrow> 'w machine \<Rightarrow> pubkey \<Rightarrow> u8 \<Rightarrow> u64 \<Rightarrow> nat \<Rightarrow> u64 \<Rightarrow>
     ('w bmm_state, CliError, tip \<times> RecordedBlock) act" where
  "wait_rounds cc cm program_id slot wait_secs 0 height = pure (Inl (CliNoBidBlock height wait_secs))"
| "wait_rounds cc cm program_id slot wait_secs (Suc n) _ =
     perform (on_world (action_err CliEnforcer (nd_tip (cm_node cm)))) (\<lambda>tip.
     let height = ucast (snd tip) + 1 in
     perform (on_world (action_err (CliRpc ''getAccountInfo(config)'')
       (nd_get_account (cm_node cm) Processed (fst (config_pda (cc_find_pda cc) program_id))))) (\<lambda>account.
     let data = (case account of Some a \<Rightarrow> ra_data a | None \<Rightarrow> []) in
     perform (pure (map_err CliBridge (Config_decode (cc_sha256 cc) data))) (\<lambda>cfg.
     perform (action_err CliBmm (bid_block (command_chain cc cm program_id slot) tip height (deposit_lag cfg))) (\<lambda>found.
     case found of
       Some block \<Rightarrow> return (tip, block)
     | None \<Rightarrow>
         perform (on_world (\<lambda>w. (Inr (), cm_sleep cm w))) (\<lambda>_.
         wait_rounds cc cm program_id slot wait_secs n height)))))"

definition wait_for_bid_block ::
  "cli_codes \<Rightarrow> 'w machine \<Rightarrow> pubkey \<Rightarrow> u8 \<Rightarrow> u64 \<Rightarrow> ('w, CliError, tip \<times> RecordedBlock) act" where
  "wait_for_bid_block cc cm program_id slot wait_secs =
     fresh_process (wait_rounds cc cm program_id slot wait_secs (Suc (unat wait_secs)) 0)"

record BidArgs =
  bi_enforcer :: EnforcerArgs
  bi_payee :: "string option"
  bi_sats :: u64
  bi_commitment :: "string option"
  bi_withhold :: bool
  bi_block :: "string option"
  bi_program_id :: "string option"
  bi_wait_secs :: u64

text \<open>The tip of the bid and its block: a named block goes without the check of rule 3.\<close>

definition choose_block :: "cli_codes \<Rightarrow> 'w machine \<Rightarrow> BidArgs \<Rightarrow> tip \<Rightarrow> ('w, tip \<times> array32) command" where
  "choose_block cc cm a tip =
     (case bi_block a of
        Some block \<Rightarrow>
          perform (pure (arg_key cc block)) (\<lambda>block.
          perform (call CliBmm (read_recorded_blocks (cm_bmm cm))) (\<lambda>recorded.
          perform (case List.find (\<lambda>r. rb_bank_hash r = block) recorded of
              None \<Rightarrow> return ()
            | Some found \<Rightarrow> say (''slot '' @ number (rb_slot found))) (\<lambda>_.
          return (tip, block))))
      | None \<Rightarrow>
          perform (pure (ok_or (bi_program_id a) CliNoProgramId Inr)) (\<lambda>program.
          perform (pure (arg_key cc program)) (\<lambda>program_id.
          perform (on_world (wait_for_bid_block cc cm program_id (ea_slot (bi_enforcer a)) (bi_wait_secs a))) (\<lambda>(tip, found).
          perform (say (''slot '' @ number (rb_slot found))) (\<lambda>_.
          return (tip, rb_bank_hash found))))))"

definition choose_pair :: "cli_codes \<Rightarrow> 'w machine \<Rightarrow> BidArgs \<Rightarrow> tip \<Rightarrow> ('w, tip \<times> Pair option) command" where
  "choose_pair cc cm a tip =
     (case bi_payee a of
        None \<Rightarrow> return (tip, None)
      | Some payee \<Rightarrow>
          perform (choose_block cc cm a tip) (\<lambda>(tip, block).
          perform (pure (arg_key cc payee)) (\<lambda>payee.
          return (tip, Some \<lparr>pr_height = ucast (snd tip) + 1, pr_block = block, pr_payee = payee\<rparr>))))"

definition bid_commitment :: "cli_codes \<Rightarrow> Pair option \<Rightarrow> string option \<Rightarrow> CliError + array32" where
  "bid_commitment cc pair commitment =
     (case (pair, commitment) of
        (Some pair, _) \<Rightarrow> Inr (Pair_commitment (cc_sha256 cc) pair)
      | (None, Some text) \<Rightarrow> attempt (fixed_hash 32 text ''commitment'') (\<lambda>bytes. Inr (array_of bytes))
      | (None, None) \<Rightarrow> Inl CliNoCommitment)"

definition publish_shown :: "cli_codes \<Rightarrow> 'w machine \<Rightarrow> Pair \<Rightarrow> ('w, string list) command" where
  "publish_shown cc cm pair =
     perform (call CliBmm (publish_pairs (cc_accounts cc) (cm_bmm cm) [pair])) (\<lambda>answers.
     perform (say_all (map (\<lambda>outcome. ''pair '' @ outcome) answers)) (\<lambda>_.
     return answers))"

text \<open>The rest of the command once the tip and the pair are chosen.\<close>

definition bid_with_pair :: "cli_codes \<Rightarrow> 'w machine \<Rightarrow> BidArgs \<Rightarrow> tip \<times> Pair option \<Rightarrow> ('w, unit) command" where
  "bid_with_pair cc cm a = (\<lambda>(tip, pair).
     let height = ucast (snd tip) + 1 :: u64 in
     perform (pure (bid_commitment cc pair (bi_commitment a))) (\<lambda>h_star.
     perform (say (''commitment '' @ hex_encode (array_bytes h_star))) (\<lambda>_.
     perform (case pair of
         None \<Rightarrow> return ()
       | Some pair \<Rightarrow>
           say_all [''block '' @ key_text cc (pr_block pair), ''payee '' @ key_text cc (pr_payee pair)]) (\<lambda>_.
     perform (publish_before_bid pair (bi_withhold a) (publish_shown cc cm)
       (call CliEnforcer (nd_create_bmm_request (cm_node cm) (bi_sats a) tip h_star))) (\<lambda>txid.
     say (''bid '' @ number (bi_sats a) @ '' sats for eCash height '' @ number height @ '' as '' @ hash_text txid))))))"

definition bid_bmm :: "cli_codes \<Rightarrow> 'w machine \<Rightarrow> BidArgs \<Rightarrow> ('w, unit) command" where
  "bid_bmm cc cm a =
     perform (open_enforcer cm (bi_enforcer a)) (\<lambda>_.
     perform (call CliEnforcer (nd_tip (cm_node cm))) (\<lambda>tip.
     perform (choose_pair cc cm a tip) (bid_with_pair cc cm a)))"

definition publish_pair :: "cli_codes \<Rightarrow> 'w machine \<Rightarrow> u64 \<Rightarrow> string \<Rightarrow> string \<Rightarrow> ('w, unit) command" where
  "publish_pair cc cm height block payee =
     perform (pure (arg_key cc block)) (\<lambda>block.
     perform (pure (arg_key cc payee)) (\<lambda>payee.
     perform (publish_shown cc cm \<lparr>pr_height = height, pr_block = block, pr_payee = payee\<rparr>) (\<lambda>_.
     return ())))"

definition bmm_block :: "cli_codes \<Rightarrow> 'w machine \<Rightarrow> ('w, unit) command" where
  "bmm_block cc cm =
     perform (call CliBmm (read_recorded_blocks (cm_bmm cm))) (\<lambda>recorded.
     case recorded of
       [] \<Rightarrow> pure (Inl CliEmptyBlockRecord)
     | newest # _ \<Rightarrow> say (number (rb_slot newest) @ '' '' @ key_text cc (rb_bank_hash newest)))"

record SettleArgs =
  sg_program_id :: string
  sg_identity :: path
  sg_height :: u64
  sg_block_hash :: string
  sg_solana_block :: string
  sg_payee :: "string option"

definition settle_command :: "cli_codes \<Rightarrow> 'w machine \<Rightarrow> SettleArgs \<Rightarrow> ('w, unit) command" where
  "settle_command cc cm a =
     perform (pure (arg_key cc (sg_program_id a))) (\<lambda>program_id.
     perform (read_keypair cm (CliNoIdentityKey (sg_identity a)) (sg_identity a)) (\<lambda>signer.
     perform (pure (fixed_hash 32 (sg_block_hash a) ''block_hash'')) (\<lambda>hash.
     let internal = rev hash in
     perform (case sg_payee a of
         Some payee \<Rightarrow> pure (arg_key cc payee)
       | None \<Rightarrow> return signer) (\<lambda>payee.
     perform (pure (arg_key cc (sg_solana_block a))) (\<lambda>solana_block.
     perform (send_one cm signer
       (settle_bmm_ix (cc_sha256 cc) (cc_find_pda cc) program_id (sg_height a) (array_of internal) solana_block payee)
       ''settle_bmm'') (\<lambda>_.
     say (''eCash height '' @ number (sg_height a) @ '' settled, and the payee is '' @ key_text cc payee)))))))"

section \<open>The settings of the loops\<close>

text \<open>The argument \<open>interval\<close> is in seconds, and a loop never waits less than one.\<close>

record BmmArgs =
  ba_slot :: u8
  ba_program_id :: string
  ba_identity :: path
  ba_confirmations :: u64
  ba_bid_percent :: u64
  ba_min_bid_sats :: u64
  ba_max_bid_sats :: u64
  ba_interval_secs :: u64
  ba_no_bid :: bool

definition bmm_settings ::
  "cli_codes \<Rightarrow> 'w machine \<Rightarrow> BmmArgs \<Rightarrow> ('w, pubkey \<times> BmmSettings \<times> u64) command" where
  "bmm_settings cc cm a =
     perform (pure (arg_key cc (ba_program_id a))) (\<lambda>program_id.
     perform (read_keypair cm (CliNoIdentityKey (ba_identity a)) (ba_identity a)) (\<lambda>keypair.
     return (keypair,
       \<lparr>bs_sidechain_id = ba_slot a, bs_program_id = program_id, bs_confirmations = ba_confirmations a,
        bs_bid_percent = ba_bid_percent a, bs_min_bid_sats = ba_min_bid_sats a,
        bs_max_bid_sats = ba_max_bid_sats a, bs_no_bid = ba_no_bid a\<rparr>,
       max (ba_interval_secs a) 1)))"

record RunArgs =
  rn_slot :: u8
  rn_program_id :: string
  rn_oracle :: path
  rn_bundle_interval_secs :: u64
  rn_bundle_log :: "path option"
  rn_new_bundle_log :: bool

definition run_settings ::
  "cli_codes \<Rightarrow> 'w machine \<Rightarrow> RunArgs \<Rightarrow> ('w, pubkey \<times> Settings \<times> path \<times> u64) command" where
  "run_settings cc cm a =
     perform (pure (arg_key cc (rn_program_id a))) (\<lambda>program_id.
     perform (read_keypair cm (CliNoOracleKey (rn_oracle a)) (rn_oracle a)) (\<lambda>keypair.
     return (keypair,
       \<lparr>se_sidechain_id = rn_slot a, se_program_id = program_id, se_new_bundle_log = rn_new_bundle_log a\<rparr>,
       (case rn_bundle_log a of Some p \<Rightarrow> p | None \<Rightarrow> with_extension (rn_oracle a) ''bundles.json''),
       max (rn_bundle_interval_secs a) 1)))"

end
