(* ===== verification/Hash_Arguments.thy ===== *)
theory Hash_Arguments
  imports Command_Args
begin

text \<open>
  What a hash in the arguments of a command reads as, next to the reader of the enforcer client.
\<close>

section \<open>Hash arguments\<close>

lemma to_digit16_ascii: "to_digit16 c = Some d \<Longrightarrow> of_char c < (128 :: nat) \<and> d < 16"
  by (auto simp: to_digit16_def Let_def split: if_splits)

lemma two_digits:
  assumes "d < 16" "e < 16"
  shows "checked_mul (word_of_nat d :: u8) 16 = Some (word_of_nat d * 16)"
    "checked_add (word_of_nat d * 16 :: u8) (word_of_nat e) = Some (word_of_nat d * 16 + word_of_nat e)"
proof -
  have "unat (word_of_nat d :: u8) = d" "unat (word_of_nat e :: u8) = e" using assms by (simp_all add: unat_of_nat)
  moreover have "unat (word_of_nat d * 16 :: u8) = d * 16"
    using assms unat_of_nat [where 'a = 8, of "d * 16"] by simp
  ultimately show "checked_mul (word_of_nat d :: u8) 16 = Some (word_of_nat d * 16)"
    "checked_add (word_of_nat d * 16 :: u8) (word_of_nat e) = Some (word_of_nat d * 16 + word_of_nat e)"
    using assms by (simp_all add: checked_mul_def checked_add_def)
qed

lemma zero_times: "checked_mul (0 :: u8) 16 = Some 0"
  by (simp add: checked_mul_def)

lemma plus_no_digit: "to_digit16 CHR ''+'' = None"
  by (simp add: to_digit16_def Let_def)

lemma char_byte [simp]: "char_of (unat (word_of_nat (of_char c) :: u8)) = c"
  by (simp add: unat_of_nat)

lemma from_utf8_text: "from_utf8 (text_bytes s) = Some t \<Longrightarrow> t = s"
  by (auto simp: from_utf8_def text_bytes_def map_idI split: if_splits)

text \<open>One pair of characters: the parser of the arguments and the one of the enforcer read the same byte.\<close>

lemma pair_reads:
  assumes "length pair = 2" "CHR ''+'' \<notin> set pair"
  shows "ok_or (from_utf8 (text_bytes pair)) (CliNotHex field_name val) (\<lambda>text.
      ok_or (from_str_radix16 text) (CliNotHex field_name val) k) =
    attempt (map_err (\<lambda>_. CliNotHex field_name val) (hex_pair hex label pair)) k"
proof -
  obtain c d where pair: "pair = [c, d]" using assms(1) by (auto simp: length_Suc_conv numeral_2_eq_2)
  show ?thesis
  proof (cases "to_digit16 c = None \<or> to_digit16 d = None")
    case True
    have "from_str_radix16 body = None" if "from_utf8 (text_bytes pair) = Some body" for body
    proof -
      have "body = pair"
        using that by (rule from_utf8_text)
      then show ?thesis using True assms(2) two_digits to_digit16_ascii
        by (auto simp: pair from_str_radix16_def checked_mul_def checked_add_def split: option.splits)
    qed
    then have "ok_or (from_utf8 (text_bytes pair)) (CliNotHex field_name val) (\<lambda>text.
        ok_or (from_str_radix16 text) (CliNotHex field_name val) k) = Inl (CliNotHex field_name val)"
      by (cases "from_utf8 (text_bytes pair)") auto
    moreover have "hex_pair hex label pair = Inl (NotHex label hex)"
      using True by (auto simp: hex_pair_def pair ok_or_def split: option.splits)
    ultimately show ?thesis by simp
  next
    case False
    then obtain m n where d: "to_digit16 c = Some m" "to_digit16 d = Some n" by auto
    note small = d [THEN to_digit16_ascii]
    have "from_utf8 (text_bytes pair) = Some pair"
      by (rule from_text_bytes) (use small in \<open>simp add: pair\<close>)
    moreover have "c \<noteq> CHR ''+''" using assms(2) by (auto simp: pair)
    ultimately show ?thesis
      using d small two_digits [of m n] two_digits(2) [of 0 m] zero_times
      by (simp add: pair from_str_radix16_def hex_pair_def)
  qed
qed

lemma chunks_whole:
  assumes "0 < n" "length xs = n * k"
  shows "chunks n xs = chunks_exact n xs"
  using assms(2)
proof (induction k arbitrary: xs)
  case (Suc k)
  have "chunks n (drop n xs) = chunks_exact n (drop n xs)" by (rule Suc.IH) (use Suc.prems in simp)
  moreover have "chunks_exact n (take n xs @ drop n xs) = take n xs # chunks_exact n (drop n xs)"
    by (rule chunks_exact_append) (use Suc.prems assms(1) in simp_all)
  ultimately show ?case using Suc.prems assms(1) by (subst chunks.simps) auto
qed (simp add: chunks.simps)

text \<open>The loop that writes each byte at its index reads what the loop of the enforcer appends.\<close>

lemma hash_pairs_hex:
  assumes "\<forall>pair \<in> set pairs. length pair = 2 \<and> CHR ''+'' \<notin> set pair" "index + length pairs = length out"
  shows "hash_pairs val field_name index out pairs =
    map_err (\<lambda>_. CliNotHex field_name val) (hex_pairs hex label (take index out) pairs)"
  using assms
proof (induction pairs arbitrary: index out)
  case (Cons pair pairs)
  have step: "hash_pairs val field_name (Suc index) (out[index := b]) pairs =
      map_err (\<lambda>_. CliNotHex field_name val) (hex_pairs hex label (take index out @ [b]) pairs)" for b
  proof -
    have "take (Suc index) (out[index := b]) = take index out @ [b]"
      using Cons.prems(2) by (simp add: take_Suc_conv_app_nth)
    then show ?thesis using Cons.IH [of "Suc index" "out[index := b]"] Cons.prems by simp
  qed
  have "hash_pairs val field_name index out (pair # pairs) =
      attempt (map_err (\<lambda>_. CliNotHex field_name val) (hex_pair hex label pair))
        (\<lambda>b. hash_pairs val field_name (Suc index) (out[index := b]) pairs)"
    unfolding hash_pairs.simps by (rule pair_reads) (use Cons.prems(1) in auto)
  then show ?case by (cases "hex_pair hex label pair") (simp_all add: step)
qed simp

lemma fixed_hash_value:
  assumes "val \<noteq> []" "CHR ''+'' \<notin> set val"
  shows "fixed_hash n val field_name =
    (if length val \<noteq> n * 2 then Inl (CliWrongHashLength field_name (n * 2) (length val))
     else map_err (\<lambda>_. CliNotHex field_name val) (decode_hex val label))"
proof (cases "length val = n * 2")
  case True
  then have even: "length val = 2 * n" by simp
  have whole: "concat (chunks_exact 2 val) = val" by (rule concat_chunks_exact [OF _ even]) simp
  have pairs: "\<forall>pair \<in> set (chunks_exact 2 val). length pair = 2 \<and> CHR ''+'' \<notin> set pair"
  proof
    fix pair assume "pair \<in> set (chunks_exact 2 val)"
    then have "set pair \<subseteq> set (concat (chunks_exact 2 val))" "length pair = 2"
      using chunks_exact_length by auto
    then show "length pair = 2 \<and> CHR ''+'' \<notin> set pair" using assms(2) whole by auto
  qed
  have "length (concat (chunks_exact 2 val)) = length (chunks_exact 2 val) * 2"
    using pairs by (simp add: length_concat sum_list_triv cong: map_cong)
  then have "length (chunks_exact 2 val) = n" using even whole by simp
  then have "hash_pairs val field_name 0 (replicate n 0) (chunks_exact 2 val) =
      map_err (\<lambda>_. CliNotHex field_name val) (hex_pairs val label [] (chunks_exact 2 val))"
    using hash_pairs_hex [OF pairs, of 0 "replicate n 0" val field_name val label] by simp
  then show ?thesis
    using assms(1) True chunks_whole [of 2 val n] even by (simp add: fixed_hash_def decode_hex_def)
qed (use assms(1) in \<open>simp add: fixed_hash_def\<close>)

lemma no_plus_in_hex: "CHR ''+'' \<notin> set (hex_encode bs)"
proof -
  have "CHR ''+'' \<noteq> hex_digit n" if "n < 16" for n
    using to_digit16_digit [OF that] plus_no_digit by auto
  moreover have "unat b div 16 < 16" for b :: u8 using unat_bound [of b] by simp
  ultimately show ?thesis by (auto simp: hex_encode_concat hex_byte_def)
qed

lemma fixed_hash_encoded:
  assumes "bs \<noteq> []"
  shows "fixed_hash (length bs) (hex_encode bs) field_name = Inr bs"
proof -
  have "hex_encode bs \<noteq> []" using assms length_hex_encode [of bs] by (auto simp del: length_hex_encode)
  then show ?thesis
    using fixed_hash_value [OF _ no_plus_in_hex, of bs "length bs" field_name]
    by (simp add: decode_hex_encode del: hex_encode_simps)
qed

lemma fixed_hash_empty: "fixed_hash n [] field_name = Inr (replicate n 0)"
  by (simp add: fixed_hash_def)

text \<open>
  A plus sign passes as the first character of a pair, because the number parser of the library takes a
  sign: a text that is not hex reads as a hash.
\<close>

theorem plus_sign_reads: "fixed_hash 1 ''+f'' field_name = Inr [15]"
  by code_simp

text \<open>
  The hash arguments of the daemon read hex as the client of the enforcer reads it: a text without a plus
  sign reads to its bytes exactly when it has two hex digits for each byte of the field, and every other
  text fails with the error of its length or of its digits. A hash that the daemon prints reads back, and
  an empty argument is the hash of zeros.
\<close>

theorem hash_argument_reads:
  "(if val = [] then fixed_hash n val field_name = Inr (replicate n 0)
    else CHR ''+'' \<in> set val \<or>
      fixed_hash n val field_name =
        (if length val \<noteq> n * 2 then Inl (CliWrongHashLength field_name (n * 2) (length val))
         else map_err (\<lambda>_. CliNotHex field_name val) (decode_hex val label))) \<and>
   (bs = [] \<or> fixed_hash (length bs) (hex_encode bs) field_name = Inr bs)"
  using fixed_hash_value [of val n field_name label] fixed_hash_encoded [of bs field_name]
  by (cases "CHR ''+'' \<in> set val"; cases "bs = []") (simp_all add: fixed_hash_empty)

section \<open>The declaration of the arguments\<close>

lemma length_hash_pairs: "hash_pairs val field_name index out pairs = Inr bs \<Longrightarrow> length bs = length out"
  by (induction pairs arbitrary: index out) (auto simp: result_iff)

lemma length_fixed_hash: "fixed_hash n val field_name = Inr bs \<Longrightarrow> length bs = n"
  by (auto simp: fixed_hash_def dest: length_hash_pairs split: if_splits)

lemma args_declaration_ok: "args_declaration a = Inr d \<Longrightarrow> declaration_ok d"
  by (auto simp: args_declaration_def result_iff with_hashes_def declaration_ok_def length_fixed_hash split: if_splits)

lemma hash_text_inj: "hex_encode (rev (array_bytes h)) = hex_encode (rev (array_bytes k)) \<longleftrightarrow> h = k"
proof
  assume "hex_encode (rev (array_bytes h)) = hex_encode (rev (array_bytes k))"
  then have "decode_hex (hex_encode (rev (array_bytes h))) [] = decode_hex (hex_encode (rev (array_bytes k))) []" by simp
  then have "array_of (rev (rev (array_bytes h))) = array_of (rev (rev (array_bytes k)))" by (simp add: decode_hex_encode)
  then show "h = k" by simp
qed simp

text \<open>
  C36: Every declaration that comes out of the arguments has the shape that the scripts of the drivechain need: a
  title whose length fits its byte, 32 and 20 bytes of hashes, and the bytes of the two texts. So its bytes
  read back to this declaration, also through the request that a miner gets.
\<close>

theorem declaration_arguments_typed:
  assumes "args_declaration a = Inr d"
  shows "declaration_ok d \<and> dl_title d = text_bytes (da_title a) \<and> dl_description d = text_bytes (da_description a) \<and>
    as_str (json_get ''declaration_hex'' (json_get ''sidechain'' (activation_request sha256d slot d))) =
      Some (hex_encode (declaration_bytes d)) \<and>
    map_option read_declaration (ok_of (decode_hex (hex_encode (declaration_bytes d)) label)) = Some (Some d)"
proof -
  have ok: "declaration_ok d" by (rule args_declaration_ok [OF assms])
  moreover have "dl_title d = text_bytes (da_title a) \<and> dl_description d = text_bytes (da_description a)"
    using assms by (auto simp: args_declaration_def result_iff with_hashes_def split: if_splits)
  ultimately show ?thesis
    by (simp add: activation_request_def json_get_def as_str_def Let_def decode_hex_encode ok_of_def read_declaration_bytes)
qed

lemma declaration_arguments_typed_witness:
  "\<exists>d. args_declaration \<lparr>da_title = ''Solana'', da_description = ''A sidechain'', da_hashid1 = [],
      da_hashid2 = hex_encode (replicate 20 7)\<rparr> = Inr d \<and> declaration_ok d \<and> dl_hash_id_1 d = replicate 32 0"
proof -
  let ?a = "\<lparr>da_title = ''Solana'', da_description = ''A sidechain'', da_hashid1 = [],
      da_hashid2 = hex_encode (replicate 20 7)\<rparr>"
  have "fixed_hash (length (replicate 20 (7 :: byte))) (hex_encode (replicate 20 7)) ''hashid2'' = Inr (replicate 20 7)"
    by (rule fixed_hash_encoded) simp
  then obtain d where "args_declaration ?a = Inr d" "dl_hash_id_1 d = replicate 32 0"
    by (simp add: args_declaration_def fixed_hash_empty with_hashes_def MAX_TITLE_LEN_def text_bytes_def)
  then show ?thesis using declaration_arguments_typed [of ?a d] by blast
qed

end
