(* ===== verification/Command_Properties.thy ===== *)
theory Command_Properties
  imports Bmm_Commands Hash_Arguments Bridge_Properties Bid_Properties
begin

text \<open>
  The properties of the commands: the gift that opens the withdrawals of the bridge program, the vote that
  goes only to the own proposal, and the order of the pair and the bid.
\<close>

section \<open>The gift to the vault\<close>

lemma shortfall_value:
  assumes "float_shortfall cfg vault = Some gift"
  shows "unat gift =
    unat (vault_supply cfg) + unat (float_lamports cfg) - (unat vault + unat (pegged_lamports cfg))"
  using assms by (auto simp: float_shortfall_def vault_surplus_def arith_iff split: option.splits)

lemma no_shortfall:
  assumes "float_shortfall cfg vault = None" "unat vault + unat (pegged_lamports cfg) < 2 ^ 64"
  shows "unat vault + unat (pegged_lamports cfg) < unat (vault_supply cfg)"
  using assms
  by (auto simp: float_shortfall_def vault_surplus_def checked_add_def checked_sub_def word_le_nat_alt
      unat_word_ariths split: option.splits if_splits)

text \<open>A withdrawal fails for the float only while the vault does not back it.\<close>

lemma withdraw_float:
  assumes "good_state rt b" "exec rt (Withdraw user lamports fee_sats script) b = Inl (Bridge FloatNotBacked)"
  shows "vault_backing rt b < unat (vault_supply (config b)) + unat (float_lamports (config b))"
proof -
  let ?c = "config b"
  have ok: "runtime_ok rt" using assms(1) by (simp add: good_state_def)
  obtain record_k record_bump where rk: "record_key rt (withdrawal_count ?c) = (record_k, record_bump)"
    by fastforce
  have sg: "signatures_ok rt (Withdraw user lamports fee_sats script)"
    and w: "withdraw rt user lamports fee_sats script b = Inl (Bridge FloatNotBacked)"
    using assms(2) by (auto simp: exec_def result_iff)
  obtain vault L backed needed where k: "vault_key rt ?c = Some vault" "meta_signer user"
    "rt_init_account rt (meta_key user) record_k WITHDRAWAL_RECORD_SPACE (ledger b) = Some L"
    "checked_add (acc_lamports (L vault)) (pegged_lamports ?c) = Some backed"
    "checked_add (vault_supply ?c) (float_lamports ?c) = Some needed" "\<not> needed \<le> backed"
    using w unfolding withdraw_def Let_def rk prod.case by (auto simp: result_iff)
  have "vault \<noteq> meta_key user"
    using signed_has_key [OF sg k(2)] vault_no_key [OF runtime_okD(4) [OF ok] k(1)] by metis
  moreover have "vault \<noteq> record_k"
    using vault_ne_record [OF runtime_okD(4) [OF ok] k(1), of "withdrawal_count ?c"] rk by simp
  ultimately have "L vault = ledger b vault" by (rule init_effect(3) [OF runtime_okD(2) [OF ok] k(3)])
  then show ?thesis using k by (simp add: vault_backing_def balance_def arith_iff word_le_nat_alt)
qed

text \<open>Whatever the chain does before and after it, a gift of the shortfall opens the withdrawals.\<close>

lemma gift_backs_float:
  assumes good: "good_state rt b" and v: "vault_key rt (config b) = Some v"
    and gift: "float_shortfall (config b) (acc_lamports (ledger b v)) = Some gift"
    and before: "reachable rt b b1" and lands: "outside_ok rt b1 L" "balance (ledger b1) v + unat gift \<le> balance L v"
    and after: "reachable rt (b1\<lparr>ledger := L\<rparr>) b2"
  shows "exec rt (Withdraw user lamports fee_sats script) b2 \<noteq> Inl (Bridge FloatNotBacked)"
proof -
  let ?b = "b1\<lparr>ledger := L\<rparr>"
  have g1: "good_state rt b1" by (rule reachable_good [OF good before])
  have "reachable rt b1 ?b" using lands(1) by (auto simp: reachable_def intro: chain_step.outside)
  then have g: "good_state rt ?b" by (rule reachable_good [OF g1])
  note keys = settings_keys [OF reachable_settings [OF good before]] settings_keys [OF reachable_settings [OF g after]]
  have "vault_backing rt b \<le> vault_backing rt b1" by (rule vault_stays_backed [OF good before])
  moreover have "vault_backing rt b1 + unat gift \<le> vault_backing rt ?b"
    using lands(2) v keys by (simp add: vault_backing_def)
  moreover have "vault_backing rt ?b \<le> vault_backing rt b2" by (rule vault_stays_backed [OF g after])
  moreover have "unat (vault_supply (config b)) + unat (float_lamports (config b)) \<le> vault_backing rt b + unat gift"
    using shortfall_value [OF gift] v by (simp add: vault_backing_def balance_def)
  ultimately have "unat (vault_supply (config b2)) + unat (float_lamports (config b2)) \<le> vault_backing rt b2"
    using keys by simp
  then show ?thesis using withdraw_float [OF reachable_good [OF g after]] by (auto simp: not_less)
qed

text \<open>What the command does: it sends the shortfall of its one read, or nothing.\<close>

definition gift_lands :: "'w machine \<Rightarrow> pubkey \<Rightarrow> u64 \<Rightarrow> 'w \<Rightarrow> bool" where
  "gift_lands cm vault gift w \<longleftrightarrow>
     (\<exists>payer blockhash w0. nd_send_and_confirm (cm_node cm)
        \<lparr>st_instructions = [transfer_ix payer vault gift], st_payer = payer, st_blockhash = blockhash\<rparr> w0 =
      (Inr (), w))"

lemma send_one_gift:
  assumes "send_one cm payer (transfer_ix payer vault gift) name s = (Inr (), s')"
  shows "gift_lands cm vault gift (snd s')"
proof -
  obtain blockhash w0 where "nd_send_and_confirm (cm_node cm)
      \<lparr>st_instructions = [transfer_ix payer vault gift], st_payer = payer, st_blockhash = blockhash\<rparr> w0 =
    (Inr (), snd s')"
    using assms by (auto simp: send_one_def result_iff)
  then show ?thesis unfolding gift_lands_def by blast
qed

lemma back_float_sends:
  assumes "back_float cc cm program payer s = (Inr (), s')" "arg_key cc program = Inr program_id"
  obtains w1 w2 cfg vault gift where
    "config_and_vault (cc_tools cc) (cm_node cm) program_id Processed w1 = (Inr (cfg, vault), w2)"
    "float_shortfall cfg vault = Some gift"
    "gift = 0 \<and> snd s' = w2 \<or> gift_lands cm (fst (vault_pda (cc_find_pda cc) program_id)) gift (snd s')"
proof -
  obtain payer_key w1 cfg vault w2 gift where
    read: "config_and_vault (cc_tools cc) (cm_node cm) program_id Processed w1 = (Inr (cfg, vault), w2)"
    and gift: "float_shortfall cfg vault = Some gift"
    and rest: "(if gift = 0 then say ''the float is backed, and withdrawals are open''
      else perform (send_one cm payer_key
          (transfer_ix payer_key (fst (vault_pda (cc_find_pda cc) program_id)) gift) ''transfer'') (\<lambda>_.
        say (''sent '' @ number gift @ '' lamports to the vault, and withdrawals are open''))) (fst s, w2) = (Inr (), s')"
    using assms unfolding back_float_def by (auto simp: result_iff read_keypair_def Let_def)
  have "gift = 0 \<and> snd s' = w2 \<or> gift_lands cm (fst (vault_pda (cc_find_pda cc) program_id)) gift (snd s')"
    using rest by (auto simp: result_iff split: if_splits dest: send_one_gift)
  then show thesis by (rule that [OF read gift])
qed


text \<open>A machine on one bank that records the transactions and the votes; the float of its bank lacks one lamport.\<close>

definition short_bank :: bank where
  "short_bank = sample_bank\<lparr>config := sample_config\<lparr>float_lamports := 5000001\<rparr>\<rparr>"

definition sample_cli_codes :: cli_codes where
  "sample_cli_codes =
     \<lparr>cc_tools = sample_tools, cc_accounts = sample_account_codes, cc_address = sample_codes, cc_sha256d = sample_sha,
      cc_parse_address = \<lambda>a. None, cc_state_to_json = \<lambda>s. None, cc_state_of_json = \<lambda>t. None,
      cc_json_text = \<lambda>v. []\<rparr>"

definition sample_disk :: "unit disk" where
  "sample_disk =
     \<lparr>dk_read_to_string = \<lambda>p w. (Inl NotFound, w), dk_write = \<lambda>p t w. (Inr (), w),
      dk_create_new = \<lambda>p m w. (Inr (), w), dk_set_permissions = \<lambda>p m w. (Inr (), w),
      dk_write_all = \<lambda>p b w. (Inr (), w), dk_sync_all = \<lambda>p w. (Inr (), w),
      dk_read_keypair_file = \<lambda>p w. (Inr ALICE, w)\<rparr>"

definition short_accounts :: "RpcAccount option list" where
  "short_accounts =
     [Some \<lparr>ra_lamports = 0, ra_owner = ID, ra_data = Config_encode (to_sha256 sample_tools) (config short_bank)\<rparr>,
      Some \<lparr>ra_lamports = 1005000000, ra_owner = SYSTEM_PROGRAM_ID, ra_data = []\<rparr>]"

definition sample_machine :: "unit machine" where
  "sample_machine =
     \<lparr>cm_bmm = sample_bmm_node
        \<lparr>bn_node := (bn_node sample_bmm_node)\<lparr>nd_get_multiple_accounts := \<lambda>c ks w. (Inr short_accounts, w)\<rparr>\<rparr>,
      cm_halted = \<lparr>hn_get_slot = \<lambda>w. (Inr 0, w), hn_get_epoch = \<lambda>w. (Inr 0, w), hn_get_supply = \<lambda>w. (Inr JNull, w),
        hn_get_program_accounts = \<lambda>k w. (Inr JNull, w)\<rparr>,
      cm_disk = sample_disk, cm_get_balance = \<lambda>c k w. (Inr 0, w), cm_from_shared = \<lambda>u. Some (),
      cm_check_network = \<lambda>n w. (Inr (), w), cm_submit_sidechain_proposal = \<lambda>n d w. (Inr (), w),
      cm_sidechain_proposals = \<lambda>w. (Inr [], w), cm_set_sidechain_ack = \<lambda>n h a w. (Inr (), w),
      cm_set_ack_all_proposals = \<lambda>p w. (Inr (), w), cm_generate_to_address = \<lambda>n a w. (Inr [], w),
      cm_new_wallet_address = \<lambda>w. (Inr [], w), cm_wallet_balance = \<lambda>w. (Inr (0, 0), w),
      cm_create_deposit = \<lambda>n a v f w. (Inr 0, w), cm_ctip = \<lambda>n w. (Inr None, w),
      cm_headers_and_commitments = \<lambda>h n w. (Inr (0, 0), w), cm_sleep = \<lambda>w. w\<rparr>"

lemma sample_arg_key: "arg_key sample_cli_codes (hex_encode (array_bytes k)) = Inr k"
  by (simp add: parse_pubkey_def sample_cli_codes_def sample_account_codes_def decode_hex_encode)

lemma short_bank_facts:
  "good_state sample_runtime short_bank" "vault_key sample_runtime (config short_bank) = Some 0x1fe746c756176"
  "acc_lamports (ledger short_bank 0x1fe746c756176) = 1005000000"
  "vault_backing sample_runtime short_bank = 1005000000" "vault_supply (config short_bank) = 1000000000"
  "float_lamports (config short_bank) = 5000001"
proof -
  show "good_state sample_runtime short_bank"
    by (simp add: good_state_def sample_runtime_ok bank_inv_def cursors_ok_def short_bank_def sample_bank_def
        sample_config_def)
  show v: "vault_key sample_runtime (config short_bank) = Some 0x1fe746c756176"
    by (simp add: vault_key_def sample_rt_simps sample_addresses seed_lengths sample_config_def short_bank_def)
  show l: "acc_lamports (ledger short_bank 0x1fe746c756176) = 1005000000"
    by (simp add: short_bank_def sample_bank_def sample_ledger_def sample_addresses system_account_def)
  show "vault_backing sample_runtime short_bank = 1005000000"
    using l by (simp add: vault_backing_def v balance_def) (simp add: short_bank_def sample_config_def)
qed (simp_all add: short_bank_def sample_config_def)

lemma short_read:
  "config_and_vault (cc_tools sample_cli_codes) (cm_node sample_machine) ID Processed w =
     (Inr (config short_bank, 1005000000), w)"
  by (simp add: config_and_vault_def sample_machine_def short_accounts_def perform_def action_err_def pure_def
      sample_cli_codes_def Config_decode_encode Let_def)

lemma sample_machine_calls:
  "dk_read_keypair_file (cm_disk sample_machine) p w = (Inr ALICE, w)"
  "nd_get_latest_blockhash (cm_node sample_machine) w = (Inr 0, w)"
  "nd_send_and_confirm (cm_node sample_machine) t w = (Inr (), w)"
  by (simp_all add: sample_machine_def sample_disk_def sample_bmm_node_def sample_node_def)


section \<open>The vote for the own proposal\<close>

definition with_votes ::
  "(u32 \<Rightarrow> string \<Rightarrow> bool \<Rightarrow> ('w, EnforcerError, unit) act) \<Rightarrow> 'w machine \<Rightarrow> 'w machine" where
  "with_votes vote cm = cm\<lparr>cm_set_sidechain_ack := vote\<rparr>"

lemma with_votes_same:
  "open_enforcer (with_votes vote cm) a = open_enforcer cm a"
  "cm_sidechain_proposals (with_votes vote cm) = cm_sidechain_proposals cm"
  "cm_set_sidechain_ack (with_votes vote cm) = vote"
  by (simp_all add: with_votes_def open_enforcer_def fun_eq_iff)

lemma perform_cong:
  assumes "\<And>x. k x = k' x"
  shows "perform m k = perform m k'"
  using assms by presburger


definition sample_enforcer_args :: EnforcerArgs where
  "sample_enforcer_args = \<lparr>ea_network = Regtest, ea_enforcer_url = [], ea_slot = 2\<rparr>"

definition sample_declared :: DeclarationArgs where
  "sample_declared = \<lparr>da_title = ''Solana'', da_description = [], da_hashid1 = [], da_hashid2 = []\<rparr>"

definition sample_declaration :: Declaration where
  "sample_declaration =
     \<lparr>dl_title = text_bytes ''Solana'', dl_description = [], dl_hash_id_1 = replicate 32 0,
      dl_hash_id_2 = replicate 20 0\<rparr>"

lemma sample_args_declaration: "args_declaration sample_declared = Inr sample_declaration"
  by (simp add: args_declaration_def sample_declared_def sample_declaration_def fixed_hash_empty with_hashes_def
      MAX_TITLE_LEN_def text_bytes_def)

text \<open>A hash that only the sample declaration has, and a vote that fails for every other hash.\<close>

definition own_hash_codes :: cli_codes where
  "own_hash_codes = sample_cli_codes
     \<lparr>cc_sha256d := \<lambda>bs. if bs = declaration_bytes sample_declaration then 1 else 0\<rparr>"

definition own_vote :: "u32 \<Rightarrow> string \<Rightarrow> bool \<Rightarrow> (unit, EnforcerError, unit) act" where
  "own_vote n hash ack w =
     (if n = 2 \<and> hash = proposal_hash (cc_sha256d own_hash_codes) sample_declaration then Inr () else Inl (BadUrl []), w)"


section \<open>The pair before the bid\<close>

definition with_requests ::
  "(u64 \<Rightarrow> tip \<Rightarrow> array32 \<Rightarrow> ('w, EnforcerError, array32) act) \<Rightarrow> 'w machine \<Rightarrow> 'w machine" where
  "with_requests create cm = cm\<lparr>cm_bmm := (cm_bmm cm)
     \<lparr>bn_node := (bn_node (cm_bmm cm))\<lparr>nd_create_bmm_request := create\<rparr>\<rparr>\<rparr>"

lemma with_requests_same:
  "open_enforcer (with_requests create cm) a = open_enforcer cm a"
  "nd_tip (cm_node (with_requests create cm)) = nd_tip (cm_node cm)"
  "nd_get_account (cm_node (with_requests create cm)) = nd_get_account (cm_node cm)"
  "nd_create_bmm_request (cm_node (with_requests create cm)) = create"
  "cm_sleep (with_requests create cm) = cm_sleep cm"
  "command_chain cc (with_requests create cm) = command_chain cc cm"
  "publish_shown cc (with_requests create cm) = publish_shown cc cm"
  "read_recorded_blocks (cm_bmm (with_requests create cm)) = read_recorded_blocks (cm_bmm cm)"
  by (simp_all add: with_requests_def open_enforcer_def command_chain_def Live_def publish_shown_def publish_pairs_def
      read_recorded_blocks_def live_slot_is_active_def live_block_hash_at_def live_active_block_def
      bmm_read_config_def fun_eq_iff)

lemma wait_rounds_with_requests:
  "wait_rounds cc (with_requests create cm) program_id slot secs n height =
   wait_rounds cc cm program_id slot secs n height"
  by (induction n arbitrary: height) (simp_all only: wait_rounds.simps with_requests_same)

lemma choose_pair_with_requests: "choose_pair cc (with_requests create cm) a tip = choose_pair cc cm a tip"
  by (simp only: choose_pair_def choose_block_def wait_for_bid_block_def wait_rounds_with_requests with_requests_same)

text \<open>A block that the check of rule 3 gave for the block after a tip, with the lag of a config that the node holds.\<close>

definition checked_block :: "cli_codes \<Rightarrow> 'w machine \<Rightarrow> BidArgs \<Rightarrow> tip \<Rightarrow> array32 \<Rightarrow> bool" where
  "checked_block cc cm a tip block \<longleftrightarrow>
     (\<exists>program_id cfg found w w' account s s'.
        nd_get_account (cm_node cm) Processed (fst (config_pda (cc_find_pda cc) program_id)) w = (Inr (Some account), w') \<and>
        Config_decode (cc_sha256 cc) (ra_data account) = Inr cfg \<and>
        bid_block (command_chain cc cm program_id (ea_slot (bi_enforcer a))) tip (ucast (snd tip) + 1) (deposit_lag cfg) s =
          (Inr (Some found), s') \<and>
        rb_bank_hash found = block)"

lemma checked_blockI:
  assumes "nd_get_account (cm_node cm) Processed (fst (config_pda (cc_find_pda cc) program_id)) w = (Inr (Some account), w')"
    and "Config_decode (cc_sha256 cc) (ra_data account) = Inr cfg"
    and "bid_block (command_chain cc cm program_id (ea_slot (bi_enforcer a))) tip (ucast (snd tip) + 1) (deposit_lag cfg) s =
      (Inr (Some found), s')"
  shows "checked_block cc cm a tip (rb_bank_hash found)"
  unfolding checked_block_def using assms by blast

text \<open>The request that a command with a payee may send: for a pair that the validator holds in the same world.\<close>

definition request_for_held_pair ::
  "cli_codes \<Rightarrow> 'w machine \<Rightarrow> BidArgs \<Rightarrow> tip \<Rightarrow> array32 \<Rightarrow> 'w \<Rightarrow> bool" where
  "request_for_held_pair cc cm a tip h_star w \<longleftrightarrow>
     (\<exists>pair payee answers w0.
        h_star = Pair_commitment (cc_sha256 cc) pair \<and> pr_height pair = ucast (snd tip) + 1 \<and>
        bi_payee a = Some payee \<and> arg_key cc payee = Inr (pr_payee pair) \<and>
        publish_pairs (cc_accounts cc) (cm_bmm cm) [pair] w0 = (Inr answers, w) \<and>
        (answers = [''new''] \<or> answers = [''known'']) \<and>
        (bi_block a = None \<longrightarrow> checked_block cc cm a tip (pr_block pair)))"

lemma empty_config: "Config_decode sha [] \<noteq> Inr cfg"
  by (simp add: Config_decode_def Config_LEN_def)

lemma wait_rounds_checked:
  "wait_rounds cc cm program_id (ea_slot (bi_enforcer a)) secs n height s = (Inr (tip, found), s') \<Longrightarrow>
   checked_block cc cm a tip (rb_bank_hash found)"
proof (induction n arbitrary: height s)
  case (Suc n)
  obtain tip1 account cfg w w' s1 s2 found1 where
    read: "nd_get_account (cm_node cm) Processed (fst (config_pda (cc_find_pda cc) program_id)) w = (Inr account, w')"
    and cfg: "Config_decode (cc_sha256 cc) (case account of Some b \<Rightarrow> ra_data b | None \<Rightarrow> []) = Inr cfg"
    and found1: "bid_block (command_chain cc cm program_id (ea_slot (bi_enforcer a))) tip1 (ucast (snd tip1) + 1)
      (deposit_lag cfg) s1 = (Inr found1, s2)"
    and rest: "(case found1 of
        Some block \<Rightarrow> return (tip1, block)
      | None \<Rightarrow> perform (on_world (\<lambda>w. (Inr (), cm_sleep cm w))) (\<lambda>_.
          wait_rounds cc cm program_id (ea_slot (bi_enforcer a)) secs n (ucast (snd tip1) + 1))) s2 = (Inr (tip, found), s')"
    using Suc.prems by (auto simp: result_iff Let_def)
  show ?case
  proof (cases found1)
    case None
    then show ?thesis using rest Suc.IH by (auto simp: result_iff)
  next
    case (Some block)
    obtain b where "account = Some b" using cfg empty_config by (cases account) auto
    moreover have "tip = tip1" "found = block" using rest Some by (simp_all add: result_iff)
    ultimately show ?thesis using read cfg found1 Some by (auto intro!: checked_blockI)
  qed
qed (simp add: pure_def)

lemma wait_for_bid_block_checked:
  assumes "wait_for_bid_block cc cm program_id (ea_slot (bi_enforcer a)) secs w = (Inr (tip, found), w')"
  shows "checked_block cc cm a tip (rb_bank_hash found)"
proof -
  obtain s' where
    "wait_rounds cc cm program_id (ea_slot (bi_enforcer a)) secs (Suc (unat secs)) 0 (BmmProcess_new, w) =
      (Inr (tip, found), s')"
    using assms by (auto simp: wait_for_bid_block_def fresh_process_def simp del: wait_rounds.simps split: prod.splits)
  then show ?thesis by (rule wait_rounds_checked)
qed

lemma choose_pair_facts:
  assumes "choose_pair cc cm a tip s = (Inr (tip', Some pair), s')"
  obtains payee where "bi_payee a = Some payee" "arg_key cc payee = Inr (pr_payee pair)"
    "pr_height pair = ucast (snd tip') + 1" "bi_block a = None \<longrightarrow> checked_block cc cm a tip' (pr_block pair)"
proof -
  obtain payee tip1 block payee_key s1 where p: "bi_payee a = Some payee"
    and b: "choose_block cc cm a tip s = (Inr (tip1, block), s1)"
    and k: "arg_key cc payee = Inr payee_key" "tip' = tip1"
      "pair = \<lparr>pr_height = ucast (snd tip1) + 1, pr_block = block, pr_payee = payee_key\<rparr>"
    using assms by (auto simp: choose_pair_def result_iff split: option.splits)
  have "bi_block a = None \<longrightarrow> checked_block cc cm a tip1 block"
    using b
    by (auto simp: choose_block_def result_iff dest: wait_for_bid_block_checked)
  then show thesis by (intro that [OF p]) (simp_all add: k)
qed

lemma choose_pair_some:
  "bi_payee a = Some payee \<Longrightarrow> choose_pair cc cm a tip s = (Inr (tip', pair), s') \<Longrightarrow> pair \<noteq> None"
  by (auto simp: choose_pair_def result_iff)

lemma perform_run_cong:
  assumes "\<And>x w1. m w = (Inr x, w1) \<Longrightarrow> k x w1 = k' x w1"
  shows "perform m k w = perform m k' w"
  using assms by (auto simp: perform_def split: sum.split prod.split)

lemma publish_shown_held:
  assumes "perform (publish_shown cc cm pair) (\<lambda>answers. pure (map_err CliBmm (Bmm.held (pr_height pair) answers))) s =
    (Inr x, s')"
  obtains answers w where "publish_pairs (cc_accounts cc) (cm_bmm cm) [pair] w = (Inr answers, snd s')"
    "answers = [''new''] \<or> answers = [''known'']"
  using assms by (auto simp: publish_shown_def result_iff Bmm.held_def say_all_lines split: if_splits)

lemma held_request_cong:
  assumes "\<And>answers w0 w. publish_pairs (cc_accounts cc) (cm_bmm cm) [pair] w0 = (Inr answers, w) \<Longrightarrow>
      answers = [''new''] \<or> answers = [''known''] \<Longrightarrow> request w = request' w"
  shows "publish_before_bid (Some pair) False (publish_shown cc cm) (call CliEnforcer request) s =
    publish_before_bid (Some pair) False (publish_shown cc cm) (call CliEnforcer request') s"
proof -
  have "call CliEnforcer request s1 = call CliEnforcer request' s1"
    if "perform (publish_shown cc cm pair) (\<lambda>answers. pure (map_err CliBmm (Bmm.held (pr_height pair) answers))) s =
      (Inr x, s1)" for x s1
    by (rule publish_shown_held [OF that], drule (1) assms) (simp add: on_world_def action_err_def)
  then show ?thesis unfolding publish_before_bid_def by (auto intro: perform_run_cong)
qed

text \<open>
  C34: No bid goes out for a pair that the validator does not hold: for a command with a payee that does not keep
  its pair back, what it does depends on no request to the enforcer but one for the commitment of a pair with
  this payee and the height after the tip, sent from the very state in which the validator took the pair as new or
  known. Without a named block the bank hash of the pair passed the check of rule 3 for this tip.
\<close>

theorem bid_after_held_pair:
  assumes "\<not> bi_withhold a" "bi_payee a = Some payee"
    and "\<And>tip h_star w. request_for_held_pair cc cm a tip h_star w \<Longrightarrow>
      create (bi_sats a) tip h_star w = create' (bi_sats a) tip h_star w"
  shows "bid_bmm cc (with_requests create cm) a s = bid_bmm cc (with_requests create' cm) a s"
  unfolding bid_bmm_def with_requests_same choose_pair_with_requests
proof (rule perform_run_cong, rule perform_run_cong, rule perform_run_cong)
  fix tip tip_pair s1 s2
  assume "choose_pair cc cm a tip s1 = (Inr tip_pair, s2)"
  then obtain tip' pair where tp: "tip_pair = (tip', Some pair)"
    and chosen: "choose_pair cc cm a tip s1 = (Inr (tip', Some pair), s2)"
    using choose_pair_some [OF assms(2)] by (cases tip_pair) fastforce
  obtain payee' where f: "bi_payee a = Some payee'" "arg_key cc payee' = Inr (pr_payee pair)"
    "pr_height pair = ucast (snd tip') + 1" "bi_block a = None \<longrightarrow> checked_block cc cm a tip' (pr_block pair)"
    by (rule choose_pair_facts [OF chosen])
  have "request_for_held_pair cc cm a tip' (Pair_commitment (cc_sha256 cc) pair) w"
    if held: "publish_pairs (cc_accounts cc) (cm_bmm cm) [pair] w0 = (Inr answers, w)" "answers = [''new''] \<or> answers = [''known'']"
    for w0 answers w
    unfolding request_for_held_pair_def
    by (rule exI [of _ pair], rule exI [of _ payee'], rule exI [of _ answers], rule exI [of _ w0], intro conjI)
      (rule refl f held)+
  then have "publish_before_bid (Some pair) False (publish_shown cc cm)
      (call CliEnforcer (create (bi_sats a) tip' (Pair_commitment (cc_sha256 cc) pair))) =
    publish_before_bid (Some pair) False (publish_shown cc cm)
      (call CliEnforcer (create' (bi_sats a) tip' (Pair_commitment (cc_sha256 cc) pair)))"
    by (intro ext held_request_cong assms(3))
  then show "bid_with_pair cc (with_requests create cm) a tip_pair s2 =
      bid_with_pair cc (with_requests create' cm) a tip_pair s2"
    using assms(1) by (simp add: tp bid_with_pair_def with_requests_same bid_commitment_def Let_def)
qed

text \<open>A validator that refuses the pair: the command then ends the same under every request.\<close>

definition refusing_machine :: "unit machine" where
  "refusing_machine = sample_machine
     \<lparr>cm_bmm := (cm_bmm sample_machine)\<lparr>bn_publish_pairs := \<lambda>ps w. (Inr [FULL_HEIGHT_REFUSAL], w)\<rparr>\<rparr>"

definition sample_bid :: BidArgs where
  "sample_bid =
     \<lparr>bi_enforcer = sample_enforcer_args, bi_payee = Some (hex_encode (array_bytes ALICE)), bi_sats = 5000,
      bi_commitment = None, bi_withhold = False, bi_block = Some (hex_encode (array_bytes 3)), bi_program_id = None,
      bi_wait_secs = 0\<rparr>"

lemma bid_after_held_pair_witness:
  "bid_bmm sample_cli_codes (with_requests (\<lambda>sats tip h w. (Inr 1, w)) refusing_machine) sample_bid ([], ()) =
   bid_bmm sample_cli_codes (with_requests (\<lambda>sats tip h w. (Inl (BadUrl []), w)) refusing_machine) sample_bid ([], ())"
proof (rule bid_after_held_pair)
  fix tip h_star w
  assume "request_for_held_pair sample_cli_codes refusing_machine sample_bid tip h_star w"
  then obtain answers where "answers = [FULL_HEIGHT_REFUSAL]" "answers = [''new''] \<or> answers = [''known'']"
    by (auto simp: request_for_held_pair_def publish_pairs_def refusing_machine_def action_err_def)
  then have False by (simp add: FULL_HEIGHT_REFUSAL_def)
  then show "(\<lambda>sats tip h w. (Inr 1, w)) (bi_sats sample_bid) tip h_star w =
      (\<lambda>sats tip h w. (Inl (BadUrl []), w)) (bi_sats sample_bid) tip h_star w" ..
qed (simp_all add: sample_bid_def)

end
