(* ===== verification/Secret_Files.thy ===== *)
theory Secret_Files
  imports Commands
begin

text \<open>
  The file of a secret key over a file system with modes: what every run of the write leaves, also when a call
  fails.
\<close>

section \<open>A file system with modes\<close>

text \<open>
  A file system with the files \<open>files\<close>, each with its mode and its bytes: a new file takes at most the bits that
  its creator asks for, a write that fails leaves a part of its bytes, and no call touches another file.
\<close>

unbundle bit_operations_syntax

definition creates_files :: "'w disk \<Rightarrow> ('w \<Rightarrow> path \<Rightarrow> (nat \<times> bytes) option) \<Rightarrow> bool" where
  "creates_files dk files \<longleftrightarrow>
     (\<forall>p m w. case dk_create_new dk p m w of
        (Inl e, w') \<Rightarrow> files w' = files w
      | (Inr _, w') \<Rightarrow> files w p = None \<and> (\<exists>m'. m' AND m = m' \<and> files w' = (files w)(p \<mapsto> (m', []))))"

definition sets_modes :: "'w disk \<Rightarrow> ('w \<Rightarrow> path \<Rightarrow> (nat \<times> bytes) option) \<Rightarrow> bool" where
  "sets_modes dk files \<longleftrightarrow>
     (\<forall>p m w. case dk_set_permissions dk p m w of
        (Inl e, w') \<Rightarrow> files w' = files w
      | (Inr _, w') \<Rightarrow> files w' = (files w)(p := map_option (\<lambda>(_, d). (m, d)) (files w p)))"

definition writes_files :: "'w disk \<Rightarrow> ('w \<Rightarrow> path \<Rightarrow> (nat \<times> bytes) option) \<Rightarrow> bool" where
  "writes_files dk files \<longleftrightarrow>
     (\<forall>p body w. case dk_write_all dk p body w of
        (Inl e, w') \<Rightarrow> \<exists>n. files w' = (files w)(p := map_option (\<lambda>(m, d). (m, d @ take n body)) (files w p))
      | (Inr _, w') \<Rightarrow> files w' = (files w)(p := map_option (\<lambda>(m, d). (m, d @ body)) (files w p)))"

definition disk_ok :: "'w disk \<Rightarrow> ('w \<Rightarrow> path \<Rightarrow> (nat \<times> bytes) option) \<Rightarrow> bool" where
  "disk_ok dk files \<longleftrightarrow> creates_files dk files \<and> sets_modes dk files \<and> writes_files dk files \<and>
     (\<forall>p w. files (snd (dk_sync_all dk p w)) = files w)"

lemma disk_create:
  assumes "disk_ok dk files" "dk_create_new dk p m w = (r, w')"
  shows "r = Inl e \<Longrightarrow> files w' = files w"
    and "r = Inr u \<Longrightarrow> files w p = None \<and> (\<exists>m'. m' AND m = m' \<and> files w' = (files w)(p \<mapsto> (m', [])))"
proof -
  have "creates_files dk files" using assms(1) by (simp add: disk_ok_def)
  from this [unfolded creates_files_def, rule_format, of w p m]
  show "r = Inl e \<Longrightarrow> files w' = files w"
    and "r = Inr u \<Longrightarrow> files w p = None \<and> (\<exists>m'. m' AND m = m' \<and> files w' = (files w)(p \<mapsto> (m', [])))"
    by (simp_all add: assms(2))
qed

lemma disk_chmod:
  assumes "disk_ok dk files" "dk_set_permissions dk p m w = (r, w')" "files w p = Some (m0, d)"
  shows "r = Inl e \<Longrightarrow> files w' = files w" and "r = Inr u \<Longrightarrow> files w' = (files w)(p \<mapsto> (m, d))"
proof -
  have "sets_modes dk files" using assms(1) by (simp add: disk_ok_def)
  from this [unfolded sets_modes_def, rule_format, of w p m]
  show "r = Inl e \<Longrightarrow> files w' = files w" and "r = Inr u \<Longrightarrow> files w' = (files w)(p \<mapsto> (m, d))"
    by (simp_all add: assms(2,3))
qed

lemma disk_write:
  assumes "disk_ok dk files" "dk_write_all dk p body w = (r, w')" "files w p = Some (m, d)"
  shows "r = Inl e \<Longrightarrow> \<exists>n. files w' = (files w)(p \<mapsto> (m, d @ take n body))"
    and "r = Inr u \<Longrightarrow> files w' = (files w)(p \<mapsto> (m, d @ body))"
proof -
  have "writes_files dk files" using assms(1) by (simp add: disk_ok_def)
  from this [unfolded writes_files_def, rule_format, of w p body]
  show "r = Inl e \<Longrightarrow> \<exists>n. files w' = (files w)(p \<mapsto> (m, d @ take n body))"
    and "r = Inr u \<Longrightarrow> files w' = (files w)(p \<mapsto> (m, d @ body))"
    by (simp_all add: assms(2,3))
qed

lemma disk_sync: "disk_ok dk files \<Longrightarrow> files (snd (dk_sync_all dk p w)) = files w"
  unfolding disk_ok_def by blast

text \<open>The states in which a secret file can be left.\<close>

definition guarded :: "bytes \<Rightarrow> bool \<Rightarrow> nat \<times> bytes \<Rightarrow> bool" where
  "guarded body whole file \<longleftrightarrow>
     fst file AND SECRET_MODE = fst file \<and> (snd file = [] \<or> fst file = SECRET_MODE) \<and>
     (\<not> whole \<or> file = (SECRET_MODE, body))"

text \<open>The write of the bytes into the new file, after its mode is set.\<close>

lemma write_guarded:
  assumes "disk_ok dk files" "files w p = Some (SECRET_MODE, [])"
    and "perform (dk_write_all dk p body) (\<lambda>_. dk_sync_all dk p) w = (r, w')"
  shows "\<exists>file. files w' = (files w)(p \<mapsto> file) \<and> guarded body (r = Inr ()) file"
proof -
  obtain r1 w1 where written: "dk_write_all dk p body w = (r1, w1)" by fastforce
  show ?thesis
  proof (cases r1)
    case (Inl e)
    then have "r \<noteq> Inr ()" "w' = w1" using assms(3) written by (auto simp: perform_def)
    then show ?thesis using disk_write(1) [OF assms(1) written assms(2) Inl] by (fastforce simp: guarded_def)
  next
    case (Inr u)
    then have "files w' = files w1" using assms(3) written disk_sync [OF assms(1), of p w1] by (simp add: perform_def)
    then show ?thesis using disk_write(2) [OF assms(1) written assms(2) Inr]
      by (intro exI [of _ "(SECRET_MODE, body)"]) (simp add: guarded_def)
  qed
qed

lemma chmod_guarded:
  assumes "disk_ok dk files" "files w p = Some (m, [])" "m AND SECRET_MODE = m"
    and "perform (dk_set_permissions dk p SECRET_MODE) (\<lambda>_. perform (dk_write_all dk p body) (\<lambda>_. dk_sync_all dk p)) w =
      (r, w')"
  shows "\<exists>file. files w' = (files w)(p \<mapsto> file) \<and> guarded body (r = Inr ()) file"
proof -
  obtain r1 w1 where mode: "dk_set_permissions dk p SECRET_MODE w = (r1, w1)" by fastforce
  show ?thesis
  proof (cases r1)
    case (Inl e)
    then have "r \<noteq> Inr ()" "w' = w1" using assms(4) mode by (auto simp: perform_def)
    then show ?thesis
      using disk_chmod(1) [OF assms(1) mode assms(2) Inl] assms(2,3)
      by (intro exI [of _ "(m, [])"]) (simp add: guarded_def fun_upd_idem)
  next
    case (Inr u)
    note w1 = disk_chmod(2) [OF assms(1) mode assms(2) Inr]
    have "perform (dk_write_all dk p body) (\<lambda>_. dk_sync_all dk p) w1 = (r, w')"
      using assms(4) mode Inr by (simp add: perform_def)
    from write_guarded [OF assms(1) _ this] show ?thesis by (simp add: w1)
  qed
qed

text \<open>
  A secret file is never readable by another user and never replaces a file: whatever call fails, a file that
  was there stays as it was and the write fails, no other file changes, and the new file has no bit of its mode
  beyond the owner's; it holds bytes only under exactly this mode, and all of them when the write succeeds.
\<close>

theorem secret_file_guarded:
  assumes "disk_ok dk files" "write_secret dk p body w = (r, w')"
  shows "r \<noteq> Inr () \<and> files w' = files w \<or>
    files w p = None \<and> (\<exists>file. files w' = (files w)(p \<mapsto> file) \<and> guarded body (r = Inr ()) file)"
proof -
  obtain r1 w1 where new: "dk_create_new dk p SECRET_MODE w = (r1, w1)" by fastforce
  show ?thesis
  proof (cases r1)
    case (Inl e)
    then have "r \<noteq> Inr ()" "w' = w1" using assms(2) new by (auto simp: write_secret_def perform_def)
    then show ?thesis using disk_create(1) [OF assms(1) new Inl] by simp
  next
    case (Inr u)
    then obtain m where m: "files w p = None" "m AND SECRET_MODE = m" "files w1 = (files w)(p \<mapsto> (m, []))"
      using disk_create(2) [OF assms(1) new] by blast
    have "perform (dk_set_permissions dk p SECRET_MODE)
        (\<lambda>_. perform (dk_write_all dk p body) (\<lambda>_. dk_sync_all dk p)) w1 = (r, w')"
      using assms(2) new Inr by (simp add: write_secret_def perform_def)
    from chmod_guarded [OF assms(1) _ m(2) this] show ?thesis by (simp add: m(1,3))
  qed
qed

text \<open>A disk that gives a new file the mode that its creator asks for.\<close>

definition plain_disk :: "(path \<Rightarrow> (nat \<times> bytes) option) disk" where
  "plain_disk =
     \<lparr>dk_read_to_string = \<lambda>p w. (Inl NotFound, w), dk_write = \<lambda>p t w. (Inl NotFound, w),
      dk_create_new = \<lambda>p m w. if w p = None then (Inr (), w(p \<mapsto> (m, []))) else (Inl (OtherIo []), w),
      dk_set_permissions = \<lambda>p m w. (Inr (), w(p := map_option (\<lambda>(_, d). (m, d)) (w p))),
      dk_write_all = \<lambda>p body w. (Inr (), w(p := map_option (\<lambda>(m, d). (m, d @ body)) (w p))),
      dk_sync_all = \<lambda>p w. (Inr (), w), dk_read_keypair_file = \<lambda>p w. (Inl (), w)\<rparr>"

lemma secret_file_guarded_witness:
  "\<exists>w'. write_secret plain_disk sample_path [1, 2] Map.empty = (Inr (), w') \<and>
    (\<exists>file. w' = Map.empty(sample_path \<mapsto> file) \<and> guarded [1, 2] True file)"
proof -
  have ok: "disk_ok plain_disk (\<lambda>w. w)"
    by (auto simp: disk_ok_def creates_files_def sets_modes_def writes_files_def plain_disk_def)
      (rule exI, rule conjI [OF _ refl], simp)
  obtain w' where w': "write_secret plain_disk sample_path [1, 2] Map.empty = (Inr (), w')"
    by (simp add: write_secret_def plain_disk_def perform_def)
  then show ?thesis using secret_file_guarded [OF ok w'] by auto
qed

end
