(* ===== verification/Watch_Commands.thy ===== *)
theory Watch_Commands
  imports Commands
begin

text \<open>
  The two commands that only show what the enforcer says: \<^verbatim>\<open>status\<close> and \<^verbatim>\<open>watch\<close> of
  \<^verbatim>\<open>daemon/src/main.rs\<close>. A watch shows the target of every deposit, and it is the one that the validator
  credits, for every payload: also for one that is no text.
\<close>

section \<open>Text out of bytes\<close>

text \<open>
  The next piece of bytes as \<^verbatim>\<open>String::from_utf8_lossy\<close> cuts them: a whole character, or the longest start of
  one that breaks off; and its length.
\<close>

fun byte_at :: "bytes \<Rightarrow> nat \<Rightarrow> u8" where
  "byte_at bs i = (if i < length bs then bs ! i else 0)"

definition utf8_piece :: "u8 \<Rightarrow> bytes \<Rightarrow> bool \<times> nat" where
  "utf8_piece a rest =
     (if a \<le> 0x7f then (True, 1)
      else if 0xc2 \<le> a \<and> a \<le> 0xdf then
        if continuation (byte_at rest 0) then (True, 2) else (False, 1)
      else if 0xe0 \<le> a \<and> a \<le> 0xef then
        if \<not> second_byte a (byte_at rest 0) then (False, 1)
        else if \<not> continuation (byte_at rest 1) then (False, 2) else (True, 3)
      else if 0xf0 \<le> a \<and> a \<le> 0xf4 then
        if \<not> second_byte a (byte_at rest 0) then (False, 1)
        else if \<not> continuation (byte_at rest 1) then (False, 2)
        else if \<not> continuation (byte_at rest 2) then (False, 3) else (True, 4)
      else (False, 1))"

text \<open>Each broken piece reads as the replacement character.\<close>

definition REPLACEMENT :: bytes where
  "REPLACEMENT = [0xef, 0xbf, 0xbd]"

function lossy_bytes :: "bytes \<Rightarrow> bytes" where
  "lossy_bytes [] = []"
| "lossy_bytes (a # rest) =
     (case utf8_piece a rest of (whole, n) \<Rightarrow>
        (if whole then take n (a # rest) else REPLACEMENT) @ lossy_bytes (drop (n - 1) rest))"
  by pat_completeness auto
termination by (relation "measure length") auto

definition from_utf8_lossy :: "bytes \<Rightarrow> string" where
  "from_utf8_lossy bs = map (\<lambda>b. char_of (unat b)) (lossy_bytes bs)"

text \<open>
  The debug format of a text. Which characters above ASCII print as they are is a table of Unicode:
  \<open>escape_wide\<close>, on the bytes of one character.
\<close>

definition short_hex :: "nat \<Rightarrow> string" where
  "short_hex n = (if n < 16 then [hex_digit n] else [hex_digit (n div 16), hex_digit (n mod 16)])"

definition debug_ascii :: "nat \<Rightarrow> string" where
  "debug_ascii n =
     (if n = 0 then [char_of (92 :: nat), CHR ''0'']
      else if n = 9 then [char_of (92 :: nat), CHR ''t'']
      else if n = 10 then [char_of (92 :: nat), CHR ''n'']
      else if n = 13 then [char_of (92 :: nat), CHR ''r'']
      else if n = 34 \<or> n = 92 then [char_of (92 :: nat), char_of n]
      else if n < 32 \<or> n = 127 then [char_of (92 :: nat)] @ ''u{'' @ short_hex n @ ''}''
      else [char_of n])"

function debug_chars :: "(bytes \<Rightarrow> string) \<Rightarrow> bytes \<Rightarrow> string" where
  "debug_chars escape_wide [] = []"
| "debug_chars escape_wide (a # rest) =
     (if a \<le> 0x7f then debug_ascii (unat a) @ debug_chars escape_wide rest
      else let n = snd (utf8_piece a rest) in
        escape_wide (take n (a # rest)) @ debug_chars escape_wide (drop (n - 1) rest))"
  by pat_completeness auto
termination by (relation "measure (\<lambda>(w, bs). length bs)") auto

definition debug_text :: "(bytes \<Rightarrow> string) \<Rightarrow> bytes \<Rightarrow> string" where
  "debug_text escape_wide bs = [char_of (34 :: nat)] @ debug_chars escape_wide bs @ [char_of (34 :: nat)]"

definition debug_option :: "('a \<Rightarrow> string) \<Rightarrow> 'a option \<Rightarrow> string" where
  "debug_option f m = (case m of None \<Rightarrow> ''None'' | Some x \<Rightarrow> ''Some('' @ f x @ '')'')"

fun debug_network :: "PegNetwork \<Rightarrow> string" where
  "debug_network Alphanet = ''Alphanet''"
| "debug_network Betanet = ''Betanet''"
| "debug_network Ecash = ''Ecash''"
| "debug_network Mainnet = ''Mainnet''"
| "debug_network Testnet = ''Testnet''"
| "debug_network Signet = ''Signet''"
| "debug_network Regtest = ''Regtest''"

section \<open>status\<close>

text \<open>
  The calls that only these commands make. \<open>ob_next_event\<close> waits for the next item of the stream, \<^term>\<open>None\<close>
  at its end. The debug formats of the bitcoin library are parameters.
\<close>

record 'w observer =
  ob_chain_info :: "('w, EnforcerError, ChainInfo) act"
  ob_chain_tip :: "('w, EnforcerError, array32) act"
  ob_sidechains :: "('w, EnforcerError, SlotInfo list) act"
  ob_subscribe_events :: "u32 \<Rightarrow> ('w, EnforcerError, unit) act"
  ob_next_event :: "('w, Status, SubscribeEventsResponse option) act"
  ob_deserialize :: "bytes \<Rightarrow> bytes option"
  ob_escape_wide :: "bytes \<Rightarrow> string"
  ob_debug_txid :: "array32 \<Rightarrow> string"
  ob_debug_transaction :: "bytes \<Rightarrow> string"

abbreviation number32 :: "u32 \<Rightarrow> string" where
  "number32 n \<equiv> decimal (unat n)"

definition info_lines :: "ChainInfo \<Rightarrow> string list" where
  "info_lines info =
     [''network                '' @ debug_option debug_network (ci_network info),
      ''slot activation votes  '' @ number32 (ci_slot_activation_threshold info + 1),
      ''slot proposal window   '' @ number32 (ci_slot_proposal_max_age info),
      ''bundle max age         '' @ number32 (ci_bundle_max_age info),
      ''bundle votes           '' @ number32 (ci_bundle_inclusion_threshold info + 1)]"

definition treasury_line :: "Ctip option \<Rightarrow> string" where
  "treasury_line m =
     (case m of
        Some c \<Rightarrow>
          ''treasury               '' @ number (ct_value_sats c) @ '' sats, sequence '' @
          number (ct_sequence_number c)
      | None \<Rightarrow> ''treasury               none, the slot is not active'')"

definition proposal_line :: "ProposalInfo \<Rightarrow> string" where
  "proposal_line p =
     ''proposal slot '' @ number32 (pi_sidechain_number p) @ '' votes '' @ number32 (pi_vote_count p) @
     '' height '' @ number32 (pi_proposal_height p) @ '' age '' @ number32 (pi_proposal_age p) @
     '' hash '' @ pi_description_hash p"

definition slot_lines :: "(bytes \<Rightarrow> string) \<Rightarrow> SlotInfo \<Rightarrow> string list" where
  "slot_lines escape_wide slot =
     [''slot '' @ number32 (sl_sidechain_number slot) @ '' votes '' @ number32 (sl_vote_count slot) @
      '' proposed at '' @ number32 (sl_proposal_height slot) @ '' active at '' @
      debug_option number32 (sl_activation_height slot) @ '' title '' @
      debug_text escape_wide (case sl_title slot of Some t \<Rightarrow> t | None \<Rightarrow> []),
      ''    tarball '' @ (case sl_hash_id_1 slot of Some h \<Rightarrow> h | None \<Rightarrow> ''none'') @ '' commit '' @
      (case sl_hash_id_2 slot of Some h \<Rightarrow> h | None \<Rightarrow> ''none'')]"

definition status_command :: "'w machine \<Rightarrow> 'w observer \<Rightarrow> EnforcerArgs \<Rightarrow> ('w, unit) command" where
  "status_command cm ob a =
     perform (open_enforcer cm a) (\<lambda>_.
     perform (call CliEnforcer (ob_chain_info ob)) (\<lambda>info.
     perform (say_all (info_lines info)) (\<lambda>_.
     perform (call CliEnforcer (ob_chain_tip ob)) (\<lambda>tip.
     perform (say (''tip                    '' @ hash_text tip)) (\<lambda>_.
     perform (call CliEnforcer (cm_ctip cm (ucast (ea_slot a)))) (\<lambda>found.
     perform (say (treasury_line found)) (\<lambda>_.
     perform (call CliEnforcer (cm_sidechain_proposals cm)) (\<lambda>proposals.
     perform (say_all (map proposal_line proposals)) (\<lambda>_.
     perform (call CliEnforcer (ob_sidechains ob)) (\<lambda>slots.
     say_all (concat (map (slot_lines (ob_escape_wide ob)) slots))))))))))))"

section \<open>watch\<close>

definition debug_bundle :: "'w observer \<Rightarrow> BundleEvent \<Rightarrow> string" where
  "debug_bundle ob b =
     (case b of
        Submitted t \<Rightarrow> ''Submitted('' @ ob_debug_txid ob t @ '')''
      | Succeeded t paid \<Rightarrow>
          ''Succeeded { m6id: '' @ ob_debug_txid ob t @ '', paid: '' @ ob_debug_transaction ob paid @ '' }''
      | Failed t \<Rightarrow> ''Failed('' @ ob_debug_txid ob t @ '')'')"

definition deposit_lines :: "cli_codes \<Rightarrow> u8 \<Rightarrow> u32 \<Rightarrow> DepositEvent \<Rightarrow> string list" where
  "deposit_lines cc slot height deposit =
     (let text = from_utf8_lossy (de_address deposit);
          parsed = deposit_target (cc_address cc) text slot
      in [''block '' @ number32 height @ '' deposit seq '' @ number (de_sequence_number deposit) @ '' value '' @
            number (de_value_sats deposit) @ '' sats address '' @ text,
          (case parsed of
             Some pubkey \<Rightarrow> ''  the target is '' @ key_text cc pubkey
           | None \<Rightarrow> ''  the address names no target'')])"

definition event_lines :: "cli_codes \<Rightarrow> 'w observer \<Rightarrow> u8 \<Rightarrow> PegEvent \<Rightarrow> string list" where
  "event_lines cc ob slot event =
     (case event of
        Disconnect block_hash \<Rightarrow> [''disconnect '' @ hash_text block_hash]
      | Connect block_hash height deposits bundles \<Rightarrow>
          concat (map (deposit_lines cc slot height) deposits) @
          map (\<lambda>b. ''block '' @ number32 height @ '' bundle '' @ debug_bundle ob b) bundles)"

text \<open>The loop ends with the stream or at the first error; the model looks at it for a number of turns.\<close>

fun watch_events :: "cli_codes \<Rightarrow> 'w observer \<Rightarrow> u8 \<Rightarrow> nat \<Rightarrow> ('w, unit) command" where
  "watch_events cc ob slot 0 = return ()"
| "watch_events cc ob slot (Suc turns) =
     perform (call (\<lambda>status. CliEnforcer (Call ''SubscribeEvents'' status)) (ob_next_event ob)) (\<lambda>item.
     case item of
       None \<Rightarrow> return ()
     | Some response \<Rightarrow>
         perform (pure (map_err CliEnforcer (peg_event (ob_deserialize ob) response))) (\<lambda>event.
         perform (say_all (event_lines cc ob slot event)) (\<lambda>_.
         watch_events cc ob slot turns)))"

definition watch_command ::
  "cli_codes \<Rightarrow> 'w machine \<Rightarrow> 'w observer \<Rightarrow> nat \<Rightarrow> EnforcerArgs \<Rightarrow> ('w, unit) command" where
  "watch_command cc cm ob turns a =
     perform (open_enforcer cm a) (\<lambda>_.
     perform (call CliEnforcer (ob_subscribe_events ob (ucast (ea_slot a)))) (\<lambda>_.
     perform (say (''watching slot '' @ slot_number a)) (\<lambda>_.
     watch_events cc ob (ea_slot a) turns)))"

end
