(* ===== verification/Watch_Properties.thy ===== *)
theory Watch_Properties
  imports Watch_Commands
begin

text \<open>
  What a watch shows: every event of the stream until its end, and for every deposit the target that the
  validator credits.
\<close>

section \<open>Broken text\<close>

lemma no_zero_byte [simp]: "\<not> continuation 0" "\<not> second_byte a 0"
  by (auto simp: continuation_def second_byte_def)

lemma up_to_three:
  obtains "rest = []" | b where "rest = [b]" | b c where "rest = [b, c]" | b c d r where "rest = b # c # d # r"
  by (metis list.exhaust)

lemma utf8_ok_piece:
  "utf8_ok (a # rest) \<longleftrightarrow> fst (utf8_piece a rest) \<and> utf8_ok (drop (snd (utf8_piece a rest) - 1) rest)"
proof -
  note simps = utf8_ok.simps(2) utf8_piece_def byte_at.simps if_True if_False
  consider "a \<le> 0x7f" | "\<not> a \<le> 0x7f" "0xc2 \<le> a \<and> a \<le> 0xdf"
    | "\<not> a \<le> 0x7f" "\<not> (0xc2 \<le> a \<and> a \<le> 0xdf)" "0xe0 \<le> a \<and> a \<le> 0xef"
    | "\<not> a \<le> 0x7f" "\<not> (0xc2 \<le> a \<and> a \<le> 0xdf)" "\<not> (0xe0 \<le> a \<and> a \<le> 0xef)" "0xf0 \<le> a \<and> a \<le> 0xf4"
    | "\<not> a \<le> 0x7f" "\<not> (0xc2 \<le> a \<and> a \<le> 0xdf)" "\<not> (0xe0 \<le> a \<and> a \<le> 0xef)" "\<not> (0xf0 \<le> a \<and> a \<le> 0xf4)"
    by blast
  then show ?thesis
  proof cases
    case 1
    then show ?thesis by (simp only: simps) simp
  next
    case 2
    then show ?thesis by (cases rest; simp only: simps; simp)
  next
    case 3
    then show ?thesis by (rule_tac rest = rest in up_to_three; simp only: simps; simp)
  next
    case 4
    then show ?thesis by (rule_tac rest = rest in up_to_three; simp only: simps; simp)
  next
    case 5
    then show ?thesis by (simp only: simps) simp
  qed
qed

lemma lossy_cases:
  "(utf8_ok bs \<longrightarrow> lossy_bytes bs = bs) \<and> (\<not> utf8_ok bs \<longrightarrow> 0xef \<in> set (lossy_bytes bs))"
proof (induction bs rule: lossy_bytes.induct)
  case (2 a rest)
  obtain whole n where p: "utf8_piece a rest = (whole, n)" by fastforce
  have n: "0 < n" using p by (auto simp: utf8_piece_def split: if_splits)
  then have "take n (a # rest) = a # take (n - 1) rest" by (cases n) simp_all
  then have step: "lossy_bytes (a # rest) =
      (if whole then a # take (n - 1) rest else REPLACEMENT) @ lossy_bytes (drop (n - 1) rest)"
    by (simp only: lossy_bytes.simps p prod.case)
  have ok: "utf8_ok (a # rest) \<longleftrightarrow> whole \<and> utf8_ok (drop (n - 1) rest)"
    by (simp only: utf8_ok_piece p fst_conv snd_conv)
  note IH = 2 [OF p [symmetric]]
  show ?case
  proof (cases whole)
    case True
    then show ?thesis using IH unfolding step ok by simp
  next
    case False
    then show ?thesis unfolding step ok by (simp add: REPLACEMENT_def)
  qed
qed simp

lemma split_on_chars: "c \<in> set s \<Longrightarrow> c = sep \<or> (\<exists>part \<in> set (split_on sep s). c \<in> set part)"
proof (induction s)
  case (Cons x s)
  then show ?case by (cases "split_on sep s") auto
qed simp

text \<open>Base58 has only ASCII letters, so it decodes no other text.\<close>

definition base58_plain :: "codes \<Rightarrow> bool" where
  "base58_plain co \<longleftrightarrow>
     (\<forall>s bs. co_base58_decode co s = Some bs \<longrightarrow> (\<forall>c \<in> set s. of_char c < (128 :: nat)))"

lemma recipient_ascii:
  "\<lbrakk>base58_plain co; ok_of (parse_deposit_recipient co body) = Some k; c \<in> set body\<rbrakk> \<Longrightarrow> of_char c < (128 :: nat)"
  unfolding base58_plain_def parse_deposit_recipient_def ok_of_def
  by (cases "co_base58_decode co body") auto

lemma target_ascii:
  assumes "base58_plain co" "deposit_target co body s = Some k" "c \<in> set body"
  shows "of_char c < (128 :: nat)"
proof -
  have ascii: "of_char c < (128 :: nat)"
    if "part \<in> set (split_on CHR ''_'' body)" "c \<in> set part" for part
  proof -
    note piece = that
    consider pubkey where "split_on CHR ''_'' body = [pubkey]" "ok_of (parse_deposit_recipient co pubkey) = Some k"
      | prefix pubkey checksum where "split_on CHR ''_'' body = [prefix, pubkey, checksum]"
        "prefix = ''s'' @ decimal (unat s)" "checksum = checksum_of co (prefix @ ''_'' @ pubkey @ ''_'')"
        "ok_of (parse_deposit_recipient co pubkey) = Some k"
      using assms(2) by (auto simp: deposit_target_def split: list.splits if_splits)
    then show ?thesis
    proof cases
      case 1
      then show ?thesis using piece recipient_ascii [OF assms(1)] by simp
    next
      case 2
      then consider "part = prefix" | "part = pubkey" | "part = checksum" using piece(1) unfolding 2(1) by auto
      then show ?thesis
        using piece(2) recipient_ascii [OF assms(1) 2(4)] 2(2,3) decimal_plain hex_plain
        by cases (auto simp: checksum_of_def)
    qed
  qed
  then show ?thesis using split_on_chars [OF assms(3), of "CHR ''_''"] by auto
qed

section \<open>The target of a watch\<close>

text \<open>
  The target that a watch shows for a deposit is the one that the validator credits, on every payload: the
  replacement characters of a payload that is no text never turn it into an address.
\<close>

theorem watch_shows_credited_target:
  assumes "codes_ok co" "base58_plain co"
  shows "deposit_target co (from_utf8_lossy address) s = Deposit_target co s address"
proof (cases "utf8_ok address")
  case True
  then show ?thesis using validator_target [OF assms(1)] lossy_cases [of address]
    by (simp add: from_utf8_def from_utf8_lossy_def)
next
  case False
  then have "(0xef :: u8) \<in> set (lossy_bytes address)" using lossy_cases by blast
  then have "char_of (unat (0xef :: u8)) \<in> set (from_utf8_lossy address)"
    unfolding from_utf8_lossy_def set_map by (rule imageI)
  then have "deposit_target co (from_utf8_lossy address) s = None"
    using target_ascii [OF assms(2), of "from_utf8_lossy address" s] by (cases "deposit_target co (from_utf8_lossy address) s") fastforce+
  then show ?thesis using validator_target [OF assms(1)] False by (simp add: from_utf8_def)
qed

definition plain_codes :: codes where
  "plain_codes = sample_codes
     \<lparr>co_base58_decode := (\<lambda>s. if \<forall>c \<in> set s. of_char c < (128 :: nat) then co_base58_decode sample_codes s else None)\<rparr>"

lemma plain_codes_ok: "codes_ok plain_codes" "base58_plain plain_codes"
  using sample_codes_ok unfolding codes_ok_def base58_plain_def plain_codes_def by (auto split: if_splits)

lemma watch_shows_credited_target_witness:
  "deposit_target plain_codes (from_utf8_lossy [0x73, 0xff, 0x5f]) 8 = None"
  unfolding watch_shows_credited_target [OF plain_codes_ok]
  by (simp add: Deposit_target_def from_utf8_def)

section \<open>The end of a watch\<close>

text \<open>The stream gives these items and ends.\<close>

fun stream_yields :: "'w observer \<Rightarrow> 'w \<Rightarrow> SubscribeEventsResponse list \<Rightarrow> 'w \<Rightarrow> bool" where
  "stream_yields ob w [] w' \<longleftrightarrow> ob_next_event ob w = (Inr None, w')"
| "stream_yields ob w (r # rs) w' \<longleftrightarrow>
     (\<exists>w1. ob_next_event ob w = (Inr (Some r), w1) \<and> stream_yields ob w1 rs w')"

lemma watch_shows_stream:
  assumes "stream_yields ob w items w'" "collect (peg_event (ob_deserialize ob)) items = Inr events"
    "length items < turns"
  shows "watch_events cc ob slot turns (out, w) = (Inr (), (out @ concat (map (event_lines cc ob slot) events), w'))"
  using assms
proof (induction items arbitrary: w events turns out)
  case Nil
  then show ?case
    by (cases turns) (simp_all add: perform_def on_world_def action_err_def return_def)
next
  case (Cons r items)
  obtain w1 where w1: "ob_next_event ob w = (Inr (Some r), w1)" "stream_yields ob w1 items w'" using Cons.prems(1) by auto
  obtain event later where e: "peg_event (ob_deserialize ob) r = Inr event"
    "collect (peg_event (ob_deserialize ob)) items = Inr later" "events = event # later"
    using Cons.prems(2) by (auto simp: result_iff)
  obtain n where n: "turns = Suc n" "length items < n" using Cons.prems(3) by (cases turns) auto
  show ?case using Cons.IH [OF w1(2) e(2) n(2)] w1(1) e n(1)
    by (simp add: perform_def on_world_def action_err_def pure_def say_all_lines)
qed

end
