(* ===== verification/Spec2Isabelle.thy ===== *)
theory Spec2Isabelle
  imports Bridge_Properties Layout M6 Enforcer_Text Network Chain Enforcer Enforcer_Service
    Deposit_Address Daemon_World Credit Proposals Peg Peg_Properties Books
    Ordered_Map Migrate Migrate_Properties Genesis Genesis_Text Genesis_Properties
    Fee_Meter Bmm Bmm_Loop Fee_Properties Template_Rpc Bmm_Memory Bid_Properties Settle_Properties
    Server_Properties Command_Args Commands Bmm_Commands Hash_Arguments Command_Properties
    Secret_Files Watch_Commands Watch_Properties
begin

text \<open>
  The bridge of a drivechain sidechain that runs a Solana cluster.

  \<^bold>\<open>The program.\<close> Users deposit coins of eCash (the parent chain) into the slot of the sidechain, and the
  sidechain gives them lamports out of a vault that holds the whole supply; a withdrawal brings lamports
  back into the vault and leaves a record, and bundles of records are paid on eCash. Three parts do this:

  \<^item> the bridge program (\<^verbatim>\<open>programs/bridge/src/lib.rs\<close>) with its six instructions on one config account,
    one record account per withdrawal, the vault and the treasury;
  \<^item> the patched validator (\<^verbatim>\<open>patches/agave-sol-drivechain.patch\<close>), which asks the eCash node before it
    runs an instruction and leaves the answer in an account that the program reads;
  \<^item> the daemon (\<^verbatim>\<open>daemon/src\<close>), which reads both chains, builds the instructions, hands the bundles to
    the enforcer (the eCash node), and checks the books.

  \<^bold>\<open>The theories.\<close> \<^verbatim>\<open>Prelude\<close> has the results of fallible code, the checked and saturating arithmetic of
  machine words, runs of events, and the locales of state machines. \<^verbatim>\<open>Bytes\<close> has byte arrays and layouts.

  \<^item> Bridge program: \<^verbatim>\<open>Solana\<close> is what the program uses of the runtime, \<^verbatim>\<open>Bridge_State\<close> its data,
    \<^verbatim>\<open>Bridge_Program\<close> its instructions, one function each with the guards in the order of the code.
    \<^verbatim>\<open>Bridge_Facts\<close> inverts each instruction, \<^verbatim>\<open>Bridge_Invariants\<close> has the step relation of a chain,
    the invariant, and the interpretations of the state machine locales, \<^verbatim>\<open>Bridge_Properties\<close> the
    properties, and \<^verbatim>\<open>Bridge_Sample\<close> a chain of six transactions that every witness runs on.
  \<^item> \<^verbatim>\<open>Answers\<close>: the answer accounts, as the program reads and as the validator writes them.
  \<^item> \<^verbatim>\<open>Layout\<close> (\<^verbatim>\<open>bridge.rs\<close>): the account layouts and the instructions that the daemon builds, with the
    readers of the validator. \<^verbatim>\<open>M6\<close> (\<^verbatim>\<open>m6.rs\<close>, \<^verbatim>\<open>peg.rs\<close>): the transaction of a bundle.
  \<^item> \<^verbatim>\<open>Network\<close> (\<^verbatim>\<open>network.rs\<close>), \<^verbatim>\<open>Enforcer_Text\<close> (hex, declarations and scripts), \<^verbatim>\<open>Chain\<close> (the walks
    through the active chain by pages), \<^verbatim>\<open>Enforcer\<close> (the client of \<^verbatim>\<open>enforcer.rs\<close>), \<^verbatim>\<open>Enforcer_Service\<close>
    (the contract of an enforcer that answers for one active chain, and what the walks give over it).
  \<^item> \<^verbatim>\<open>Deposit_Address\<close> (\<^verbatim>\<open>address.rs\<close> and the parser of the validator), \<^verbatim>\<open>Daemon_World\<close> (actions of the
    daemon on the two nodes), \<^verbatim>\<open>Credit\<close> (\<^verbatim>\<open>credit.rs\<close>), \<^verbatim>\<open>Proposals\<close> (\<^verbatim>\<open>proposals.rs\<close>: the journal that
    survives a crash), \<^verbatim>\<open>Peg\<close> and \<^verbatim>\<open>Peg_Properties\<close> (\<^verbatim>\<open>peg.rs\<close>: seal, propose, mark paid),
    \<^verbatim>\<open>Books\<close> (\<^verbatim>\<open>books.rs\<close>: the balance equations).
  \<^item> \<^verbatim>\<open>Ordered_Map\<close> (the \<^verbatim>\<open>BTreeMap\<close> as a sorted association list, and JSON answers), \<^verbatim>\<open>Migrate\<close> and
    \<^verbatim>\<open>Migrate_Properties\<close> (\<^verbatim>\<open>migrate.rs\<close>: the export of a halted chain), \<^verbatim>\<open>Genesis\<close>, \<^verbatim>\<open>Genesis_Text\<close> and
    \<^verbatim>\<open>Genesis_Properties\<close> (\<^verbatim>\<open>genesis.rs\<close>: the accounts of a new or migrated chain and their file).
  \<^item> \<^verbatim>\<open>Fee_Meter\<close> (\<^verbatim>\<open>bmm.rs\<close>: the fee history and the meter of the validator fees), \<^verbatim>\<open>Bmm\<close> (\<^verbatim>\<open>bmm.rs\<close>: pairs,
    the memory of the process, templates), \<^verbatim>\<open>Bmm_Loop\<close> (\<^verbatim>\<open>bmm.rs\<close>: bids, settles, the rounds),
    \<^verbatim>\<open>Template_Rpc\<close> (\<^verbatim>\<open>bmm_rpc.rs\<close>: the five methods of the server); their properties are in
    \<^verbatim>\<open>Fee_Properties\<close> (median and meter), \<^verbatim>\<open>Bmm_Memory\<close> (what the process remembers and publishes),
    \<^verbatim>\<open>Bid_Properties\<close> (the block of a bid, and one open request per tip), \<^verbatim>\<open>Settle_Properties\<close> (the settles
    against the bridge program) and \<^verbatim>\<open>Server_Properties\<close> (templates and error codes).
  \<^item> The command line (\<^verbatim>\<open>main.rs\<close>): \<^verbatim>\<open>Command_Args\<close> has what a command reads from its arguments, and the seed
    phrases of \<^verbatim>\<open>seed.rs\<close>; \<^verbatim>\<open>Commands\<close> the commands on the enforcer, the bridge, the files and the genesis,
    \<^verbatim>\<open>Bmm_Commands\<close> the ones of the blind merged mining and the settings of the two loops, \<^verbatim>\<open>Watch_Commands\<close>
    the two that only show. \<^verbatim>\<open>Hash_Arguments\<close> has the lemmas on the arguments, \<^verbatim>\<open>Command_Properties\<close> the gift
    that opens the withdrawals, the vote and the order of the pair and the bid, \<^verbatim>\<open>Secret_Files\<close> the file of
    a secret key over a file system with modes, and \<^verbatim>\<open>Watch_Properties\<close> what a watch shows.

  \<^bold>\<open>How the state corresponds.\<close> The config account is the record \<^verbatim>\<open>Config\<close> with the fields of the code,
  machine integers at their width. The record accounts are a map from the index of their address. The
  lamports, the owner and the length of every account are a ledger. A transaction that fails leaves the
  state, as the runtime drops it. The daemon is a function on a state of the world that it knows only
  through the calls of the two nodes; the peg loop keeps its own memory beside it. A command runs on the
  lines that it printed and on the world; its calls are the fields of one record \<open>machine\<close>.

  \<^bold>\<open>What the lemmas show.\<close> Every instruction keeps the invariant of the accounts, the lamports, and the
  vault behind the supply; deposits credit once and in order; records seal and pay in order and once;
  the treasury pays only for a checkpoint that the chain records; the answers of the validator are read
  as they were written, and the instructions that the daemon builds ask the questions that the program
  checks. The walks of the daemon give the history of the active chain, whatever page size divides it;
  the credit, the seal and the payment that the daemon builds pass the program; nothing is proposed or
  sealed over a bundle that eCash can still pay; the journal is one of its two states after a crash at
  any call; and the equation of the eCash treasury stays closed through every instruction. The export of a
  halted chain accounts for every lamport of its supply and reads every program that it can reach; the
  accounts of a new chain are a good state of the bridge program. The blind merged mining bids the median
  income inside its limits, names the newest recorded block that the rule of the credits admits, keeps the
  pair before the request goes out, and sends one open request per tip; every settle that it plans passes
  the program with the answers of the validator, and a template connects once eCash commits to it. Every
  declaration out of the arguments has the shape that its scripts need, a vote without consent goes
  only to the own proposal, no bid goes out before its pair is held, the gift that the daemon computes
  opens the withdrawals of the program, no run of the daemon leaves a secret in a file that others read,
  and a watch shows for each deposit the target that the validator credits.

  \<^bold>\<open>Fuel and bounds.\<close> Every recursion of the models is structural or has a measure: the walks go down in
  height by at least one page per turn, so they end at the start height; the walk of the export reads a
  new key per turn, and the keys are finitely many. The peg loop of the code never
  ends by itself, so the model runs a number of turns and all its lemmas hold for any number, and the credit
  loop and the watch run the same way (\<open>watch_shows_stream\<close>: one turn more than the items of the stream shows them all).
  The wait for the block of a bid looks once, and once more per second that it may wait, so
  its recursion is over the seconds; the rounds of the blind merged mining run over a schedule, which says before each round whether a wallet scan ended.
  A plan of settles has at most 16 heights, so its recursion is over a list. The sums of
  lamports carry the hypothesis that they fit 64 bits where the code saturates instead of failing.

  \<^bold>\<open>Not modelled.\<close> The Solana runtime, Anchor, SHA-256, base58, JSON, the encoding of the bitcoin library,
  the file system and the two nodes are parameters with their documented behaviour as named hypotheses.
  So are the parser of the arguments, the seed phrases and the key derivation of their libraries, the URL
  parser, and the table of the Unicode characters that print as they are. Left out are the generated gRPC
  client and its build (\<^verbatim>\<open>build.rs\<close> has no logic of the program), the HTTP server around the RPC methods, the
  log lines and the lines on the error stream, the sleeps between the rounds and the locks of the memory; the
  steps of two tasks interleave only in the lemmas of the fee meter. Of the validator patch, the answers, the
  deposit addresses and the readers of the config are modelled with the parts that use them; the rest changes
  a validator whose code is outside the repository, and its state is not in the patch.
\<close>

end
